(* ===== verification/Prelude.thy ===== *)
theory Prelude
  imports Main
begin

text \<open>
  What every component shares: the Go error values the source builds, the result of a call
  (a value, a returned error, or a run-time panic), programs as state passing functions over
  those results, and the relation \<open>keeps\<close> that says how a program may change the state.
\<close>

section \<open>Errors and results\<close>

text \<open>
  One constructor per way the source (or a package it calls) builds an error.
  \<open>Errorf\<close> is \<open>errors.New\<close> and \<open>errors.Errorf\<close>: the format and its arguments.
  \<open>ErrorfErr\<close> is an \<open>Errorf\<close> whose last argument is \<open>err.Error()\<close>, and \<open>Wrapf\<close>
  is \<open>errors.Wrap\<close> and \<open>errors.Wrapf\<close>. \<open>ServerCodeError\<close>, \<open>ServerStatusError\<close>
  and \<open>ClientError\<close> are the constructors of the SDK's error package that
  \<open>cloud/services/general.go\<close> calls, \<open>StatusError\<close> is the HTTP status error it
  inspects. \<open>ForeignError\<close> is any error made outside the repository.
\<close>

datatype error =
    Errorf string "string list"
  | ErrorfErr string "string list" error
  | Wrapf error string "string list"
  | ServerCodeError int string
  | ServerStatusError int string
  | ClientError string error
  | StatusError int string
  | NotFoundError string
  | ForeignError string

text \<open>A Go call returns a value, returns an error, or panics.\<close>

datatype 'a result = Ok 'a | Err error | Panic string

text \<open>A program reads and writes a state and ends in a result.\<close>

type_synonym ('s, 'a) prog = "'s \<Rightarrow> 'a result \<times> 's"

section \<open>Programs\<close>

definition ret :: "'a \<Rightarrow> ('s, 'a) prog" where
  "ret a s = (Ok a, s)"

definition raise :: "error \<Rightarrow> ('s, 'a) prog" where
  "raise e s = (Err e, s)"

definition panic :: "string \<Rightarrow> ('s, 'a) prog" where
  "panic p s = (Panic p, s)"

definition gets :: "('s \<Rightarrow> 'a) \<Rightarrow> ('s, 'a) prog" where
  "gets f s = (Ok (f s), s)"

definition modify :: "('s \<Rightarrow> 's) \<Rightarrow> ('s, unit) prog" where
  "modify f s = (Ok (), f s)"

definition bind :: "('s, 'a) prog \<Rightarrow> ('a \<Rightarrow> ('s, 'b) prog) \<Rightarrow> ('s, 'b) prog" where
  "bind m f s = (case m s of
      (Ok a, s') \<Rightarrow> f a s'
    | (Err e, s') \<Rightarrow> (Err e, s')
    | (Panic p, s') \<Rightarrow> (Panic p, s'))"

text \<open>\<open>if err := m; err != nil { return g(err) }\<close>, then the rest.\<close>

definition try_else :: "('s, 'a) prog \<Rightarrow> (error \<Rightarrow> error) \<Rightarrow> ('a \<Rightarrow> ('s, 'b) prog) \<Rightarrow> ('s, 'b) prog" where
  "try_else m g f s = (case m s of
      (Ok a, s') \<Rightarrow> f a s'
    | (Err e, s') \<Rightarrow> (Err (g e), s')
    | (Panic p, s') \<Rightarrow> (Panic p, s'))"

text \<open>The same with a handler that does something before it returns.\<close>

definition try_or :: "('s, 'a) prog \<Rightarrow> (error \<Rightarrow> ('s, 'b) prog) \<Rightarrow> ('a \<Rightarrow> ('s, 'b) prog) \<Rightarrow> ('s, 'b) prog" where
  "try_or m h f s = (case m s of
      (Ok a, s') \<Rightarrow> f a s'
    | (Err e, s') \<Rightarrow> h e s'
    | (Panic p, s') \<Rightarrow> (Panic p, s'))"

text \<open>\<open>if err != nil { return g(err) }\<close> on an error the program already holds.\<close>

definition if_err :: "error option \<Rightarrow> (error \<Rightarrow> error) \<Rightarrow> ('s, 'a) prog \<Rightarrow> ('s, 'a) prog" where
  "if_err e g k = (case e of Some x \<Rightarrow> raise (g x) | None \<Rightarrow> k)"

text \<open>
  \<open>defer func() { if err := c(); err != nil && reterr == nil { reterr = err } }()\<close>:
  the deferred call runs however the body ended, a returned error of the body wins over its
  own, and a panic of the body goes on unwinding after it.
\<close>

definition with_defer :: "('s, 'a) prog \<Rightarrow> ('s, unit) prog \<Rightarrow> ('s, 'a) prog" where
  "with_defer m c s = (case m s of
      (r, s') \<Rightarrow> (case c s' of
          (Panic p, s'') \<Rightarrow> (Panic p, s'')
        | (Err e, s'') \<Rightarrow> ((case r of Ok a \<Rightarrow> Err e | _ \<Rightarrow> r), s'')
        | (Ok _, s'') \<Rightarrow> (r, s'')))"

text \<open>\<open>xs[i]\<close> panics out of range, and \<open>*p\<close> panics on a nil pointer.\<close>

definition index :: "'a list \<Rightarrow> nat \<Rightarrow> ('s, 'a) prog" where
  "index xs i = (if i < length xs then ret (xs ! i) else panic ''index out of range'')"

definition deref :: "'a option \<Rightarrow> ('s, 'a) prog" where
  "deref p = (case p of Some a \<Rightarrow> ret a | None \<Rightarrow> panic ''nil pointer dereference'')"

text \<open>\<open>for _, x := range xs\<close> with a body that may return an error.\<close>

primrec for_each :: "'a list \<Rightarrow> ('a \<Rightarrow> ('s, unit) prog) \<Rightarrow> ('s, unit) prog" where
  "for_each [] body = ret ()"
| "for_each (x # xs) body = bind (body x) (\<lambda>_. for_each xs body)"

subsection \<open>Evaluating programs\<close>

named_theorems prog_simps \<open>equations that run a program on a state\<close>

lemma ret_run [prog_simps]: "ret a s = (Ok a, s)"
  by (simp add: ret_def)

lemma raise_run [prog_simps]: "raise e s = (Err e, s)"
  by (simp add: raise_def)

lemma panic_run [prog_simps]: "panic p s = (Panic p, s)"
  by (simp add: panic_def)

lemma gets_run [prog_simps]: "gets f s = (Ok (f s), s)"
  by (simp add: gets_def)

lemma modify_run [prog_simps]: "modify f s = (Ok (), f s)"
  by (simp add: modify_def)

lemma bind_ret [prog_simps]: "bind (ret a) f s = f a s"
  and bind_gets [prog_simps]: "bind (gets g) f s = f (g s) s"
  and bind_modify [prog_simps]: "bind (modify h) k s = k () (h s)"
  and bind_raise [prog_simps]: "bind (raise e) f s = (Err e, s)"
  and bind_panic [prog_simps]: "bind (panic p) f s = (Panic p, s)"
  by (simp_all add: bind_def prog_simps)

lemma if_err_None [prog_simps]: "if_err None g k = k"
  and if_err_Some [prog_simps]: "if_err (Some e) g k = raise (g e)"
  by (simp_all add: if_err_def)

lemma if_err_run: "if_err e g k s = (case e of Some x \<Rightarrow> (Err (g x), s) | None \<Rightarrow> k s)"
  by (simp add: if_err_def raise_run split: option.split)

lemma bind_if_err: "bind (if_err e g k) f = if_err e g (bind k f)"
  by (rule ext) (simp add: if_err_def bind_raise raise_run split: option.split)

lemma index_run: "index xs i s =
    (if i < length xs then (Ok (xs ! i), s) else (Panic ''index out of range'', s))"
  by (simp add: index_def prog_simps)

lemma deref_run: "deref p s =
    (case p of Some a \<Rightarrow> (Ok a, s) | None \<Rightarrow> (Panic ''nil pointer dereference'', s))"
  by (simp add: deref_def prog_simps split: option.split)

lemma bind_index: "bind (index xs i) f s =
    (if i < length xs then f (xs ! i) s else (Panic ''index out of range'', s))"
  by (simp add: index_def prog_simps)

lemma bind_deref: "bind (deref p) f s =
    (case p of Some a \<Rightarrow> f a s | None \<Rightarrow> (Panic ''nil pointer dereference'', s))"
  by (simp add: deref_def prog_simps split: option.split)

lemma bind_assoc: "bind (bind m f) g = bind m (\<lambda>a. bind (f a) g)"
  by (rule ext) (simp add: bind_def split: prod.split result.split)

lemma bind_ret_right [simp]: "bind m ret = m"
  by (rule ext) (simp add: bind_def ret_def split: prod.split result.split)

lemma bind_Ok: "m s = (Ok a, t) \<Longrightarrow> bind m k s = k a t"
  by (simp add: bind_def)

lemma bind_OkE:
  assumes "bind m f s = (Ok b, t)"
  obtains a s' where "m s = (Ok a, s')" and "f a s' = (Ok b, t)"
  using assms by (auto simp: bind_def split: prod.splits result.splits)

lemma try_else_OkE:
  assumes "try_else m g f s = (Ok b, t)"
  obtains a s' where "m s = (Ok a, s')" and "f a s' = (Ok b, t)"
  using assms by (auto simp: try_else_def split: prod.splits result.splits)

lemma if_err_OkE:
  assumes "if_err e g k s = (Ok b, t)"
  obtains "e = None" and "k s = (Ok b, t)"
  using assms by (auto simp: if_err_run split: option.splits)

section \<open>What a program may change\<close>

text \<open>
  \<open>keeps R m\<close>: whatever state \<open>m\<close> starts from and however it ends, the state it
  leaves is \<open>R\<close>-related to the one it started from.
\<close>

definition keeps :: "('s \<Rightarrow> 's \<Rightarrow> bool) \<Rightarrow> ('s, 'a) prog \<Rightarrow> bool" where
  "keeps R m \<longleftrightarrow> (\<forall>s. R s (snd (m s)))"

lemma keepsI: "(\<And>s. R s (snd (m s))) \<Longrightarrow> keeps R m"
  by (simp add: keeps_def)

lemma keepsD: "keeps R m \<Longrightarrow> m s = (r, t) \<Longrightarrow> R s t"
  unfolding keeps_def by (metis snd_conv)

lemma keeps_snd: "keeps R m \<Longrightarrow> R s (snd (m s))"
  by (simp add: keeps_def)

text \<open>
  Any reflexive and transitive relation between states is closed under the program
  constructors. Each frame relation of the development interprets this locale, and gets the
  rules that lift it from single service calls to whole handlers.
\<close>

locale frame =
  fixes R :: "'s \<Rightarrow> 's \<Rightarrow> bool"
  assumes frame_refl: "R s s"
    and frame_trans: "R s t \<Longrightarrow> R t u \<Longrightarrow> R s u"
begin

lemma keeps_ret: "keeps R (ret a)"
  and keeps_raise: "keeps R (raise e)"
  and keeps_panic: "keeps R (panic p)"
  and keeps_gets: "keeps R (gets f)"
  by (simp_all add: keeps_def prog_simps frame_refl)

lemma keeps_modify: "(\<And>s. R s (f s)) \<Longrightarrow> keeps R (modify f)"
  by (simp add: keeps_def prog_simps)

lemma keeps_bind:
  assumes "keeps R m" and "\<And>a. keeps R (f a)"
  shows "keeps R (bind m f)"
proof (rule keepsI)
  fix s
  obtain r t where m: "m s = (r, t)" by fastforce
  with assms(1) have "R s t" by (rule keepsD)
  then show "R s (snd (bind m f s))"
    using assms(2) by (auto simp: bind_def m keeps_def intro: frame_trans split: result.split)
qed

lemma keeps_try_else:
  assumes "keeps R m" and "\<And>a. keeps R (f a)"
  shows "keeps R (try_else m g f)"
proof (rule keepsI)
  fix s
  obtain r t where m: "m s = (r, t)" by fastforce
  with assms(1) have "R s t" by (rule keepsD)
  then show "R s (snd (try_else m g f s))"
    using assms(2) by (auto simp: try_else_def m keeps_def intro: frame_trans split: result.split)
qed

lemma keeps_try_or:
  assumes "keeps R m" and "\<And>e. keeps R (h e)" and "\<And>a. keeps R (f a)"
  shows "keeps R (try_or m h f)"
proof (rule keepsI)
  fix s
  obtain r t where m: "m s = (r, t)" by fastforce
  with assms(1) have "R s t" by (rule keepsD)
  then show "R s (snd (try_or m h f s))"
    using assms(2,3) by (auto simp: try_or_def m keeps_def intro: frame_trans split: result.split)
qed

lemma keeps_with_defer:
  assumes "keeps R m" and "keeps R c"
  shows "keeps R (with_defer m c)"
proof (rule keepsI)
  fix s
  obtain r t where m: "m s = (r, t)" by fastforce
  obtain r' u where c: "c t = (r', u)" by fastforce
  from keepsD [OF assms(1) m] keepsD [OF assms(2) c] have "R s u" by (rule frame_trans)
  then show "R s (snd (with_defer m c s))"
    by (simp add: with_defer_def m c split: result.split)
qed

lemma keeps_if: "keeps R m \<Longrightarrow> keeps R n \<Longrightarrow> keeps R (if b then m else n)"
  by simp

lemma keeps_if_err: "keeps R k \<Longrightarrow> keeps R (if_err e g k)"
  by (simp add: if_err_def keeps_raise split: option.split)

lemma keeps_index: "keeps R (index xs i)"
  by (simp add: index_def keeps_ret keeps_panic)

lemma keeps_deref: "keeps R (deref p)"
  by (simp add: deref_def keeps_ret keeps_panic split: option.split)

lemma keeps_for_each: "(\<And>x. keeps R (body x)) \<Longrightarrow> keeps R (for_each xs body)"
  by (induction xs) (auto intro: keeps_ret keeps_bind)

lemmas keeps_rules = keeps_ret keeps_raise keeps_panic keeps_gets keeps_bind keeps_try_else keeps_try_or
  keeps_with_defer keeps_if keeps_if_err keeps_index keeps_deref keeps_for_each

end

text \<open>The equality of a projection of the state is the simplest frame: that part is not written.\<close>

definition same :: "('s \<Rightarrow> 'a) \<Rightarrow> 's \<Rightarrow> 's \<Rightarrow> bool" where
  "same f s t \<longleftrightarrow> f t = f s"

interpretation same: frame "same f" for f
  by unfold_locales (simp_all add: same_def)

text \<open>Encoders that a decoder undoes.\<close>

locale codec =
  fixes enc :: "'a \<Rightarrow> 'b"
    and dec :: "'b \<Rightarrow> 'a option"
    and dom_ok :: "'a \<Rightarrow> bool"
  assumes dec_enc: "dom_ok x \<Longrightarrow> dec (enc x) = Some x"
begin

lemma enc_inj: "dom_ok x \<Longrightarrow> dom_ok y \<Longrightarrow> enc x = enc y \<Longrightarrow> x = y"
  by (metis dec_enc option.inject)

lemma enc_inj_on: "inj_on enc {x. dom_ok x}"
  by (rule inj_onI) (auto intro: enc_inj)

end

section \<open>Lists, options and maps\<close>

lemma find_Some_in: "List.find p xs = Some x \<Longrightarrow> x \<in> set xs \<and> p x"
  by (induction xs) (auto split: if_splits)

lemma find_Some_split:
  "List.find p xs = Some x \<Longrightarrow> \<exists>us vs. xs = us @ x # vs \<and> p x \<and> (\<forall>u\<in>set us. \<not> p u)"
proof (induction xs)
  case (Cons a xs)
  show ?case
  proof (cases "p a")
    case True
    with Cons.prems have "a # xs = [] @ x # xs \<and> p x \<and> (\<forall>u\<in>set []. \<not> p u)" by simp
    then show ?thesis by blast
  next
    case False
    then obtain us vs where "xs = us @ x # vs" "p x" "\<forall>u\<in>set us. \<not> p u"
      using Cons by auto
    with False have "a # xs = (a # us) @ x # vs \<and> p x \<and> (\<forall>u\<in>set (a # us). \<not> p u)" by simp
    then show ?thesis by blast
  qed
qed simp

lemma find_None_iff_all: "List.find p xs = None \<longleftrightarrow> (\<forall>x\<in>set xs. \<not> p x)"
  by (induction xs) auto

end
