(* ===== verification/Api_Types.thy ===== *)
theory Api_Types
  imports Prelude
begin

text \<open>
  The custom resources of \<open>api/v1alpha3\<close>: \<open>types.go\<close>, \<open>ucloudcluster_types.go\<close>,
  \<open>ucloudmachine_types.go\<close> and \<open>ucloudmachinetemplate_types.go\<close>, field by field. A field
  \<open>F\<close> of a struct is \<open>x_F\<close> with a prefix \<open>x\<close> of the struct, because record fields share
  one name space. A pointer field is an \<open>option\<close>, a nil map or slice is \<open>None\<close> where the code tells
  it from an empty one, and \<open>int\<close> stands for Go's \<open>int\<close> where the code only copies the value.
  \<open>zero_T\<close> is Go's zero value of \<open>T\<close>, which \<open>T{}\<close> and \<open>var x T\<close> denote.
  \<open>mst_FailureMessage\<close> keeps the error whose \<open>Error()\<close> text the code stores.
  The metadata records hold the fields of the Kubernetes types that the code reads or writes.
\<close>

section \<open>Kubernetes and Cluster API types the code uses\<close>

record APIEndpoint =
  ep_Host :: string
  ep_Port :: int

definition zero_APIEndpoint :: APIEndpoint where
  "zero_APIEndpoint = \<lparr>
    ep_Host = '''', ep_Port = 0\<rparr>"

record FailureDomainSpec =
  fd_ControlPlane :: bool
  fd_Attributes :: "(string \<rightharpoonup> string) option"

definition zero_FailureDomainSpec :: FailureDomainSpec where
  "zero_FailureDomainSpec = \<lparr>
    fd_ControlPlane = False, fd_Attributes = None\<rparr>"

record MachineAddress =
  adr_Type :: string
  adr_Address :: string

definition zero_MachineAddress :: MachineAddress where
  "zero_MachineAddress = \<lparr>
    adr_Type = '''', adr_Address = ''''\<rparr>"

record ObjectMeta =
  om_Name :: string
  om_Namespace :: string
  om_ClusterName :: string
  om_Finalizers :: "string list"
  om_DeletionTimestamp :: "string option"
  om_Annotations :: "(string \<rightharpoonup> string) option"

definition zero_ObjectMeta :: ObjectMeta where
  "zero_ObjectMeta = \<lparr>
    om_Name = '''', om_Namespace = '''', om_ClusterName = '''', om_Finalizers = [],
    om_DeletionTimestamp = None, om_Annotations = None\<rparr>"

section \<open>types.go\<close>

record FirewallRuleSpec =
  fwr_IpProtocol :: string
  fwr_SourceCidrIp :: string
  fwr_PortRange :: string
  fwr_Description :: string
  fwr_Policy :: string
  fwr_SourcePortRange :: string
  fwr_DestCidrIp :: string

definition zero_FirewallRuleSpec :: FirewallRuleSpec where
  "zero_FirewallRuleSpec = \<lparr>
    fwr_IpProtocol = '''', fwr_SourceCidrIp = '''', fwr_PortRange = '''',
    fwr_Description = '''', fwr_Policy = '''', fwr_SourcePortRange = '''',
    fwr_DestCidrIp = ''''\<rparr>"

record SubnetSpec =
  subs_SubnetId :: string
  subs_SubnetName :: string
  subs_CidrBlock :: string
  subs_Description :: string

definition zero_SubnetSpec :: SubnetSpec where
  "zero_SubnetSpec = \<lparr>
    subs_SubnetId = '''', subs_SubnetName = '''', subs_CidrBlock = '''',
    subs_Description = ''''\<rparr>"

record VPCSpec =
  vpcs_VpcId :: string
  vpcs_VpcName :: string
  vpcs_CidrBlock :: string
  vpcs_Description :: string

definition zero_VPCSpec :: VPCSpec where
  "zero_VPCSpec = \<lparr>
    vpcs_VpcId = '''', vpcs_VpcName = '''', vpcs_CidrBlock = '''', vpcs_Description = ''''\<rparr>"

record NatGatewaySpec =
  ngs_NatGatewayId :: string
  ngs_Name :: string
  ngs_Description :: string

definition zero_NatGatewaySpec :: NatGatewaySpec where
  "zero_NatGatewaySpec = \<lparr>
    ngs_NatGatewayId = '''', ngs_Name = '''', ngs_Description = ''''\<rparr>"

record EIPSpec =
  eips_EIPId :: string
  eips_EIPName :: string
  eips_Bandwidth :: int

definition zero_EIPSpec :: EIPSpec where
  "zero_EIPSpec = \<lparr>
    eips_EIPId = '''', eips_EIPName = '''', eips_Bandwidth = 0\<rparr>"

record NatSpec =
  nats_NatGateway :: NatGatewaySpec
  nats_EIP :: EIPSpec

definition zero_NatSpec :: NatSpec where
  "zero_NatSpec = \<lparr>
    nats_NatGateway = zero_NatGatewaySpec, nats_EIP = zero_EIPSpec\<rparr>"

record ULBSpec =
  ulbs_LoadBalancerId :: string
  ulbs_VServerId :: string
  ulbs_LoadBalancerName :: string
  ulbs_VServerName :: string
  ulbs_EIP :: EIPSpec

definition zero_ULBSpec :: ULBSpec where
  "zero_ULBSpec = \<lparr>
    ulbs_LoadBalancerId = '''', ulbs_VServerId = '''', ulbs_LoadBalancerName = '''',
    ulbs_VServerName = '''', ulbs_EIP = zero_EIPSpec\<rparr>"

record FirewallSpec =
  fws_FirewallId :: string
  fws_FirewallName :: string
  fws_Rules :: "FirewallRuleSpec option list"
  fws_Description :: string

definition zero_FirewallSpec :: FirewallSpec where
  "zero_FirewallSpec = \<lparr>
    fws_FirewallId = '''', fws_FirewallName = '''', fws_Rules = [], fws_Description = ''''\<rparr>"

record NetworkSpec =
  nws_VPC :: VPCSpec
  nws_Subnet :: SubnetSpec
  nws_Nat :: NatSpec
  nws_ULB :: ULBSpec
  nws_Firewall :: FirewallSpec

definition zero_NetworkSpec :: NetworkSpec where
  "zero_NetworkSpec = \<lparr>
    nws_VPC = zero_VPCSpec, nws_Subnet = zero_SubnetSpec, nws_Nat = zero_NatSpec,
    nws_ULB = zero_ULBSpec, nws_Firewall = zero_FirewallSpec\<rparr>"

record VPC =
  vpc_VpcId :: string
  vpc_Status :: string
  vpc_VpcName :: string
  vpc_CreationTime :: string
  vpc_CidrBlock :: string
  vpc_VRouterId :: string
  vpc_Description :: string
  vpc_IsDefault :: bool
  vpc_NetworkAclNum :: string

definition zero_VPC :: VPC where
  "zero_VPC = \<lparr>
    vpc_VpcId = '''', vpc_Status = '''', vpc_VpcName = '''', vpc_CreationTime = '''',
    vpc_CidrBlock = '''', vpc_VRouterId = '''', vpc_Description = '''', vpc_IsDefault = False,
    vpc_NetworkAclNum = ''''\<rparr>"

record Subnet =
  sub_SubnetId :: string
  sub_VpcId :: string
  sub_Status :: string
  sub_CidrBlock :: string
  sub_ZoneId :: string
  sub_AvailableIpAddressCount :: int
  sub_Description :: string
  sub_SubnetName :: string
  sub_CreationTime :: string
  sub_IsDefault :: bool
  sub_NetworkAclId :: string

definition zero_Subnet :: Subnet where
  "zero_Subnet = \<lparr>
    sub_SubnetId = '''', sub_VpcId = '''', sub_Status = '''', sub_CidrBlock = '''',
    sub_ZoneId = '''', sub_AvailableIpAddressCount = 0, sub_Description = '''',
    sub_SubnetName = '''', sub_CreationTime = '''', sub_IsDefault = False,
    sub_NetworkAclId = ''''\<rparr>"

record EIP =
  eip_EIPId :: string
  eip_EIPAddr :: string
  eip_Status :: string
  eip_Bandwidth :: int
  eip_ChargeType :: string
  eip_EIPName :: string
  eip_Descritpion :: string
  eip_Mode :: string

definition zero_EIP :: EIP where
  "zero_EIP = \<lparr>
    eip_EIPId = '''', eip_EIPAddr = '''', eip_Status = '''', eip_Bandwidth = 0,
    eip_ChargeType = '''', eip_EIPName = '''', eip_Descritpion = '''', eip_Mode = ''''\<rparr>"

record Firewall =
  fw_FirewallId :: string
  fw_Description :: string
  fw_FirewallName :: string
  fw_VpcId :: string
  fw_CreationTime :: string
  fw_FirewallType :: string

definition zero_Firewall :: Firewall where
  "zero_Firewall = \<lparr>
    fw_FirewallId = '''', fw_Description = '''', fw_FirewallName = '''', fw_VpcId = '''',
    fw_CreationTime = '''', fw_FirewallType = ''''\<rparr>"

record SnatTableIds =
  snat_SnatTableId :: "string list"

definition zero_SnatTableIds :: SnatTableIds where
  "zero_SnatTableIds = \<lparr>
    snat_SnatTableId = []\<rparr>"

record Nat =
  nat_EIP :: EIP
  nat_SnatEntryId :: string
  nat_Firewall :: Firewall
  nat_NatGatewayId :: string
  nat_Name :: string
  nat_Description :: string
  nat_VpcId :: string
  nat_CreationTime :: string
  nat_Status :: string
  nat_SnatTableIds :: SnatTableIds

definition zero_Nat :: Nat where
  "zero_Nat = \<lparr>
    nat_EIP = zero_EIP, nat_SnatEntryId = '''', nat_Firewall = zero_Firewall,
    nat_NatGatewayId = '''', nat_Name = '''', nat_Description = '''', nat_VpcId = '''',
    nat_CreationTime = '''', nat_Status = '''', nat_SnatTableIds = zero_SnatTableIds\<rparr>"

record ULB =
  ulb_EIP :: EIP
  ulb_LoadBalancerId :: string
  ulb_LoadBalancerName :: string
  ulb_LoadBalancerStatus :: string
  ulb_Address :: string
  ulb_VpcId :: string
  ulb_NetworkType :: string
  ulb_CreateTime :: string
  ulb_VServerId :: string

definition zero_ULB :: ULB where
  "zero_ULB = \<lparr>
    ulb_EIP = zero_EIP, ulb_LoadBalancerId = '''', ulb_LoadBalancerName = '''',
    ulb_LoadBalancerStatus = '''', ulb_Address = '''', ulb_VpcId = '''',
    ulb_NetworkType = '''', ulb_CreateTime = '''', ulb_VServerId = ''''\<rparr>"

record Network =
  nw_VPC :: VPC
  nw_Subnet :: Subnet
  nw_ULB :: ULB
  nw_Nat :: Nat
  nw_Firewall :: Firewall

definition zero_Network :: Network where
  "zero_Network = \<lparr>
    nw_VPC = zero_VPC, nw_Subnet = zero_Subnet, nw_ULB = zero_ULB, nw_Nat = zero_Nat,
    nw_Firewall = zero_Firewall\<rparr>"

record Instance =
  inst_InstanceId :: string
  inst_PrivateIP :: string
  inst_PublicIP :: string
  inst_InstanceType :: string
  inst_Zone :: string
  inst_Name :: string

definition zero_Instance :: Instance where
  "zero_Instance = \<lparr>
    inst_InstanceId = '''', inst_PrivateIP = '''', inst_PublicIP = '''',
    inst_InstanceType = '''', inst_Zone = '''', inst_Name = ''''\<rparr>"

record BastionSpec =
  bas_SSHPassword :: string
  bas_Zone :: string

definition zero_BastionSpec :: BastionSpec where
  "zero_BastionSpec = \<lparr>
    bas_SSHPassword = '''', bas_Zone = ''''\<rparr>"

record Group =
  grp_GroupName :: string
  grp_GroupId :: string

definition zero_Group :: Group where
  "zero_Group = \<lparr>
    grp_GroupName = '''', grp_GroupId = ''''\<rparr>"

section \<open>UCloudCluster\<close>

definition ClusterFinalizer :: string where
  "ClusterFinalizer = ''ucloudcluster.infrastructure.cluster.x-k8s.io''"

record UCloudClusterSpec =
  cs_ProjectId :: string
  cs_Region :: string
  cs_Version :: string
  cs_ControlPlaneEndpoint :: APIEndpoint
  cs_Network :: NetworkSpec
  cs_Bastion :: BastionSpec

definition zero_UCloudClusterSpec :: UCloudClusterSpec where
  "zero_UCloudClusterSpec = \<lparr>
    cs_ProjectId = '''', cs_Region = '''', cs_Version = '''',
    cs_ControlPlaneEndpoint = zero_APIEndpoint, cs_Network = zero_NetworkSpec,
    cs_Bastion = zero_BastionSpec\<rparr>"

record UCloudClusterStatus =
  cst_FailureDomains :: "string \<rightharpoonup> FailureDomainSpec"
  cst_Network :: Network
  cst_ClusterId :: string
  cst_Bastion :: "Instance option"
  cst_Group :: Group
  cst_Ready :: bool

definition zero_UCloudClusterStatus :: UCloudClusterStatus where
  "zero_UCloudClusterStatus = \<lparr>
    cst_FailureDomains = Map.empty, cst_Network = zero_Network, cst_ClusterId = '''',
    cst_Bastion = None, cst_Group = zero_Group, cst_Ready = False\<rparr>"

record UCloudCluster =
  uc_Meta :: ObjectMeta
  uc_Spec :: UCloudClusterSpec
  uc_Status :: UCloudClusterStatus

definition zero_UCloudCluster :: UCloudCluster where
  "zero_UCloudCluster = \<lparr>
    uc_Meta = zero_ObjectMeta, uc_Spec = zero_UCloudClusterSpec,
    uc_Status = zero_UCloudClusterStatus\<rparr>"

section \<open>UCloudMachine and UCloudMachineTemplate\<close>

definition MachineFinalizer :: string where
  "MachineFinalizer = ''ucloudmachine.infrastructure.cluster.x-k8s.io''"

record UCloudMachineSpec =
  ms_InstanceType :: string
  ms_CPU :: int
  ms_Memory :: int
  ms_RootDiskSize :: int
  ms_DataDiskSize :: int
  ms_SSHPassword :: string
  ms_ProviderID :: "string option"
  ms_ImageId :: "string option"
  ms_PublicIP :: "bool option"
  ms_AdditionalNetworkTags :: "string list option"

definition zero_UCloudMachineSpec :: UCloudMachineSpec where
  "zero_UCloudMachineSpec = \<lparr>
    ms_InstanceType = '''', ms_CPU = 0, ms_Memory = 0, ms_RootDiskSize = 0,
    ms_DataDiskSize = 0, ms_SSHPassword = '''', ms_ProviderID = None, ms_ImageId = None,
    ms_PublicIP = None, ms_AdditionalNetworkTags = None\<rparr>"

record UCloudMachineStatus =
  mst_Ready :: bool
  mst_Zone :: string
  mst_InstanceId :: string
  mst_ClusterId :: string
  mst_Addresses :: "MachineAddress list"
  mst_InstanceStatus :: string
  mst_FailureReason :: "string option"
  mst_FailureMessage :: "error option"

definition zero_UCloudMachineStatus :: UCloudMachineStatus where
  "zero_UCloudMachineStatus = \<lparr>
    mst_Ready = False, mst_Zone = '''', mst_InstanceId = '''', mst_ClusterId = '''',
    mst_Addresses = [], mst_InstanceStatus = '''', mst_FailureReason = None,
    mst_FailureMessage = None\<rparr>"

record UCloudMachine =
  um_Meta :: ObjectMeta
  um_Spec :: UCloudMachineSpec
  um_Status :: UCloudMachineStatus

definition zero_UCloudMachine :: UCloudMachine where
  "zero_UCloudMachine = \<lparr>
    um_Meta = zero_ObjectMeta, um_Spec = zero_UCloudMachineSpec,
    um_Status = zero_UCloudMachineStatus\<rparr>"

record UCloudMachineTemplateResource =
  tr_Spec :: UCloudMachineSpec

definition zero_UCloudMachineTemplateResource :: UCloudMachineTemplateResource where
  "zero_UCloudMachineTemplateResource = \<lparr>
    tr_Spec = zero_UCloudMachineSpec\<rparr>"

record UCloudMachineTemplateSpec =
  ts_Template :: UCloudMachineTemplateResource

definition zero_UCloudMachineTemplateSpec :: UCloudMachineTemplateSpec where
  "zero_UCloudMachineTemplateSpec = \<lparr>
    ts_Template = zero_UCloudMachineTemplateResource\<rparr>"

record UCloudMachineTemplate =
  tpl_Meta :: ObjectMeta
  tpl_Spec :: UCloudMachineTemplateSpec

definition zero_UCloudMachineTemplate :: UCloudMachineTemplate where
  "zero_UCloudMachineTemplate = \<lparr>
    tpl_Meta = zero_ObjectMeta, tpl_Spec = zero_UCloudMachineTemplateSpec\<rparr>"

lemmas zero_defs =
  zero_APIEndpoint_def zero_FailureDomainSpec_def zero_MachineAddress_def zero_ObjectMeta_def
  zero_FirewallRuleSpec_def zero_SubnetSpec_def zero_VPCSpec_def zero_NatGatewaySpec_def
  zero_EIPSpec_def zero_NatSpec_def zero_ULBSpec_def zero_FirewallSpec_def
  zero_NetworkSpec_def zero_VPC_def zero_Subnet_def zero_EIP_def
  zero_Firewall_def zero_SnatTableIds_def zero_Nat_def zero_ULB_def
  zero_Network_def zero_Instance_def zero_BastionSpec_def zero_Group_def
  zero_UCloudClusterSpec_def zero_UCloudClusterStatus_def zero_UCloudCluster_def zero_UCloudMachineSpec_def
  zero_UCloudMachineStatus_def zero_UCloudMachine_def zero_UCloudMachineTemplateResource_def zero_UCloudMachineTemplateSpec_def
  zero_UCloudMachineTemplate_def

end
