(* ===== verification/Go_Stdlib.thy ===== *)
theory Go_Stdlib
  imports Prelude
begin

text \<open>
  The functions of Go's standard library that the source calls on strings and integers:
  \<open>strings.Split\<close>, \<open>strings.HasSuffix\<close>, \<open>strings.ToLower\<close>, \<open>strings.TrimSpace\<close>,
  \<open>strings.ReplaceAll\<close>, \<open>strconv.Itoa\<close>, \<open>strconv.Atoi\<close> and
  \<open>base64.StdEncoding\<close>. A Go string is a list of bytes, so a \<open>char\<close> of a model string is
  one byte. \<open>ToLower\<close> and \<open>TrimSpace\<close> are exact on ASCII strings.
\<close>

section \<open>strings\<close>

text \<open>\<open>strings.Split(s, sep)\<close> for the one-byte separators the source uses.\<close>

fun Split :: "string \<Rightarrow> char \<Rightarrow> string list" where
  "Split [] c = [[]]"
| "Split (x # xs) c =
     (if x = c then [] # Split xs c
      else (case Split xs c of [] \<Rightarrow> [[x]] | w # ws \<Rightarrow> (x # w) # ws))"

fun Join :: "string list \<Rightarrow> char \<Rightarrow> string" where
  "Join [] c = []"
| "Join [w] c = w"
| "Join (w # ws) c = w @ c # Join ws c"

definition HasSuffix :: "string \<Rightarrow> string \<Rightarrow> bool" where
  "HasSuffix s suf \<longleftrightarrow> length suf \<le> length s \<and> drop (length s - length suf) s = suf"

definition to_lower :: "char \<Rightarrow> char" where
  "to_lower c = (let n = (of_char c :: nat) in if 65 \<le> n \<and> n \<le> 90 then char_of (n + 32) else c)"

definition ToLower :: "string \<Rightarrow> string" where
  "ToLower s = map to_lower s"

definition is_space :: "char \<Rightarrow> bool" where
  "is_space c = (let n = (of_char c :: nat) in n = 32 \<or> (9 \<le> n \<and> n \<le> 13))"

definition TrimSpace :: "string \<Rightarrow> string" where
  "TrimSpace s = rev (dropWhile is_space (rev (dropWhile is_space s)))"

text \<open>\<open>strings.ReplaceAll(s, old, new)\<close> for a non-empty \<open>old\<close>: leftmost matches, no overlap.\<close>

fun ReplaceAll :: "string \<Rightarrow> string \<Rightarrow> string \<Rightarrow> string" where
  "ReplaceAll [] old new = []"
| "ReplaceAll (x # xs) old new =
     (if take (length old) (x # xs) = old
      then new @ ReplaceAll (drop (length old - 1) xs) old new
      else x # ReplaceAll xs old new)"

lemma Split_not_Nil [simp]: "Split s c \<noteq> []"
  by (induction s) (auto split: list.split)

lemma Join_Split: "Join (Split s c) c = s"
proof (induction s)
  case Nil
  show ?case by simp
next
  case (Cons x xs)
  obtain w ws where w: "Split xs c = w # ws" by (cases "Split xs c") simp_all
  with Cons show ?case by (cases ws) auto
qed

lemma length_Split: "length (Split s c) = Suc (count_list s c)"
  by (induction s) (auto split: list.split)

lemma Split_pieces: "w \<in> set (Split s c) \<Longrightarrow> c \<notin> set w"
  by (induction s arbitrary: w) (auto split: list.splits if_splits)

lemma Split_append: "c \<notin> set u \<Longrightarrow> Split (u @ c # v) c = u # Split v c"
  by (induction u) auto

lemma Split_no_sep: "c \<notin> set u \<Longrightarrow> Split u c = [u]"
  by (induction u) auto

text \<open>What splitting at \<open>/\<close> gives the subnet code: the two halves of an address/mask pair.\<close>

lemma Split_two: "length (Split s c) = 2 \<Longrightarrow> Split s c ! 0 @ [c] @ Split s c ! 1 = s"
proof -
  assume l: "length (Split s c) = 2"
  then obtain a b where ab: "Split s c = [a, b]"
    by (cases "Split s c"; cases "tl (Split s c)"; auto)
  have "Join [a, b] c = s" using Join_Split [of s c] by (simp add: ab)
  then show ?thesis by (simp add: ab)
qed

lemma HasSuffix_append [simp]: "HasSuffix (u @ v) v"
  by (simp add: HasSuffix_def)

lemma HasSuffixE:
  assumes "HasSuffix s suf"
  obtains u where "s = u @ suf"
  using assms unfolding HasSuffix_def by (metis append_take_drop_id)

lemma ReplaceAll_absent:
  assumes "old \<noteq> []" and "\<And>u v. s \<noteq> u @ old @ v"
  shows "ReplaceAll s old new = s"
  using assms(2)
proof (induction s)
  case Nil
  show ?case by simp
next
  case (Cons x xs)
  have "take (length old) (x # xs) \<noteq> old"
  proof
    assume "take (length old) (x # xs) = old"
    then have "x # xs = [] @ old @ drop (length old) (x # xs)"
      by (metis append_Nil append_take_drop_id)
    with Cons.prems show False by blast
  qed
  moreover have "ReplaceAll xs old new = xs"
  proof (rule Cons.IH)
    fix u v
    show "xs \<noteq> u @ old @ v" using Cons.prems [of "x # u" v] by simp
  qed
  ultimately show ?case by simp
qed

section \<open>strconv\<close>

datatype num_error = ErrSyntax | ErrRange

fun digits :: "nat \<Rightarrow> string" where
  "digits n = (if n < 10 then [char_of (48 + n)] else digits (n div 10) @ [char_of (48 + n mod 10)])"

declare digits.simps [simp del]

definition Itoa :: "int \<Rightarrow> string" where
  "Itoa i = (if i < 0 then CHR ''-'' # digits (nat (- i)) else digits (nat i))"

definition is_digit :: "char \<Rightarrow> bool" where
  "is_digit c = (let n = (of_char c :: nat) in 48 \<le> n \<and> n \<le> 57)"

text \<open>
  The digit loop of \<open>strconv.ParseUint\<close> in base 10: it stops at the first byte that is no
  digit, or as soon as the value leaves 64 bits.
\<close>

fun parse_uint :: "nat \<Rightarrow> string \<Rightarrow> num_error + nat" where
  "parse_uint n [] = Inr n"
| "parse_uint n (c # cs) =
     (if \<not> is_digit c then Inl ErrSyntax
      else let m = 10 * n + (of_char c - 48) in
        if m \<ge> 2 ^ 64 then Inl ErrRange else parse_uint m cs)"

text \<open>
  \<open>strconv.Atoi\<close> with a 64-bit \<open>int\<close>: an optional sign, at least one digit. It returns a
  value next to the error: 0 for a syntax error, the nearest bound for a range error.
\<close>

definition Atoi :: "string \<Rightarrow> int \<times> num_error option" where
  "Atoi s =
     (let neg = (s \<noteq> [] \<and> hd s = CHR ''-'');
          ds = (if s \<noteq> [] \<and> (hd s = CHR ''-'' \<or> hd s = CHR ''+'') then tl s else s)
      in if ds = [] then (0, Some ErrSyntax)
         else (case parse_uint 0 ds of
             Inl ErrSyntax \<Rightarrow> (0, Some ErrSyntax)
           | Inl ErrRange \<Rightarrow> (if neg then (- (2 ^ 63), Some ErrRange) else (2 ^ 63 - 1, Some ErrRange))
           | Inr n \<Rightarrow>
               if neg then (if n > 2 ^ 63 then (- (2 ^ 63), Some ErrRange) else (- int n, None))
               else (if n \<ge> 2 ^ 63 then (2 ^ 63 - 1, Some ErrRange) else (int n, None))))"

lemma of_char_digit: "(d::nat) < 10 \<Longrightarrow> of_char (char_of (48 + d) :: char) = (48 + d :: nat)"
  by simp

lemma is_digit_char: "(d::nat) < 10 \<Longrightarrow> is_digit (char_of (48 + d))"
  by (simp add: is_digit_def Let_def)

lemma digits_not_Nil [simp]: "digits n \<noteq> []"
  by (subst digits.simps) simp

lemma digits_all: "c \<in> set (digits n) \<Longrightarrow> is_digit c"
proof (induction n rule: digits.induct)
  case (1 n)
  show ?case
  proof (cases "n < 10")
    case True
    with "1.prems" show ?thesis by (simp add: digits.simps [of n] is_digit_char)
  next
    case False
    with "1.prems" "1.IH" show ?thesis
      using is_digit_char [of "n mod 10"] by (auto simp: digits.simps [of n])
  qed
qed

lemma parse_uint_append:
  "parse_uint m us = Inr k \<Longrightarrow> parse_uint m (us @ vs) = parse_uint k vs"
  by (induction m us rule: parse_uint.induct) (auto simp: Let_def split: if_splits)

lemma parse_uint_digits: "n < 2 ^ 64 \<Longrightarrow> parse_uint 0 (digits n) = Inr n"
proof (induction n rule: digits.induct)
  case (1 n)
  show ?case
  proof (cases "n < 10")
    case True
    with "1.prems" show ?thesis
      by (simp add: digits.simps [of n] is_digit_char of_char_digit del: of_char_of)
  next
    case False
    have "n div 10 < 2 ^ 64" using "1.prems" by simp
    with False "1.IH" have "parse_uint 0 (digits (n div 10)) = Inr (n div 10)" by simp
    then have "parse_uint 0 (digits n) = parse_uint (n div 10) [char_of (48 + n mod 10)]"
      using False by (simp add: digits.simps [of n] parse_uint_append)
    also have "\<dots> = Inr n"
      using "1.prems" is_digit_char [of "n mod 10"] of_char_digit [of "n mod 10"]
      by (simp del: of_char_of)
    finally show ?thesis .
  qed
qed

lemma digits_hd: "hd (digits n) \<noteq> CHR ''-''" "hd (digits n) \<noteq> CHR ''+''"
proof -
  have "is_digit (hd (digits n))" by (rule digits_all [of _ n]) simp
  then show "hd (digits n) \<noteq> CHR ''-''" "hd (digits n) \<noteq> CHR ''+''"
    by (auto simp: is_digit_def)
qed

lemma Atoi_Itoa:
  assumes "- (2 ^ 63) \<le> i" and "i < 2 ^ 63"
  shows "Atoi (Itoa i) = (i, None)"
proof (cases "i < 0")
  case True
  have n: "nat (- i) < 2 ^ 64" "nat (- i) \<le> 2 ^ 63" using assms by simp_all
  show ?thesis
    using True n parse_uint_digits [OF n(1)] by (simp add: Atoi_def Itoa_def Let_def)
next
  case False
  have n: "nat i < 2 ^ 64" "nat i < 2 ^ 63" using assms by simp_all
  show ?thesis
    using False n parse_uint_digits [OF n(1)] digits_hd [of "nat i"]
    by (simp add: Atoi_def Itoa_def Let_def)
qed

definition Atoi_opt :: "string \<Rightarrow> int option" where
  "Atoi_opt s = (case Atoi s of (i, None) \<Rightarrow> Some i | (_, Some e) \<Rightarrow> None)"

interpretation int_codec: codec Itoa Atoi_opt "\<lambda>i. - (2 ^ 63) \<le> i \<and> i < 2 ^ 63"
  by unfold_locales (simp add: Atoi_opt_def Atoi_Itoa)

section \<open>base64.StdEncoding\<close>

definition b64_alphabet :: string where
  "b64_alphabet = ''ABCDEFGHIJKLMNOPQRSTUVWXYZabcdefghijklmnopqrstuvwxyz0123456789+/''"

definition b64_char :: "nat \<Rightarrow> char" where
  "b64_char n = b64_alphabet ! n"

definition b64_val :: "char \<Rightarrow> nat option" where
  "b64_val c = List.find (\<lambda>n. b64_alphabet ! n = c) [0..<64]"

text \<open>\<open>EncodeToString\<close>: three bytes become four digits, the last group is padded with \<open>=\<close>.\<close>

fun EncodeToString :: "string \<Rightarrow> string" where
  "EncodeToString [] = []"
| "EncodeToString [a] =
     (let x = of_char a in
      [b64_char (x div 4), b64_char (x mod 4 * 16), CHR ''='', CHR ''=''])"
| "EncodeToString [a, b] =
     (let x = of_char a; y = of_char b in
      [b64_char (x div 4), b64_char (x mod 4 * 16 + y div 16), b64_char (y mod 16 * 4), CHR ''=''])"
| "EncodeToString (a # b # c # rest) =
     (let x = of_char a; y = of_char b; z = of_char c in
      [b64_char (x div 4), b64_char (x mod 4 * 16 + y div 16),
       b64_char (y mod 16 * 4 + z div 64), b64_char (z mod 64)] @ EncodeToString rest)"

text \<open>
  \<open>DecodeString\<close> skips carriage returns and line feeds, and fails on any other byte
  outside the alphabet, on a missing or misplaced padding and on anything after the padding.
  The bits a padded group leaves over are ignored.
\<close>

fun decode_quanta :: "string \<Rightarrow> string option" where
  "decode_quanta [] = Some []"
| "decode_quanta (a # b # c # d # rest) =
     (case (b64_val a, b64_val b) of
        (Some p, Some q) \<Rightarrow>
          (if c = CHR ''='' then
             (if d = CHR ''='' \<and> rest = [] then Some [char_of (p * 4 + q div 16)] else None)
           else (case b64_val c of
               None \<Rightarrow> None
             | Some r \<Rightarrow>
                 if d = CHR ''='' then
                   (if rest = [] then Some [char_of (p * 4 + q div 16), char_of (q mod 16 * 16 + r div 4)]
                    else None)
                 else (case b64_val d of
                     None \<Rightarrow> None
                   | Some t \<Rightarrow>
                       map_option ((@) [char_of (p * 4 + q div 16), char_of (q mod 16 * 16 + r div 4),
                           char_of (r mod 4 * 64 + t)]) (decode_quanta rest))))
      | _ \<Rightarrow> None)"
| "decode_quanta _ = None"

definition DecodeString :: "string \<Rightarrow> string option" where
  "DecodeString s = decode_quanta (filter (\<lambda>c. c \<noteq> CHR 0x0A \<and> c \<noteq> CHR 0x0D) s)"

text \<open>Facts about the alphabet are checked digit by digit.\<close>

lemma b64_table:
  "list_all (\<lambda>n. b64_val (b64_char n) = Some n \<and> b64_char n \<noteq> CHR ''=''
      \<and> b64_char n \<noteq> CHR 0x0A \<and> b64_char n \<noteq> CHR 0x0D) [0..<64]"
  by code_simp

lemma b64_val_char: "n < 64 \<Longrightarrow> b64_val (b64_char n) = Some n"
  and b64_char_not_pad: "n < 64 \<Longrightarrow> b64_char n \<noteq> CHR ''=''"
  and b64_char_not_LF: "n < 64 \<Longrightarrow> b64_char n \<noteq> CHR 0x0A"
  and b64_char_not_CR: "n < 64 \<Longrightarrow> b64_char n \<noteq> CHR 0x0D"
  using b64_table by (auto simp: list_all_iff)

lemmas b64_digit = b64_val_char b64_char_not_pad b64_char_not_LF b64_char_not_CR

lemma of_char_bound: "(of_char c :: nat) < 256"
  by (simp add: of_char_def)

text \<open>Cutting three bytes into four 6-bit digits and back is arithmetic.\<close>

lemma sextet_bounds:
  fixes x y z :: nat
  assumes "x < 256" and "y < 256" and "z < 256"
  shows "x div 4 < 64" "x mod 4 * 16 < 64" "x mod 4 * 16 + y div 16 < 64"
    "y mod 16 * 4 < 64" "y mod 16 * 4 + z div 64 < 64" "z mod 64 < 64"
proof -
  have "x mod 4 < 4" "y mod 16 < 16" "y div 16 < 16" "z div 64 < 4" using assms by auto
  then show "x div 4 < 64" "x mod 4 * 16 < 64" "x mod 4 * 16 + y div 16 < 64"
    "y mod 16 * 4 < 64" "y mod 16 * 4 + z div 64 < 64" "z mod 64 < 64"
    using assms by auto
qed

lemma byte_carry:
  fixes b c :: char
  shows "(of_char b :: nat) div 16 div 16 = 0"
    and "(of_char b :: nat) div 16 mod 16 = of_char b div 16"
    and "(of_char c :: nat) div 64 div 4 = 0"
    and "(of_char c :: nat) div 64 mod 4 = of_char c div 64"
proof -
  have b: "of_char b div 16 < (16 :: nat)"
    by (rule less_mult_imp_div_less) (use of_char_bound [of b] in simp)
  have c: "of_char c div 64 < (4 :: nat)"
    by (rule less_mult_imp_div_less) (use of_char_bound [of c] in simp)
  from b show "(of_char b :: nat) div 16 div 16 = 0"
    and "(of_char b :: nat) div 16 mod 16 = of_char b div 16"
    by (rule div_less, rule mod_less)
  from c show "(of_char c :: nat) div 64 div 4 = 0"
    and "(of_char c :: nat) div 64 mod 4 = of_char c div 64"
    by (rule div_less, rule mod_less)
qed

lemma decode_quanta_encode: "decode_quanta (EncodeToString s) = Some s"
proof (induction s rule: EncodeToString.induct)
  case 1
  show ?case by simp
next
  case (2 a)
  show ?case
    using sextet_bounds [of "of_char a" 0 0] of_char_bound [of a] by (simp add: Let_def b64_digit)
next
  case (3 a b)
  show ?case
    using sextet_bounds [of "of_char a" "of_char b" 0] of_char_bound [of a] of_char_bound [of b]
    by (simp add: Let_def b64_digit byte_carry)
next
  case (4 a b c rest)
  then show ?case
    using sextet_bounds [of "of_char a" "of_char b" "of_char c"]
      of_char_bound [of a] of_char_bound [of b] of_char_bound [of c]
    by (simp add: Let_def b64_digit byte_carry)
qed

lemma EncodeToString_no_newline:
  "c \<in> set (EncodeToString s) \<Longrightarrow> c \<noteq> CHR 0x0A \<and> c \<noteq> CHR 0x0D"
proof (induction s rule: EncodeToString.induct)
  case 1
  then show ?case by simp
next
  case (2 a)
  then show ?case
    using sextet_bounds [of "of_char a" 0 0] of_char_bound [of a] by (auto simp: Let_def b64_digit)
next
  case (3 a b)
  then show ?case
    using sextet_bounds [of "of_char a" "of_char b" 0] of_char_bound [of a] of_char_bound [of b]
    by (auto simp: Let_def b64_digit)
next
  case (4 a b c rest)
  then show ?case
    using sextet_bounds [of "of_char a" "of_char b" "of_char c"]
      of_char_bound [of a] of_char_bound [of b] of_char_bound [of c]
    by (auto simp: Let_def b64_digit)
qed

lemma DecodeString_EncodeToString: "DecodeString (EncodeToString s) = Some s"
proof -
  have "filter (\<lambda>c. c \<noteq> CHR 0x0A \<and> c \<noteq> CHR 0x0D) (EncodeToString s) = EncodeToString s"
    by (rule filter_True) (use EncodeToString_no_newline in blast)
  then show ?thesis by (simp only: DecodeString_def decode_quanta_encode)
qed

interpretation b64: codec EncodeToString DecodeString "\<lambda>_. True"
  by unfold_locales (rule DecodeString_EncodeToString)

end
