(* ===== verification/Defaults.thy ===== *)
theory Defaults
  imports Go_Stdlib
begin

text \<open>
  \<open>cloud/common/defaults.go\<close>: the default sizes, the region tables and the name generators.
  A Go map literal is an association list, in the literal's order, read with \<open>map_of\<close>.
\<close>

section \<open>Constants\<close>

definition DefaultUserName :: string where
  "DefaultUserName = ''capi''"

definition DefaultVnetCIDR :: string where
  "DefaultVnetCIDR = ''10.0.0.0/8''"

definition DefaultControlPlaneSubnetCIDR :: string where
  "DefaultControlPlaneSubnetCIDR = ''10.0.0.0/16''"

definition DefaultNodeSubnetCIDR :: string where
  "DefaultNodeSubnetCIDR = ''10.1.0.0/16''"

definition DefaultInternalLBIPAddress :: string where
  "DefaultInternalLBIPAddress = ''10.0.0.100''"

definition UserAgent :: string where
  "UserAgent = ''cluster-api-ucloud-services''"

definition DefaultNatGatewayEIPBandwidth :: int where
  "DefaultNatGatewayEIPBandwidth = 10"

definition DefaultUHostCPU :: int where
  "DefaultUHostCPU = 4"

definition DefaultUHostMemory :: int where
  "DefaultUHostMemory = 8192"

definition DefaultUHostRootDiskSize :: int where
  "DefaultUHostRootDiskSize = 40"

definition DefaultUHostDataDiskSize :: int where
  "DefaultUHostDataDiskSize = 40"

definition ClusterApiUUIDNamespace :: string where
  "ClusterApiUUIDNamespace = ''e364031d-ad93-4744-b411-85bb870a8623''"

section \<open>Region tables\<close>

definition RegionZoneMap :: "(string \<times> string list) list" where
  "RegionZoneMap = [
    (''cn-bj1'', [''cn-bj1-01'']),
    (''cn-bj2'', [''cn-bj2-02'', ''cn-bj2-03'', ''cn-bj2-04'', ''cn-bj2-05'']),
    (''cn-sh'', [''cn-sh-02'', ''cn-sh-03'']), (''cn-sh2'', [''cn-sh2-02'', ''cn-sh2-03'']),
    (''cn-gd'', [''cn-gd-02'']), (''cn-gd2'', [''cn-gd2-01'']),
    (''hk'', [''hk-01'', ''hk-02'']), (''tw-tp'', [''tw-tp-01'']),
    (''tw-tp2'', [''tw-tp2-01'']), (''tw-kh'', [''tw-kh-01'']),
    (''jpn-tky'', [''jpn-tky-01'']), (''kr-seoul'', [''kr-seoul-01'']),
    (''th-bkk'', [''th-bkk-01'']), (''sg'', [''sg-01'']),
    (''idn-jakarta'', [''idn-jakarta-01'']), (''vn-sng'', [''vn-sng-01'']),
    (''us-ca'', [''us-ca-01'']), (''us-ws'', [''us-ws-01'']),
    (''rus-mosc'', [''rus-mosc-01'']), (''ge-fra'', [''ge-fra-01'']),
    (''uk-london'', [''uk-london-01'']), (''ind-mumbai'', [''ind-mumbai-01'']),
    (''uae-dubai'', [''uae-dubai-01'']), (''bra-saopaulo'', [''bra-saopaulo-01'']),
    (''afr-nigeria'', [''afr-nigeria-01''])]"

definition RegionImageMap :: "(string \<times> (string \<times> string) list option) list" where
  "RegionImageMap = [
    (''cn-bj1'', None),
    (''cn-bj2'', Some
      [(''cn-bj2-02'', ''uimage-kdwczn''), (''cn-bj2-03'', ''uimage-aodbek''),
       (''cn-bj2-04'', ''uimage-igmic5''), (''cn-bj2-05'', ''uimage-edkznm'')]),
    (''cn-sh'', None), (''cn-sh2'', None), (''cn-gd'', None), (''cn-gd2'', None),
    (''hk'', None), (''tw-tp'', None), (''tw-tp2'', None), (''tw-kh'', None),
    (''jpn-tky'', None), (''kr-seoul'', None), (''th-bkk'', None), (''sg'', None),
    (''idn-jakarta'', None), (''vn-sng'', None), (''us-ca'', None), (''us-ws'', None),
    (''rus-mosc'', None), (''ge-fra'', None), (''uk-london'', None), (''ind-mumbai'', None),
    (''uae-dubai'', None), (''bra-saopaulo'', None), (''afr-nigeria'', None)]"

definition RegionEIPOperator :: "(string \<times> string) list" where
  "RegionEIPOperator = [
    (''cn-bj1'', ''Bgp''), (''cn-bj2'', ''Bgp''), (''cn-sh'', ''Bgp''), (''cn-sh2'', ''Bgp''),
    (''cn-gd'', ''Bgp''), (''cn-gd2'', ''Bgp''), (''hk'', ''International''),
    (''tw-tp'', ''International''), (''tw-tp2'', ''International''),
    (''tw-kh'', ''International''), (''jpn-tky'', ''International''),
    (''kr-seoul'', ''International''), (''th-bkk'', ''International''),
    (''sg'', ''International''), (''idn-jakarta'', ''International''),
    (''vn-sng'', ''International''), (''us-ca'', ''International''),
    (''us-ws'', ''International''), (''rus-mosc'', ''International''),
    (''ge-fra'', ''International''), (''uk-london'', ''International''),
    (''ind-mumbai'', ''International''), (''uae-dubai'', ''International''),
    (''bra-saopaulo'', ''International''), (''afr-nigeria'', ''International'')]"

text \<open>\<open>m[k]\<close> on a map of strings: the empty string for a missing key.\<close>

definition map_index :: "(string \<times> string) list \<Rightarrow> string \<Rightarrow> string" where
  "map_index m k = (case map_of m k of Some v \<Rightarrow> v | None \<Rightarrow> '''')"

text \<open>\<open>RegionImageMap[region][zone]\<close>: indexing a nil map, or a missing one, gives the zero value.\<close>

definition region_image :: "string \<Rightarrow> string \<Rightarrow> string" where
  "region_image region zone = (case map_of RegionImageMap region of
      Some (Some m) \<Rightarrow> map_index m zone
    | _ \<Rightarrow> '''')"

definition region_operator :: "string \<Rightarrow> string" where
  "region_operator region = map_index RegionEIPOperator region"

section \<open>Name generators\<close>

definition GenerateVnetName :: "string \<Rightarrow> string" where
  "GenerateVnetName clusterName = clusterName @ ''-vnet''"

definition GenerateControlPlaneSecurityGroupName :: "string \<Rightarrow> string" where
  "GenerateControlPlaneSecurityGroupName clusterName = clusterName @ ''-controlplane-nsg''"

definition GenerateNodeSecurityGroupName :: "string \<Rightarrow> string" where
  "GenerateNodeSecurityGroupName clusterName = clusterName @ ''-node-nsg''"

definition GenerateNodeRouteTableName :: "string \<Rightarrow> string" where
  "GenerateNodeRouteTableName clusterName = clusterName @ ''-node-routetable''"

definition GenerateControlPlaneSubnetName :: "string \<Rightarrow> string" where
  "GenerateControlPlaneSubnetName clusterName = clusterName @ ''-controlplane-subnet''"

definition GenerateNodeSubnetName :: "string \<Rightarrow> string" where
  "GenerateNodeSubnetName clusterName = clusterName @ ''-node-subnet''"

definition GenerateInternalLBName :: "string \<Rightarrow> string" where
  "GenerateInternalLBName clusterName = clusterName @ ''-internal-lb''"

definition GeneratePublicLBName :: "string \<Rightarrow> string" where
  "GeneratePublicLBName clusterName = clusterName @ ''-public-lb''"

definition GeneratePublicIPName :: "string \<Rightarrow> string \<Rightarrow> string" where
  "GeneratePublicIPName clusterName hash = clusterName @ ''-'' @ hash"

definition GenerateNICName :: "string \<Rightarrow> string" where
  "GenerateNICName machineName = machineName @ ''-nic''"

definition GenerateOSDiskName :: "string \<Rightarrow> string" where
  "GenerateOSDiskName machineName = machineName @ ''_OSDisk''"

section \<open>Facts about the tables\<close>

text \<open>The three tables list the same regions, in the same order, each once.\<close>

lemma region_tables_agree:
  "map fst RegionImageMap = map fst RegionZoneMap"
  "map fst RegionEIPOperator = map fst RegionZoneMap"
  "distinct (map fst RegionZoneMap)"
  by code_simp+

lemma region_zones_rows:
  "list_all (\<lambda>(r, zs). zs \<noteq> [] \<and> distinct zs
      \<and> list_all (\<lambda>z. take (length r + 1) z = r @ ''-'') zs) RegionZoneMap"
  by code_simp

lemma region_zones:
  assumes "map_of RegionZoneMap r = Some zs"
  shows "zs \<noteq> []" and "distinct zs" and "z \<in> set zs \<Longrightarrow> take (length r + 1) z = r @ ''-''"
  using region_zones_rows map_of_SomeD [OF assms] by (auto simp: list_all_iff)

lemma region_operator_rows:
  "list_all (\<lambda>(r, op). op = ''Bgp'' \<or> op = ''International'') RegionEIPOperator"
  by code_simp

lemma region_operator_cases:
  "region_operator r = '''' \<or> region_operator r = ''Bgp'' \<or> region_operator r = ''International''"
  using region_operator_rows
  by (auto simp: region_operator_def map_index_def list_all_iff dest!: map_of_SomeD split: option.split)

lemma region_operator_known: "map_of RegionZoneMap r \<noteq> None \<longleftrightarrow> region_operator r \<noteq> ''''"
proof -
  have "map_of RegionZoneMap r \<noteq> None \<longleftrightarrow> r \<in> set (map fst RegionEIPOperator)"
    by (simp add: map_of_eq_None_iff region_tables_agree)
  also have "\<dots> \<longleftrightarrow> map_of RegionEIPOperator r \<noteq> None"
    by (simp add: map_of_eq_None_iff)
  also have "\<dots> \<longleftrightarrow> region_operator r \<noteq> ''''"
  proof (cases "map_of RegionEIPOperator r")
    case None
    then show ?thesis by (simp add: region_operator_def map_index_def)
  next
    case (Some v)
    then have "v \<noteq> ''''"
      using region_operator_rows map_of_SomeD [OF Some] by (auto simp: list_all_iff)
    with Some show ?thesis by (simp add: region_operator_def map_index_def)
  qed
  finally show ?thesis .
qed

text \<open>Images exist for the zones of one region only.\<close>

lemma region_image_rows:
  "list_all (\<lambda>(r, m). (m \<noteq> None) = (r = ''cn-bj2'')) RegionImageMap"
  by code_simp

lemma region_image_bj2:
  "map_of RegionImageMap ''cn-bj2'' = Some (Some
      [(''cn-bj2-02'', ''uimage-kdwczn''), (''cn-bj2-03'', ''uimage-aodbek''),
       (''cn-bj2-04'', ''uimage-igmic5''), (''cn-bj2-05'', ''uimage-edkznm'')])"
  by (simp add: RegionImageMap_def)

lemma region_zones_bj2:
  "map_of RegionZoneMap ''cn-bj2'' = Some [''cn-bj2-02'', ''cn-bj2-03'', ''cn-bj2-04'', ''cn-bj2-05'']"
  by (simp add: RegionZoneMap_def)

lemma region_image_other: "r \<noteq> ''cn-bj2'' \<Longrightarrow> region_image r z = ''''"
  using region_image_rows
  by (auto simp: region_image_def list_all_iff dest!: map_of_SomeD split: option.split)

end
