(* ===== verification/Cloud.thy ===== *)
theory Cloud
  imports Api_Types Defaults
begin

text \<open>
  What the services call and the state they run over. The UCloud SDK, the HTTP client, the
  Kubernetes client and the helper packages are not part of the repository, so they are
  fields of the record \<open>Service\<close>, which also holds what \<open>services.Service\<close> keeps (the
  clients, the configuration, the scope's objects). Each remote operation takes the request and
  the world \<open>'w\<close> it acts on, and answers with a response, an error (Go returns both), the
  return code and the time it took, next to the new world; nothing is assumed of them.
  Requests hold the fields the code sets, responses the fields it reads. \<open>calls\<close> in the
  state is the sequence of requests sent so far.
\<close>

section \<open>Requests and responses of the SDK clients\<close>

record CommonRequest =
  rq_Region :: string
  rq_ProjectId :: string

subsection \<open>VPC, subnet and NAT gateway\<close>

record VPCInfo =
  vi_Name :: string
  vi_Network :: "string list"
  vi_VPCId :: string

record DescribeVPCRequest = CommonRequest +
  dvpc_Tag :: string
  dvpc_VPCIds :: "string list"

record CreateVPCRequest = CommonRequest +
  cvpc_Name :: string
  cvpc_Network :: "string list"
  cvpc_Tag :: string

record DeleteVPCRequest = CommonRequest +
  delvpc_VPCId :: string

record VPCSubnetInfoSet =
  si_SubnetName :: string
  si_Subnet :: string
  si_Netmask :: string
  si_SubnetId :: string

record DescribeSubnetRequest = CommonRequest +
  dsub_VPCId :: string
  dsub_Tag :: string
  dsub_SubnetId :: "string option"

record CreateSubnetRequest = CommonRequest +
  csub_SubnetName :: string
  csub_Subnet :: string
  csub_Netmask :: int
  csub_VPCId :: string
  csub_Tag :: string

record DeleteSubnetRequest = CommonRequest +
  delsub_SubnetId :: string

record NatGatewayIPSet =
  nip_Bandwidth :: int
  nip_EIPId :: string

record NatGatewayDataSet =
  ni_FirewallId :: string
  ni_NATGWId :: string
  ni_NATGWName :: string
  ni_VPCId :: string
  ni_IPSet :: "NatGatewayIPSet list"
  ni_SubnetSet :: "string list"

record DescribeNATGWRequest = CommonRequest +
  dnat_NATGWIds :: "string list"

record CreateNATGWRequest = CommonRequest +
  cnat_Tag :: string
  cnat_NATGWName :: string
  cnat_FirewallId :: string
  cnat_VPCId :: string
  cnat_SubnetworkIds :: "string list"
  cnat_EIPIds :: "string list"

record DeleteNATGWRequest = CommonRequest +
  delnat_NATGWId :: string
  delnat_ReleaseEip :: bool

subsection \<open>Elastic IP and firewall\<close>

record UnetAllocateEIPSet =
  ae_EIPId :: string
  ae_EIPAddr :: "string list"

record AllocateEIPRequest = CommonRequest +
  aeip_Tag :: string
  aeip_OperatorName :: string
  aeip_Bandwidth :: int
  aeip_Name :: "string option"

record ReleaseEIPRequest = CommonRequest +
  reip_EIPId :: string

record BindEIPRequest = CommonRequest +
  beip_EIPId :: string
  beip_ResourceId :: string
  beip_ResourceType :: string

record UnBindEIPRequest = CommonRequest +
  ueip_EIPId :: string
  ueip_ResourceId :: string
  ueip_ResourceType :: string

record FirewallDataSet =
  fi_FWId :: string
  fi_Name :: string
  fi_Type :: string

record DescribeFirewallRequest = CommonRequest +
  dfw_FWId :: "string option"

subsection \<open>Load balancer\<close>

record ULBBackendSet =
  be_ResourceId :: string
  be_BackendId :: string

record ULBVServerSet =
  vs_BackendSet :: "ULBBackendSet list"
  vs_FrontendPort :: int
  vs_ListenType :: string
  vs_Method :: string
  vs_MonitorType :: string
  vs_Protocol :: string
  vs_VServerId :: string
  vs_VServerName :: string

record ULBIPSet =
  uip_Bandwidth :: int
  uip_EIP :: string
  uip_EIPId :: string

record ULBSet =
  ui_Bandwidth :: int
  ui_Name :: string
  ui_ULBId :: string
  ui_ULBType :: string
  ui_VPCId :: string
  ui_IPSet :: "ULBIPSet list"
  ui_VServerSet :: "ULBVServerSet list"

record DescribeULBRequest = CommonRequest +
  dulb_VPCId :: string
  dulb_ULBId :: "string option"

record DeleteULBRequest = CommonRequest +
  delulb_ULBId :: string
  delulb_ReleaseEip :: bool

record CreateVServerRequest = CommonRequest +
  cvs_ULBId :: string
  cvs_Protocol :: string
  cvs_MonitorType :: string
  cvs_FrontendPort :: int
  cvs_ListenType :: string
  cvs_VServerName :: string

record DescribeVServerRequest = CommonRequest +
  dvs_ULBId :: string
  dvs_VServerId :: string

record AllocateBackendRequest = CommonRequest +
  ab_ULBId :: string
  ab_VServerId :: string
  ab_ResourceType :: string
  ab_ResourceId :: string
  ab_Port :: int

record ReleaseBackendRequest = CommonRequest +
  relb_ULBId :: string
  relb_BackendId :: string

subsection \<open>UHost instances\<close>

record UHostIPSet =
  hip_Default :: string
  hip_Type :: string
  hip_IP :: string

record UHostInstanceSet =
  uh_UHostId :: string
  uh_State :: string
  uh_Zone :: string
  uh_Name :: string
  uh_IPSet :: "UHostIPSet list"

record DescribeUHostInstanceRequest = CommonRequest +
  dh_Zone :: "string option"
  dh_UHostIds :: "string list"
  dh_Tag :: string
  dh_SubnetId :: "string option"

record UHostDisk =
  hd_Size :: int
  hd_Type :: string
  hd_IsBoot :: string
  hd_BackupType :: string

record NetworkInterfaceEIP =
  ne_Bandwidth :: int
  ne_OperatorName :: string
  ne_PayMode :: string

record CreateUHostInstanceRequest = CommonRequest +
  ch_Zone :: string
  ch_Tag :: string
  ch_Name :: string
  ch_ChargeType :: string
  ch_Quantity :: int
  ch_VPCId :: string
  ch_SubnetId :: string
  ch_ImageId :: string
  ch_CPU :: int
  ch_Memory :: int
  ch_Disks :: "UHostDisk list"
  ch_MachineType :: string
  ch_MinimalCpuPlatform :: string
  ch_NetworkInterface :: "NetworkInterfaceEIP list"
  ch_LoginMode :: string
  ch_Password :: string
  ch_UserData :: "string option"

record PoweroffUHostInstanceRequest = CommonRequest +
  ph_Zone :: string
  ph_UHostId :: string

record TerminateUHostInstanceRequest = CommonRequest +
  th_Zone :: string
  th_UHostId :: string
  th_ReleaseEIP :: bool
  th_ReleaseUDisk :: bool

section \<open>Requests and responses declared in the repository\<close>

text \<open>
  \<open>request.CommonBase\<close> and \<open>response.CommonBase\<close>, embedded in the request and response
  types of \<open>ugroup.go\<close>, \<open>uk8s.go\<close> and \<open>ulb.go\<close>. A pointer that is never set stays nil.
\<close>

record RequestBase =
  rb_Action :: string
  rb_RequestTime :: nat
  rb_Region :: "string option"
  rb_Zone :: "string option"
  rb_ProjectId :: "string option"

record ResponseBase =
  rs_RetCode :: int
  rs_Message :: string

record CreateULBRequestPlus = RequestBase +
  culb_BusinessId :: "string option"
  culb_ChargeType :: "string option"
  culb_FirewallId :: "string option"
  culb_InnerMode :: "string option"
  culb_OuterMode :: "string option"
  culb_Remark :: "string option"
  culb_SubnetId :: "string option"
  culb_Tag :: "string option"
  culb_ULBName :: "string option"
  culb_VPCId :: "string option"
  culb_ListenType :: "string option"

record CreateULBResponse = ResponseBase +
  culbr_ULBId :: string

type_synonym ListBusinessGroupRequest = RequestBase

record BusinessGroupInfo =
  bg_BusinessId :: string
  bg_BusinessName :: string

record ListBusinessGroupResponse = ResponseBase +
  lbg_Infos :: "BusinessGroupInfo list"

record DeleteBusinessGroupRequest = RequestBase +
  dbg_BusinessId :: "string option"

type_synonym DeleteBusinessGroupResponse = ResponseBase

record CreateBusinessGroupRequest = RequestBase +
  cbg_BusinessName :: "string option"

record CreateBusinessGroupResponse = ResponseBase +
  cbgr_BusinessId :: string
  cbgr_BusinessName :: string

record SearchBusinessGroupResourceRequest = RequestBase +
  sbg_BusinessId :: "string option"
  sbg_Limit :: "string option"
  sbg_Offset :: "string option"

record ResourceInfo =
  ri_Id :: string
  ri_ResourceId :: string
  ri_RegionId :: string
  ri_ZoneId :: string
  ri_ResourceType :: int
  ri_ResourceTypeName :: string

record SearchBusinessGroupResourceResponse = ResponseBase +
  sbgr_TotalCount :: int
  sbgr_Infos :: "ResourceInfo list"

record CreateCAPUClusterRequest = RequestBase +
  cc_VPCId :: "string option"
  cc_SubnetId :: "string option"
  cc_PodCIDR :: "string option"
  cc_NATGWId :: "string option"
  cc_ServiceCIDR :: "string option"
  cc_ClusterName :: "string option"
  cc_ULBId :: "string option"
  cc_FWId :: "string option"
  cc_NodeCIDR :: "string option"
  cc_K8SVersion :: "string option"
  cc_APIServer :: "string option"
  cc_BastionId :: "string option"
  cc_BastionZone :: "string option"

record CreateCAPUClusterResponse = ResponseBase +
  ccr_ClusterId :: string

record DeleteCAPUClusterRequest = RequestBase +
  dc_ClusterId :: "string option"

type_synonym DeleteCAPUClusterResponse = ResponseBase

record CreateCAPUHostRequest = RequestBase +
  chost_ClusterId :: "string option"
  chost_InstanceId :: "string option"
  chost_Type :: "string option"
  chost_Role :: "string option"

type_synonym CreateCAPUHostResponse = ResponseBase

record DeleteCAPUHostRequest = RequestBase +
  dhost_ClusterId :: "string option"
  dhost_InstanceId :: "string option"

type_synonym DeleteCAPUHostResponse = ResponseBase

section \<open>The parameters: clients, HTTP, Kubernetes and helper packages\<close>

text \<open>
  An answer to a call: the response, the error Go returns next to it, the return code of the
  response and the milliseconds the call took, the goroutine's waiting time included.
\<close>

record 'r reply =
  rp_body :: 'r
  rp_err :: "error option"
  rp_code :: int
  rp_took :: nat

type_synonym ('q, 'r, 'w) api = "'q \<Rightarrow> 'w \<Rightarrow> 'r reply \<times> 'w"

record 'w VPCClient =
  sdk_DescribeVPC :: "(DescribeVPCRequest, VPCInfo list, 'w) api"
  sdk_CreateVPC :: "(CreateVPCRequest, string, 'w) api"
  sdk_DeleteVPC :: "(DeleteVPCRequest, unit, 'w) api"
  sdk_DescribeSubnet :: "(DescribeSubnetRequest, VPCSubnetInfoSet list, 'w) api"
  sdk_CreateSubnet :: "(CreateSubnetRequest, string, 'w) api"
  sdk_DeleteSubnet :: "(DeleteSubnetRequest, unit, 'w) api"
  sdk_DescribeNATGW :: "(DescribeNATGWRequest, NatGatewayDataSet list, 'w) api"
  sdk_CreateNATGW :: "(CreateNATGWRequest, string, 'w) api"
  sdk_DeleteNATGW :: "(DeleteNATGWRequest, unit, 'w) api"

record 'w UNetClient =
  sdk_AllocateEIP :: "(AllocateEIPRequest, UnetAllocateEIPSet list, 'w) api"
  sdk_ReleaseEIP :: "(ReleaseEIPRequest, unit, 'w) api"
  sdk_BindEIP :: "(BindEIPRequest, unit, 'w) api"
  sdk_UnBindEIP :: "(UnBindEIPRequest, unit, 'w) api"
  sdk_DescribeFirewall :: "(DescribeFirewallRequest, FirewallDataSet list, 'w) api"

record 'w ULBClient =
  sdk_DescribeULB :: "(DescribeULBRequest, ULBSet list, 'w) api"
  sdk_DeleteULB :: "(DeleteULBRequest, unit, 'w) api"
  sdk_CreateVServer :: "(CreateVServerRequest, string, 'w) api"
  sdk_DescribeVServer :: "(DescribeVServerRequest, ULBVServerSet list, 'w) api"
  sdk_AllocateBackend :: "(AllocateBackendRequest, unit, 'w) api"
  sdk_ReleaseBackend :: "(ReleaseBackendRequest, unit, 'w) api"

record 'w UHostClient =
  sdk_DescribeUHostInstance :: "(DescribeUHostInstanceRequest, UHostInstanceSet list, 'w) api"
  sdk_CreateUHostInstance :: "(CreateUHostInstanceRequest, string list, 'w) api"
  sdk_PoweroffUHostInstance :: "(PoweroffUHostInstanceRequest, unit, 'w) api"
  sdk_TerminateUHostInstance :: "(TerminateUHostInstanceRequest, unit, 'w) api"

text \<open>
  \<open>doRequest\<close> works on the HTTP level. A codec gives the query map the SDK derives from a
  request and what \<open>json.Unmarshal\<close> makes of a body and the value it decodes into.
\<close>

type_synonym query = "(string \<times> string) list"

record HttpRequest =
  hr_URL :: string
  hr_Method :: string
  hr_Timeout :: nat
  hr_QueryString :: string
  hr_Headers :: "(string \<times> string) list"

record HttpResponse =
  hres_StatusCode :: int
  hres_Body :: string

record ('q, 'r) codec_of =
  cd_ToQueryMap :: "'q \<Rightarrow> error + query"
  cd_Unmarshal :: "string \<Rightarrow> 'r \<Rightarrow> error + 'r"

record Credential =
  cr_PublicKey :: string
  cr_PrivateKey :: string

record Config =
  cfg_BaseUrl :: string
  cfg_Timeout :: nat
  cfg_UserAgent :: string

record 'w Http =
  http_Send :: "(HttpRequest, HttpResponse option, 'w) api"
  http_BuildCredentialedQuery :: "Credential \<Rightarrow> query \<Rightarrow> string"
  http_PatchRetCode :: "string \<Rightarrow> string"
  http_IsNetworkError :: "error \<Rightarrow> bool"
  http_GoVersion :: string
  http_SdkVersion :: string
  cd_CreateULB :: "(CreateULBRequestPlus, CreateULBResponse) codec_of"
  cd_ListBusinessGroup :: "(ListBusinessGroupRequest, ListBusinessGroupResponse) codec_of"
  cd_CreateBusinessGroup :: "(CreateBusinessGroupRequest, CreateBusinessGroupResponse) codec_of"
  cd_DeleteBusinessGroup :: "(DeleteBusinessGroupRequest, DeleteBusinessGroupResponse) codec_of"
  cd_SearchBusinessGroupResource ::
    "(SearchBusinessGroupResourceRequest, SearchBusinessGroupResourceResponse) codec_of"
  cd_CreateCAPUCluster :: "(CreateCAPUClusterRequest, CreateCAPUClusterResponse) codec_of"
  cd_DeleteCAPUCluster :: "(DeleteCAPUClusterRequest, DeleteCAPUClusterResponse) codec_of"
  cd_CreateCAPUHost :: "(CreateCAPUHostRequest, CreateCAPUHostResponse) codec_of"
  cd_DeleteCAPUHost :: "(DeleteCAPUHostRequest, DeleteCAPUHostResponse) codec_of"

text \<open>The owner objects of the Cluster API, as far as the code reads them.\<close>

record ClusterNetwork =
  cn_APIServerPort :: "int option"
  cn_Services :: "string list option"
  cn_Pods :: "string list option"

record Cluster =
  cl_Name :: string
  cl_Namespace :: string
  cl_UID :: string
  cl_CreationTimestamp :: string
  cl_DeletionTimestamp :: "string option"
  cl_Paused :: bool
  cl_InfrastructureRef :: "string option"
  cl_ClusterNetwork :: "ClusterNetwork option"
  cl_InfrastructureReady :: bool

record Machine =
  ma_Name :: string
  ma_Namespace :: string
  ma_Labels :: "(string \<times> string) list"
  ma_FailureDomain :: "string option"
  ma_Version :: "string option"
  ma_DataSecretName :: "string option"
  ma_InfrastructureRef :: string

record 'w Kube =
  kube_PatchCluster :: "(UCloudCluster, unit, 'w) api"
  kube_PatchMachine :: "(UCloudMachine, unit, 'w) api"
  kube_GetUCloudCluster :: "(string \<times> string, UCloudCluster, 'w) api"
  kube_GetUCloudMachine :: "(string \<times> string, UCloudMachine, 'w) api"
  kube_GetSecret :: "(string \<times> string, (string \<times> string) list, 'w) api"
  kube_DeleteMachine :: "(string \<times> string, unit, 'w) api"
  kube_ListMachines :: "(string \<times> string, Machine list, 'w) api"
  kube_GetOwnerCluster :: "(ObjectMeta, Cluster option, 'w) api"
  kube_GetOwnerMachine :: "(ObjectMeta, Machine option, 'w) api"
  kube_GetClusterFromMetadata :: "(Machine, Cluster, 'w) api"

text \<open>
  Pure helpers of other packages. \<open>lib_RemoveFinalizer f fs\<close> gives the object's finalizers
  after the call and, if the helper works in place on the array of the old slice \<open>fs\<close>, what
  that slice shows afterwards; \<open>None\<close> says that the object has a new array.
\<close>

record 'w Lib =
  lib_NewSHA1 :: "string \<Rightarrow> string \<Rightarrow> string"
  lib_ParseProviderID :: "string \<Rightarrow> string option"
  lib_IsControlPlaneMachine :: "Machine \<Rightarrow> bool"
  lib_AddFinalizer :: "string \<Rightarrow> string list \<Rightarrow> string list"
  lib_RemoveFinalizer :: "string \<Rightarrow> string list \<Rightarrow> string list \<times> string list option"
  lib_EndpointString :: "APIEndpoint \<Rightarrow> string"
  lib_MarshalCredential :: "Credential \<Rightarrow> error + string"
  lib_IsPaused :: "bool \<Rightarrow> ObjectMeta \<Rightarrow> bool"
  lib_Random :: "'w \<Rightarrow> nat \<times> 'w"
  StateRunning :: string
  StateInitializing :: string
  StateStarting :: string
  StateStopped :: string
  UpdateMachineError :: string
  MachineExternalIP :: string
  MachineInternalIP :: string
  ClusterLabelName :: string

record 'w Service =
  vpcClient :: "'w VPCClient"
  unetClient :: "'w UNetClient"
  ulbClient :: "'w ULBClient"
  uhostClient :: "'w UHostClient"
  http :: "'w Http"
  kube :: "'w Kube"
  lib :: "'w Lib"
  sv_Config :: Config
  sv_Credential :: "Credential option"
  sv_Cluster :: Cluster
  sv_Machine :: Machine

section \<open>The state of a reconcile pass\<close>

text \<open>One constructor per remote call that is recorded, with the request it sends.\<close>

datatype call =
    CallDescribeVPC DescribeVPCRequest
  | CallCreateVPC CreateVPCRequest
  | CallDeleteVPC DeleteVPCRequest
  | CallDescribeSubnet DescribeSubnetRequest
  | CallCreateSubnet CreateSubnetRequest
  | CallDeleteSubnet DeleteSubnetRequest
  | CallDescribeNATGW DescribeNATGWRequest
  | CallCreateNATGW CreateNATGWRequest
  | CallDeleteNATGW DeleteNATGWRequest
  | CallAllocateEIP AllocateEIPRequest
  | CallReleaseEIP ReleaseEIPRequest
  | CallBindEIP BindEIPRequest
  | CallUnBindEIP UnBindEIPRequest
  | CallDescribeFirewall DescribeFirewallRequest
  | CallDescribeULB DescribeULBRequest
  | CallDeleteULB DeleteULBRequest
  | CallCreateVServer CreateVServerRequest
  | CallDescribeVServer DescribeVServerRequest
  | CallAllocateBackend AllocateBackendRequest
  | CallReleaseBackend ReleaseBackendRequest
  | CallDescribeUHostInstance DescribeUHostInstanceRequest
  | CallCreateUHostInstance CreateUHostInstanceRequest
  | CallPoweroffUHostInstance PoweroffUHostInstanceRequest
  | CallTerminateUHostInstance TerminateUHostInstanceRequest
  | CallCreateULB CreateULBRequestPlus
  | CallListBusinessGroup ListBusinessGroupRequest
  | CallCreateBusinessGroup CreateBusinessGroupRequest
  | CallDeleteBusinessGroup DeleteBusinessGroupRequest
  | CallSearchBusinessGroupResource SearchBusinessGroupResourceRequest
  | CallCreateCAPUCluster CreateCAPUClusterRequest
  | CallDeleteCAPUCluster DeleteCAPUClusterRequest
  | CallCreateCAPUHost CreateCAPUHostRequest
  | CallDeleteCAPUHost DeleteCAPUHostRequest
  | CallPatchCluster UCloudCluster
  | CallPatchMachine UCloudMachine
  | CallDeleteMachine string string
  | CallGetMachine string string
  | CallGetSecret string string
  | CallEvent string

text \<open>
  The world behind the clients, the clock in milliseconds, the requests sent so far, and the
  two objects a pass works on. The cluster scope and the machine scope hold the same
  \<open>UCloudCluster\<close> pointer, so there is one \<open>ucluster\<close>.
\<close>

record 'w st =
  world :: 'w
  clock :: nat
  calls :: "call list"
  ucluster :: UCloudCluster
  umachine :: UCloudMachine

definition sent :: "call \<Rightarrow> nat \<Rightarrow> 'w \<Rightarrow> 'w st \<Rightarrow> 'w st" where
  "sent c took w s = s\<lparr>world := w, clock := clock s + took, calls := calls s @ [c]\<rparr>"

text \<open>One remote call: the request is recorded, the world and the clock move on.\<close>

definition invoke :: "('q, 'r, 'w) api \<Rightarrow> ('q \<Rightarrow> call) \<Rightarrow> 'q \<Rightarrow> ('w st, 'r reply) prog" where
  "invoke f c q s = (case f q (world s) of (r, w) \<Rightarrow> (Ok r, sent (c q) (rp_took r) w s))"

text \<open>A read of the Kubernetes cache, which is not recorded.\<close>

definition peek :: "('q, 'r, 'w) api \<Rightarrow> 'q \<Rightarrow> ('w st, 'r reply) prog" where
  "peek f q s = (case f q (world s) of (r, w) \<Rightarrow>
      (Ok r, s\<lparr>world := w, clock := clock s + rp_took r\<rparr>))"

text \<open>\<open>record.Eventf\<close> and \<open>record.Warnf\<close>, by the reason they are given.\<close>

definition emit_event :: "string \<Rightarrow> ('w st, unit) prog" where
  "emit_event reason = modify (\<lambda>s. s\<lparr>calls := calls s @ [CallEvent reason]\<rparr>)"

text \<open>\<open>rand.Intn(n)\<close>: some value below \<open>n\<close>, a panic for \<open>n = 0\<close>.\<close>

definition rand_Intn :: "'w Service \<Rightarrow> nat \<Rightarrow> ('w st, nat) prog" where
  "rand_Intn S n s =
     (if n = 0 then (Panic ''invalid argument to Intn'', s)
      else (case lib_Random (lib S) (world s) of (k, w) \<Rightarrow> (Ok (k mod n), s\<lparr>world := w\<rparr>)))"

definition upd_status :: "(UCloudClusterStatus \<Rightarrow> UCloudClusterStatus) \<Rightarrow> 'w st \<Rightarrow> 'w st" where
  "upd_status f = ucluster_update (uc_Status_update f)"

definition upd_network :: "(Network \<Rightarrow> Network) \<Rightarrow> 'w st \<Rightarrow> 'w st" where
  "upd_network f = upd_status (cst_Network_update f)"

subsection \<open>Running remote calls\<close>

lemma sent_simps [simp]:
  "world (sent c d w s) = w"
  "clock (sent c d w s) = clock s + d"
  "calls (sent c d w s) = calls s @ [c]"
  "ucluster (sent c d w s) = ucluster s"
  "umachine (sent c d w s) = umachine s"
  by (simp_all add: sent_def)

lemma invoke_run [prog_simps]:
  "invoke f c q s = (Ok (fst (f q (world s))), sent (c q) (rp_took (fst (f q (world s)))) (snd (f q (world s))) s)"
  by (simp add: invoke_def split: prod.split)

lemma bind_invoke [prog_simps]:
  "bind (invoke f c q) k s = k (fst (f q (world s)))
      (sent (c q) (rp_took (fst (f q (world s)))) (snd (f q (world s))) s)"
  by (simp add: bind_def prog_simps)

lemma bind_emit [prog_simps]:
  "bind (emit_event e) k s = k () (s\<lparr>calls := calls s @ [CallEvent e]\<rparr>)"
  by (simp add: emit_event_def prog_simps)

lemma emit_run [prog_simps]: "emit_event e s = (Ok (), s\<lparr>calls := calls s @ [CallEvent e]\<rparr>)"
  by (simp add: emit_event_def prog_simps)

lemma upd_status_simps [simp]:
  "world (upd_status f s) = world s" "clock (upd_status f s) = clock s"
  "calls (upd_status f s) = calls s" "umachine (upd_status f s) = umachine s"
  "ucluster (upd_status f s) = uc_Status_update f (ucluster s)"
  by (simp_all add: upd_status_def)

lemma upd_network_simps [simp]:
  "world (upd_network f s) = world s" "clock (upd_network f s) = clock s"
  "calls (upd_network f s) = calls s" "umachine (upd_network f s) = umachine s"
  "ucluster (upd_network f s) = uc_Status_update (cst_Network_update f) (ucluster s)"
  by (simp_all add: upd_network_def)

subsection \<open>Frames over the recorded requests\<close>

text \<open>
  \<open>emits A key s t\<close>: from \<open>s\<close> to \<open>t\<close> the projection \<open>key\<close> of the state is not written and
  every request recorded on the way is one that \<open>A\<close> allows for that key.
\<close>

definition emits :: "('k \<Rightarrow> call \<Rightarrow> bool) \<Rightarrow> ('w st \<Rightarrow> 'k) \<Rightarrow> 'w st \<Rightarrow> 'w st \<Rightarrow> bool" where
  "emits A key s t \<longleftrightarrow> key t = key s \<and> (\<exists>cs. calls t = calls s @ cs \<and> list_all (A (key s)) cs)"

interpretation emits: frame "emits A key" for A key
proof unfold_locales
  fix s :: "'b st"
  show "emits A key s s" by (simp add: emits_def)
next
  fix s t u :: "'b st"
  assume "emits A key s t" and "emits A key t u"
  then show "emits A key s u" by (auto simp: emits_def)
qed

lemma emitsI: "key t = key s \<Longrightarrow> calls t = calls s @ cs \<Longrightarrow> list_all (A (key s)) cs \<Longrightarrow> emits A key s t"
  by (auto simp: emits_def)

lemma emitsE:
  assumes "emits A key s t"
  obtains cs where "calls t = calls s @ cs" and "list_all (A (key s)) cs" and "key t = key s"
  using assms by (auto simp: emits_def)

lemma emits_mono:
  "emits A key s t \<Longrightarrow> (\<And>c. A (key s) c \<Longrightarrow> B (key s) c) \<Longrightarrow> emits B key s t"
  by (auto simp: emits_def list_all_iff)

end
