(* ===== verification/Scopes.thy ===== *)
theory Scopes
  imports Cloud
begin

text \<open>
  \<open>cloud/scope\<close>: the cluster scope and the machine scope. A scope's pointers to the objects
  of the pass are the fields \<open>ucluster\<close> and \<open>umachine\<close> of the state and the owner objects
  \<open>sv_Cluster\<close> and \<open>sv_Machine\<close>; accessors are functions of the object they read, setters
  are updates of it. Loggers are left out.
\<close>

section \<open>Clients\<close>

record UCloudClients =
  ucl_Config :: "Config option"
  ucl_Credential :: "Credential option"

text \<open>\<open>ucloud.NewConfig\<close> and \<open>os.Getenv\<close> are the two parameters.\<close>

definition loadDefaultConfig :: "Config \<Rightarrow> UCloudClients \<Rightarrow> UCloudClients" where
  "loadDefaultConfig newConfig c = c\<lparr>ucl_Config := Some newConfig\<rparr>"

definition getCredentialFromEnv :: "(string \<Rightarrow> string) \<Rightarrow> UCloudClients \<Rightarrow> UCloudClients" where
  "getCredentialFromEnv getenv c = c\<lparr>ucl_Credential := Some
      \<lparr>cr_PublicKey = getenv ''UCLOUD_ACCESS_PUBKEY'', cr_PrivateKey = getenv ''UCLOUD_ACCESS_PRIKEY''\<rparr>\<rparr>"

section \<open>Cluster scope\<close>

record ClusterScopeParams =
  csp_Clients :: UCloudClients
  csp_Cluster :: "Cluster option"
  csp_UCloudCluster :: "UCloudCluster option"

record ClusterScope =
  csc_Clients :: UCloudClients
  csc_Cluster :: Cluster
  csc_UCloudCluster :: UCloudCluster

text \<open>\<open>newHelper\<close> stands for \<open>patch.NewHelper\<close>, which may fail.\<close>

definition NewClusterScope ::
  "Config \<Rightarrow> (string \<Rightarrow> string) \<Rightarrow> (UCloudCluster \<Rightarrow> error option) \<Rightarrow> ClusterScopeParams
    \<Rightarrow> error + ClusterScope" where
  "NewClusterScope newConfig getenv newHelper params =
     (case csp_Cluster params of
        None \<Rightarrow> Inl (Errorf ''failed to generate new scope from nil Cluster'' [])
      | Some cluster \<Rightarrow>
     (case csp_UCloudCluster params of
        None \<Rightarrow> Inl (Errorf ''failed to generate new scope from nil UCloudCluster'' [])
      | Some ucloudCluster \<Rightarrow>
     (let clients = csp_Clients params;
          clients = (if ucl_Config clients = None then loadDefaultConfig newConfig clients else clients);
          clients = (if ucl_Credential clients = None then getCredentialFromEnv getenv clients else clients)
      in case newHelper ucloudCluster of
           Some e \<Rightarrow> Inl (Wrapf e ''failed to init patch helper'' [])
         | None \<Rightarrow> Inr \<lparr>csc_Clients = clients, csc_Cluster = cluster,
                         csc_UCloudCluster = ucloudCluster\<rparr>)))"

definition ProjectId :: "UCloudCluster \<Rightarrow> string" where
  "ProjectId c = cs_ProjectId (uc_Spec c)"

definition VPCName :: "UCloudCluster \<Rightarrow> string" where
  "VPCName c =
     (if vpcs_VpcName (nws_VPC (cs_Network (uc_Spec c))) \<noteq> ''''
      then vpcs_VpcName (nws_VPC (cs_Network (uc_Spec c))) else ''default'')"

definition network :: "UCloudCluster \<Rightarrow> Network" where
  "network c = cst_Network (uc_Status c)"

definition GroupName :: "UCloudCluster \<Rightarrow> string" where
  "GroupName c = grp_GroupName (cst_Group (uc_Status c))"

definition scope_Subnet :: "UCloudCluster \<Rightarrow> SubnetSpec" where
  "scope_Subnet c = nws_Subnet (cs_Network (uc_Spec c))"

definition scope_Name :: "'w Service \<Rightarrow> string" where
  "scope_Name S = cl_Name (sv_Cluster S)"

definition scope_Namespace :: "'w Service \<Rightarrow> string" where
  "scope_Namespace S = cl_Namespace (sv_Cluster S)"

definition Region :: "UCloudCluster \<Rightarrow> string" where
  "Region c = cs_Region (uc_Spec c)"

definition LoadBalancerFrontendPort :: "'w Service \<Rightarrow> ('s, int) prog" where
  "LoadBalancerFrontendPort S = bind (deref (cl_ClusterNetwork (sv_Cluster S))) (\<lambda>cn.
     (case cn_APIServerPort cn of Some p \<Rightarrow> ret p | None \<Rightarrow> ret 6443))"

definition LoadBalancerBackendPort :: int where
  "LoadBalancerBackendPort = 6443"

definition ControlPlaneConfigMapName :: "'w Service \<Rightarrow> string" where
  "ControlPlaneConfigMapName S = cl_UID (sv_Cluster S) @ ''-controlplane''"

definition ListOptionsLabelSelector :: "'w Service \<Rightarrow> (string \<times> string) list" where
  "ListOptionsLabelSelector S = [(ClusterLabelName (lib S), cl_Name (sv_Cluster S))]"

definition PatchObject :: "'w Service \<Rightarrow> ('w st, unit) prog" where
  "PatchObject S =
     bind (gets ucluster) (\<lambda>c.
     bind (invoke (kube_PatchCluster (kube S)) CallPatchCluster c) (\<lambda>r.
     if_err (rp_err r) id (ret ())))"

definition Close :: "'w Service \<Rightarrow> ('w st, unit) prog" where
  "Close S = PatchObject S"

section \<open>Machine scope\<close>

record MachineScopeParams =
  msp_Client :: bool
  msp_Cluster :: "Cluster option"
  msp_Machine :: "Machine option"
  msp_UCloudCluster :: "UCloudCluster option"
  msp_UCloudMachine :: "UCloudMachine option"

record MachineScope =
  msc_Cluster :: Cluster
  msc_Machine :: Machine
  msc_UCloudCluster :: UCloudCluster
  msc_UCloudMachine :: UCloudMachine

text \<open>\<open>msp_Client\<close> says whether the client is set; \<open>newHelper\<close> is \<open>patch.NewHelper\<close>.\<close>

definition NewMachineScope ::
  "(UCloudMachine \<Rightarrow> error option) \<Rightarrow> MachineScopeParams \<Rightarrow> error + MachineScope" where
  "NewMachineScope newHelper params =
     (if \<not> msp_Client params
      then Inl (Errorf ''client is required when creating a MachineScope'' [])
      else case msp_Machine params of
        None \<Rightarrow> Inl (Errorf ''machine is required when creating a MachineScope'' [])
      | Some machine \<Rightarrow> (case msp_Cluster params of
        None \<Rightarrow> Inl (Errorf ''cluster is required when creating a MachineScope'' [])
      | Some cluster \<Rightarrow> (case msp_UCloudCluster params of
        None \<Rightarrow> Inl (Errorf ''ucloud cluster is required when creating a MachineScope'' [])
      | Some ucloudCluster \<Rightarrow> (case msp_UCloudMachine params of
        None \<Rightarrow> Inl (Errorf ''ucloud machine is required when creating a MachineScope'' [])
      | Some ucloudMachine \<Rightarrow> (case newHelper ucloudMachine of
        Some e \<Rightarrow> Inl (Wrapf e ''failed to init patch helper'' [])
      | None \<Rightarrow> Inr \<lparr>msc_Cluster = cluster, msc_Machine = machine,
                      msc_UCloudCluster = ucloudCluster, msc_UCloudMachine = ucloudMachine\<rparr>)))))"

text \<open>\<open>m.UCloudCluster.Spec.Region\<close>: both scopes share the cluster.\<close>

definition machine_Region :: "UCloudCluster \<Rightarrow> string" where
  "machine_Region c = cs_Region (uc_Spec c)"

definition Zone :: "'w Service \<Rightarrow> UCloudMachine \<Rightarrow> string" where
  "Zone S m = (case ma_FailureDomain (sv_Machine S) of
      None \<Rightarrow> mst_Zone (um_Status m)
    | Some z \<Rightarrow> z)"

definition machine_Name :: "UCloudMachine \<Rightarrow> string" where
  "machine_Name m = om_Name (um_Meta m)"

definition machine_Namespace :: "UCloudMachine \<Rightarrow> string" where
  "machine_Namespace m = om_Namespace (um_Meta m)"

definition IsControlPlane :: "'w Service \<Rightarrow> bool" where
  "IsControlPlane S \<longleftrightarrow> lib_IsControlPlaneMachine (lib S) (sv_Machine S)"

definition Role :: "'w Service \<Rightarrow> string" where
  "Role S = (if lib_IsControlPlaneMachine (lib S) (sv_Machine S) then ''control-plane'' else ''node'')"

definition GetProviderID :: "UCloudMachine \<Rightarrow> string" where
  "GetProviderID m = (case ms_ProviderID (um_Spec m) of Some p \<Rightarrow> p | None \<Rightarrow> '''')"

definition GetInstanceID :: "'w Service \<Rightarrow> UCloudMachine \<Rightarrow> string option" where
  "GetInstanceID S m = lib_ParseProviderID (lib S) (GetProviderID m)"

definition SetProviderID :: "string \<Rightarrow> UCloudMachine \<Rightarrow> UCloudMachine" where
  "SetProviderID v = um_Spec_update (ms_ProviderID_update (\<lambda>_. Some v))"

definition GetInstanceStatus :: "UCloudMachine \<Rightarrow> string" where
  "GetInstanceStatus m = mst_InstanceStatus (um_Status m)"

definition SetInstanceStatus :: "string \<Rightarrow> UCloudMachine \<Rightarrow> UCloudMachine" where
  "SetInstanceStatus v = um_Status_update (mst_InstanceStatus_update (\<lambda>_. v))"

definition SetReady :: "UCloudMachine \<Rightarrow> UCloudMachine" where
  "SetReady = um_Status_update (mst_Ready_update (\<lambda>_. True))"

definition SetNotReady :: "UCloudMachine \<Rightarrow> UCloudMachine" where
  "SetNotReady = um_Status_update (mst_Ready_update (\<lambda>_. False))"

definition SetZone :: "string \<Rightarrow> UCloudMachine \<Rightarrow> UCloudMachine" where
  "SetZone v = um_Status_update (mst_Zone_update (\<lambda>_. v))"

definition GetZone :: "UCloudMachine \<Rightarrow> string" where
  "GetZone m = mst_Zone (um_Status m)"

definition SetFailureMessage :: "error \<Rightarrow> UCloudMachine \<Rightarrow> UCloudMachine" where
  "SetFailureMessage v = um_Status_update (mst_FailureMessage_update (\<lambda>_. Some v))"

definition SetFailureReason :: "string \<Rightarrow> UCloudMachine \<Rightarrow> UCloudMachine" where
  "SetFailureReason v = um_Status_update (mst_FailureReason_update (\<lambda>_. Some v))"

definition SetAnnotation :: "string \<Rightarrow> string \<Rightarrow> UCloudMachine \<Rightarrow> UCloudMachine" where
  "SetAnnotation key value = um_Meta_update (om_Annotations_update (\<lambda>a.
     (case a of None \<Rightarrow> Some [key \<mapsto> value] | Some m \<Rightarrow> Some (m(key \<mapsto> value)))))"

definition SetAddresses :: "MachineAddress list \<Rightarrow> UCloudMachine \<Rightarrow> UCloudMachine" where
  "SetAddresses addressList = um_Status_update (mst_Addresses_update (\<lambda>_. addressList))"

lemmas machine_setters =
  SetProviderID_def SetInstanceStatus_def SetReady_def SetNotReady_def SetZone_def
  SetFailureMessage_def SetFailureReason_def SetAnnotation_def SetAddresses_def

definition GetBootstrapData :: "'w Service \<Rightarrow> ('w st, string) prog" where
  "GetBootstrapData S =
     (case ma_DataSecretName (sv_Machine S) of
        None \<Rightarrow> raise (Errorf ''error retrieving bootstrap data: linked Machine's bootstrap.dataSecretName is nil'' [])
      | Some secretName \<Rightarrow>
     bind (gets umachine) (\<lambda>m.
     bind (invoke (kube_GetSecret (kube S)) (\<lambda>(ns, n). CallGetSecret ns n)
             (machine_Namespace m, secretName)) (\<lambda>r.
     if_err (rp_err r)
       (\<lambda>e. Wrapf e ''failed to retrieve bootstrap data secret for UCloudMachine %s/%s''
               [machine_Namespace m, machine_Name m])
     (case map_of (rp_body r) ''value'' of
        None \<Rightarrow> raise (Errorf ''error retrieving bootstrap data: secret value key is missing'' [])
      | Some value \<Rightarrow> ret value))))"

definition machine_PatchObject :: "'w Service \<Rightarrow> ('w st, unit) prog" where
  "machine_PatchObject S =
     bind (gets umachine) (\<lambda>m.
     bind (invoke (kube_PatchMachine (kube S)) CallPatchMachine m) (\<lambda>r.
     if_err (rp_err r) id (ret ())))"

definition machine_Close :: "'w Service \<Rightarrow> ('w st, unit) prog" where
  "machine_Close S = machine_PatchObject S"

section \<open>Getters\<close>

text \<open>\<open>getters.go\<close>: an interface with one method is a record with that method, and a function is an
  instance of it.\<close>

record ClusterScopeGetter =
  csg_ClusterScope :: "ClusterScopeParams \<Rightarrow> error + ClusterScope"

definition ClusterScopeGetterFunc :: "(ClusterScopeParams \<Rightarrow> error + ClusterScope) \<Rightarrow> ClusterScopeGetter" where
  "ClusterScopeGetterFunc f = \<lparr>csg_ClusterScope = (\<lambda>params. f params)\<rparr>"

record MachineScopeGetter =
  msg_MachineScope :: "MachineScopeParams \<Rightarrow> error + MachineScope"

definition MachineScopeGetterFunc :: "(MachineScopeParams \<Rightarrow> error + MachineScope) \<Rightarrow> MachineScopeGetter" where
  "MachineScopeGetterFunc f = \<lparr>msg_MachineScope = (\<lambda>params. f params)\<rparr>"

section \<open>Facts\<close>

lemma NewClusterScope_clients:
  assumes "NewClusterScope newConfig getenv newHelper params = Inr sc"
  shows "ucl_Config (csc_Clients sc) \<noteq> None" and "ucl_Credential (csc_Clients sc) \<noteq> None"
  using assms
  by (auto simp: NewClusterScope_def Let_def loadDefaultConfig_def getCredentialFromEnv_def
      split: option.splits if_splits)

lemma PatchObject_run: "PatchObject S s =
   (let r = fst (kube_PatchCluster (kube S) (ucluster s) (world s));
        w = snd (kube_PatchCluster (kube S) (ucluster s) (world s))
    in ((case rp_err r of Some e \<Rightarrow> Err e | None \<Rightarrow> Ok ()), sent (CallPatchCluster (ucluster s)) (rp_took r) w s))"
  by (simp add: PatchObject_def prog_simps if_err_run Let_def split: option.split)

lemma machine_PatchObject_run: "machine_PatchObject S s =
   (let r = fst (kube_PatchMachine (kube S) (umachine s) (world s));
        w = snd (kube_PatchMachine (kube S) (umachine s) (world s))
    in ((case rp_err r of Some e \<Rightarrow> Err e | None \<Rightarrow> Ok ()), sent (CallPatchMachine (umachine s)) (rp_took r) w s))"
  by (simp add: machine_PatchObject_def prog_simps if_err_run Let_def split: option.split)

end
