(* ===== verification/Http_Service.thy ===== *)
theory Http_Service
  imports Scopes "HOL-Library.Word"
begin

text \<open>
  \<open>cloud/services/general.go\<close>: the zone lookup, the HTTP request path \<open>doRequest\<close> that the
  actions missing from the SDK go through, its response handlers, and the retry delay.
  Logging is left out: the log handlers return what they are given.
\<close>

section \<open>Zones\<close>

definition GetZones :: "UCloudCluster \<Rightarrow> error + string list" where
  "GetZones c = (case map_of RegionZoneMap (Region c) of
      None \<Rightarrow> Inl (Errorf ''can not find region %q'' [Region c])
    | Some zones \<Rightarrow> Inr zones)"

section \<open>Requests\<close>

definition buildHTTPRequest :: "'w Service \<Rightarrow> ('q, 'r) codec_of \<Rightarrow> 'q \<Rightarrow> error + HttpRequest" where
  "buildHTTPRequest S cd req =
     (case cd_ToQueryMap cd req of
        Inl err \<Rightarrow> Inl (ErrorfErr ''convert request to map failed, %s'' [] err)
      | Inr query \<Rightarrow>
     (case sv_Credential S of
        None \<Rightarrow> Inl (Errorf ''invalid credential information, please set it before request.'' [])
      | Some credential \<Rightarrow>
          let ua = ''GO/'' @ http_GoVersion (http S) @ '' GO-SDK/'' @ http_SdkVersion (http S)
                   @ '' '' @ cfg_UserAgent (sv_Config S)
          in Inr \<lparr>hr_URL = cfg_BaseUrl (sv_Config S), hr_Method = ''POST'',
                   hr_Timeout = cfg_Timeout (sv_Config S),
                   hr_QueryString = http_BuildCredentialedQuery (http S) credential query,
                   hr_Headers = [(''User-Agent'', TrimSpace ua)]\<rparr>))"

text \<open>
  \<open>getExpBackoffDelay\<close> on a 64-bit \<open>int\<close>, \<open>r\<close> being the value of \<open>rand.Intn(100)\<close>. The
  comparison is signed, the conversion \<open>uint(retryCount)\<close> is not, and a shift by 64 or more
  gives 0. The result is a number of nanoseconds.
\<close>

definition getExpBackoffDelay :: "nat \<Rightarrow> 64 word \<Rightarrow> 64 word" where
  "getExpBackoffDelay r retryCount =
     (let minTime = 100;
          retryCount = (if sint retryCount > 7 then 7 else retryCount);
          sh = unat (retryCount * 2);
          delay = (if sh < 64 then push_bit sh 1 else 0) * (of_nat r + minTime)
      in delay * 1000000)"

section \<open>Response handlers\<close>

text \<open>Whether an error is one of the SDK's own: the type test of \<open>errorHandler\<close>.\<close>

fun is_uerr :: "error \<Rightarrow> bool" where
  "is_uerr (ServerCodeError c m) = True"
| "is_uerr (ServerStatusError c m) = True"
| "is_uerr (ClientError n e) = True"
| "is_uerr _ = False"

definition errorHandler ::
  "'w Service \<Rightarrow> 'a ResponseBase_scheme \<Rightarrow> error option \<Rightarrow> 'a ResponseBase_scheme \<times> error option" where
  "errorHandler S resp err = (case err of
      Some e \<Rightarrow>
        if is_uerr e then (resp, err)
        else if http_IsNetworkError (http S) e then (resp, Some (ClientError ''ErrNetwork'' e))
        else (resp, Some (ClientError ''ErrSendRequest'' e))
    | None \<Rightarrow>
        if rs_RetCode resp \<noteq> 0 then (resp, Some (ServerCodeError (rs_RetCode resp) (rs_Message resp)))
        else (resp, err))"

fun errorHTTPHandler ::
  "HttpResponse option \<Rightarrow> error option \<Rightarrow> HttpResponse option \<times> error option" where
  "errorHTTPHandler resp None = (resp, None)"
| "errorHTTPHandler resp (Some (StatusError code msg)) = (resp, Some (ServerStatusError code msg))"
| "errorHTTPHandler resp (Some e) = (resp, Some e)"

definition logHandler :: "'r \<Rightarrow> error option \<Rightarrow> 'r \<times> error option" where
  "logHandler resp err = (resp, err)"

definition logDebugHTTPHandler ::
  "HttpResponse option \<Rightarrow> error option \<Rightarrow> HttpResponse option \<times> error option" where
  "logDebugHTTPHandler resp err = (resp, err)"

definition run_handlers :: "('x \<Rightarrow> error option \<Rightarrow> 'x \<times> error option) list
    \<Rightarrow> 'x \<times> error option \<Rightarrow> 'x \<times> error option" where
  "run_handlers hs = fold (\<lambda>h (x, e). h x e) hs"

definition defaultHttpResponseHandlers where
  "defaultHttpResponseHandlers = [errorHTTPHandler, logDebugHTTPHandler]"

definition defaultResponseHandlers where
  "defaultResponseHandlers S = [errorHandler S, logHandler]"

text \<open>
  \<open>doRequest(req, res)\<close>: \<open>res\<close> is the value the body is decoded into, and the program
  returns what it holds at the end. A body that does not parse is returned as it is, past the
  response handlers.
\<close>

definition doRequest ::
  "'w Service \<Rightarrow> ('q, 'a ResponseBase_scheme) codec_of \<Rightarrow> ('q \<Rightarrow> call) \<Rightarrow> 'q
    \<Rightarrow> 'a ResponseBase_scheme \<Rightarrow> ('w st, 'a ResponseBase_scheme) prog" where
  "doRequest S cd tag req res =
     (case buildHTTPRequest S cd req of
        Inl err \<Rightarrow> raise (ClientError ''ErrInvalidRequest'' err)
      | Inr httpReq \<Rightarrow>
     bind (invoke (http_Send (http S)) (\<lambda>_. tag req) httpReq) (\<lambda>r.
     let (httpResp, err) = run_handlers defaultHttpResponseHandlers (rp_body r, rp_err r) in
     bind (case err of
             None \<Rightarrow> bind (deref httpResp) (\<lambda>hr.
               (case cd_Unmarshal cd (http_PatchRetCode (http S) (hres_Body hr)) res of
                  Inl e \<Rightarrow> raise e
                | Inr res' \<Rightarrow> ret (run_handlers (defaultResponseHandlers S) (res', None))))
           | Some e \<Rightarrow> ret (run_handlers (defaultResponseHandlers S) (res, Some e)))
     (\<lambda>(res', err'). if_err err' id (ret res'))))"

section \<open>Facts\<close>

lemma run_http_handlers:
  "run_handlers defaultHttpResponseHandlers (x, e) = errorHTTPHandler x e"
  by (simp add: run_handlers_def defaultHttpResponseHandlers_def logDebugHTTPHandler_def split: prod.split)

lemma run_response_handlers:
  "run_handlers (defaultResponseHandlers S) (x, e) = errorHandler S x e"
  by (simp add: run_handlers_def defaultResponseHandlers_def logHandler_def split: prod.split)

lemma errorHTTPHandler_fst: "fst (errorHTTPHandler x e) = x"
  by (cases "(x, e)" rule: errorHTTPHandler.cases) simp_all

lemma errorHTTPHandler_None: "snd (errorHTTPHandler x e) = None \<longleftrightarrow> e = None"
  by (cases "(x, e)" rule: errorHTTPHandler.cases) simp_all

lemma errorHandler_Some: "\<exists>e'. errorHandler S x (Some e) = (x, Some e') \<and> is_uerr e'"
  by (simp add: errorHandler_def)

lemma errorHandler_None:
  "errorHandler S x None = (if rs_RetCode x \<noteq> 0
     then (x, Some (ServerCodeError (rs_RetCode x) (rs_Message x))) else (x, None))"
  by (simp add: errorHandler_def)

text \<open>The three ways \<open>doRequest\<close> ends, as one equation on the reply of the HTTP client.\<close>

definition http_outcome ::
  "'w Service \<Rightarrow> ('q, 'a ResponseBase_scheme) codec_of \<Rightarrow> 'a ResponseBase_scheme
    \<Rightarrow> HttpResponse option reply \<Rightarrow> 'a ResponseBase_scheme result" where
  "http_outcome S cd res r =
     (case rp_err r of
        Some e \<Rightarrow> Err (the (snd (errorHandler S res (snd (errorHTTPHandler (rp_body r) (Some e))))))
      | None \<Rightarrow> (case rp_body r of
          None \<Rightarrow> Panic ''nil pointer dereference''
        | Some hr \<Rightarrow> (case cd_Unmarshal cd (http_PatchRetCode (http S) (hres_Body hr)) res of
            Inl e \<Rightarrow> Err e
          | Inr res' \<Rightarrow> if rs_RetCode res' = 0 then Ok res'
                       else Err (ServerCodeError (rs_RetCode res') (rs_Message res')))))"

lemma doRequest_run:
  "doRequest S cd tag req res s =
     (case buildHTTPRequest S cd req of
        Inl e \<Rightarrow> (Err (ClientError ''ErrInvalidRequest'' e), s)
      | Inr h \<Rightarrow> let r = fst (http_Send (http S) h (world s)); w = snd (http_Send (http S) h (world s))
                in (http_outcome S cd res r, sent (tag req) (rp_took r) w s))"
proof (cases "buildHTTPRequest S cd req")
  case (Inl e)
  then show ?thesis by (simp add: doRequest_def prog_simps)
next
  case (Inr h)
  define r where "r = fst (http_Send (http S) h (world s))"
  define t where "t = sent (tag req) (rp_took r) (snd (http_Send (http S) h (world s))) s"
  show ?thesis
  proof (cases "rp_err r")
    case None
    then show ?thesis
      by (simp add: doRequest_def prog_simps Inr run_http_handlers run_response_handlers Let_def
          http_outcome_def bind_def deref_run errorHandler_None if_err_run
          flip: r_def t_def split: option.split sum.split)
  next
    case (Some e)
    obtain e1 where e1: "errorHTTPHandler (rp_body r) (Some e) = (rp_body r, Some e1)"
      using errorHTTPHandler_fst errorHTTPHandler_None
      by (metis option.distinct(1) option.exhaust prod.collapse)
    obtain e2 where e2: "errorHandler S res (Some e1) = (res, Some e2)"
      using errorHandler_Some by blast
    show ?thesis
      by (simp add: doRequest_def prog_simps Inr run_http_handlers run_response_handlers Let_def
          http_outcome_def Some e1 e2 flip: r_def t_def)
  qed
qed

lemma bind_doRequest:
  "bind (doRequest S cd tag req res) k s = (case doRequest S cd tag req res s of
      (Ok a, s') \<Rightarrow> k a s' | (Err e, s') \<Rightarrow> (Err e, s') | (Panic p, s') \<Rightarrow> (Panic p, s'))"
  by (simp add: bind_def)

lemma doRequest_OkE:
  assumes "doRequest S cd tag req res s = (Ok res', t)"
  shows "rs_RetCode res' = 0" and "\<exists>d w. t = sent (tag req) d w s"
  using assms
  by (auto simp: doRequest_run http_outcome_def Let_def split: sum.splits option.splits if_splits)

text \<open>A request is sent at most once, and nothing else of the state changes.\<close>

lemma doRequest_sent:
  assumes "doRequest S cd tag req res s = (r, t)"
  shows "t = s \<or> (\<exists>d w. t = sent (tag req) d w s)"
  using assms by (auto simp: doRequest_run Let_def split: sum.splits)


end
