(* ===== verification/Contracts.thy ===== *)
theory Contracts
  imports Http_Service
begin

text \<open>
  The interfaces between the cluster controller and the services it calls, as locales.
  A provisioning step finds or creates one resource and records its identifier in the status;
  a deletion step removes one resource the provider owns. Each service theory interprets these
  locales on its own operations, and the controller's proofs use only the derived facts.
\<close>

text \<open>A state after a request is another one.\<close>

lemma sent_neq [simp]: "sent c d w s \<noteq> s" "s \<noteq> sent c d w s"
proof -
  have "calls (sent c d w s) \<noteq> calls s" by simp
  then show "sent c d w s \<noteq> s" and "s \<noteq> sent c d w s" by metis+
qed

section \<open>Provisioning one resource\<close>

text \<open>
  \<open>id_of\<close> reads the identifier the step records. A step does nothing when it is already
  there; it never writes the metadata, the specification, or the machine; it only appends to
  the recorded requests, and each of them is allowed by \<open>sends\<close>; if it returns an error, the
  cluster object is as before. (If it panics half way through recording, it may not be.)
\<close>

locale provision_step =
  fixes step :: "('w st, unit) prog"
    and id_of :: "UCloudCluster \<Rightarrow> string"
    and sends :: "UCloudCluster \<Rightarrow> call \<Rightarrow> bool"
  assumes done_skip: "id_of (ucluster s) \<noteq> '''' \<Longrightarrow> step s = (Ok (), s)"
    and keeps_objects: "step s = (r, t) \<Longrightarrow>
      uc_Meta (ucluster t) = uc_Meta (ucluster s) \<and> uc_Spec (ucluster t) = uc_Spec (ucluster s)
      \<and> umachine t = umachine s"
    and sends_only: "step s = (r, t) \<Longrightarrow>
      \<exists>cs. calls t = calls s @ cs \<and> list_all (sends (ucluster s)) cs"
    and failure_keeps: "step s = (Err e, t) \<Longrightarrow> ucluster t = ucluster s"
begin

text \<open>Running a step again after it recorded an identifier changes nothing and sends nothing.\<close>

lemma repeat_skip:
  assumes "step s = (Ok (), t)" and "id_of (ucluster t) \<noteq> ''''"
  shows "bind step (\<lambda>_. step) s = (Ok (), t)"
  using assms by (simp add: bind_def done_skip)

lemma unchanged_or_ok:
  assumes "step s = (r, t)"
  shows "ucluster t = ucluster s \<or> r = Ok () \<or> (\<exists>p. r = Panic p)"
  using failure_keeps assms by (cases r) auto

lemma keeps_sends:
  assumes "\<And>s c. sends (ucluster s) c \<Longrightarrow> A (key s) c"
    and "\<And>s t. uc_Meta (ucluster t) = uc_Meta (ucluster s) \<Longrightarrow>
      uc_Spec (ucluster t) = uc_Spec (ucluster s) \<Longrightarrow> key t = key s"
  shows "keeps (emits A key) step"
proof (rule keepsI)
  fix s
  obtain r t where st: "step s = (r, t)" by fastforce
  obtain cs where "calls t = calls s @ cs" and "list_all (sends (ucluster s)) cs"
    using sends_only [OF st] by blast
  moreover have "key t = key s" using keeps_objects [OF st] assms(2) by blast
  ultimately show "emits A key s (snd (step s))"
    using assms(1) by (auto simp: st list_all_iff intro!: emitsI)
qed

end

subsection \<open>Looking up, then recording\<close>

text \<open>
  The longer steps first obtain a description of the resource, by finding or creating it, and
  then record it. \<open>obtaining c P m\<close>: from a state over the cluster \<open>c\<close>, \<open>m\<close> writes neither
  object and sends only requests in \<open>P\<close>. \<open>recording f\<close>: \<open>f\<close> writes the status only, sends
  nothing, and returns no error.
\<close>

definition obtaining :: "UCloudCluster \<Rightarrow> (call \<Rightarrow> bool) \<Rightarrow> ('w st, 'a) prog \<Rightarrow> bool" where
  "obtaining c P m \<longleftrightarrow> (\<forall>s r t. ucluster s = c \<longrightarrow> m s = (r, t) \<longrightarrow>
     ucluster t = c \<and> umachine t = umachine s \<and> (\<exists>cs. calls t = calls s @ cs \<and> list_all P cs))"

definition recording :: "('a \<Rightarrow> ('w st, unit) prog) \<Rightarrow> bool" where
  "recording f \<longleftrightarrow> (\<forall>a s r t. f a s = (r, t) \<longrightarrow>
     uc_Meta (ucluster t) = uc_Meta (ucluster s) \<and> uc_Spec (ucluster t) = uc_Spec (ucluster s)
     \<and> umachine t = umachine s \<and> calls t = calls s \<and> (\<forall>e. r \<noteq> Err e))"

lemma obtainingD:
  assumes "obtaining c P m" and "m s = (r, t)" and "ucluster s = c"
  shows "ucluster t = c \<and> umachine t = umachine s \<and> (\<exists>cs. calls t = calls s @ cs \<and> list_all P cs)"
  using assms unfolding obtaining_def by blast

lemma obtainingI:
  assumes "\<And>s r t. ucluster s = c \<Longrightarrow> m s = (r, t) \<Longrightarrow>
     ucluster t = c \<and> umachine t = umachine s \<and> (\<exists>cs. calls t = calls s @ cs \<and> list_all P cs)"
  shows "obtaining c P m"
  unfolding obtaining_def using assms by blast

lemma obtaining_call: "P (tag q) \<Longrightarrow> obtaining c P (invoke f tag q)"
  by (rule obtainingI) (simp only: invoke_run prod.inject, auto)

lemma obtaining_simple:
  "obtaining c P (ret a)" "obtaining c P (raise e)" "obtaining c P (panic p)"
  "obtaining c P (gets h)" "obtaining c P (index xs i)"
  by ((rule obtainingI, auto simp: prog_simps index_run split: if_splits)[1])+

lemma obtaining_bind:
  assumes "obtaining c P m" and "\<And>a. obtaining c P (f a)"
  shows "obtaining c P (bind m f)"
  unfolding obtaining_def
proof (intro allI impI)
  fix s r t
  assume c: "ucluster s = c" and run: "bind m f s = (r, t)"
  obtain q u where q: "m s = (q, u)" by fastforce
  from obtainingD [OF assms(1) q c] obtain cs where
    u: "ucluster u = c" "umachine u = umachine s" "calls u = calls s @ cs" "list_all P cs" by blast
  show "ucluster t = c \<and> umachine t = umachine s \<and> (\<exists>cs. calls t = calls s @ cs \<and> list_all P cs)"
  proof (cases q)
    case (Ok a)
    then have "f a u = (r, t)" using run q by (simp add: bind_def)
    from obtainingD [OF assms(2) this u(1)] u show ?thesis by auto
  qed (use run q u in \<open>auto simp: bind_def\<close>)
qed

lemma obtaining_try_else:
  assumes "obtaining c P m" and "\<And>a. obtaining c P (f a)"
  shows "obtaining c P (try_else m g f)"
  unfolding obtaining_def
proof (intro allI impI)
  fix s r t
  assume c: "ucluster s = c" and run: "try_else m g f s = (r, t)"
  show "ucluster t = c \<and> umachine t = umachine s \<and> (\<exists>cs. calls t = calls s @ cs \<and> list_all P cs)"
  proof (cases "m s")
    case (Pair q u)
    have "\<exists>r'. bind m f s = (r', t)"
      using run Pair by (cases q) (auto simp: try_else_def bind_def)
    then obtain r' where "bind m f s = (r', t)" ..
    from obtainingD [OF obtaining_bind [OF assms] this c] show ?thesis .
  qed
qed

lemma obtaining_try_or:
  assumes "obtaining c P m" and "\<And>e. obtaining c P (h e)" and "\<And>a. obtaining c P (f a)"
  shows "obtaining c P (try_or m h f)"
proof (rule obtainingI)
  fix s r t
  assume c: "ucluster s = c" and run: "try_or m h f s = (r, t)"
  obtain q u where q: "m s = (q, u)" by fastforce
  from obtainingD [OF assms(1) q c] obtain cs where
    u: "ucluster u = c" "umachine u = umachine s" "calls u = calls s @ cs" "list_all P cs" by blast
  show "ucluster t = c \<and> umachine t = umachine s \<and> (\<exists>cs. calls t = calls s @ cs \<and> list_all P cs)"
  proof (cases q)
    case (Ok a)
    then have "f a u = (r, t)" using run q by (simp add: try_or_def)
    from obtainingD [OF assms(3) this u(1)] u show ?thesis by auto
  next
    case (Err e)
    then have "h e u = (r, t)" using run q by (simp add: try_or_def)
    from obtainingD [OF assms(2) this u(1)] u show ?thesis by auto
  qed (use run q u in \<open>auto simp: try_or_def\<close>)
qed

lemma obtaining_if_err: "obtaining c P k \<Longrightarrow> obtaining c P (if_err e g k)"
  by (simp add: if_err_def obtaining_simple split: option.split)

lemma obtaining_doRequest:
  assumes "P (tag req)"
  shows "obtaining c P (doRequest S cd tag req res)"
  by (rule obtainingI) (use assms in \<open>auto dest!: doRequest_sent\<close>)

text \<open>A program that starts by reading the cluster reads \<open>c\<close>.\<close>

lemma obtaining_gets_cluster:
  assumes "obtaining c P (f c)"
  shows "obtaining c P (bind (gets ucluster) f)"
  by (rule obtainingI) (simp only: bind_gets, rule obtainingD [OF assms], simp_all)

lemma obtaining_gets_machine:
  assumes "\<And>m. obtaining c P (f m)"
  shows "obtaining c P (bind (gets umachine) f)"
  by (rule obtaining_bind [OF obtaining_simple(4) assms])

lemma obtaining_emit: "P (CallEvent e) \<Longrightarrow> obtaining c P (emit_event e)"
  by (rule obtainingI) (auto simp: prog_simps)

lemma obtaining_mono:
  assumes "obtaining c P m" and "\<And>x. P x \<Longrightarrow> Q x"
  shows "obtaining c Q m"
proof (rule obtainingI)
  fix s r t
  assume "ucluster s = c" and "m s = (r, t)"
  from obtainingD [OF assms(1) this(2,1)]
  show "ucluster t = c \<and> umachine t = umachine s \<and> (\<exists>cs. calls t = calls s @ cs \<and> list_all Q cs)"
    using assms(2) by (auto simp: list_all_iff)
qed

lemma obtaining_for_each: "(\<And>x. obtaining c P (body x)) \<Longrightarrow> obtaining c P (for_each xs body)"
  by (induction xs) (auto intro: obtaining_simple obtaining_bind)

lemmas obtaining_rules = obtaining_simple obtaining_gets_cluster obtaining_bind obtaining_try_else obtaining_try_or
  obtaining_if_err obtaining_doRequest

lemma obtain_record:
  assumes "bind m f s = (r, t)" and "obtaining (ucluster s) P m" and "recording f"
  shows "uc_Meta (ucluster t) = uc_Meta (ucluster s) \<and> uc_Spec (ucluster t) = uc_Spec (ucluster s)
      \<and> umachine t = umachine s"
    and "\<exists>cs. calls t = calls s @ cs \<and> list_all P cs"
    and "r = Err e \<Longrightarrow> ucluster t = ucluster s"
proof -
  obtain q u where q: "m s = (q, u)" by fastforce
  from obtainingD [OF assms(2) q refl] obtain cs where
    u: "ucluster u = ucluster s" "umachine u = umachine s" "calls u = calls s @ cs" "list_all P cs" by blast
  have rec: "\<And>a. f a u = (r, t) \<Longrightarrow>
     uc_Meta (ucluster t) = uc_Meta (ucluster u) \<and> uc_Spec (ucluster t) = uc_Spec (ucluster u)
     \<and> umachine t = umachine u \<and> calls t = calls u \<and> r \<noteq> Err e"
    using assms(3) unfolding recording_def by blast
  show "uc_Meta (ucluster t) = uc_Meta (ucluster s) \<and> uc_Spec (ucluster t) = uc_Spec (ucluster s)
      \<and> umachine t = umachine s"
    using assms(1) q u rec by (cases q) (auto simp: bind_def)
  show "\<exists>cs. calls t = calls s @ cs \<and> list_all P cs"
    using assms(1) q u rec by (cases q) (auto simp: bind_def)
  show "r = Err e \<Longrightarrow> ucluster t = ucluster s"
    using assms(1) q u rec by (cases q) (auto simp: bind_def)
qed

lemma provision_by_recording:
  fixes step :: "('w st, unit) prog"
  assumes "\<And>s. id_of (ucluster s) \<noteq> '''' \<Longrightarrow> step s = (Ok (), s)"
    and "\<And>s. id_of (ucluster s) = '''' \<Longrightarrow>
      (\<exists>e. step s = (Err e, s)) \<or> step s = bind (look (ucluster s)) rec s"
    and "\<And>c. obtaining c (sends c) (look c)" and "recording rec"
  shows "provision_step step id_of sends"
proof
  fix s :: "'w st"
  assume "id_of (ucluster s) \<noteq> ''''"
  then show "step s = (Ok (), s)" by (rule assms(1))
next
  fix s :: "'w st" and r t
  assume run: "step s = (r, t)"
  have "t = s \<or> bind (look (ucluster s)) rec s = (r, t)"
    using assms(1,2) [of s] run by fastforce
  then show "uc_Meta (ucluster t) = uc_Meta (ucluster s) \<and> uc_Spec (ucluster t) = uc_Spec (ucluster s)
      \<and> umachine t = umachine s"
    using obtain_record(1) [OF _ assms(3,4)] by blast
next
  fix s :: "'w st" and r t
  assume run: "step s = (r, t)"
  have "t = s \<or> bind (look (ucluster s)) rec s = (r, t)"
    using assms(1,2) [of s] run by fastforce
  then show "\<exists>cs. calls t = calls s @ cs \<and> list_all (sends (ucluster s)) cs"
    using obtain_record(2) [OF _ assms(3,4)] by fastforce
next
  fix s :: "'w st" and e t
  assume run: "step s = (Err e, t)"
  have "t = s \<or> bind (look (ucluster s)) rec s = (Err e, t)"
    using assms(1,2) [of s] run by fastforce
  then show "ucluster t = ucluster s"
    using obtain_record(3) [OF _ assms(3,4)] by blast
qed

section \<open>Deleting one resource\<close>

text \<open>
  \<open>owned\<close> says whether there is something to delete that the provider created. A step sends
  nothing if not, and otherwise at most the one request \<open>req\<close>, which may carry the time it is
  sent at; it writes neither object, and does not succeed without having sent the request.
\<close>

locale delete_step =
  fixes step :: "('w st, unit) prog"
    and owned :: "UCloudCluster \<Rightarrow> bool"
    and req :: "UCloudCluster \<Rightarrow> nat \<Rightarrow> call"
  assumes not_owned_skip: "\<not> owned (ucluster s) \<Longrightarrow> step s = (Ok (), s)"
    and one_request: "step s = (r, t) \<Longrightarrow> t = s \<or> (\<exists>d w. t = sent (req (ucluster s) (clock s)) d w s)"
    and success_sends: "owned (ucluster s) \<Longrightarrow> step s = (Ok (), t) \<Longrightarrow> t \<noteq> s"
begin

lemma keeps_cluster: "step s = (r, t) \<Longrightarrow> ucluster t = ucluster s"
  and keeps_machine: "step s = (r, t) \<Longrightarrow> umachine t = umachine s"
  by (auto dest: one_request)

lemma requests: "step s = (r, t) \<Longrightarrow>
    calls t = calls s \<or> (owned (ucluster s) \<and> calls t = calls s @ [req (ucluster s) (clock s)])"
  using one_request [of s r t] not_owned_skip [of s] by (cases "owned (ucluster s)") auto

text \<open>A success has sent the request exactly if there was something to delete.\<close>

lemma success_requests:
  assumes "step s = (Ok (), t)"
  shows "calls t = calls s @ (if owned (ucluster s) then [req (ucluster s) (clock s)] else [])"
proof (cases "owned (ucluster s)")
  case True
  then show ?thesis using one_request [OF assms] success_sends [OF True assms] by auto
next
  case False
  then show ?thesis using not_owned_skip [OF False] assms by simp
qed

lemma keeps_emits:
  assumes "\<And>s. owned (ucluster s) \<Longrightarrow> A (key s) (req (ucluster s) (clock s))"
    and "\<And>s t. ucluster t = ucluster s \<Longrightarrow> key t = key s"
  shows "keeps (emits A key) step"
proof (rule keepsI)
  fix s
  obtain r t where st: "step s = (r, t)" by fastforce
  have "key t = key s" using keeps_cluster [OF st] by (rule assms(2))
  then show "emits A key s (snd (step s))"
    using requests [OF st] assms(1) [of s] by (auto simp: st emits_def)
qed

lemma obtaining_step:
  assumes "owned c \<Longrightarrow> (\<And>now. P (req c now))"
  shows "obtaining c P step"
proof (rule obtainingI)
  fix s r t
  assume c: "ucluster s = c" and run: "step s = (r, t)"
  show "ucluster t = c \<and> umachine t = umachine s \<and> (\<exists>cs. calls t = calls s @ cs \<and> list_all P cs)"
    using keeps_cluster [OF run] keeps_machine [OF run] requests [OF run] assms c by auto
qed

end

end
