(* ===== verification/Vpc_Service.thy ===== *)
theory Vpc_Service
  imports Contracts
begin

text \<open>\<open>cloud/services/vpc.go\<close>: finding or creating the cluster's VPC, and deleting it.\<close>

section \<open>Operations\<close>

definition vpc_of :: "UCloudCluster \<Rightarrow> VPC" where
  "vpc_of c = nw_VPC (network c)"

definition vpc_spec :: "UCloudCluster \<Rightarrow> VPCSpec" where
  "vpc_spec c = nws_VPC (cs_Network (uc_Spec c))"

text \<open>The name looked up, and given to a new VPC.\<close>

definition vpcName :: "'w Service \<Rightarrow> UCloudCluster \<Rightarrow> string" where
  "vpcName S c = (if vpcs_VpcName (vpc_spec c) = '''' then ''cluster-api-'' @ scope_Name S @ ''-vpc''
     else vpcs_VpcName (vpc_spec c))"

definition describe_vpc_req :: "UCloudCluster \<Rightarrow> DescribeVPCRequest" where
  "describe_vpc_req c = \<lparr>rq_Region = Region c, rq_ProjectId = ProjectId c, dvpc_Tag = GroupName c,
     dvpc_VPCIds = (if vpcs_VpcId (vpc_spec c) \<noteq> '''' then [vpcs_VpcId (vpc_spec c)] else [])\<rparr>"

definition create_vpc_req :: "'w Service \<Rightarrow> UCloudCluster \<Rightarrow> CreateVPCRequest" where
  "create_vpc_req S c = \<lparr>rq_Region = Region c, rq_ProjectId = ProjectId c, cvpc_Name = vpcName S c,
     cvpc_Network = [vpcs_CidrBlock (vpc_spec c)], cvpc_Tag = GroupName c\<rparr>"

text \<open>The loop over the described VPCs stops at the first match.\<close>

definition find_vpc :: "'w Service \<Rightarrow> UCloudCluster \<Rightarrow> VPCInfo list \<Rightarrow> VPCInfo option" where
  "find_vpc S c = List.find (\<lambda>v. vi_Name v = vpcName S c \<or> vi_VPCId v = vpcs_VpcId (vpc_spec c))"

definition record_vpc :: "VPCInfo \<Rightarrow> ('w st, unit) prog" where
  "record_vpc v =
     bind (index (vi_Network v) 0) (\<lambda>cidr.
     modify (upd_network (nw_VPC_update (\<lambda>x.
       x\<lparr>vpc_CidrBlock := cidr, vpc_VpcName := vi_Name v, vpc_VpcId := vi_VPCId v\<rparr>))))"

definition ReconcileVPC :: "'w Service \<Rightarrow> ('w st, unit) prog" where
  "ReconcileVPC S =
     bind (gets ucluster) (\<lambda>c.
     if vpc_VpcId (vpc_of c) \<noteq> '''' then ret ()
     else
     bind (invoke (sdk_DescribeVPC (vpcClient S)) CallDescribeVPC (describe_vpc_req c)) (\<lambda>vpcs.
     if_err (rp_err vpcs) (ErrorfErr ''describe vpc failed: %s'' [])
     (case find_vpc S c (rp_body vpcs) of
        Some v \<Rightarrow> record_vpc v
      | None \<Rightarrow>
          bind (invoke (sdk_CreateVPC (vpcClient S)) CallCreateVPC (create_vpc_req S c)) (\<lambda>r.
          if_err (rp_err r) (\<lambda>_. Errorf ''create vpc failed: name %s, cidr %s''
                                 [vpcName S c, vpcs_CidrBlock (vpc_spec c)])
          (record_vpc \<lparr>vi_Name = vpcName S c, vi_Network = [vpcs_CidrBlock (vpc_spec c)],
                       vi_VPCId = rp_body r\<rparr>)))))"

definition delete_vpc_req :: "UCloudCluster \<Rightarrow> DeleteVPCRequest" where
  "delete_vpc_req c = \<lparr>rq_Region = Region c, rq_ProjectId = ProjectId c,
     delvpc_VPCId = vpc_VpcId (vpc_of c)\<rparr>"

text \<open>58103 is the return code of a VPC that is gone already.\<close>

definition DeleteVPC :: "'w Service \<Rightarrow> ('w st, unit) prog" where
  "DeleteVPC S =
     bind (gets ucluster) (\<lambda>c.
     let vid = vpc_VpcId (vpc_of c) in
     if vid = '''' then ret ()
     else if vpcs_VpcId (vpc_spec c) = vid then ret ()
     else
     bind (invoke (sdk_DeleteVPC (vpcClient S)) CallDeleteVPC (delete_vpc_req c)) (\<lambda>res.
     if rp_err res \<noteq> None \<and> rp_code res \<noteq> 58103
     then raise (Errorf ''delete vpc %s failed'' [vid])
     else ret ()))"

section \<open>Contracts\<close>

definition vpc_sends :: "'w Service \<Rightarrow> UCloudCluster \<Rightarrow> call \<Rightarrow> bool" where
  "vpc_sends S c call \<longleftrightarrow>
     call = CallDescribeVPC (describe_vpc_req c) \<or> call = CallCreateVPC (create_vpc_req S c)"

lemma record_vpc_run: "record_vpc v s =
    (case vi_Network v of
       [] \<Rightarrow> (Panic ''index out of range'', s)
     | cidr # _ \<Rightarrow> (Ok (), upd_network (nw_VPC_update (\<lambda>x.
         x\<lparr>vpc_CidrBlock := cidr, vpc_VpcName := vi_Name v, vpc_VpcId := vi_VPCId v\<rparr>)) s))"
  by (cases "vi_Network v") (simp_all add: record_vpc_def index_def prog_simps)

lemmas ReconcileVPC_run = ReconcileVPC_def prog_simps if_err_run record_vpc_run

interpretation vpc: provision_step "ReconcileVPC S" "\<lambda>c. vpc_VpcId (vpc_of c)" "vpc_sends S" for S
proof unfold_locales
  fix s :: "'a st" and r t
  assume "vpc_VpcId (vpc_of (ucluster s)) \<noteq> ''''"
  then show "ReconcileVPC S s = (Ok (), s)" by (simp add: ReconcileVPC_run)
next
  fix s :: "'a st" and r t
  assume run: "ReconcileVPC S s = (r, t)"
  show "uc_Meta (ucluster t) = uc_Meta (ucluster s) \<and> uc_Spec (ucluster t) = uc_Spec (ucluster s)
      \<and> umachine t = umachine s"
    using run by (auto simp: ReconcileVPC_run split: if_splits option.splits list.splits)
  show "\<exists>cs. calls t = calls s @ cs \<and> list_all (vpc_sends S (ucluster s)) cs"
    using run by (auto simp: ReconcileVPC_run vpc_sends_def split: if_splits option.splits list.splits)
next
  fix s :: "'a st" and e t
  assume "ReconcileVPC S s = (Err e, t)"
  then show "ucluster t = ucluster s"
    by (auto simp: ReconcileVPC_run split: if_splits option.splits list.splits)
qed

definition vpc_owned :: "UCloudCluster \<Rightarrow> bool" where
  "vpc_owned c \<longleftrightarrow> vpc_VpcId (vpc_of c) \<noteq> '''' \<and> vpcs_VpcId (vpc_spec c) \<noteq> vpc_VpcId (vpc_of c)"

lemmas DeleteVPC_run = DeleteVPC_def prog_simps Let_def

interpretation vpc_del: delete_step "DeleteVPC S" vpc_owned "\<lambda>c now. CallDeleteVPC (delete_vpc_req c)" for S
  by unfold_locales (auto simp: DeleteVPC_run vpc_owned_def split: if_splits)

end
