(* ===== verification/Subnet_Service.thy ===== *)
theory Subnet_Service
  imports Vpc_Service
begin

text \<open>\<open>cloud/services/subnet.go\<close>: finding or creating the cluster's subnet, and deleting it.\<close>

section \<open>Operations\<close>

definition subnet_of :: "UCloudCluster \<Rightarrow> Subnet" where
  "subnet_of c = nw_Subnet (network c)"

definition subnetName :: "'w Service \<Rightarrow> UCloudCluster \<Rightarrow> string" where
  "subnetName S c = (if subs_SubnetName (scope_Subnet c) = '''' then ''cluster-api-'' @ scope_Name S @ ''-subnet''
     else subs_SubnetName (scope_Subnet c))"

definition describe_subnet_req :: "UCloudCluster \<Rightarrow> DescribeSubnetRequest" where
  "describe_subnet_req c = \<lparr>rq_Region = Region c, rq_ProjectId = ProjectId c,
     dsub_VPCId = vpc_VpcId (vpc_of c), dsub_Tag = GroupName c,
     dsub_SubnetId = (if subs_SubnetId (scope_Subnet c) \<noteq> '''' then Some (subs_SubnetId (scope_Subnet c)) else None)\<rparr>"

text \<open>\<open>addr\<close> and \<open>netmask\<close> are the first two pieces of the CIDR block; the error of \<open>Atoi\<close> is dropped.\<close>

definition create_subnet_req :: "'w Service \<Rightarrow> UCloudCluster \<Rightarrow> string \<Rightarrow> string \<Rightarrow> CreateSubnetRequest" where
  "create_subnet_req S c addr netmask = \<lparr>rq_Region = Region c, rq_ProjectId = ProjectId c,
     csub_SubnetName = subnetName S c, csub_Subnet = addr, csub_Netmask = fst (Atoi netmask),
     csub_VPCId = vpc_VpcId (vpc_of c), csub_Tag = GroupName c\<rparr>"

definition find_subnet :: "'w Service \<Rightarrow> UCloudCluster \<Rightarrow> VPCSubnetInfoSet list \<Rightarrow> VPCSubnetInfoSet option" where
  "find_subnet S c = List.find (\<lambda>i. si_SubnetName i = subnetName S c \<or> si_SubnetId i = subs_SubnetId (scope_Subnet c))"

definition record_subnet :: "string \<Rightarrow> VPCSubnetInfoSet \<Rightarrow> ('w st, unit) prog" where
  "record_subnet vpcId i = modify (upd_network (nw_Subnet_update (\<lambda>x.
     x\<lparr>sub_CidrBlock := si_Subnet i @ ''/'' @ si_Netmask i, sub_SubnetName := si_SubnetName i,
       sub_SubnetId := si_SubnetId i, sub_VpcId := vpcId\<rparr>)))"

definition ReconcileSubnet :: "'w Service \<Rightarrow> ('w st, unit) prog" where
  "ReconcileSubnet S =
     bind (gets ucluster) (\<lambda>c.
     let vpcId = vpc_VpcId (vpc_of c) in
     if sub_SubnetId (subnet_of c) \<noteq> '''' then ret ()
     else if vpcId = '''' then raise (Errorf ''vpc is not created, subnet must be owned by a vpc'' [])
     else
     bind (invoke (sdk_DescribeSubnet (vpcClient S)) CallDescribeSubnet (describe_subnet_req c)) (\<lambda>subnets.
     if_err (rp_err subnets) (ErrorfErr ''describe subnet failed: %s'' [])
     (case find_subnet S c (rp_body subnets) of
        Some i \<Rightarrow> record_subnet vpcId i
      | None \<Rightarrow>
          let subnetCidr = Split (subs_CidrBlock (scope_Subnet c)) (CHR ''/'') in
          bind (index subnetCidr 0) (\<lambda>addr.
          bind (index subnetCidr 1) (\<lambda>netmask.
          bind (invoke (sdk_CreateSubnet (vpcClient S)) CallCreateSubnet (create_subnet_req S c addr netmask)) (\<lambda>r.
          if_err (rp_err r) (\<lambda>_. Errorf ''create subnet failed: name %s, cidr %s''
                                 [subnetName S c, subs_CidrBlock (scope_Subnet c)])
          (record_subnet vpcId \<lparr>si_SubnetName = subnetName S c, si_Subnet = addr, si_Netmask = netmask,
                                si_SubnetId = rp_body r\<rparr>)))))))"

definition delete_subnet_req :: "UCloudCluster \<Rightarrow> DeleteSubnetRequest" where
  "delete_subnet_req c = \<lparr>rq_Region = Region c, rq_ProjectId = ProjectId c,
     delsub_SubnetId = sub_SubnetId (subnet_of c)\<rparr>"

definition DeleteSubnet :: "'w Service \<Rightarrow> ('w st, unit) prog" where
  "DeleteSubnet S =
     bind (gets ucluster) (\<lambda>c.
     let sid = sub_SubnetId (subnet_of c) in
     if sid = '''' then ret ()
     else if subs_SubnetId (scope_Subnet c) = sid then ret ()
     else
     bind (invoke (sdk_DeleteSubnet (vpcClient S)) CallDeleteSubnet (delete_subnet_req c)) (\<lambda>res.
     if rp_err res \<noteq> None \<and> rp_code res \<noteq> 8039
     then raise (Errorf ''delete subnet %s failed'' [sid])
     else ret ()))"

section \<open>Contracts\<close>

definition subnet_sends :: "'w Service \<Rightarrow> UCloudCluster \<Rightarrow> call \<Rightarrow> bool" where
  "subnet_sends S c call \<longleftrightarrow> call = CallDescribeSubnet (describe_subnet_req c)
     \<or> (let cidr = Split (subs_CidrBlock (scope_Subnet c)) (CHR ''/'')
         in call = CallCreateSubnet (create_subnet_req S c (cidr ! 0) (cidr ! 1)))"

lemmas ReconcileSubnet_run = ReconcileSubnet_def prog_simps if_err_run bind_index Let_def record_subnet_def

interpretation subnet: provision_step "ReconcileSubnet S" "\<lambda>c. sub_SubnetId (subnet_of c)" "subnet_sends S" for S
proof unfold_locales
  fix s :: "'a st" and r t
  assume "sub_SubnetId (subnet_of (ucluster s)) \<noteq> ''''"
  then show "ReconcileSubnet S s = (Ok (), s)" by (simp add: ReconcileSubnet_run)
next
  fix s :: "'a st" and r t
  assume run: "ReconcileSubnet S s = (r, t)"
  show "uc_Meta (ucluster t) = uc_Meta (ucluster s) \<and> uc_Spec (ucluster t) = uc_Spec (ucluster s)
      \<and> umachine t = umachine s"
    using run by (auto simp: ReconcileSubnet_run split: if_splits option.splits)
  show "\<exists>cs. calls t = calls s @ cs \<and> list_all (subnet_sends S (ucluster s)) cs"
    using run by (auto simp: ReconcileSubnet_run subnet_sends_def split: if_splits option.splits)
next
  fix s :: "'a st" and e t
  assume "ReconcileSubnet S s = (Err e, t)"
  then show "ucluster t = ucluster s"
    by (auto simp: ReconcileSubnet_run split: if_splits option.splits)
qed

definition subnet_owned :: "UCloudCluster \<Rightarrow> bool" where
  "subnet_owned c \<longleftrightarrow> sub_SubnetId (subnet_of c) \<noteq> '''' \<and> subs_SubnetId (scope_Subnet c) \<noteq> sub_SubnetId (subnet_of c)"

lemmas DeleteSubnet_run = DeleteSubnet_def prog_simps Let_def

interpretation subnet_del: delete_step "DeleteSubnet S" subnet_owned "\<lambda>c now. CallDeleteSubnet (delete_subnet_req c)" for S
  by unfold_locales (auto simp: DeleteSubnet_run subnet_owned_def split: if_splits)

end
