(* ===== verification/Eip_Service.thy ===== *)
theory Eip_Service
  imports Contracts
begin

text \<open>
  \<open>cloud/services/eip.go\<close> and \<open>cloud/services/firewalls.go\<close>: allocating, releasing, binding and
  unbinding elastic IPs, and looking up the firewall. The NAT and load balancer services use them.
\<close>

section \<open>Elastic IPs\<close>

definition eip_bandwidth :: "EIPSpec \<Rightarrow> int" where
  "eip_bandwidth spec = (if eips_Bandwidth spec \<noteq> 0 then eips_Bandwidth spec else DefaultNatGatewayEIPBandwidth)"

definition allocate_eip_req :: "UCloudCluster \<Rightarrow> EIPSpec \<Rightarrow> AllocateEIPRequest" where
  "allocate_eip_req c spec = \<lparr>rq_Region = Region c, rq_ProjectId = ProjectId c, aeip_Tag = GroupName c,
     aeip_OperatorName = region_operator (Region c), aeip_Bandwidth = eip_bandwidth spec,
     aeip_Name = (if eips_EIPName spec \<noteq> '''' then Some (eips_EIPName spec) else None)\<rparr>"

text \<open>\<open>ucloud.StringValue\<close> of a nil pointer is the empty string.\<close>

definition StringValue :: "string option \<Rightarrow> string" where
  "StringValue p = (case p of Some x \<Rightarrow> x | None \<Rightarrow> '''')"

definition createEIP :: "'w Service \<Rightarrow> EIPSpec \<Rightarrow> ('w st, EIP) prog" where
  "createEIP S eipSpec =
     bind (gets ucluster) (\<lambda>c.
     let req = allocate_eip_req c eipSpec in
     bind (invoke (sdk_AllocateEIP (unetClient S)) CallAllocateEIP req) (\<lambda>eipInfo.
     if_err (rp_err eipInfo) (ErrorfErr ''allocate eip failed: %s'' [])
     (bind (index (rp_body eipInfo) 0) (\<lambda>newEIP.
      bind (index (ae_EIPAddr newEIP) 0) (\<lambda>addr.
      ret (zero_EIP\<lparr>eip_Bandwidth := aeip_Bandwidth req, eip_EIPId := ae_EIPId newEIP,
             eip_EIPAddr := addr, eip_EIPName := StringValue (aeip_Name req)\<rparr>))))))"

definition deleteEIP :: "'w Service \<Rightarrow> string \<Rightarrow> ('w st, unit) prog" where
  "deleteEIP S eipId =
     bind (gets ucluster) (\<lambda>c.
     bind (invoke (sdk_ReleaseEIP (unetClient S)) CallReleaseEIP
        \<lparr>rq_Region = Region c, rq_ProjectId = ProjectId c, reip_EIPId = eipId\<rparr>) (\<lambda>r.
     if_err (rp_err r) (ErrorfErr ''release eip %s failed: %s'' [eipId]) (ret ())))"

definition bind_eip_req :: "UCloudCluster \<Rightarrow> string \<Rightarrow> string \<Rightarrow> string \<Rightarrow> BindEIPRequest" where
  "bind_eip_req c eipId resourceId resourceType = \<lparr>rq_Region = Region c, rq_ProjectId = ProjectId c,
     beip_EIPId = eipId, beip_ResourceId = resourceId, beip_ResourceType = resourceType\<rparr>"

definition bindEIP :: "'w Service \<Rightarrow> string \<Rightarrow> string \<Rightarrow> string \<Rightarrow> ('w st, unit) prog" where
  "bindEIP S eipId resourceId resourceType =
     bind (gets ucluster) (\<lambda>c.
     bind (invoke (sdk_BindEIP (unetClient S)) CallBindEIP (bind_eip_req c eipId resourceId resourceType)) (\<lambda>r.
     if_err (rp_err r) (ErrorfErr ''bind eip %s with %s %s failed: %s'' [eipId, resourceType, resourceId])
     (ret ())))"

definition unbindEIP :: "'w Service \<Rightarrow> string \<Rightarrow> string \<Rightarrow> string \<Rightarrow> ('w st, unit) prog" where
  "unbindEIP S eipId resourceId resourceType =
     bind (gets ucluster) (\<lambda>c.
     bind (invoke (sdk_UnBindEIP (unetClient S)) CallUnBindEIP
        \<lparr>rq_Region = Region c, rq_ProjectId = ProjectId c, ueip_EIPId = eipId,
          ueip_ResourceId = resourceId, ueip_ResourceType = resourceType\<rparr>) (\<lambda>r.
     if_err (rp_err r) (ErrorfErr ''unbind eip %s with %s %s failed: %s'' [eipId, resourceType, resourceId])
     (ret ())))"

section \<open>Firewalls\<close>

definition describe_firewall_req :: "UCloudCluster \<Rightarrow> string \<Rightarrow> DescribeFirewallRequest" where
  "describe_firewall_req c firewallId = \<lparr>rq_Region = Region c, rq_ProjectId = ProjectId c,
     dfw_FWId = (if firewallId \<noteq> '''' then Some firewallId else None)\<rparr>"

definition getFirewall :: "'w Service \<Rightarrow> string \<Rightarrow> ('w st, Firewall) prog" where
  "getFirewall S firewallId =
     bind (gets ucluster) (\<lambda>c.
     bind (invoke (sdk_DescribeFirewall (unetClient S)) CallDescribeFirewall
        (describe_firewall_req c firewallId)) (\<lambda>firewalls.
     if_err (rp_err firewalls) (ErrorfErr ''get firewall failed: %s'' [])
     (case rp_body firewalls of
        [] \<Rightarrow> raise (Errorf ''can not find firewall'' [])
      | f # _ \<Rightarrow> ret (zero_Firewall\<lparr>fw_FirewallId := fi_FWId f, fw_FirewallName := fi_Name f,
                         fw_FirewallType := fi_Type f\<rparr>))))"

section \<open>Facts\<close>

text \<open>
  The services that allocate an address go on with one of three things: the error, a panic
  on an empty answer, or the address; each after the one request.
\<close>

lemmas createEIP_run = createEIP_def prog_simps Let_def if_err_run bind_index
lemmas bindEIP_run = bindEIP_def prog_simps if_err_run
lemmas getFirewall_run = getFirewall_def prog_simps if_err_run

definition allocated :: "UCloudCluster \<Rightarrow> EIPSpec \<Rightarrow> UnetAllocateEIPSet list reply \<Rightarrow> EIP result" where
  "allocated c spec r = (case rp_err r of
      Some e \<Rightarrow> Err (ErrorfErr ''allocate eip failed: %s'' [] e)
    | None \<Rightarrow> (case rp_body r of
        x # _ \<Rightarrow> (case ae_EIPAddr x of
            addr # _ \<Rightarrow> Ok (zero_EIP\<lparr>eip_Bandwidth := eip_bandwidth spec, eip_EIPId := ae_EIPId x,
                 eip_EIPAddr := addr, eip_EIPName := eips_EIPName spec\<rparr>)
          | [] \<Rightarrow> Panic ''index out of range'')
      | [] \<Rightarrow> Panic ''index out of range''))"

lemma createEIP_outcome: "createEIP S spec s =
    (let req = allocate_eip_req (ucluster s) spec;
         a = sdk_AllocateEIP (unetClient S) req (world s)
     in (allocated (ucluster s) spec (fst a), sent (CallAllocateEIP req) (rp_took (fst a)) (snd a) s))"
  by (simp add: createEIP_run allocated_def allocate_eip_req_def StringValue_def
      split: option.split list.split)

lemma getFirewall_outcome: "getFirewall S fid s =
    (let req = describe_firewall_req (ucluster s) fid;
         a = sdk_DescribeFirewall (unetClient S) req (world s)
     in ((case rp_err (fst a) of Some e \<Rightarrow> Err (ErrorfErr ''get firewall failed: %s'' [] e)
          | None \<Rightarrow> (case rp_body (fst a) of [] \<Rightarrow> Err (Errorf ''can not find firewall'' [])
             | f # _ \<Rightarrow> Ok (zero_Firewall\<lparr>fw_FirewallId := fi_FWId f, fw_FirewallName := fi_Name f,
                               fw_FirewallType := fi_Type f\<rparr>))),
         sent (CallDescribeFirewall req) (rp_took (fst a)) (snd a) s))"
  by (simp add: getFirewall_run Let_def split: option.split list.split)

lemma bindEIP_outcome: "bindEIP S e rid rt s =
    (let req = bind_eip_req (ucluster s) e rid rt;
         a = sdk_BindEIP (unetClient S) req (world s)
     in ((case rp_err (fst a) of
            Some x \<Rightarrow> Err (ErrorfErr ''bind eip %s with %s %s failed: %s'' [e, rt, rid] x)
          | None \<Rightarrow> Ok ()),
         sent (CallBindEIP req) (rp_took (fst a)) (snd a) s))"
  by (simp add: bindEIP_run Let_def split: option.split)

end
