(* ===== verification/Ulb_Service.thy ===== *)
theory Ulb_Service
  imports Subnet_Service Eip_Service
begin

text \<open>
  \<open>cloud/services/ulb.go\<close>: finding or creating the load balancer of the API server, deleting
  it, and registering machines as its backends.
\<close>

section \<open>Finding or creating the load balancer\<close>

definition ulb_of :: "UCloudCluster \<Rightarrow> ULB" where
  "ulb_of c = nw_ULB (network c)"

definition ulb_spec :: "UCloudCluster \<Rightarrow> ULBSpec" where
  "ulb_spec c = nws_ULB (cs_Network (uc_Spec c))"

definition describe_ulb_req :: "UCloudCluster \<Rightarrow> DescribeULBRequest" where
  "describe_ulb_req c = \<lparr>rq_Region = Region c, rq_ProjectId = ProjectId c,
     dulb_VPCId = vpc_VpcId (vpc_of c),
     dulb_ULBId = (if ulbs_LoadBalancerId (ulb_spec c) \<noteq> '''' then Some (ulbs_LoadBalancerId (ulb_spec c)) else None)\<rparr>"

definition find_ulb :: "UCloudCluster \<Rightarrow> ULBSet list \<Rightarrow> ULBSet option" where
  "find_ulb c = List.find (\<lambda>u. (ui_Name u = ulbs_LoadBalancerName (ulb_spec c)
     \<or> ui_ULBId u = ulbs_LoadBalancerId (ulb_spec c)) \<and> ui_VPCId u = vpc_VpcId (vpc_of c))"

text \<open>The default name is built from the metadata's cluster name, not from the object's name.\<close>

definition ulbName :: "UCloudCluster \<Rightarrow> string" where
  "ulbName c = (if ulbs_LoadBalancerName (ulb_spec c) \<noteq> '''' then ulbs_LoadBalancerName (ulb_spec c)
     else ''ulb-for-'' @ om_ClusterName (uc_Meta c))"

definition create_ulb_req :: "nat \<Rightarrow> UCloudCluster \<Rightarrow> CreateULBRequestPlus" where
  "create_ulb_req now c = \<lparr>rb_Action = ''CreateULB'', rb_RequestTime = now, rb_Region = Some (Region c),
     rb_Zone = None, rb_ProjectId = Some (ProjectId c),
     culb_BusinessId = None, culb_ChargeType = None, culb_FirewallId = None, culb_InnerMode = None,
     culb_OuterMode = None, culb_Remark = None, culb_SubnetId = None, culb_Tag = Some (GroupName c),
     culb_ULBName = Some (ulbName c), culb_VPCId = Some (vpc_VpcId (vpc_of c)),
     culb_ListenType = Some ''RequestProxy''\<rparr>"

definition zero_CreateULBResponse :: CreateULBResponse where
  "zero_CreateULBResponse = \<lparr>rs_RetCode = 0, rs_Message = '''', culbr_ULBId = ''''\<rparr>"

definition vserverName :: "UCloudCluster \<Rightarrow> string" where
  "vserverName c = (if ulbs_VServerName (ulb_spec c) \<noteq> '''' then ulbs_VServerName (ulb_spec c)
     else ''k8s-api-server'')"

definition create_vserver_req :: "UCloudCluster \<Rightarrow> string \<Rightarrow> CreateVServerRequest" where
  "create_vserver_req c ulbId = \<lparr>rq_Region = Region c, rq_ProjectId = ProjectId c, cvs_ULBId = ulbId,
     cvs_Protocol = ''TCP'', cvs_MonitorType = ''Port'', cvs_FrontendPort = 6443,
     cvs_ListenType = ''RequestProxy'', cvs_VServerName = vserverName c\<rparr>"

definition create_ulb :: "'w Service \<Rightarrow> UCloudCluster \<Rightarrow> ('w st, ULBSet) prog" where
  "create_ulb S c =
     bind (gets clock) (\<lambda>now.
     let req = create_ulb_req now c in
     try_else (doRequest S (cd_CreateULB (http S)) CallCreateULB req zero_CreateULBResponse)
       (ErrorfErr ''create ulb failed: %s'' []) (\<lambda>newULB.
     bind (createEIP S (ulbs_EIP (ulb_spec c))) (\<lambda>eip.
     bind (bindEIP S (eip_EIPId eip) (culbr_ULBId newULB) ''ulb'') (\<lambda>_.
     let reqVserver = create_vserver_req c (culbr_ULBId newULB) in
     bind (invoke (sdk_CreateVServer (ulbClient S)) CallCreateVServer reqVserver) (\<lambda>newVserver.
     if_err (rp_err newVserver) (ErrorfErr ''create vserver failed: %s'' [])
     (ret \<lparr>ui_Bandwidth = eip_Bandwidth eip, ui_Name = StringValue (culb_ULBName req),
           ui_ULBId = culbr_ULBId newULB, ui_ULBType = ''OuterMode'', ui_VPCId = vpc_VpcId (vpc_of c),
           ui_IPSet = [\<lparr>uip_Bandwidth = eip_Bandwidth eip, uip_EIP = eip_EIPAddr eip,
                        uip_EIPId = eip_EIPId eip\<rparr>],
           ui_VServerSet = [\<lparr>vs_BackendSet = [], vs_FrontendPort = 6443, vs_ListenType = ''PacketsTransmit'',
                             vs_Method = ''Roundrobin'', vs_MonitorType = ''Port'', vs_Protocol = ''TCP'',
                             vs_VServerId = rp_body newVserver,
                             vs_VServerName = cvs_VServerName reqVserver\<rparr>]\<rparr>))))))"

text \<open>
  The status is written field by field: the identifier of the load balancer before
  \<open>VServerSet[0]\<close> and \<open>IPSet[0]\<close> are read.
\<close>

definition record_ulb :: "ULBSet \<Rightarrow> ('w st, unit) prog" where
  "record_ulb u =
     bind (modify (upd_network (nw_ULB_update (\<lambda>x. x\<lparr>ulb_LoadBalancerId := ui_ULBId u,
         ulb_LoadBalancerName := ui_Name u, ulb_VpcId := ui_VPCId u\<rparr>)))) (\<lambda>_.
     bind (index (ui_VServerSet u) 0) (\<lambda>v.
     bind (modify (upd_network (nw_ULB_update (ulb_VServerId_update (\<lambda>_. vs_VServerId v))))) (\<lambda>_.
     bind (index (ui_IPSet u) 0) (\<lambda>ip.
     modify (upd_network (nw_ULB_update (ulb_EIP_update (\<lambda>e. e\<lparr>eip_EIPId := uip_EIPId ip,
         eip_EIPAddr := uip_EIP ip, eip_Bandwidth := uip_Bandwidth ip\<rparr>))))))))"

definition ReconcileULB :: "'w Service \<Rightarrow> ('w st, unit) prog" where
  "ReconcileULB S =
     bind (gets ucluster) (\<lambda>c.
     if ulb_LoadBalancerId (ulb_of c) \<noteq> '''' then ret ()
     else if vpc_VpcId (vpc_of c) = '''' then raise (Errorf ''vpc is not created'' [])
     else
     bind (invoke (sdk_DescribeULB (ulbClient S)) CallDescribeULB (describe_ulb_req c)) (\<lambda>ulbs.
     if_err (rp_err ulbs) (ErrorfErr ''describe ulb failed: %s'' [])
     (bind (case find_ulb c (rp_body ulbs) of Some u \<Rightarrow> ret u | None \<Rightarrow> create_ulb S c) record_ulb)))"

section \<open>Deleting it\<close>

definition delete_ulb_req :: "UCloudCluster \<Rightarrow> string \<Rightarrow> DeleteULBRequest" where
  "delete_ulb_req c ulbId = \<lparr>rq_Region = Region c, rq_ProjectId = ProjectId c,
     delulb_ULBId = ulbId, delulb_ReleaseEip = True\<rparr>"

definition deleteULB :: "'w Service \<Rightarrow> string \<Rightarrow> ('w st, unit) prog" where
  "deleteULB S ulbId =
     bind (gets ucluster) (\<lambda>c.
     bind (invoke (sdk_DeleteULB (ulbClient S)) CallDeleteULB (delete_ulb_req c ulbId)) (\<lambda>res.
     (case rp_err res of
        Some e \<Rightarrow> if rp_code res \<noteq> 63059 then raise (ErrorfErr ''delete ulb %s failed: %s'' [ulbId] e)
                  else ret ()
      | None \<Rightarrow> ret ())))"

definition DeleteULB :: "'w Service \<Rightarrow> ('w st, unit) prog" where
  "DeleteULB S =
     bind (gets ucluster) (\<lambda>c.
     let uid = ulb_LoadBalancerId (ulb_of c) in
     if uid = '''' then ret ()
     else if ulbs_LoadBalancerId (ulb_spec c) = uid then ret ()
     else bind (deleteULB S uid) (\<lambda>_. ret ()))"

section \<open>Backends\<close>

definition describe_vserver_req :: "UCloudCluster \<Rightarrow> DescribeVServerRequest" where
  "describe_vserver_req c = \<lparr>rq_Region = Region c, rq_ProjectId = ProjectId c,
     dvs_ULBId = ulb_LoadBalancerId (ulb_of c), dvs_VServerId = ulb_VServerId (ulb_of c)\<rparr>"

text \<open>
  \<open>Errorf("vserver %s not exist", req.VServerId)\<close> formats a pointer to the identifier: its
  argument is the address, not the text.
\<close>

definition vserver_missing :: error where
  "vserver_missing = Errorf ''vserver %s not exist'' [''%!s(*string)'']"

definition add_backend_req :: "UCloudCluster \<Rightarrow> string \<Rightarrow> AllocateBackendRequest" where
  "add_backend_req c hostId = \<lparr>rq_Region = Region c, rq_ProjectId = ProjectId c,
     ab_ULBId = ulb_LoadBalancerId (ulb_of c), ab_VServerId = ulb_VServerId (ulb_of c),
     ab_ResourceType = ''UHost'', ab_ResourceId = hostId, ab_Port = 6443\<rparr>"

definition AddRealServer :: "'w Service \<Rightarrow> string \<Rightarrow> ('w st, unit) prog" where
  "AddRealServer S hostId =
     bind (gets ucluster) (\<lambda>c.
     let req = describe_vserver_req c in
     bind (invoke (sdk_DescribeVServer (ulbClient S)) CallDescribeVServer req) (\<lambda>res.
     if_err (rp_err res) (\<lambda>e. Wrapf e ''describe vserver failed'' [])
     (case rp_body res of
        [] \<Rightarrow> raise vserver_missing
      | v # _ \<Rightarrow>
          if hostId \<in> set (map be_ResourceId (vs_BackendSet v)) then ret ()
          else
          bind (invoke (sdk_AllocateBackend (ulbClient S)) CallAllocateBackend (add_backend_req c hostId)) (\<lambda>r.
          if_err (rp_err r) (\<lambda>e. Wrapf e ''add resource %s to vserver %s failed'' [hostId, dvs_VServerId req])
          (ret ())))))"

definition del_backend_req :: "UCloudCluster \<Rightarrow> string \<Rightarrow> ReleaseBackendRequest" where
  "del_backend_req c backendId = \<lparr>rq_Region = Region c, rq_ProjectId = ProjectId c,
     relb_ULBId = ulb_LoadBalancerId (ulb_of c), relb_BackendId = backendId\<rparr>"

text \<open>The loop keeps the identifier of the first backend of the host, or the empty string.\<close>

definition find_backend :: "string \<Rightarrow> ULBBackendSet list \<Rightarrow> string" where
  "find_backend hostId bs = (case List.find (\<lambda>b. be_ResourceId b = hostId) bs of
      Some b \<Rightarrow> be_BackendId b | None \<Rightarrow> '''')"

definition DelRealServer :: "'w Service \<Rightarrow> string \<Rightarrow> ('w st, unit) prog" where
  "DelRealServer S hostId =
     bind (gets ucluster) (\<lambda>c.
     bind (invoke (sdk_DescribeVServer (ulbClient S)) CallDescribeVServer (describe_vserver_req c)) (\<lambda>res.
     if_err (rp_err res) (\<lambda>e. Wrapf e ''describe vserver failed'' [])
     (case rp_body res of
        [] \<Rightarrow> raise vserver_missing
      | v # _ \<Rightarrow>
          let backendId = find_backend hostId (vs_BackendSet v) in
          if backendId \<noteq> '''' then
          bind (invoke (sdk_ReleaseBackend (ulbClient S)) CallReleaseBackend (del_backend_req c backendId)) (\<lambda>r.
          if_err (rp_err r) (\<lambda>e. Wrapf e ''del realserver %s failed'' [hostId]) (ret ()))
          else ret ())))"

section \<open>Contracts\<close>

definition ulb_sends :: "'w Service \<Rightarrow> UCloudCluster \<Rightarrow> call \<Rightarrow> bool" where
  "ulb_sends S c call \<longleftrightarrow> call = CallDescribeULB (describe_ulb_req c)
     \<or> (\<exists>now. call = CallCreateULB (create_ulb_req now c))
     \<or> call = CallAllocateEIP (allocate_eip_req c (ulbs_EIP (ulb_spec c)))
     \<or> (\<exists>e u. call = CallBindEIP (bind_eip_req c e u ''ulb''))
     \<or> (\<exists>u. call = CallCreateVServer (create_vserver_req c u))"

lemma ulb_sends_intros [simp]:
  "ulb_sends S c (CallDescribeULB (describe_ulb_req c))"
  "ulb_sends S c (CallCreateULB (create_ulb_req now c))"
  "ulb_sends S c (CallAllocateEIP (allocate_eip_req c (ulbs_EIP (ulb_spec c))))"
  "ulb_sends S c (CallBindEIP (bind_eip_req c e u ''ulb''))"
  "ulb_sends S c (CallCreateVServer (create_vserver_req c u))"
  by (auto simp: ulb_sends_def)

lemma obtaining_create_ulb: "obtaining c (ulb_sends S c) (create_ulb S c)"
proof -
  have ip: "obtaining c (ulb_sends S c) (createEIP S (ulbs_EIP (ulb_spec c)))"
    and bnd: "obtaining c (ulb_sends S c) (bindEIP S e u ''ulb'')" for e u
    by (auto simp: obtaining_def createEIP_outcome bindEIP_outcome Let_def)
  have req: "obtaining c (ulb_sends S c)
      (invoke (sdk_CreateVServer (ulbClient S)) CallCreateVServer (create_vserver_req c u))" for u
    by (rule obtaining_call) simp
  show ?thesis
    unfolding create_ulb_def Let_def
    by (rule obtaining_bind, rule obtaining_simple, rule obtaining_try_else, rule obtaining_doRequest, simp)
      (intro obtaining_simple obtaining_bind obtaining_if_err ip bnd req)
qed

lemma recording_record_ulb: "recording record_ulb"
  by (auto simp: recording_def record_ulb_def prog_simps bind_index split: if_splits)

text \<open>The part of the step that obtains the load balancer's description.\<close>

definition lookup_ulb :: "'w Service \<Rightarrow> UCloudCluster \<Rightarrow> ('w st, ULBSet) prog" where
  "lookup_ulb S c =
     bind (invoke (sdk_DescribeULB (ulbClient S)) CallDescribeULB (describe_ulb_req c)) (\<lambda>ulbs.
     if_err (rp_err ulbs) (ErrorfErr ''describe ulb failed: %s'' [])
     (case find_ulb c (rp_body ulbs) of Some u \<Rightarrow> ret u | None \<Rightarrow> create_ulb S c))"

lemma obtaining_lookup_ulb: "obtaining c (ulb_sends S c) (lookup_ulb S c)"
proof -
  have "obtaining c (ulb_sends S c)
      (invoke (sdk_DescribeULB (ulbClient S)) CallDescribeULB (describe_ulb_req c))"
    by (rule obtaining_call) simp
  then show ?thesis
    unfolding lookup_ulb_def
    by (intro obtaining_bind obtaining_if_err) (auto simp: obtaining_simple obtaining_create_ulb split: option.split)
qed

lemma ReconcileULB_run: "ReconcileULB S s =
    (if ulb_LoadBalancerId (ulb_of (ucluster s)) \<noteq> '''' then (Ok (), s)
     else if vpc_VpcId (vpc_of (ucluster s)) = '''' then (Err (Errorf ''vpc is not created'' []), s)
     else bind (lookup_ulb S (ucluster s)) record_ulb s)"
  by (simp add: ReconcileULB_def lookup_ulb_def prog_simps bind_assoc if_err_run bind_if_err
      split: option.split)

interpretation ulb: provision_step "ReconcileULB S" "\<lambda>c. ulb_LoadBalancerId (ulb_of c)" "ulb_sends S" for S
  by (rule provision_by_recording [OF _ _ obtaining_lookup_ulb recording_record_ulb])
    (auto simp: ReconcileULB_run split: if_splits)

definition ulb_owned :: "UCloudCluster \<Rightarrow> bool" where
  "ulb_owned c \<longleftrightarrow> ulb_LoadBalancerId (ulb_of c) \<noteq> '''' \<and> ulbs_LoadBalancerId (ulb_spec c) \<noteq> ulb_LoadBalancerId (ulb_of c)"

lemma deleteULB_run: "deleteULB S uid s =
    (let req = delete_ulb_req (ucluster s) uid; a = sdk_DeleteULB (ulbClient S) req (world s)
     in ((case rp_err (fst a) of
            Some e \<Rightarrow> if rp_code (fst a) \<noteq> 63059 then Err (ErrorfErr ''delete ulb %s failed: %s'' [uid] e) else Ok ()
          | None \<Rightarrow> Ok ()),
         sent (CallDeleteULB req) (rp_took (fst a)) (snd a) s))"
  by (simp add: deleteULB_def prog_simps Let_def split: option.split)

lemma DeleteULB_run: "DeleteULB S s =
    (let uid = ulb_LoadBalancerId (ulb_of (ucluster s))
     in if uid = '''' \<or> ulbs_LoadBalancerId (ulb_spec (ucluster s)) = uid then (Ok (), s) else deleteULB S uid s)"
  by (auto simp: DeleteULB_def prog_simps Let_def bind_def deleteULB_run split: option.split)

interpretation ulb_del: delete_step "DeleteULB S" ulb_owned
    "\<lambda>c now. CallDeleteULB (delete_ulb_req c (ulb_LoadBalancerId (ulb_of c)))" for S
  by unfold_locales
    (auto simp: DeleteULB_run deleteULB_run Let_def ulb_owned_def split: if_splits option.splits)

end
