(* ===== verification/Replay.thy ===== *)
theory Replay
  imports Contracts
begin

text \<open>
  The worlds a run goes through. A pass records the calls it makes, and each call takes the world to the
  next one; so the recorded calls can be replayed, and the answer to any of them is the one in the
  world that the calls before it lead to. Statements about "the answer" to a request of a run are made
  with \<open>after_calls\<close>. (Reads of the Kubernetes cache and random numbers are not recorded; the
  programs that use them are not replayed.)
\<close>

section \<open>Replaying calls\<close>

text \<open>A request of \<open>doRequest\<close> reaches the cloud if it can be built.\<close>

definition after_http :: "'w Service \<Rightarrow> ('q, 'r) codec_of \<Rightarrow> 'q \<Rightarrow> 'w \<Rightarrow> 'w" where
  "after_http S cd q w = (case buildHTTPRequest S cd q of Inl e \<Rightarrow> w | Inr h \<Rightarrow> snd (http_Send (http S) h w))"

fun after_call :: "'w Service \<Rightarrow> call \<Rightarrow> 'w \<Rightarrow> 'w" where
  "after_call S (CallDescribeVPC q) w = snd (sdk_DescribeVPC (vpcClient S) q w)"
| "after_call S (CallCreateVPC q) w = snd (sdk_CreateVPC (vpcClient S) q w)"
| "after_call S (CallDeleteVPC q) w = snd (sdk_DeleteVPC (vpcClient S) q w)"
| "after_call S (CallDescribeSubnet q) w = snd (sdk_DescribeSubnet (vpcClient S) q w)"
| "after_call S (CallCreateSubnet q) w = snd (sdk_CreateSubnet (vpcClient S) q w)"
| "after_call S (CallDeleteSubnet q) w = snd (sdk_DeleteSubnet (vpcClient S) q w)"
| "after_call S (CallDescribeNATGW q) w = snd (sdk_DescribeNATGW (vpcClient S) q w)"
| "after_call S (CallCreateNATGW q) w = snd (sdk_CreateNATGW (vpcClient S) q w)"
| "after_call S (CallDeleteNATGW q) w = snd (sdk_DeleteNATGW (vpcClient S) q w)"
| "after_call S (CallAllocateEIP q) w = snd (sdk_AllocateEIP (unetClient S) q w)"
| "after_call S (CallReleaseEIP q) w = snd (sdk_ReleaseEIP (unetClient S) q w)"
| "after_call S (CallBindEIP q) w = snd (sdk_BindEIP (unetClient S) q w)"
| "after_call S (CallUnBindEIP q) w = snd (sdk_UnBindEIP (unetClient S) q w)"
| "after_call S (CallDescribeFirewall q) w = snd (sdk_DescribeFirewall (unetClient S) q w)"
| "after_call S (CallDescribeULB q) w = snd (sdk_DescribeULB (ulbClient S) q w)"
| "after_call S (CallDeleteULB q) w = snd (sdk_DeleteULB (ulbClient S) q w)"
| "after_call S (CallCreateVServer q) w = snd (sdk_CreateVServer (ulbClient S) q w)"
| "after_call S (CallDescribeVServer q) w = snd (sdk_DescribeVServer (ulbClient S) q w)"
| "after_call S (CallAllocateBackend q) w = snd (sdk_AllocateBackend (ulbClient S) q w)"
| "after_call S (CallReleaseBackend q) w = snd (sdk_ReleaseBackend (ulbClient S) q w)"
| "after_call S (CallDescribeUHostInstance q) w = snd (sdk_DescribeUHostInstance (uhostClient S) q w)"
| "after_call S (CallCreateUHostInstance q) w = snd (sdk_CreateUHostInstance (uhostClient S) q w)"
| "after_call S (CallPoweroffUHostInstance q) w = snd (sdk_PoweroffUHostInstance (uhostClient S) q w)"
| "after_call S (CallTerminateUHostInstance q) w = snd (sdk_TerminateUHostInstance (uhostClient S) q w)"
| "after_call S (CallCreateULB q) w = after_http S (cd_CreateULB (http S)) q w"
| "after_call S (CallListBusinessGroup q) w = after_http S (cd_ListBusinessGroup (http S)) q w"
| "after_call S (CallCreateBusinessGroup q) w = after_http S (cd_CreateBusinessGroup (http S)) q w"
| "after_call S (CallDeleteBusinessGroup q) w = after_http S (cd_DeleteBusinessGroup (http S)) q w"
| "after_call S (CallSearchBusinessGroupResource q) w = after_http S (cd_SearchBusinessGroupResource (http S)) q w"
| "after_call S (CallCreateCAPUCluster q) w = after_http S (cd_CreateCAPUCluster (http S)) q w"
| "after_call S (CallDeleteCAPUCluster q) w = after_http S (cd_DeleteCAPUCluster (http S)) q w"
| "after_call S (CallCreateCAPUHost q) w = after_http S (cd_CreateCAPUHost (http S)) q w"
| "after_call S (CallDeleteCAPUHost q) w = after_http S (cd_DeleteCAPUHost (http S)) q w"
| "after_call S (CallPatchCluster c) w = snd (kube_PatchCluster (kube S) c w)"
| "after_call S (CallPatchMachine m) w = snd (kube_PatchMachine (kube S) m w)"
| "after_call S (CallDeleteMachine ns n) w = snd (kube_DeleteMachine (kube S) (ns, n) w)"
| "after_call S (CallGetMachine ns n) w = snd (kube_GetUCloudMachine (kube S) (ns, n) w)"
| "after_call S (CallGetSecret ns n) w = snd (kube_GetSecret (kube S) (ns, n) w)"
| "after_call S (CallEvent e) w = w"

definition after_calls :: "'w Service \<Rightarrow> call list \<Rightarrow> 'w \<Rightarrow> 'w" where
  "after_calls S cs w = fold (after_call S) cs w"

lemma after_calls_simps [simp]:
  "after_calls S [] w = w" "after_calls S (c # cs) w = after_calls S cs (after_call S c w)"
  "after_calls S (cs @ ds) w = after_calls S ds (after_calls S cs w)"
  by (simp_all add: after_calls_def)

text \<open>The value \<open>doRequest\<close> returns in a world, or \<open>None\<close> if it returns an error.\<close>

definition http_answer ::
  "'w Service \<Rightarrow> ('q, 'a ResponseBase_scheme) codec_of \<Rightarrow> 'a ResponseBase_scheme \<Rightarrow> 'q \<Rightarrow> 'w
    \<Rightarrow> 'a ResponseBase_scheme option" where
  "http_answer S cd res q w = (case buildHTTPRequest S cd q of
      Inl e \<Rightarrow> None
    | Inr h \<Rightarrow> (case http_outcome S cd res (fst (http_Send (http S) h w)) of Ok r \<Rightarrow> Some r | _ \<Rightarrow> None))"

lemma doRequest_answer:
  assumes "doRequest S cd tag q res s = (Ok r, t)"
  shows "http_answer S cd res q (world s) = Some r" and "calls t = calls s @ [tag q]"
    and "world t = after_http S cd q (world s)"
  using assms by (auto simp: doRequest_run http_answer_def after_http_def Let_def split: sum.splits)

section \<open>Programs that can be replayed\<close>

definition replayed :: "'w Service \<Rightarrow> 'w st \<Rightarrow> 'w st \<Rightarrow> bool" where
  "replayed S s t \<longleftrightarrow> (\<exists>cs. calls t = calls s @ cs \<and> world t = after_calls S cs (world s))"

interpretation replayed: frame "replayed S" for S
proof unfold_locales
  fix s :: "'a st"
  show "replayed S s s"
    by (auto simp: replayed_def)
next
  fix s t u :: "'a st"
  assume "replayed S s t" and "replayed S t u"
  then show "replayed S s u"
    by (fastforce simp: replayed_def)
qed

lemma replayedD: "replayed S s t \<Longrightarrow> calls t = calls s @ cs \<Longrightarrow> world t = after_calls S cs (world s)"
  by (auto simp: replayed_def)

lemma replayed_run:
  assumes "keeps (replayed S) m" and "m s = (r, t)" and "calls t = calls s @ cs"
  shows "world t = after_calls S cs (world s)"
  using keepsD [OF assms(1,2)] assms(3) by (rule replayedD)

lemma replayed_invoke:
  assumes "\<And>w. after_call S (tag q) w = snd (f q w)"
  shows "keeps (replayed S) (invoke f tag q)"
  by (rule keepsI) (simp add: invoke_run replayed_def assms)

lemma replayed_doRequest:
  assumes "\<And>w. after_call S (tag q) w = after_http S cd q w"
  shows "keeps (replayed S) (doRequest S cd tag q res)"
  by (rule keepsI) (auto simp: doRequest_run replayed_def after_http_def assms Let_def split: sum.split)

lemma replayed_modify:
  assumes "\<And>s. world (f s) = world s \<and> calls (f s) = calls s"
  shows "keeps (replayed S) (modify f)"
  by (rule replayed.keeps_modify) (use assms in \<open>auto simp: replayed_def\<close>)

lemma replayed_emit: "keeps (replayed S) (emit_event e)"
  by (rule keepsI) (simp add: emit_run replayed_def)

lemma replayed_clock: "replayed S s (t\<lparr>clock := n\<rparr>) = replayed S s t"
  by (simp add: replayed_def)

lemmas replayed_rules = replayed.keeps_rules replayed_emit

end
