(* ===== verification/Polling.thy ===== *)
theory Polling
  imports Replay
begin

text \<open>
  The waiting loops of \<open>cloud/services/uhost.go\<close>: describe the instance, leave the loop when it
  is in the wanted state, otherwise give up when the timer has fired or sleep and try again.

  Timers are those of the Go versions the module targets (\<open>go 1.13\<close> in \<open>go.mod\<close>): firing
  puts one tick into a channel with room for one, \<open>Stop\<close> and \<open>Reset\<close> leave a tick that is
  already there, and \<open>select\<close> with a \<open>default\<close> branch takes the tick exactly if there is one.
\<close>

section \<open>Timers\<close>

text \<open>A running timer fires at the clock value \<open>fires_at\<close>; \<open>tick\<close> says that the channel is full.\<close>

record timer =
  fires_at :: nat
  tick :: bool

definition NewTimer :: "nat \<Rightarrow> nat \<Rightarrow> timer" where
  "NewTimer now d = \<lparr>fires_at = now + d, tick = False\<rparr>"

text \<open>Whether a receive from the timer's channel succeeds.\<close>

definition ticked :: "nat \<Rightarrow> timer \<Rightarrow> bool" where
  "ticked now tm \<longleftrightarrow> tick tm \<or> fires_at tm \<le> now"

text \<open>A stopped timer is what its channel still holds.\<close>

definition Stop :: "nat \<Rightarrow> timer \<Rightarrow> bool" where
  "Stop now tm = ticked now tm"

definition Reset :: "nat \<Rightarrow> nat \<Rightarrow> bool \<Rightarrow> timer" where
  "Reset now d left = \<lparr>fires_at = now + d, tick = left\<rparr>"

text \<open>Five minutes, thirty seconds and ten seconds, in milliseconds.\<close>

definition five_minutes :: nat where
  "five_minutes = 300000"

section \<open>The loop\<close>

text \<open>
  What the body makes of the described instances: leave the loop with a value, wait on (with the
  error to return if the timer has fired), or panic because the list is empty.
\<close>

datatype 'a verdict = Done 'a | Wait error | Crash

text \<open>
  \<open>poll S req judge fail d tm\<close>: \<open>fail\<close> returns an error, after the event some loops emit, and
  \<open>d\<close> is the sleep between two rounds, which lasts at least one millisecond. The loop ends with
  the value and what the stopped timer's channel holds.
\<close>

function poll :: "'w Service \<Rightarrow> DescribeUHostInstanceRequest \<Rightarrow> (UHostInstanceSet list \<Rightarrow> 'a verdict)
    \<Rightarrow> (error \<Rightarrow> ('w st, 'a \<times> bool) prog) \<Rightarrow> nat \<Rightarrow> timer \<Rightarrow> ('w st, 'a \<times> bool) prog" where
  "poll S req judge fail d tm s =
     (let a = sdk_DescribeUHostInstance (uhostClient S) req (world s);
          u = sent (CallDescribeUHostInstance req) (rp_took (fst a)) (snd a) s
      in case rp_err (fst a) of
           Some e \<Rightarrow> fail (Wrapf e ''describe uhost failed'' []) u
         | None \<Rightarrow> (case judge (rp_body (fst a)) of
             Crash \<Rightarrow> (Panic ''index out of range'', u)
           | Done v \<Rightarrow> (Ok (v, Stop (clock u) tm), u)
           | Wait e \<Rightarrow>
               if ticked (clock u) tm then fail e u
               else poll S req judge fail d tm (u\<lparr>clock := clock u + max 1 d\<rparr>)))"
  by pat_completeness auto

text \<open>Every round that goes on ends before the timer fires and lets the clock advance.\<close>

termination
proof (relation "measure (\<lambda>(S, req, judge, fail, d, tm, s). fires_at tm - clock s)")
  fix S :: "'a Service" and req and judge :: "UHostInstanceSet list \<Rightarrow> 'b verdict" and fail d tm
    and s u :: "'a st" and a e
  assume "a = sdk_DescribeUHostInstance (uhostClient S) req (world s)"
    and u: "u = sent (CallDescribeUHostInstance req) (rp_took (fst a)) (snd a) s"
    and "\<not> ticked (clock u) tm"
  then have "clock s \<le> clock u" and "clock u < fires_at tm" by (auto simp: ticked_def)
  then show "((S, req, judge, fail, d, tm, u\<lparr>clock := clock u + max 1 d\<rparr>), S, req, judge, fail, d, tm, s)
      \<in> measure (\<lambda>(S, req, judge, fail, d, tm, s). fires_at tm - clock s)"
    by simp
qed simp

declare poll.simps [simp del]

section \<open>Facts\<close>

text \<open>
  What a state before the last round of the loop has seen: only describe requests were sent and have led to its
  world, the two objects are as they were, and every earlier round slept while the timer had not fired.
\<close>

definition polled :: "'w Service \<Rightarrow> DescribeUHostInstanceRequest \<Rightarrow> nat \<Rightarrow> nat \<Rightarrow> nat \<Rightarrow> 'w st \<Rightarrow> 'w st \<Rightarrow> bool" where
  "polled S req d deadline n s u \<longleftrightarrow>
     calls u = calls s @ replicate n (CallDescribeUHostInstance req)
     \<and> world u = after_calls S (replicate n (CallDescribeUHostInstance req)) (world s)
     \<and> ucluster u = ucluster s \<and> umachine u = umachine s
     \<and> clock s + n * max 1 d \<le> clock u \<and> (n > 0 \<longrightarrow> clock s + (n - 1) * max 1 d < deadline)"

lemma polled_refl: "polled S req d f 0 s s"
  by (simp add: polled_def)

lemma polled_Suc:
  assumes "polled S req d f n (u\<lparr>clock := clock u + max 1 d\<rparr>) v"
    and "u = sent (CallDescribeUHostInstance req) took (after_call S (CallDescribeUHostInstance req) (world s)) s"
    and "clock u < f"
  shows "polled S req d f (Suc n) s v"
proof (cases n)
  case 0
  with assms show ?thesis by (auto simp: polled_def)
next
  case (Suc k)
  with assms show ?thesis by (auto simp: polled_def replicate_append_same)
qed

text \<open>
  The loop always ends, with one more describe request after \<open>n\<close> rounds that waited, and what it
  returns is decided by the answer to that last request.
\<close>

lemma poll_ends:
  obtains n v a u where "polled S req d (fires_at tm) n s v"
    and "a = sdk_DescribeUHostInstance (uhostClient S) req (world v)"
    and "u = sent (CallDescribeUHostInstance req) (rp_took (fst a)) (snd a) v"
    and "poll S req judge fail d tm s = (case rp_err (fst a) of
           Some e \<Rightarrow> fail (Wrapf e ''describe uhost failed'' []) u
         | None \<Rightarrow> (case judge (rp_body (fst a)) of
             Crash \<Rightarrow> (Panic ''index out of range'', u)
           | Done x \<Rightarrow> (Ok (x, Stop (clock u) tm), u)
           | Wait e \<Rightarrow> fail e u))"
    and "\<And>e. rp_err (fst a) = None \<Longrightarrow> judge (rp_body (fst a)) = Wait e \<Longrightarrow> ticked (clock u) tm"
proof (induction S req judge fail d tm s arbitrary: thesis rule: poll.induct)
  case (1 S req judge fail d tm s)
  define a where "a = sdk_DescribeUHostInstance (uhostClient S) req (world s)"
  define u where "u = sent (CallDescribeUHostInstance req) (rp_took (fst a)) (snd a) s"
  show ?case
  proof (cases "\<exists>e. rp_err (fst a) = None \<and> judge (rp_body (fst a)) = Wait e \<and> \<not> ticked (clock u) tm")
    case True
    then obtain e where e: "rp_err (fst a) = None" "judge (rp_body (fst a)) = Wait e" "\<not> ticked (clock u) tm"
      by blast
    define s' where "s' = u\<lparr>clock := clock u + max 1 d\<rparr>"
    have step: "poll S req judge fail d tm s = poll S req judge fail d tm s'"
      by (subst poll.simps) (simp add: Let_def e s'_def flip: a_def u_def)
    have lt: "clock u < fires_at tm" using e by (simp add: ticked_def)
    show ?thesis
    proof (rule "1.IH" [OF a_def u_def e(1) e(2) e(3), folded s'_def])
      fix n v b w
      assume p: "polled S req d (fires_at tm) n s' v"
        and b: "b = sdk_DescribeUHostInstance (uhostClient S) req (world v)"
        and w: "w = sent (CallDescribeUHostInstance req) (rp_took (fst b)) (snd b) v"
        and run: "poll S req judge fail d tm s' = (case rp_err (fst b) of
           Some e \<Rightarrow> fail (Wrapf e ''describe uhost failed'' []) w
         | None \<Rightarrow> (case judge (rp_body (fst b)) of
             Crash \<Rightarrow> (Panic ''index out of range'', w)
           | Done x \<Rightarrow> (Ok (x, Stop (clock w) tm), w)
           | Wait e \<Rightarrow> fail e w))"
        and t: "\<And>e. rp_err (fst b) = None \<Longrightarrow> judge (rp_body (fst b)) = Wait e \<Longrightarrow> ticked (clock w) tm"
      from p have "polled S req d (fires_at tm) (Suc n) s v"
        unfolding s'_def by (rule polled_Suc) (use u_def a_def lt in auto)
      then show thesis by (rule "1.prems" [OF _ b w trans [OF step run]]) (rule t)
    qed
  next
    case False
    show ?thesis
    proof (rule "1.prems" [OF polled_refl a_def u_def])
      show "poll S req judge fail d tm s = (case rp_err (fst a) of
           Some e \<Rightarrow> fail (Wrapf e ''describe uhost failed'' []) u
         | None \<Rightarrow> (case judge (rp_body (fst a)) of
             Crash \<Rightarrow> (Panic ''index out of range'', u)
           | Done x \<Rightarrow> (Ok (x, Stop (clock u) tm), u)
           | Wait e \<Rightarrow> fail e u))"
        using False
        by (subst poll.simps) (auto simp: Let_def simp flip: a_def u_def split: option.split verdict.split)
    qed (use False in blast)
  qed
qed

lemma obtaining_poll:
  assumes "P (CallDescribeUHostInstance req)" and "\<And>e. obtaining c P (fail e)"
  shows "obtaining c P (poll S req judge fail d tm)"
proof (rule obtainingI)
  fix s r t
  assume c: "ucluster s = c" and run: "poll S req judge fail d tm s = (r, t)"
  show "ucluster t = c \<and> umachine t = umachine s \<and> (\<exists>cs. calls t = calls s @ cs \<and> list_all P cs)"
  proof (rule poll_ends [where S = S and req = req and judge = judge and fail = fail and d = d and tm = tm and s = s])
    fix n v a u
    assume v: "polled S req d (fires_at tm) n s v"
      and u: "u = sent (CallDescribeUHostInstance req) (rp_took (fst a)) (snd a) v"
      and fin: "poll S req judge fail d tm s = (case rp_err (fst a) of
           Some e \<Rightarrow> fail (Wrapf e ''describe uhost failed'' []) u
         | None \<Rightarrow> (case judge (rp_body (fst a)) of
             Crash \<Rightarrow> (Panic ''index out of range'', u)
           | Done x \<Rightarrow> (Ok (x, Stop (clock u) tm), u)
           | Wait e \<Rightarrow> fail e u))"
    have u': "ucluster u = c" "umachine u = umachine s" "\<exists>cs. calls u = calls s @ cs \<and> list_all P cs"
      using v u c assms(1) by (auto simp: polled_def list_all_iff)
    then have "ucluster t = c \<and> umachine t = umachine s \<and> (\<exists>cs. calls t = calls s @ cs \<and> list_all P cs)"
      if "fail e u = (r, t)" for e
      using obtainingD [OF assms(2) that] by auto
    with run u' show ?thesis
      by (auto simp: fin split: option.splits verdict.splits)
  qed
qed

lemma replayed_poll:
  assumes "\<And>e. keeps (replayed S) (fail e)"
  shows "keeps (replayed S) (poll S req judge fail d tm)"
proof (rule keepsI)
  fix s
  show "replayed S s (snd (poll S req judge fail d tm s))"
  proof (rule poll_ends [where S = S and req = req and judge = judge and fail = fail and d = d and tm = tm and s = s])
    fix n v a u
    assume v: "polled S req d (fires_at tm) n s v" and a: "a = sdk_DescribeUHostInstance (uhostClient S) req (world v)"
      and u: "u = sent (CallDescribeUHostInstance req) (rp_took (fst a)) (snd a) v"
      and fin: "poll S req judge fail d tm s = (case rp_err (fst a) of
           Some e \<Rightarrow> fail (Wrapf e ''describe uhost failed'' []) u
         | None \<Rightarrow> (case judge (rp_body (fst a)) of
             Crash \<Rightarrow> (Panic ''index out of range'', u)
           | Done x \<Rightarrow> (Ok (x, Stop (clock u) tm), u)
           | Wait e \<Rightarrow> fail e u))"
    have "replayed S s u"
      using v unfolding replayed_def
      by (intro exI [of _ "replicate n (CallDescribeUHostInstance req) @ [CallDescribeUHostInstance req]"])
        (simp add: polled_def u a)
    moreover have "replayed S u (snd (fail e u))" for e
      using assms by (rule keeps_snd)
    ultimately show ?thesis
      by (auto simp: fin intro: replayed.frame_trans split: option.split verdict.split)
  qed
qed

text \<open>With a tick left over in its channel the loop makes one round only.\<close>

lemma poll_stale:
  assumes "tick tm"
  shows "poll S req judge fail d tm s =
     (let a = sdk_DescribeUHostInstance (uhostClient S) req (world s);
          u = sent (CallDescribeUHostInstance req) (rp_took (fst a)) (snd a) s
      in case rp_err (fst a) of
           Some e \<Rightarrow> fail (Wrapf e ''describe uhost failed'' []) u
         | None \<Rightarrow> (case judge (rp_body (fst a)) of
             Crash \<Rightarrow> (Panic ''index out of range'', u)
           | Done v \<Rightarrow> (Ok (v, Stop (clock u) tm), u)
           | Wait e \<Rightarrow> fail e u))"
  using assms by (subst poll.simps) (auto simp: Let_def ticked_def split: option.split verdict.split)

text \<open>A loop that returns a value found it in its last answer.\<close>

lemma poll_Ok:
  assumes "poll S req judge fail d tm s = (Ok (x, left), t)" and "\<And>e u. fst (fail e u) \<noteq> Ok (x, left)"
  obtains n v where "polled S req d (fires_at tm) n s v"
    and "rp_err (fst (sdk_DescribeUHostInstance (uhostClient S) req (world v))) = None"
    and "judge (rp_body (fst (sdk_DescribeUHostInstance (uhostClient S) req (world v)))) = Done x"
    and "left = Stop (clock t) tm"
    and "t = sent (CallDescribeUHostInstance req)
       (rp_took (fst (sdk_DescribeUHostInstance (uhostClient S) req (world v))))
       (snd (sdk_DescribeUHostInstance (uhostClient S) req (world v))) v"
proof (rule poll_ends [where S = S and req = req and judge = judge and fail = fail and d = d and tm = tm and s = s])
  fix n v a u
  assume v: "polled S req d (fires_at tm) n s v"
    and a: "a = sdk_DescribeUHostInstance (uhostClient S) req (world v)"
    and u: "u = sent (CallDescribeUHostInstance req) (rp_took (fst a)) (snd a) v"
    and fin: "poll S req judge fail d tm s = (case rp_err (fst a) of
         Some e \<Rightarrow> fail (Wrapf e ''describe uhost failed'' []) u
       | None \<Rightarrow> (case judge (rp_body (fst a)) of
           Crash \<Rightarrow> (Panic ''index out of range'', u)
         | Done x \<Rightarrow> (Ok (x, Stop (clock u) tm), u)
         | Wait e \<Rightarrow> fail e u))"
  have nf: "fail e u \<noteq> (Ok (x, left), t)" for e
    using assms(2) [of e u] by auto
  have "rp_err (fst a) = None" and "judge (rp_body (fst a)) = Done x" and "left = Stop (clock t) tm" and "t = u"
    using assms(1) nf by (auto simp: fin split: option.splits verdict.splits)
  with v u a show thesis by (intro that) simp_all
qed

text \<open>So a fresh timer allows at most \<open>five_minutes div d + 1\<close> rounds.\<close>

lemma polled_bound:
  assumes "polled S req d (clock s + five_minutes) n s v" and "d dvd five_minutes" and "d > 0"
  shows "n \<le> five_minutes div d"
proof (cases n)
  case (Suc k)
  with assms(1,3) have "k * d < five_minutes" by (simp add: polled_def max_def split: if_splits)
  moreover from assms(2) obtain m where m: "five_minutes = d * m" by (rule dvdE)
  ultimately have "d * k < d * m" by (simp add: mult.commute)
  then have "k < m" by simp
  moreover have "five_minutes div d = m" unfolding m using assms(3) by simp
  ultimately show ?thesis using Suc by simp
qed simp

lemma poll_calls:
  assumes "poll S req judge raise d tm s = (r, t)" and "fires_at tm = clock s + five_minutes"
    and "d dvd five_minutes" and "d > 0"
  obtains n where "n \<le> five_minutes div d"
    and "calls t = calls s @ replicate (Suc n) (CallDescribeUHostInstance req)"
    and "ucluster t = ucluster s" and "umachine t = umachine s"
proof (rule poll_ends [where S = S and req = req and judge = judge and fail = raise and d = d and tm = tm and s = s])
  fix n v a u
  assume v: "polled S req d (fires_at tm) n s v"
    and u: "u = sent (CallDescribeUHostInstance req) (rp_took (fst a)) (snd a) v"
    and fin: "poll S req judge raise d tm s = (case rp_err (fst a) of
         Some e \<Rightarrow> raise (Wrapf e ''describe uhost failed'' []) u
       | None \<Rightarrow> (case judge (rp_body (fst a)) of
           Crash \<Rightarrow> (Panic ''index out of range'', u)
         | Done x \<Rightarrow> (Ok (x, Stop (clock u) tm), u)
         | Wait e \<Rightarrow> raise e u))"
  have "t = u"
    using assms(1) by (auto simp: fin raise_run split: option.splits verdict.splits)
  moreover have "n \<le> five_minutes div d"
    using v polled_bound assms(2-4) by metis
  ultimately show thesis
    using v u by (intro that [of n]) (auto simp: polled_def replicate_append_same [symmetric])
qed

end
