(* ===== verification/Uhost_Service.thy ===== *)
theory Uhost_Service
  imports Polling Subnet_Service Eip_Service
begin

text \<open>
  \<open>cloud/services/uhost.go\<close>: looking up, creating and terminating the instance of a machine,
  and the bastion host of a cluster.
\<close>

section \<open>Looking up the instance\<close>

definition describe_instance_req :: "UCloudCluster \<Rightarrow> string \<Rightarrow> string list \<Rightarrow> DescribeUHostInstanceRequest" where
  "describe_instance_req c zone ids = \<lparr>rq_Region = Region c, rq_ProjectId = ProjectId c,
     dh_Zone = Some zone, dh_UHostIds = ids, dh_Tag = GroupName c, dh_SubnetId = None\<rparr>"

definition InstanceIfExists :: "'w Service \<Rightarrow> ('w st, UHostInstanceSet option) prog" where
  "InstanceIfExists S =
     bind (gets ucluster) (\<lambda>c. bind (gets umachine) (\<lambda>m.
     (case GetInstanceID S m of
        None \<Rightarrow> ret None
      | Some iid \<Rightarrow>
          bind (invoke (sdk_DescribeUHostInstance (uhostClient S)) CallDescribeUHostInstance
             (describe_instance_req c (GetZone m) [iid])) (\<lambda>hosts.
          if_err (rp_err hosts) (\<lambda>e. Wrapf e ''failed to describe instance: %s'' [iid])
          (case rp_body hosts of [] \<Rightarrow> ret None | h # _ \<Rightarrow> ret (Some h))))))"

section \<open>Creating instances\<close>

text \<open>\<open>record.Warnf\<close> or \<open>record.Eventf\<close> before returning an error.\<close>

definition warn_raise :: "string \<Rightarrow> error \<Rightarrow> ('w st, 'a) prog" where
  "warn_raise reason e = bind (emit_event reason) (\<lambda>_. raise e)"

definition getImageId :: "UCloudCluster \<Rightarrow> UCloudMachine \<Rightarrow> string \<Rightarrow> string" where
  "getImageId c m zone = (case ms_ImageId (um_Spec m) of
      Some i \<Rightarrow> i
    | None \<Rightarrow> region_image (Region c) zone)"

text \<open>The zone asked for, or a random one of the region.\<close>

definition pick_zone :: "'w Service \<Rightarrow> UCloudCluster \<Rightarrow> string \<Rightarrow> ('w st, string) prog" where
  "pick_zone S c zone =
     (if zone \<noteq> '''' then ret zone
      else case map_of RegionZoneMap (Region c) of
        None \<Rightarrow> warn_raise ''FailedCreate'' (Errorf ''region %s not support'' [Region c])
      | Some zones \<Rightarrow> bind (rand_Intn S (length zones)) (index zones))"

definition disk :: "int \<Rightarrow> string \<Rightarrow> UHostDisk" where
  "disk sz boot = \<lparr>hd_Size = sz, hd_Type = ''CLOUD_SSD'', hd_IsBoot = boot, hd_BackupType = ''NONE''\<rparr>"

definition or_default :: "int \<Rightarrow> int \<Rightarrow> int" where
  "or_default x d = (if x \<noteq> 0 then x else d)"

definition instanceName :: "'w Service \<Rightarrow> UCloudCluster \<Rightarrow> UCloudMachine \<Rightarrow> string" where
  "instanceName S c m =
     (if om_Name (um_Meta m) \<noteq> '''' then om_Namespace (uc_Meta c) @ ''-'' @ om_Name (um_Meta m)
      else om_Namespace (uc_Meta c) @ ''-'' @ om_ClusterName (uc_Meta c) @ ''-'' @ Role S)"

definition create_instance_req ::
  "'w Service \<Rightarrow> UCloudCluster \<Rightarrow> UCloudMachine \<Rightarrow> string \<Rightarrow> string \<Rightarrow> string \<Rightarrow> string
    \<Rightarrow> CreateUHostInstanceRequest" where
  "create_instance_req S c m zone imageId pass userData =
     \<lparr>rq_Region = Region c, rq_ProjectId = ProjectId c, ch_Zone = zone, ch_Tag = GroupName c,
      ch_Name = instanceName S c m, ch_ChargeType = ''Month'', ch_Quantity = 1,
      ch_VPCId = vpc_VpcId (vpc_of c), ch_SubnetId = sub_SubnetId (subnet_of c), ch_ImageId = imageId,
      ch_CPU = or_default (ms_CPU (um_Spec m)) DefaultUHostCPU,
      ch_Memory = or_default (ms_Memory (um_Spec m)) DefaultUHostMemory,
      ch_Disks = [disk (or_default (ms_RootDiskSize (um_Spec m)) DefaultUHostRootDiskSize) ''true'',
                  disk (or_default (ms_DataDiskSize (um_Spec m)) DefaultUHostDataDiskSize) ''false''],
      ch_MachineType = ''N'', ch_MinimalCpuPlatform = ''Intel/Auto'', ch_NetworkInterface = [],
      ch_LoginMode = ''Password'', ch_Password = pass, ch_UserData = Some userData\<rparr>"

text \<open>The three replacements in the bootstrap data; the credential goes in base64.\<close>

definition user_data :: "string \<Rightarrow> string \<Rightarrow> string \<Rightarrow> string" where
  "user_data bootstrapData credentialData version =
     EncodeToString (ReplaceAll (ReplaceAll (ReplaceAll bootstrapData ''## template: jinja'' '''')
       ''UCLOUD_CREDENTIAL'' (EncodeToString credentialData)) ''KUBERNETES_VERSION'' version)"

definition judge_running :: "'w Service \<Rightarrow> UHostInstanceSet list \<Rightarrow> UHostInstanceSet verdict" where
  "judge_running S hosts = (case hosts of
      [] \<Rightarrow> Crash
    | h # _ \<Rightarrow> if uh_State h = StateRunning (lib S) then Done h
               else Wait (Errorf ''waiting for uhost %s ready timeout'' [uh_UHostId h]))"

definition wait_running :: "'w Service \<Rightarrow> DescribeUHostInstanceRequest \<Rightarrow> ('w st, UHostInstanceSet) prog" where
  "wait_running S req =
     bind (gets clock) (\<lambda>now.
     bind (poll S req (judge_running S) (warn_raise ''FailedCreate'') 30000 (NewTimer now five_minutes))
       (\<lambda>(h, _). ret h))"

text \<open>The create request, and the wait for the instance it returns.\<close>

definition launch_instance :: "'w Service \<Rightarrow> UCloudCluster \<Rightarrow> string \<Rightarrow> CreateUHostInstanceRequest
    \<Rightarrow> ('w st, UHostInstanceSet) prog" where
  "launch_instance S c zone req =
     bind (invoke (sdk_CreateUHostInstance (uhostClient S)) CallCreateUHostInstance req) (\<lambda>newUHost.
     (case rp_err newUHost of
        Some e \<Rightarrow> warn_raise ''FailedCreate'' (Wrapf e ''create uhost failed'' [])
      | None \<Rightarrow>
     bind (index (rp_body newUHost) 0) (\<lambda>_.
     bind (wait_running S (describe_instance_req c zone (rp_body newUHost))) (\<lambda>finalHost.
     bind (emit_event ''SuccessfulCreate'') (\<lambda>_.
     ret finalHost)))))"

definition CreateInstance :: "'w Service \<Rightarrow> ('w st, UHostInstanceSet) prog" where
  "CreateInstance S =
     bind (gets ucluster) (\<lambda>c. bind (gets umachine) (\<lambda>m.
     try_or (GetBootstrapData S)
       (\<lambda>e. warn_raise ''FailedCreate'' (Wrapf e ''failed to retrieve bootstrap data'' [])) (\<lambda>bootstrapData.
     bind (pick_zone S c (Zone S m)) (\<lambda>zone.
     let imageId = getImageId c m zone; passwd = ms_SSHPassword (um_Spec m) in
     if imageId = '''' then
       warn_raise ''FailedCreate'' (Errorf ''can not get image id for region %s'' [Region c])
     else if passwd = '''' then warn_raise ''FailedCreate'' (Errorf ''password is not set'' [])
     else (case DecodeString passwd of
        None \<Rightarrow> raise (Wrapf (ForeignError ''illegal base64 data'') ''sshPassword is not a valid base64 string'' [])
      | Some pass \<Rightarrow>
     bind (deref (sv_Credential S)) (\<lambda>credential.
     (case lib_MarshalCredential (lib S) credential of
        Inl e \<Rightarrow> raise (Wrapf e ''marshal credentail failed'' [])
      | Inr credentialData \<Rightarrow>
     bind (deref (ma_Version (sv_Machine S))) (\<lambda>version.
     launch_instance S c zone
       (create_instance_req S c m zone imageId pass (user_data bootstrapData credentialData version))))))))))"

section \<open>Terminating instances\<close>

definition judge_stopped :: "'w Service \<Rightarrow> string \<Rightarrow> UHostInstanceSet list \<Rightarrow> unit verdict" where
  "judge_stopped S iid hosts = (case hosts of
      [] \<Rightarrow> Crash
    | h # _ \<Rightarrow> if uh_State h = StateStopped (lib S) then Done ()
               else Wait (Errorf ''waiting for uhost %s stopped timeout'' [iid]))"

definition judge_deleted :: "string \<Rightarrow> UHostInstanceSet list \<Rightarrow> unit verdict" where
  "judge_deleted iid hosts =
     (if hosts = [] then Done () else Wait (Errorf ''waiting for uhost %s deleted timeout'' [iid]))"

definition poweroff_req :: "UCloudCluster \<Rightarrow> string \<Rightarrow> string \<Rightarrow> PoweroffUHostInstanceRequest" where
  "poweroff_req c iid zone = \<lparr>rq_Region = Region c, rq_ProjectId = ProjectId c,
     ph_Zone = zone, ph_UHostId = iid\<rparr>"

definition terminate_req :: "UCloudCluster \<Rightarrow> string \<Rightarrow> string \<Rightarrow> TerminateUHostInstanceRequest" where
  "terminate_req c iid zone = \<lparr>rq_Region = Region c, rq_ProjectId = ProjectId c,
     th_Zone = zone, th_UHostId = iid, th_ReleaseEIP = True, th_ReleaseUDisk = True\<rparr>"

text \<open>
  Power off, wait until stopped, terminate, wait until gone. One timer serves both waits: it is
  stopped after the first and reset before the second.
\<close>

definition terminateUHost :: "'w Service \<Rightarrow> string \<Rightarrow> string \<Rightarrow> ('w st, unit) prog" where
  "terminateUHost S iid zone =
     bind (gets ucluster) (\<lambda>c.
     let req = describe_instance_req c zone [iid] in
     bind (invoke (sdk_DescribeUHostInstance (uhostClient S)) CallDescribeUHostInstance req) (\<lambda>hosts.
     if rp_err hosts \<noteq> None \<and> rp_code hosts \<noteq> 8039
     then raise (Wrapf (the (rp_err hosts)) ''failed to describe instance: %s'' [iid])
     else if rp_body hosts = [] then ret ()
     else
     bind (invoke (sdk_PoweroffUHostInstance (uhostClient S)) CallPoweroffUHostInstance (poweroff_req c iid zone)) (\<lambda>r.
     if_err (rp_err r) (\<lambda>e. Wrapf e ''poweroff uhost %s failed'' [iid])
     (bind (gets clock) (\<lambda>now.
      bind (poll S req (judge_stopped S iid) raise 10000 (NewTimer now five_minutes)) (\<lambda>(_, left).
      bind (invoke (sdk_TerminateUHostInstance (uhostClient S)) CallTerminateUHostInstance (terminate_req c iid zone)) (\<lambda>r.
      if_err (rp_err r) (\<lambda>e. Wrapf e ''terminate uhost %s failed'' [iid])
      (bind (gets clock) (\<lambda>now.
       bind (poll S req (judge_deleted iid) raise 10000 (Reset now five_minutes left)) (\<lambda>_.
       ret ()))))))))))"

definition TerminateInstanceAndWait :: "'w Service \<Rightarrow> ('w st, unit) prog" where
  "TerminateInstanceAndWait S =
     bind (gets umachine) (\<lambda>m.
     (case GetInstanceID S m of
        None \<Rightarrow> ret ()
      | Some iid \<Rightarrow> if iid = '''' then ret () else bind (terminateUHost S iid (Zone S m)) (\<lambda>_. ret ())))"

section \<open>The bastion\<close>

definition getPrivateIP :: "UHostInstanceSet \<Rightarrow> string" where
  "getPrivateIP h = (case List.find (\<lambda>i. hip_Default i = ''true'' \<and> hip_Type i = ''Private'') (uh_IPSet h) of
      Some i \<Rightarrow> hip_IP i | None \<Rightarrow> '''')"

definition getPublicIP :: "UCloudCluster \<Rightarrow> UHostInstanceSet \<Rightarrow> string" where
  "getPublicIP c h =
     (case List.find (\<lambda>i. ToLower (hip_Type i) = ToLower (region_operator (Region c))) (uh_IPSet h) of
        Some i \<Rightarrow> hip_IP i | None \<Rightarrow> '''')"

definition bastionName :: "UCloudCluster \<Rightarrow> string" where
  "bastionName c = om_Namespace (uc_Meta c) @ ''-'' @ om_Name (uc_Meta c) @ ''-bastion''"

definition check_bastion_req :: "UCloudCluster \<Rightarrow> DescribeUHostInstanceRequest" where
  "check_bastion_req c = \<lparr>rq_Region = Region c, rq_ProjectId = ProjectId c, dh_Zone = None, dh_UHostIds = [],
     dh_Tag = GroupName c, dh_SubnetId = Some (sub_SubnetId (subnet_of c))\<rparr>"

definition create_bastion_req :: "UCloudCluster \<Rightarrow> string \<Rightarrow> string \<Rightarrow> string \<Rightarrow> CreateUHostInstanceRequest" where
  "create_bastion_req c zone imageId pass =
     \<lparr>rq_Region = Region c, rq_ProjectId = ProjectId c, ch_Zone = zone, ch_Tag = GroupName c,
      ch_Name = bastionName c, ch_ChargeType = ''Month'', ch_Quantity = 1,
      ch_VPCId = vpc_VpcId (vpc_of c), ch_SubnetId = sub_SubnetId (subnet_of c), ch_ImageId = imageId,
      ch_CPU = 2, ch_Memory = 4096, ch_Disks = [disk DefaultUHostRootDiskSize ''true''],
      ch_MachineType = ''N'', ch_MinimalCpuPlatform = ''Intel/Auto'',
      ch_NetworkInterface = [\<lparr>ne_Bandwidth = 1, ne_OperatorName = region_operator (Region c),
                               ne_PayMode = ''Bandwidth''\<rparr>],
      ch_LoginMode = ''Password'', ch_Password = pass, ch_UserData = None\<rparr>"

definition bastion_info :: "UCloudCluster \<Rightarrow> UHostInstanceSet \<Rightarrow> Instance" where
  "bastion_info c h = \<lparr>inst_InstanceId = uh_UHostId h, inst_PrivateIP = getPrivateIP h,
     inst_PublicIP = getPublicIP c h, inst_InstanceType = ''uhost'', inst_Zone = uh_Zone h,
     inst_Name = uh_Name h\<rparr>"

definition create_bastion :: "'w Service \<Rightarrow> UCloudCluster \<Rightarrow> ('w st, UHostInstanceSet) prog" where
  "create_bastion S c =
     bind (pick_zone S c (bas_Zone (cs_Bastion (uc_Spec c)))) (\<lambda>zone.
     let imageId = region_image (Region c) zone; passwd = bas_SSHPassword (cs_Bastion (uc_Spec c)) in
     if imageId = '''' then
       warn_raise ''FailedCreate'' (Errorf ''can not get image id for region %s'' [Region c])
     else if passwd = '''' then warn_raise ''FailedCreate'' (Errorf ''password is not set'' [])
     else (case DecodeString passwd of
       None \<Rightarrow> raise (Wrapf (ForeignError ''illegal base64 data'') ''sshPassword is not a valid base64 string'' [])
     | Some pass \<Rightarrow>
     bind (invoke (sdk_CreateUHostInstance (uhostClient S)) CallCreateUHostInstance
        (create_bastion_req c zone imageId pass)) (\<lambda>newUHost.
     (case rp_err newUHost of
        Some e \<Rightarrow> warn_raise ''FailedCreate'' (Wrapf e ''create uhost failed'' [])
      | None \<Rightarrow>
     bind (invoke (sdk_DescribeUHostInstance (uhostClient S)) CallDescribeUHostInstance
        (describe_instance_req c zone (rp_body newUHost))) (\<lambda>hosts.
     (case rp_err hosts of
        Some e \<Rightarrow> warn_raise ''FailedCreate'' (Wrapf e ''describe uhost failed'' [])
      | None \<Rightarrow> index (rp_body hosts) 0))))))"

definition record_bastion :: "UCloudCluster \<Rightarrow> UHostInstanceSet \<Rightarrow> ('w st, unit) prog" where
  "record_bastion c finalHost =
     bind (modify (upd_status (cst_Bastion_update (\<lambda>_. Some (bastion_info c finalHost))))) (\<lambda>_.
     emit_event ''SuccessfulCreate'')"

definition CreateBastionInstance :: "'w Service \<Rightarrow> ('w st, unit) prog" where
  "CreateBastionInstance S =
     bind (gets ucluster) (\<lambda>c.
     if bas_SSHPassword (cs_Bastion (uc_Spec c)) = '''' \<or> cst_Bastion (uc_Status c) \<noteq> None then ret ()
     else
     bind (invoke (sdk_DescribeUHostInstance (uhostClient S)) CallDescribeUHostInstance (check_bastion_req c)) (\<lambda>hostSet.
     if_err (rp_err hostSet) (\<lambda>e. Wrapf e ''failed to describe instance'' [])
     (if bastionName c \<in> set (map uh_Name (rp_body hostSet)) then ret ()
      else bind (create_bastion S c) (record_bastion c))))"

definition TerminateBastion :: "'w Service \<Rightarrow> ('w st, unit) prog" where
  "TerminateBastion S =
     bind (gets ucluster) (\<lambda>c.
     (case cst_Bastion (uc_Status c) of
        None \<Rightarrow> ret ()
      | Some b \<Rightarrow>
          if inst_InstanceId b = '''' then ret ()
          else bind (terminateUHost S (inst_InstanceId b) (inst_Zone b)) (\<lambda>_.
               modify (upd_status (cst_Bastion_update (\<lambda>_. None))))))"

section \<open>Facts\<close>

text \<open>The requests that terminating an instance may send.\<close>

definition uhost_del_sends :: "UCloudCluster \<Rightarrow> string \<Rightarrow> string \<Rightarrow> call \<Rightarrow> bool" where
  "uhost_del_sends c iid zone call \<longleftrightarrow>
     call = CallDescribeUHostInstance (describe_instance_req c zone [iid])
     \<or> call = CallPoweroffUHostInstance (poweroff_req c iid zone)
     \<or> call = CallTerminateUHostInstance (terminate_req c iid zone)"

lemma uhost_del_sends_intros [simp]:
  "uhost_del_sends c iid zone (CallDescribeUHostInstance (describe_instance_req c zone [iid]))"
  "uhost_del_sends c iid zone (CallPoweroffUHostInstance (poweroff_req c iid zone))"
  "uhost_del_sends c iid zone (CallTerminateUHostInstance (terminate_req c iid zone))"
  by (simp_all add: uhost_del_sends_def)

lemma obtaining_terminateUHost: "obtaining c (uhost_del_sends c iid zone) (terminateUHost S iid zone)"
proof -
  note calls = obtaining_call [where P = "uhost_del_sends c iid zone"]
    and polls = obtaining_poll [where P = "uhost_del_sends c iid zone"]
  show ?thesis
    unfolding terminateUHost_def Let_def case_prod_beta
    by (rule obtaining_gets_cluster)
      (intro obtaining_bind obtaining_if_err calls polls obtaining_simple conjI impI if_splits
        uhost_del_sends_intros | simp split: if_split)+
qed

text \<open>The run of a termination, from one wait to the next.\<close>

lemma terminateUHost_run:
  "terminateUHost S iid zone s =
     (let req = describe_instance_req (ucluster s) zone [iid];
          a = sdk_DescribeUHostInstance (uhostClient S) req (world s);
          s1 = sent (CallDescribeUHostInstance req) (rp_took (fst a)) (snd a) s;
          b = sdk_PoweroffUHostInstance (uhostClient S) (poweroff_req (ucluster s) iid zone) (world s1);
          s2 = sent (CallPoweroffUHostInstance (poweroff_req (ucluster s) iid zone)) (rp_took (fst b)) (snd b) s1
      in if rp_err (fst a) \<noteq> None \<and> rp_code (fst a) \<noteq> 8039
         then (Err (Wrapf (the (rp_err (fst a))) ''failed to describe instance: %s'' [iid]), s1)
         else if rp_body (fst a) = [] then (Ok (), s1)
         else (case rp_err (fst b) of
           Some e \<Rightarrow> (Err (Wrapf e ''poweroff uhost %s failed'' [iid]), s2)
         | None \<Rightarrow>
         (case poll S req (judge_stopped S iid) raise 10000 (NewTimer (clock s2) five_minutes) s2 of
           (Err e, s3) \<Rightarrow> (Err e, s3)
         | (Panic p, s3) \<Rightarrow> (Panic p, s3)
         | (Ok (_, left), s3) \<Rightarrow>
           let d = sdk_TerminateUHostInstance (uhostClient S) (terminate_req (ucluster s) iid zone) (world s3);
               s4 = sent (CallTerminateUHostInstance (terminate_req (ucluster s) iid zone)) (rp_took (fst d)) (snd d) s3
           in (case rp_err (fst d) of
             Some e \<Rightarrow> (Err (Wrapf e ''terminate uhost %s failed'' [iid]), s4)
           | None \<Rightarrow>
             (case poll S req (judge_deleted iid) raise 10000 (Reset (clock s4) five_minutes left) s4 of
               (Err e, s5) \<Rightarrow> (Err e, s5)
             | (Panic p, s5) \<Rightarrow> (Panic p, s5)
             | (Ok _, s5) \<Rightarrow> (Ok (), s5))))))"
  by (simp add: terminateUHost_def Let_def prog_simps if_err_run bind_def split: option.split prod.split result.split)

lemma timer_deadlines [simp]:
  "fires_at (NewTimer now d) = now + d" "fires_at (Reset now d left) = now + d"
  "tick (NewTimer now d) = False" "tick (Reset now d left) = left"
  by (simp_all add: NewTimer_def Reset_def)

text \<open>A termination that succeeds has seen the instance gone in its last answer.\<close>

lemma terminateUHost_Ok:
  assumes "terminateUHost S iid zone s = (Ok (), t)"
  obtains v where
    "let req = describe_instance_req (ucluster s) zone [iid];
         a = sdk_DescribeUHostInstance (uhostClient S) req (world v)
     in rp_body (fst a) = [] \<and> (rp_err (fst a) = None \<or> rp_code (fst a) = 8039)
        \<and> t = sent (CallDescribeUHostInstance req) (rp_took (fst a)) (snd a) v"
proof -
  define req where "req = describe_instance_req (ucluster s) zone [iid]"
  define a where "a = sdk_DescribeUHostInstance (uhostClient S) req (world s)"
  define s1 where "s1 = sent (CallDescribeUHostInstance req) (rp_took (fst a)) (snd a) s"
  show thesis
  proof (cases "rp_body (fst a) = []")
    case True
    then have "t = s1 \<and> (rp_err (fst a) = None \<or> rp_code (fst a) = 8039)"
      using assms by (auto simp: terminateUHost_run Let_def a_def req_def s1_def split: if_splits)
    with True show thesis by (intro that [of s]) (simp add: Let_def a_def s1_def req_def)
  next
    case False
    then obtain x left s4 tm where
      "poll S req (judge_deleted iid) raise 10000 tm s4 = (Ok (x, left), t)"
      using assms by (auto simp: terminateUHost_run Let_def a_def req_def
          split: if_splits option.splits prod.splits result.splits)
    then show thesis
      by (rule poll_Ok) (auto intro!: that simp: Let_def raise_run judge_deleted_def req_def split: if_splits)
  qed
qed

text \<open>One request each to power off and to terminate, and at most 31 rounds in either wait.\<close>

lemma terminateUHost_bound:
  assumes "terminateUHost S iid zone s = (r, t)"
  shows "length (calls t) \<le> length (calls s) + 65"
proof -
  define req where "req = describe_instance_req (ucluster s) zone [iid]"
  define a where "a = sdk_DescribeUHostInstance (uhostClient S) req (world s)"
  define s1 where "s1 = sent (CallDescribeUHostInstance req) (rp_took (fst a)) (snd a) s"
  define b where "b = sdk_PoweroffUHostInstance (uhostClient S) (poweroff_req (ucluster s) iid zone) (world s1)"
  define s2 where "s2 = sent (CallPoweroffUHostInstance (poweroff_req (ucluster s) iid zone)) (rp_took (fst b)) (snd b) s1"
  obtain q s3 where q: "poll S req (judge_stopped S iid) raise 10000 (NewTimer (clock s2) five_minutes) s2 = (q, s3)"
    by fastforce
  define d where "d = sdk_TerminateUHostInstance (uhostClient S) (terminate_req (ucluster s) iid zone) (world s3)"
  define s4 where "s4 = sent (CallTerminateUHostInstance (terminate_req (ucluster s) iid zone)) (rp_took (fst d)) (snd d) s3"
  have wait: "length (calls v) \<le> length (calls u) + 31"
    if "poll S req judge raise 10000 tm u = (p, v)" and "fires_at tm = clock u + five_minutes"
    for u v :: "'a st" and judge :: "UHostInstanceSet list \<Rightarrow> unit verdict" and tm p
    by (rule poll_calls [OF that]) (auto simp: five_minutes_def)
  have "length (calls s3) \<le> length (calls s) + 33"
    using wait [OF q] by (simp add: s2_def s1_def)
  moreover have last: "length (calls v) \<le> length (calls s3) + 32"
    if "poll S req (judge_deleted iid) raise 10000 (Reset (clock s4) five_minutes left) s4 = (p, v)" for p v left
    using wait [OF that] by (simp add: s4_def)
  moreover have "t = s1 \<or> t = s2 \<or> t = s3 \<or> t = s4
      \<or> (\<exists>p left. poll S req (judge_deleted iid) raise 10000 (Reset (clock s4) five_minutes left) s4 = (p, t))"
    using assms q
    by (auto simp: terminateUHost_run Let_def simp flip: req_def a_def s1_def b_def s2_def d_def s4_def
        split: if_splits option.splits prod.splits result.splits)
  moreover have "length (calls s1) = length (calls s) + 1" "length (calls s2) = length (calls s) + 2"
      "length (calls s4) = length (calls s3) + 1"
    by (simp_all add: s1_def s2_def s4_def)
  ultimately show ?thesis by (elim disjE exE) (auto dest: last)
qed

text \<open>
  The terminate request is sent at most once: after the instance was described, powered off and
  described again \<open>n + 1\<close> times, when the last of these answers showed it stopped.
\<close>

lemma terminateUHost_stopped:
  assumes run: "terminateUHost S iid zone s = (r, t)"
    and sent: "CallTerminateUHostInstance x \<in> set (drop (length (calls s)) (calls t))"
  obtains n h hs cs where "n \<le> 30"
    and "let req = describe_instance_req (ucluster s) zone [iid];
         before = [CallDescribeUHostInstance req, CallPoweroffUHostInstance (poweroff_req (ucluster s) iid zone)]
           @ replicate n (CallDescribeUHostInstance req);
         a = sdk_DescribeUHostInstance (uhostClient S) req (after_calls S before (world s))
     in rp_err (fst a) = None \<and> rp_body (fst a) = h # hs \<and> uh_State h = StateStopped (lib S)
        \<and> calls t = calls s @ before @ [CallDescribeUHostInstance req,
             CallTerminateUHostInstance (terminate_req (ucluster s) iid zone)] @ cs
        \<and> list_all (\<lambda>x. x = CallDescribeUHostInstance req) cs"
proof -
  define req where "req = describe_instance_req (ucluster s) zone [iid]"
  define a where "a = sdk_DescribeUHostInstance (uhostClient S) req (world s)"
  define s1 where "s1 = sent (CallDescribeUHostInstance req) (rp_took (fst a)) (snd a) s"
  define b where "b = sdk_PoweroffUHostInstance (uhostClient S) (poweroff_req (ucluster s) iid zone) (world s1)"
  define s2 where "s2 = sent (CallPoweroffUHostInstance (poweroff_req (ucluster s) iid zone)) (rp_took (fst b)) (snd b) s1"
  obtain q s3 where q: "poll S req (judge_stopped S iid) raise 10000 (NewTimer (clock s2) five_minutes) s2 = (q, s3)"
    by fastforce
  define d where "d = sdk_TerminateUHostInstance (uhostClient S) (terminate_req (ucluster s) iid zone) (world s3)"
  define s4 where "s4 = sent (CallTerminateUHostInstance (terminate_req (ucluster s) iid zone)) (rp_took (fst d)) (snd d) s3"
  have more: "\<exists>cs. calls v = calls s4 @ cs \<and> list_all (\<lambda>x. x = CallDescribeUHostInstance req) cs"
    if run: "poll S req (judge_deleted iid) raise 10000 (Reset (clock s4) five_minutes left) s4 = (p, v)" for p v left
  proof (rule poll_calls [OF run])
    fix n
    assume "calls v = calls s4 @ replicate (Suc n) (CallDescribeUHostInstance req)"
    then show ?thesis
      by (intro exI [of _ "replicate (Suc n) (CallDescribeUHostInstance req)"]) (simp add: list_all_iff)
  qed (simp_all add: five_minutes_def)
  obtain n where n: "calls s3 = calls s2 @ replicate (Suc n) (CallDescribeUHostInstance req)"
    by (rule poll_calls [OF q]) (auto simp: five_minutes_def)
  have "t = s1 \<or> t = s2 \<or> t = s3 \<or> (\<exists>left. q = Ok ((), left)
      \<and> (\<exists>cs. calls t = calls s4 @ cs \<and> list_all (\<lambda>x. x = CallDescribeUHostInstance req) cs))"
    using run q
    by (auto simp: terminateUHost_run Let_def simp flip: req_def a_def s1_def b_def s2_def d_def s4_def
        intro: more split: if_splits option.splits prod.splits result.splits)
  moreover have "t \<noteq> s1" "t \<noteq> s2" "t \<noteq> s3"
    using sent n by (auto simp: s1_def s2_def)
  ultimately obtain left cs where left: "q = Ok ((), left)" and cs: "calls t = calls s4 @ cs"
      "list_all (\<lambda>x. x = CallDescribeUHostInstance req) cs" by blast
  have Ok: "poll S req (judge_stopped S iid) raise 10000 (NewTimer (clock s2) five_minutes) s2 = (Ok ((), left), s3)"
    using q left by simp
  show thesis
  proof (rule poll_Ok [OF Ok])
    fix n v
    assume v: "polled S req 10000 (fires_at (NewTimer (clock s2) five_minutes)) n s2 v"
      and err: "rp_err (fst (sdk_DescribeUHostInstance (uhostClient S) req (world v))) = None"
      and "judge_stopped S iid (rp_body (fst (sdk_DescribeUHostInstance (uhostClient S) req (world v)))) = Done ()"
      and s3: "s3 = sent (CallDescribeUHostInstance req)
       (rp_took (fst (sdk_DescribeUHostInstance (uhostClient S) req (world v))))
       (snd (sdk_DescribeUHostInstance (uhostClient S) req (world v))) v"
    then obtain h hs where "rp_body (fst (sdk_DescribeUHostInstance (uhostClient S) req (world v))) = h # hs"
      and "uh_State h = StateStopped (lib S)"
      by (auto simp: judge_stopped_def split: list.splits if_splits)
    moreover have "world v = after_calls S ([CallDescribeUHostInstance req,
        CallPoweroffUHostInstance (poweroff_req (ucluster s) iid zone)] @ replicate n (CallDescribeUHostInstance req)) (world s)"
      using v by (simp add: polled_def s2_def s1_def b_def a_def)
    moreover have "calls v = calls s @ [CallDescribeUHostInstance req,
        CallPoweroffUHostInstance (poweroff_req (ucluster s) iid zone)] @ replicate n (CallDescribeUHostInstance req)"
      using v by (simp add: polled_def s2_def s1_def)
    moreover have "n \<le> five_minutes div 10000"
      by (rule polled_bound [where s = s2]) (use v in \<open>simp_all add: five_minutes_def\<close>)
    ultimately show thesis
      using cs s3 err by (intro that [of n h hs cs]) (simp_all add: Let_def s4_def five_minutes_def flip: req_def)
  qed (simp add: raise_run)
qed

text \<open>
  A termination that succeeds has either found the instance gone, or powered it off, seen it stopped,
  terminated it and seen it gone, with the answers that the calls before have led to.
\<close>

definition termination_trace :: "'w Service \<Rightarrow> UCloudCluster \<Rightarrow> string \<Rightarrow> string \<Rightarrow> 'w \<Rightarrow> call list \<Rightarrow> bool" where
  "termination_trace S c iid zone w cs \<longleftrightarrow>
     (let req = describe_instance_req c zone [iid]; look = CallDescribeUHostInstance req;
          seen = (\<lambda>xs. rp_body (fst (sdk_DescribeUHostInstance (uhostClient S) req (after_calls S xs w)))) in
      if seen [] = [] then cs = [look]
      else \<exists>n m. let off = [look, CallPoweroffUHostInstance (poweroff_req c iid zone)] @ replicate n look;
          gone = off @ [look, CallTerminateUHostInstance (terminate_req c iid zone)] @ replicate m look
        in cs = gone @ [look] \<and> seen off \<noteq> [] \<and> uh_State (hd (seen off)) = StateStopped (lib S) \<and> seen gone = [])"

lemma terminateUHost_trace:
  assumes run: "terminateUHost S iid zone s = (Ok (), t)"
  obtains cs where "calls t = calls s @ cs" and "termination_trace S (ucluster s) iid zone (world s) cs"
proof -
  define req where "req = describe_instance_req (ucluster s) zone [iid]"
  define D where "D = CallDescribeUHostInstance req"
  define P where "P = CallPoweroffUHostInstance (poweroff_req (ucluster s) iid zone)"
  define T where "T = CallTerminateUHostInstance (terminate_req (ucluster s) iid zone)"
  define seen where "seen xs = rp_body (fst (sdk_DescribeUHostInstance (uhostClient S) req (after_calls S xs (world s))))" for xs
  define a where "a = sdk_DescribeUHostInstance (uhostClient S) req (world s)"
  define s1 where "s1 = sent D (rp_took (fst a)) (snd a) s"
  define b where "b = sdk_PoweroffUHostInstance (uhostClient S) (poweroff_req (ucluster s) iid zone) (world s1)"
  define s2 where "s2 = sent P (rp_took (fst b)) (snd b) s1"
  have a: "rp_body (fst a) = seen []" by (simp add: a_def seen_def)
  show thesis
  proof (cases "seen [] = []")
    case True
    then have "t = s1"
      using run a by (auto simp: terminateUHost_run Let_def simp flip: req_def a_def s1_def D_def split: if_splits)
    with True show thesis
      by (intro that [of "[D]"]) (simp_all add: s1_def termination_trace_def Let_def seen_def D_def flip: req_def)
  next
    case False
    obtain left s3 where s3: "poll S req (judge_stopped S iid) raise 10000 (NewTimer (clock s2) five_minutes) s2
        = (Ok ((), left), s3)"
      using run a False by (auto simp: terminateUHost_run Let_def simp flip: req_def a_def D_def s1_def b_def P_def s2_def
          split: if_splits option.splits prod.splits result.splits)
    define d where "d = sdk_TerminateUHostInstance (uhostClient S) (terminate_req (ucluster s) iid zone) (world s3)"
    define s4 where "s4 = sent T (rp_took (fst d)) (snd d) s3"
    obtain left' where s5: "poll S req (judge_deleted iid) raise 10000 (Reset (clock s4) five_minutes left) s4
        = (Ok ((), left'), t)"
      using run a False s3 by (auto simp: terminateUHost_run Let_def simp flip: req_def a_def D_def s1_def b_def P_def s2_def
          T_def d_def s4_def split: if_splits option.splits prod.splits result.splits)
    define off where "off n = [D, P] @ replicate n D" for n
    define gone where "gone n m = off n @ [D, T] @ replicate m D" for n m
    obtain n where n: "calls s3 = calls s @ off n @ [D]" "world s3 = after_calls S (off n @ [D]) (world s)"
        "seen (off n) \<noteq> []" "uh_State (hd (seen (off n))) = StateStopped (lib S)"
    proof (rule poll_Ok [OF s3])
      fix n v
      assume v: "polled S req 10000 (fires_at (NewTimer (clock s2) five_minutes)) n s2 v"
        and judge: "judge_stopped S iid (rp_body (fst (sdk_DescribeUHostInstance (uhostClient S) req (world v)))) = Done ()"
        and "s3 = sent (CallDescribeUHostInstance req)
         (rp_took (fst (sdk_DescribeUHostInstance (uhostClient S) req (world v))))
         (snd (sdk_DescribeUHostInstance (uhostClient S) req (world v))) v"
      moreover have w: "world v = after_calls S (off n) (world s)"
        using v by (simp add: polled_def s2_def s1_def b_def a_def off_def D_def P_def)
      moreover have "calls v = calls s @ off n"
        using v by (simp add: polled_def s2_def s1_def off_def D_def P_def)
      moreover have "seen (off n) \<noteq> [] \<and> uh_State (hd (seen (off n))) = StateStopped (lib S)"
        using judge unfolding w seen_def by (auto simp: judge_stopped_def split: list.splits if_splits)
      ultimately show thesis
        by (intro that [of n]) (simp_all add: D_def)
    qed (simp add: raise_run)
    obtain m where m: "calls t = calls s @ gone n m @ [D]" "seen (gone n m) = []"
    proof (rule poll_Ok [OF s5])
      fix m v
      assume v: "polled S req 10000 (fires_at (Reset (clock s4) five_minutes left)) m s4 v"
        and judge: "judge_deleted iid (rp_body (fst (sdk_DescribeUHostInstance (uhostClient S) req (world v)))) = Done ()"
        and "t = sent (CallDescribeUHostInstance req)
         (rp_took (fst (sdk_DescribeUHostInstance (uhostClient S) req (world v))))
         (snd (sdk_DescribeUHostInstance (uhostClient S) req (world v))) v"
      moreover have w: "world v = after_calls S (gone n m) (world s)"
        using v n(2) by (simp add: polled_def s4_def d_def gone_def T_def flip: D_def)
      moreover have "calls v = calls s @ gone n m"
        using v n(1) by (simp add: polled_def s4_def gone_def flip: D_def)
      moreover have "seen (gone n m) = []"
        using judge unfolding w seen_def by (auto simp: judge_deleted_def split: if_splits)
      ultimately show thesis
        by (intro that [of m]) (simp_all add: D_def)
    qed (simp add: raise_run)
    show thesis
    proof (rule that)
      show "calls t = calls s @ gone n m @ [D]" by (rule m)
      show "termination_trace S (ucluster s) iid zone (world s) (gone n m @ [D])"
        using False n(3,4) m(2)
        unfolding termination_trace_def Let_def req_def [symmetric] D_def [symmetric] P_def [symmetric] T_def [symmetric]
          seen_def [symmetric] off_def [symmetric] gone_def [symmetric]
        by auto
    qed
  qed
qed

lemma replayed_terminateUHost: "keeps (replayed S) (terminateUHost S iid zone)"
proof -
  have fail: "keeps (replayed S) (raise e :: ('a st, unit \<times> bool) prog)" for e
    by (rule replayed.keeps_raise)
  note calls = replayed_invoke [where S = S]
  show ?thesis
    unfolding terminateUHost_def Let_def case_prod_beta
    by (intro replayed_rules replayed_poll calls fail | simp)+
qed

section \<open>Frames\<close>

text \<open>Terminating the bastion writes its entry in the status, and only if it succeeds.\<close>

lemma TerminateBastion_frame:
  assumes "TerminateBastion S s = (r, t)"
  shows "uc_Meta (ucluster t) = uc_Meta (ucluster s)" and "uc_Spec (ucluster t) = uc_Spec (ucluster s)"
    and "cst_Network (uc_Status (ucluster t)) = cst_Network (uc_Status (ucluster s))"
    and "cst_Group (uc_Status (ucluster t)) = cst_Group (uc_Status (ucluster s))"
    and "cst_ClusterId (uc_Status (ucluster t)) = cst_ClusterId (uc_Status (ucluster s))"
    and "umachine t = umachine s"
    and "\<exists>cs. calls t = calls s @ cs \<and> list_all (\<lambda>x. \<exists>iid zone. uhost_del_sends (ucluster s) iid zone x) cs"
proof -
  have del: "ucluster u = ucluster s \<and> umachine u = umachine s
      \<and> (\<exists>cs. calls u = calls s @ cs \<and> list_all (\<lambda>x. \<exists>iid zone. uhost_del_sends (ucluster s) iid zone x) cs)"
    if "terminateUHost S iid zone s = (q, u)" for iid zone q u
  proof -
    have "obtaining (ucluster s) (\<lambda>x. \<exists>iid zone. uhost_del_sends (ucluster s) iid zone x) (terminateUHost S iid zone)"
      by (rule obtaining_mono [OF obtaining_terminateUHost]) blast
    from obtainingD [OF this that] show ?thesis by simp
  qed
  have "t = s \<or> (\<exists>iid zone q u. terminateUHost S iid zone s = (q, u)
      \<and> (t = u \<or> t = upd_status (cst_Bastion_update (\<lambda>_. None)) u))"
    using assms by (auto simp: TerminateBastion_def prog_simps bind_def
        split: option.splits if_splits prod.splits result.splits)
  then show "uc_Meta (ucluster t) = uc_Meta (ucluster s)" and "uc_Spec (ucluster t) = uc_Spec (ucluster s)"
    and "cst_Network (uc_Status (ucluster t)) = cst_Network (uc_Status (ucluster s))"
    and "cst_Group (uc_Status (ucluster t)) = cst_Group (uc_Status (ucluster s))"
    and "cst_ClusterId (uc_Status (ucluster t)) = cst_ClusterId (uc_Status (ucluster s))"
    and "umachine t = umachine s"
    and "\<exists>cs. calls t = calls s @ cs \<and> list_all (\<lambda>x. \<exists>iid zone. uhost_del_sends (ucluster s) iid zone x) cs"
    using del by (elim disjE exE conjE; simp)+
qed

text \<open>Looking up and creating an instance write neither object.\<close>

definition uhost_sends :: "UCloudCluster \<Rightarrow> call \<Rightarrow> bool" where
  "uhost_sends c call = (case call of
      CallDescribeUHostInstance q \<Rightarrow> rq_Region q = Region c \<and> rq_ProjectId q = ProjectId c \<and> dh_Tag q = GroupName c
    | CallCreateUHostInstance q \<Rightarrow> rq_Region q = Region c \<and> rq_ProjectId q = ProjectId c \<and> ch_Tag q = GroupName c
        \<and> ch_VPCId q = vpc_VpcId (vpc_of c) \<and> ch_SubnetId q = sub_SubnetId (subnet_of c)
    | CallGetSecret ns n \<Rightarrow> True
    | CallEvent e \<Rightarrow> True
    | _ \<Rightarrow> False)"

lemma uhost_sends_reqs [simp]:
  "uhost_sends c (CallDescribeUHostInstance (describe_instance_req c zone ids))"
  "uhost_sends c (CallDescribeUHostInstance (check_bastion_req c))"
  "uhost_sends c (CallCreateUHostInstance (create_instance_req S c m zone i p u))"
  "uhost_sends c (CallCreateUHostInstance (create_bastion_req c zone i p))"
  "uhost_sends c (CallGetSecret ns n)" "uhost_sends c (CallEvent e)"
  by (simp_all add: uhost_sends_def describe_instance_req_def check_bastion_req_def create_instance_req_def
      create_bastion_req_def)

lemma obtaining_deref: "obtaining c P (deref p)"
  by (simp add: deref_def obtaining_simple split: option.split)

lemma obtaining_rand: "obtaining c P (rand_Intn S n)"
  by (rule obtainingI) (auto simp: rand_Intn_def split: if_splits prod.splits)

lemma obtaining_warn_raise: "P (CallEvent reason) \<Longrightarrow> obtaining c P (warn_raise reason e)"
  unfolding warn_raise_def by (intro obtaining_bind obtaining_emit obtaining_simple)

lemma obtaining_pick_zone: "(\<And>e. P (CallEvent e)) \<Longrightarrow> obtaining c P (pick_zone S c z)"
  unfolding pick_zone_def
  by (auto intro!: obtaining_bind obtaining_rand obtaining_warn_raise split: option.split simp: obtaining_simple)

lemma obtaining_InstanceIfExists: "obtaining c (uhost_sends c) (InstanceIfExists S)"
  unfolding InstanceIfExists_def
  by (rule obtaining_gets_cluster, rule obtaining_gets_machine)
    (auto intro!: obtaining_bind obtaining_if_err obtaining_call simp: obtaining_simple split: option.split list.split)

lemma obtaining_GetBootstrapData: "obtaining c (uhost_sends c) (GetBootstrapData S)"
  unfolding GetBootstrapData_def
  by (auto intro!: obtaining_gets_machine obtaining_bind obtaining_if_err obtaining_call
      simp: obtaining_simple split: option.split)

lemma obtaining_wait_running: "uhost_sends c (CallDescribeUHostInstance req) \<Longrightarrow>
    obtaining c (uhost_sends c) (wait_running S req)"
  unfolding wait_running_def case_prod_beta
  by (intro obtaining_bind obtaining_poll obtaining_warn_raise obtaining_simple) simp_all

lemma obtaining_launch_instance: "uhost_sends c (CallCreateUHostInstance req) \<Longrightarrow>
    obtaining c (uhost_sends c) (launch_instance S c zone req)"
  unfolding launch_instance_def
  by (auto intro!: obtaining_bind obtaining_warn_raise obtaining_call obtaining_wait_running obtaining_emit
       simp: obtaining_simple split: option.split)

lemma obtaining_CreateInstance: "obtaining c (uhost_sends c) (CreateInstance S)"
  unfolding CreateInstance_def Let_def
  by (rule obtaining_gets_cluster, rule obtaining_gets_machine, rule obtaining_try_or,
      rule obtaining_GetBootstrapData, rule obtaining_warn_raise, simp, rule obtaining_bind,
      rule obtaining_pick_zone, simp)
    (auto intro!: obtaining_bind obtaining_warn_raise obtaining_launch_instance
       simp: obtaining_simple obtaining_deref split: option.split sum.split)

lemma obtaining_create_bastion: "obtaining c (uhost_sends c) (create_bastion S c)"
  unfolding create_bastion_def Let_def
  by (rule obtaining_bind, rule obtaining_pick_zone, simp)
    (auto intro!: obtaining_bind obtaining_warn_raise obtaining_call
       simp: obtaining_simple split: option.split)

text \<open>Creating the bastion writes its entry in the status, and only if it succeeds.\<close>

lemma CreateBastionInstance_cases:
  assumes "CreateBastionInstance S s = (r, t)"
  obtains (skip) "ucluster t = ucluster s" and "umachine t = umachine s"
      and "\<exists>cs. calls t = calls s @ cs \<and> list_all (uhost_sends (ucluster s)) cs"
  | (created) h where "r = Ok ()" and "umachine t = umachine s"
      and "ucluster t = uc_Status_update (cst_Bastion_update (\<lambda>_. Some (bastion_info (ucluster s) h))) (ucluster s)"
      and "\<exists>cs. calls t = calls s @ cs \<and> list_all (uhost_sends (ucluster s)) cs"
proof -
  define a where "a = sdk_DescribeUHostInstance (uhostClient S) (check_bastion_req (ucluster s)) (world s)"
  define u where "u = sent (CallDescribeUHostInstance (check_bastion_req (ucluster s))) (rp_took (fst a)) (snd a) s"
  obtain q v where q: "create_bastion S (ucluster s) u = (q, v)" by fastforce
  have "ucluster u = ucluster s" by (simp add: u_def)
  from obtainingD [OF obtaining_create_bastion q this] obtain cs where
    v: "ucluster v = ucluster s" "umachine v = umachine s" "calls v = calls u @ cs" "list_all (uhost_sends (ucluster s)) cs"
    by (auto simp: u_def)
  have "(t = s \<or> t = u) \<or> (\<exists>h. q = Ok h \<and> (r, t) = record_bastion (ucluster s) h v) \<or> t = v"
    using assms q
    by (auto simp: CreateBastionInstance_def prog_simps if_err_run bind_def simp flip: a_def u_def
        split: if_splits option.splits prod.splits result.splits)
  then show thesis
  proof (elim disjE exE conjE)
    fix h
    assume "(r, t) = record_bastion (ucluster s) h v"
    then show thesis
      using v by (intro created [of h]) (auto simp: record_bastion_def prog_simps u_def)
  qed (use v in \<open>auto intro!: skip simp: u_def\<close>)
qed

end
