(* ===== verification/Ugroup_Service.thy ===== *)
theory Ugroup_Service
  imports Ulb_Service Uhost_Service
begin

text \<open>
  \<open>cloud/services/ugroup.go\<close>: the business group that tags everything a cluster owns, and the
  cleaning of what is left in it when the cluster goes.
\<close>

section \<open>Operations\<close>

definition group_of :: "UCloudCluster \<Rightarrow> Group" where
  "group_of c = cst_Group (uc_Status c)"

text \<open>\<open>fmt.Sprintf("%s-%s-%s-%s-%s-%s", ...)\<close>, hashed.\<close>

definition groupName :: "'w Service \<Rightarrow> UCloudCluster \<Rightarrow> string" where
  "groupName S c = ''capu-'' @ lib_NewSHA1 (lib S) ClusterApiUUIDNamespace
     (ProjectId c @ ''-'' @ Region c @ ''-'' @ scope_Namespace S @ ''-'' @ om_Name (uc_Meta c) @ ''-''
      @ cs_Version (uc_Spec c) @ ''-'' @ cl_CreationTimestamp (sv_Cluster S))"

definition list_group_req :: "UCloudCluster \<Rightarrow> nat \<Rightarrow> ListBusinessGroupRequest" where
  "list_group_req c now = \<lparr>rb_Action = ''ListBusinessGroup'', rb_RequestTime = now,
     rb_Region = Some (Region c), rb_Zone = None, rb_ProjectId = Some (ProjectId c)\<rparr>"

definition create_group_req :: "'w Service \<Rightarrow> UCloudCluster \<Rightarrow> nat \<Rightarrow> CreateBusinessGroupRequest" where
  "create_group_req S c now = \<lparr>rb_Action = ''CreateBusinessGroup'', rb_RequestTime = now,
     rb_Region = Some (Region c), rb_Zone = None, rb_ProjectId = Some (ProjectId c),
     cbg_BusinessName = Some (groupName S c)\<rparr>"

definition zero_ListBusinessGroupResponse :: ListBusinessGroupResponse where
  "zero_ListBusinessGroupResponse = \<lparr>rs_RetCode = 0, rs_Message = '''', lbg_Infos = []\<rparr>"

definition zero_CreateBusinessGroupResponse :: CreateBusinessGroupResponse where
  "zero_CreateBusinessGroupResponse = \<lparr>rs_RetCode = 0, rs_Message = '''',
     cbgr_BusinessId = '''', cbgr_BusinessName = ''''\<rparr>"

definition zero_ResponseBase :: ResponseBase where
  "zero_ResponseBase = \<lparr>rs_RetCode = 0, rs_Message = ''''\<rparr>"

definition find_group :: "'w Service \<Rightarrow> UCloudCluster \<Rightarrow> BusinessGroupInfo list \<Rightarrow> BusinessGroupInfo option" where
  "find_group S c = List.find (\<lambda>g. bg_BusinessName g = groupName S c)"

definition create_group :: "'w Service \<Rightarrow> UCloudCluster \<Rightarrow> ('w st, BusinessGroupInfo) prog" where
  "create_group S c =
     bind (gets clock) (\<lambda>now.
     try_else (doRequest S (cd_CreateBusinessGroup (http S)) CallCreateBusinessGroup
         (create_group_req S c now) zero_CreateBusinessGroupResponse)
       (\<lambda>e. Wrapf e ''create business group failed'' []) (\<lambda>res.
     ret \<lparr>bg_BusinessId = cbgr_BusinessId res, bg_BusinessName = cbgr_BusinessName res\<rparr>))"

definition lookup_group :: "'w Service \<Rightarrow> UCloudCluster \<Rightarrow> ('w st, BusinessGroupInfo) prog" where
  "lookup_group S c =
     bind (gets clock) (\<lambda>now.
     try_else (doRequest S (cd_ListBusinessGroup (http S)) CallListBusinessGroup
         (list_group_req c now) zero_ListBusinessGroupResponse)
       (\<lambda>e. Wrapf e ''list business group failed'' []) (\<lambda>res.
     (case find_group S c (lbg_Infos res) of Some g \<Rightarrow> ret g | None \<Rightarrow> create_group S c)))"

definition record_group :: "BusinessGroupInfo \<Rightarrow> ('w st, unit) prog" where
  "record_group g = modify (upd_status (cst_Group_update (\<lambda>x.
     x\<lparr>grp_GroupId := bg_BusinessId g, grp_GroupName := bg_BusinessName g\<rparr>)))"

definition ReconcileUGroup :: "'w Service \<Rightarrow> ('w st, unit) prog" where
  "ReconcileUGroup S =
     bind (gets ucluster) (\<lambda>c.
     if grp_GroupId (group_of c) \<noteq> '''' then ret ()
     else bind (lookup_group S c) record_group)"

definition delete_group_req :: "UCloudCluster \<Rightarrow> nat \<Rightarrow> DeleteBusinessGroupRequest" where
  "delete_group_req c now = \<lparr>rb_Action = ''DeleteBusinessGroup'', rb_RequestTime = now,
     rb_Region = Some (Region c), rb_Zone = None, rb_ProjectId = Some (ProjectId c),
     dbg_BusinessId = Some (grp_GroupId (group_of c))\<rparr>"

definition DeleteGroup :: "'w Service \<Rightarrow> ('w st, unit) prog" where
  "DeleteGroup S =
     bind (gets ucluster) (\<lambda>c.
     if grp_GroupId (group_of c) = '''' then ret ()
     else
     bind (gets clock) (\<lambda>now.
     try_else (doRequest S (cd_DeleteBusinessGroup (http S)) CallDeleteBusinessGroup
         (delete_group_req c now) zero_ResponseBase)
       (\<lambda>e. Wrapf e ''delete business group failed'' []) (\<lambda>_.
     ret ())))"

section \<open>Cleaning the group\<close>

text \<open>The search request has no region; \<open>limit\<close> is set for the second search only.\<close>

definition search_group_req :: "UCloudCluster \<Rightarrow> nat \<Rightarrow> string option \<Rightarrow> SearchBusinessGroupResourceRequest" where
  "search_group_req c now limit = \<lparr>rb_Action = ''SearchBusinessGroupResource'', rb_RequestTime = now,
     rb_Region = None, rb_Zone = None, rb_ProjectId = Some (ProjectId c),
     sbg_BusinessId = Some (grp_GroupId (group_of c)), sbg_Limit = limit, sbg_Offset = None\<rparr>"

definition zero_SearchBusinessGroupResourceResponse :: SearchBusinessGroupResourceResponse where
  "zero_SearchBusinessGroupResourceResponse = \<lparr>rs_RetCode = 0, rs_Message = '''', sbgr_TotalCount = 0,
     sbgr_Infos = []\<rparr>"

text \<open>
  A page holds ten entries, so a larger total is asked for again with a limit; the second answer
  is decoded into the value of the first.
\<close>

definition search_group :: "'w Service \<Rightarrow> UCloudCluster \<Rightarrow> ('w st, ResourceInfo list) prog" where
  "search_group S c =
     bind (gets clock) (\<lambda>now.
     try_else (doRequest S (cd_SearchBusinessGroupResource (http S)) CallSearchBusinessGroupResource
         (search_group_req c now None) zero_SearchBusinessGroupResourceResponse)
       (\<lambda>e. Wrapf e ''search resource in business group failed'' []) (\<lambda>searchRes.
     if sbgr_TotalCount searchRes > 10 then
       try_else (doRequest S (cd_SearchBusinessGroupResource (http S)) CallSearchBusinessGroupResource
           (search_group_req c now (Some (Itoa (sbgr_TotalCount searchRes)))) searchRes)
         (\<lambda>e. Wrapf e ''search resource in business group failed'' []) (\<lambda>searchRes.
       ret (sbgr_Infos searchRes))
     else ret (sbgr_Infos searchRes)))"

definition clean_resource :: "'w Service \<Rightarrow> ResourceInfo \<Rightarrow> ('w st, unit) prog" where
  "clean_resource S r =
     (if ToLower (ri_ResourceTypeName r) = ''ulb'' then
        try_else (deleteULB S (ri_Id r)) (\<lambda>e. Wrapf e ''clean ulb in business group failed'' []) ret
      else if ToLower (ri_ResourceTypeName r) = ''uhost'' then
        try_else (terminateUHost S (ri_Id r) (ri_ZoneId r)) (\<lambda>e. Wrapf e ''clean uhost in business group failed'' []) ret
      else ret ())"

definition CleanResourceInGroup :: "'w Service \<Rightarrow> ('w st, unit) prog" where
  "CleanResourceInGroup S =
     bind (gets ucluster) (\<lambda>c.
     if grp_GroupId (group_of c) = '''' then ret ()
     else bind (search_group S c) (\<lambda>infos. for_each infos (clean_resource S)))"

section \<open>Contracts\<close>

definition group_sends :: "'w Service \<Rightarrow> UCloudCluster \<Rightarrow> call \<Rightarrow> bool" where
  "group_sends S c call \<longleftrightarrow> (\<exists>now. call = CallListBusinessGroup (list_group_req c now)
     \<or> call = CallCreateBusinessGroup (create_group_req S c now))"

lemma group_sends_intros [simp]:
  "group_sends S c (CallListBusinessGroup (list_group_req c now))"
  "group_sends S c (CallCreateBusinessGroup (create_group_req S c now))"
  by (auto simp: group_sends_def)

lemma obtaining_lookup_group: "obtaining c (group_sends S c) (lookup_group S c)"
  unfolding lookup_group_def create_group_def
  by (auto intro!: obtaining_bind obtaining_try_else obtaining_doRequest simp: obtaining_simple split: option.split)

lemma recording_record_group: "recording record_group"
  by (auto simp: recording_def record_group_def prog_simps)

lemma ReconcileUGroup_run: "ReconcileUGroup S s =
    (if grp_GroupId (group_of (ucluster s)) \<noteq> '''' then (Ok (), s)
     else bind (lookup_group S (ucluster s)) record_group s)"
  by (simp add: ReconcileUGroup_def prog_simps)

interpretation group: provision_step "ReconcileUGroup S" "\<lambda>c. grp_GroupId (group_of c)" "group_sends S" for S
  by (rule provision_by_recording [OF _ _ obtaining_lookup_group recording_record_group])
    (auto simp: ReconcileUGroup_run split: if_splits)

lemma try_doRequest_run:
  assumes "try_else (doRequest S cd tag req res) g (\<lambda>_. ret ()) s = (r, t)"
  shows "t = s \<or> (\<exists>d w. t = sent (tag req) d w s)"
proof -
  obtain q u where q: "doRequest S cd tag req res s = (q, u)" by fastforce
  then have "t = u" using assms by (cases q) (auto simp: try_else_def ret_run)
  then show ?thesis using doRequest_sent [OF q] by simp
qed

lemma try_doRequest_Ok:
  assumes "try_else (doRequest S cd tag req res) g (\<lambda>_. ret ()) s = (Ok (), t)"
  shows "t \<noteq> s"
proof -
  obtain q u where q: "doRequest S cd tag req res s = (q, u)" by fastforce
  then obtain a where "q = Ok a" and "t = u" using assms by (cases q) (auto simp: try_else_def ret_run)
  then show ?thesis using doRequest_OkE(2) [of S cd tag req res s a u] q by auto
qed

interpretation group_del: delete_step "DeleteGroup S" "\<lambda>c. grp_GroupId (group_of c) \<noteq> ''''"
    "\<lambda>c now. CallDeleteBusinessGroup (delete_group_req c now)" for S
  by unfold_locales (auto simp: DeleteGroup_def prog_simps dest: try_doRequest_run try_doRequest_Ok split: if_splits)

text \<open>Cleaning searches, and deletes load balancers and instances; it writes neither object.\<close>

definition clean_sends :: "UCloudCluster \<Rightarrow> call \<Rightarrow> bool" where
  "clean_sends c call \<longleftrightarrow> (\<exists>now limit. call = CallSearchBusinessGroupResource (search_group_req c now limit))
     \<or> (\<exists>uid. call = CallDeleteULB (delete_ulb_req c uid))
     \<or> (\<exists>iid zone. uhost_del_sends c iid zone call)"

lemma obtaining_deleteULB: "obtaining c (clean_sends c) (deleteULB S uid)"
  by (rule obtainingI) (auto simp: deleteULB_run Let_def clean_sends_def split: option.splits if_splits)

lemma obtaining_clean_resource: "obtaining c (clean_sends c) (clean_resource S r)"
proof -
  have "obtaining c (clean_sends c) (terminateUHost S iid zone)" for iid zone
    by (rule obtaining_mono [OF obtaining_terminateUHost]) (auto simp: clean_sends_def)
  then show ?thesis
    by (auto simp: clean_resource_def obtaining_simple intro!: obtaining_try_else obtaining_deleteULB)
qed

lemma obtaining_search_group: "obtaining c (clean_sends c) (search_group S c)"
proof -
  have "clean_sends c (CallSearchBusinessGroupResource (search_group_req c now limit))" for now limit
    by (auto simp: clean_sends_def)
  then show ?thesis
    unfolding search_group_def
    by (intro obtaining_bind obtaining_try_else obtaining_doRequest)
      (auto intro!: obtaining_try_else obtaining_doRequest simp: obtaining_simple)
qed

lemma obtaining_CleanResourceInGroup: "obtaining c (clean_sends c) (CleanResourceInGroup S)"
  unfolding CleanResourceInGroup_def
  by (rule obtaining_gets_cluster)
    (auto intro!: obtaining_bind obtaining_search_group obtaining_for_each obtaining_clean_resource simp: obtaining_simple)

section \<open>What a cleaning sends\<close>

text \<open>
  The search, with what its last answer lists: one request, or a second one with a limit if the first
  answer has a total above ten.
\<close>

definition searched :: "'w Service \<Rightarrow> UCloudCluster \<Rightarrow> 'w \<Rightarrow> call list \<Rightarrow> ResourceInfo list \<Rightarrow> bool" where
  "searched S c w cs infos \<longleftrightarrow>
     (\<exists>now r. let cd = cd_SearchBusinessGroupResource (http S); req = search_group_req c now None;
        req' = search_group_req c now (Some (Itoa (sbgr_TotalCount r))) in
      http_answer S cd zero_SearchBusinessGroupResourceResponse req w = Some r
      \<and> (if sbgr_TotalCount r > 10
         then \<exists>r'. http_answer S cd r req' (after_call S (CallSearchBusinessGroupResource req) w) = Some r'
           \<and> cs = [CallSearchBusinessGroupResource req, CallSearchBusinessGroupResource req'] \<and> infos = sbgr_Infos r'
         else cs = [CallSearchBusinessGroupResource req] \<and> infos = sbgr_Infos r))"

definition resource_trace :: "'w Service \<Rightarrow> UCloudCluster \<Rightarrow> ResourceInfo \<Rightarrow> 'w \<Rightarrow> call list \<Rightarrow> bool" where
  "resource_trace S c i w cs =
     (if ToLower (ri_ResourceTypeName i) = ''ulb'' then cs = [CallDeleteULB (delete_ulb_req c (ri_Id i))]
      else if ToLower (ri_ResourceTypeName i) = ''uhost'' then termination_trace S c (ri_Id i) (ri_ZoneId i) w cs
      else cs = [])"

primrec cleaned :: "'w Service \<Rightarrow> UCloudCluster \<Rightarrow> ResourceInfo list \<Rightarrow> 'w \<Rightarrow> call list \<Rightarrow> bool" where
  "cleaned S c [] w cs = (cs = [])"
| "cleaned S c (i # is) w cs = (\<exists>xs ys. cs = xs @ ys \<and> resource_trace S c i w xs \<and> cleaned S c is (after_calls S xs w) ys)"

text \<open>Everything the search has listed is deleted, one resource after the other.\<close>

definition cleaning_trace :: "'w Service \<Rightarrow> UCloudCluster \<Rightarrow> 'w \<Rightarrow> call list \<Rightarrow> bool" where
  "cleaning_trace S c w cs =
     (if grp_GroupId (group_of c) = '''' then cs = []
      else \<exists>infos xs ys. cs = xs @ ys \<and> searched S c w xs infos \<and> cleaned S c infos (after_calls S xs w) ys)"

lemma replayed_deleteULB: "keeps (replayed S) (deleteULB S uid)"
  unfolding deleteULB_def
  by (intro replayed_rules replayed_invoke) (auto intro: replayed_rules split: option.split)

lemma replayed_clean_resource: "keeps (replayed S) (clean_resource S i)"
  unfolding clean_resource_def by (intro replayed_rules replayed_deleteULB replayed_terminateUHost)

lemma replayed_search_group: "keeps (replayed S) (search_group S c)"
  unfolding search_group_def by (intro replayed_rules replayed_doRequest) simp_all

lemma replayed_CleanResourceInGroup: "keeps (replayed S) (CleanResourceInGroup S)"
  unfolding CleanResourceInGroup_def by (intro replayed_rules replayed_search_group replayed_clean_resource)

lemma search_group_trace:
  assumes run: "search_group S c s = (Ok infos, t)"
  obtains cs where "calls t = calls s @ cs" and "searched S c (world s) cs infos"
proof -
  define cd req where "cd = cd_SearchBusinessGroupResource (http S)" and "req = search_group_req c (clock s) None"
  obtain r u where u: "doRequest S cd CallSearchBusinessGroupResource req zero_SearchBusinessGroupResourceResponse s = (Ok r, u)"
    using run by (auto simp: search_group_def prog_simps cd_def req_def elim!: try_else_OkE)
  note u' = doRequest_answer [OF u]
  define req' where "req' = search_group_req c (clock s) (Some (Itoa (sbgr_TotalCount r)))"
  show thesis
  proof (cases "sbgr_TotalCount r > 10")
    case True
    then obtain r' where t: "doRequest S cd CallSearchBusinessGroupResource req' r u = (Ok r', t)" "infos = sbgr_Infos r'"
      using run u by (auto simp: search_group_def prog_simps try_else_def req'_def simp flip: cd_def req_def
          split: prod.splits result.splits)
    note t' = doRequest_answer [OF t(1)]
    show thesis
    proof (rule that)
      show "calls t = calls s @ [CallSearchBusinessGroupResource req, CallSearchBusinessGroupResource req']"
        by (simp add: t'(2) u'(2))
      have "http_answer S cd r req' (after_call S (CallSearchBusinessGroupResource req) (world s)) = Some r'"
        using t'(1) u'(3) by (simp add: cd_def)
      then show "searched S c (world s) [CallSearchBusinessGroupResource req, CallSearchBusinessGroupResource req'] infos"
        using True u'(1) t(2) unfolding searched_def Let_def
        by (intro exI [of _ "clock s"] exI [of _ r]) (simp add: cd_def req_def req'_def)
    qed
  next
    case False
    then have t: "t = u" "infos = sbgr_Infos r"
      using run u by (simp_all add: search_group_def prog_simps try_else_def flip: cd_def req_def)
    show thesis
    proof (rule that)
      show "calls t = calls s @ [CallSearchBusinessGroupResource req]"
        by (simp add: t(1) u'(2))
      show "searched S c (world s) [CallSearchBusinessGroupResource req] infos"
        using False u'(1) t(2) unfolding searched_def Let_def
        by (intro exI [of _ "clock s"] exI [of _ r]) (simp add: cd_def req_def)
    qed
  qed
qed

lemma clean_resource_trace:
  assumes run: "clean_resource S i s = (Ok (), t)"
  obtains cs where "calls t = calls s @ cs" and "resource_trace S (ucluster s) i (world s) cs"
    and "ucluster t = ucluster s"
proof -
  have c: "ucluster t = ucluster s"
    using obtainingD [OF obtaining_clean_resource run refl] by blast
  consider (ulb) "ToLower (ri_ResourceTypeName i) = ''ulb''" "deleteULB S (ri_Id i) s = (Ok (), t)"
    | (uhost) "ToLower (ri_ResourceTypeName i) \<noteq> ''ulb''" "ToLower (ri_ResourceTypeName i) = ''uhost''"
        "terminateUHost S (ri_Id i) (ri_ZoneId i) s = (Ok (), t)"
    | (other) "ToLower (ri_ResourceTypeName i) \<noteq> ''ulb''" "ToLower (ri_ResourceTypeName i) \<noteq> ''uhost''" "t = s"
    using run by (auto simp: clean_resource_def ret_run elim!: try_else_OkE split: if_splits)
  then show thesis
  proof cases
    case ulb
    then show thesis
      using c by (intro that) (auto simp: deleteULB_run Let_def resource_trace_def)
  next
    case uhost
    from uhost(3) obtain cs where "calls t = calls s @ cs"
        "termination_trace S (ucluster s) (ri_Id i) (ri_ZoneId i) (world s) cs"
      by (rule terminateUHost_trace)
    with uhost c show thesis
      by (intro that [of cs]) (simp_all add: resource_trace_def)
  next
    case other
    with c show thesis
      by (intro that [of "[]"]) (simp_all add: resource_trace_def)
  qed
qed

lemma cleaned_trace:
  assumes "for_each is (clean_resource S) s = (Ok (), t)"
  shows "\<exists>cs. calls t = calls s @ cs \<and> cleaned S (ucluster s) is (world s) cs"
  using assms
proof (induction "is" arbitrary: s)
  case Nil
  then show ?case
    by (simp add: ret_run)
next
  case (Cons i "is")
  from Cons.prems obtain u where u: "clean_resource S i s = (Ok (), u)" "for_each is (clean_resource S) u = (Ok (), t)"
    by (auto elim!: bind_OkE)
  from u(1) obtain xs where xs: "calls u = calls s @ xs" "resource_trace S (ucluster s) i (world s) xs"
      "ucluster u = ucluster s"
    by (rule clean_resource_trace)
  have "world u = after_calls S xs (world s)"
    using replayed_clean_resource u(1) xs(1) by (rule replayed_run)
  with Cons.IH [OF u(2)] xs show ?case
    by auto
qed

lemma CleanResourceInGroup_trace:
  assumes run: "CleanResourceInGroup S s = (Ok (), t)"
  obtains cs where "calls t = calls s @ cs" and "cleaning_trace S (ucluster s) (world s) cs"
proof (cases "grp_GroupId (group_of (ucluster s)) = ''''")
  case True
  then show thesis
    using run by (intro that [of "[]"]) (simp_all add: CleanResourceInGroup_def prog_simps cleaning_trace_def)
next
  case False
  with run obtain infos u where u: "search_group S (ucluster s) s = (Ok infos, u)" "for_each infos (clean_resource S) u = (Ok (), t)"
    by (auto simp: CleanResourceInGroup_def prog_simps elim!: bind_OkE)
  from u(1) obtain xs where xs: "calls u = calls s @ xs" "searched S (ucluster s) (world s) xs infos"
    by (rule search_group_trace)
  have w: "world u = after_calls S xs (world s)"
    using replayed_search_group u(1) xs(1) by (rule replayed_run)
  have "ucluster u = ucluster s"
    using obtainingD [OF obtaining_search_group u(1) refl] by blast
  with cleaned_trace [OF u(2)] obtain ys where "calls t = calls u @ ys" "cleaned S (ucluster s) infos (world u) ys"
    by auto
  with False xs w show thesis
    by (intro that [of "xs @ ys"]) (auto simp: cleaning_trace_def)
qed

end
