(* ===== verification/Nat_Service.thy ===== *)
theory Nat_Service
  imports Subnet_Service Eip_Service
begin

text \<open>\<open>cloud/services/nat.go\<close>: finding or creating the NAT gateway, and deleting it.\<close>

section \<open>Operations\<close>

definition nat_of :: "UCloudCluster \<Rightarrow> Nat" where
  "nat_of c = nw_Nat (network c)"

definition nat_spec :: "UCloudCluster \<Rightarrow> NatSpec" where
  "nat_spec c = nws_Nat (cs_Network (uc_Spec c))"

definition natgw_spec :: "UCloudCluster \<Rightarrow> NatGatewaySpec" where
  "natgw_spec c = nats_NatGateway (nat_spec c)"

definition describe_nat_req :: "UCloudCluster \<Rightarrow> DescribeNATGWRequest" where
  "describe_nat_req c = \<lparr>rq_Region = Region c, rq_ProjectId = ProjectId c,
     dnat_NATGWIds = (if ngs_NatGatewayId (natgw_spec c) \<noteq> '''' then [ngs_NatGatewayId (natgw_spec c)] else [])\<rparr>"

text \<open>The lookup compares with the name of the specification, also when it is empty.\<close>

definition find_nat :: "UCloudCluster \<Rightarrow> NatGatewayDataSet list \<Rightarrow> NatGatewayDataSet option" where
  "find_nat c = List.find (\<lambda>g. (ni_NATGWId g = ngs_NatGatewayId (natgw_spec c)
     \<or> ni_NATGWName g = ngs_Name (natgw_spec c)) \<and> ni_VPCId g = vpc_VpcId (vpc_of c))"

definition natName :: "UCloudCluster \<Rightarrow> string" where
  "natName c = (if ngs_Name (natgw_spec c) \<noteq> '''' then ngs_Name (natgw_spec c)
     else ''natgw-for-'' @ om_Name (uc_Meta c))"

definition create_nat_req :: "UCloudCluster \<Rightarrow> string \<Rightarrow> string \<Rightarrow> CreateNATGWRequest" where
  "create_nat_req c firewallId eipId = \<lparr>rq_Region = Region c, rq_ProjectId = ProjectId c,
     cnat_Tag = GroupName c, cnat_NATGWName = natName c, cnat_FirewallId = firewallId,
     cnat_VPCId = vpc_VpcId (vpc_of c), cnat_SubnetworkIds = [sub_SubnetId (subnet_of c)],
     cnat_EIPIds = [eipId]\<rparr>"

text \<open>
  The status is written field by field, and \<open>IPSet[0]\<close> is read after the gateway's own fields
  have been written.
\<close>

definition record_nat :: "NatGatewayDataSet \<Rightarrow> ('w st, unit) prog" where
  "record_nat g =
     bind (modify (upd_network (nw_Firewall_update (fw_FirewallId_update (\<lambda>_. ni_FirewallId g))
       \<circ> nw_Nat_update (\<lambda>x. x\<lparr>nat_NatGatewayId := ni_NATGWId g, nat_Name := ni_NATGWName g,
           nat_VpcId := ni_VPCId g, nat_Firewall := (nat_Firewall x)\<lparr>fw_FirewallId := ni_FirewallId g\<rparr>\<rparr>)))) (\<lambda>_.
     bind (index (ni_IPSet g) 0) (\<lambda>ip.
     modify (upd_network (nw_Nat_update (nat_EIP_update (\<lambda>e.
       e\<lparr>eip_EIPId := nip_EIPId ip, eip_Bandwidth := nip_Bandwidth ip\<rparr>))))))"

definition create_nat :: "'w Service \<Rightarrow> UCloudCluster \<Rightarrow> ('w st, NatGatewayDataSet) prog" where
  "create_nat S c =
     (let subnetId = sub_SubnetId (subnet_of c) in
     if subnetId = '''' then raise (Errorf ''subnet is not created'' [])
     else
     bind (getFirewall S (fws_FirewallId (nws_Firewall (cs_Network (uc_Spec c))))) (\<lambda>firewall.
     bind (createEIP S (nats_EIP (nat_spec c))) (\<lambda>eip.
     let req = create_nat_req c (fw_FirewallId firewall) (eip_EIPId eip) in
     bind (invoke (sdk_CreateNATGW (vpcClient S)) CallCreateNATGW req) (\<lambda>newNat.
     if_err (rp_err newNat) (ErrorfErr ''create nat gw failed: %s'' [])
     (ret \<lparr>ni_FirewallId = fw_FirewallId firewall, ni_NATGWId = rp_body newNat,
           ni_NATGWName = cnat_NATGWName req, ni_VPCId = vpc_VpcId (vpc_of c),
           ni_IPSet = [\<lparr>nip_Bandwidth = eip_Bandwidth eip, nip_EIPId = eip_EIPId eip\<rparr>],
           ni_SubnetSet = [subnetId]\<rparr>)))))"

definition ReconcileNat :: "'w Service \<Rightarrow> ('w st, unit) prog" where
  "ReconcileNat S =
     bind (gets ucluster) (\<lambda>c.
     if nat_NatGatewayId (nat_of c) \<noteq> '''' then ret ()
     else if vpc_VpcId (vpc_of c) = '''' then raise (Errorf ''vpc is not created'' [])
     else
     bind (invoke (sdk_DescribeNATGW (vpcClient S)) CallDescribeNATGW (describe_nat_req c)) (\<lambda>natGWs.
     if_err (rp_err natGWs) (ErrorfErr ''describe nat gateway failed: %s'' [])
     (bind (case find_nat c (rp_body natGWs) of Some g \<Rightarrow> ret g | None \<Rightarrow> create_nat S c) record_nat)))"

definition delete_nat_req :: "UCloudCluster \<Rightarrow> DeleteNATGWRequest" where
  "delete_nat_req c = \<lparr>rq_Region = Region c, rq_ProjectId = ProjectId c,
     delnat_NATGWId = nat_NatGatewayId (nat_of c), delnat_ReleaseEip = True\<rparr>"

definition DeleteNat :: "'w Service \<Rightarrow> ('w st, unit) prog" where
  "DeleteNat S =
     bind (gets ucluster) (\<lambda>c.
     let gid = nat_NatGatewayId (nat_of c) in
     if gid = '''' then ret ()
     else if ngs_NatGatewayId (natgw_spec c) = gid then ret ()
     else
     bind (invoke (sdk_DeleteNATGW (vpcClient S)) CallDeleteNATGW (delete_nat_req c)) (\<lambda>res.
     (case rp_err res of
        Some e \<Rightarrow> if rp_code res \<noteq> 54002 then raise (ErrorfErr ''delete natgateway %s failed: %s'' [gid] e)
                  else ret ()
      | None \<Rightarrow> ret ())))"

section \<open>Contracts\<close>

definition nat_sends :: "'w Service \<Rightarrow> UCloudCluster \<Rightarrow> call \<Rightarrow> bool" where
  "nat_sends S c call \<longleftrightarrow> call = CallDescribeNATGW (describe_nat_req c)
     \<or> call = CallDescribeFirewall (describe_firewall_req c (fws_FirewallId (nws_Firewall (cs_Network (uc_Spec c)))))
     \<or> call = CallAllocateEIP (allocate_eip_req c (nats_EIP (nat_spec c)))
     \<or> (\<exists>f e. call = CallCreateNATGW (create_nat_req c f e))"

lemma nat_sends_intros [simp]:
  "nat_sends S c (CallDescribeNATGW (describe_nat_req c))"
  "nat_sends S c (CallDescribeFirewall (describe_firewall_req c (fws_FirewallId (nws_Firewall (cs_Network (uc_Spec c))))))"
  "nat_sends S c (CallAllocateEIP (allocate_eip_req c (nats_EIP (nat_spec c))))"
  "nat_sends S c (CallCreateNATGW (create_nat_req c f e))"
  by (auto simp: nat_sends_def)

lemma obtaining_create_nat: "obtaining c (nat_sends S c) (create_nat S c)"
proof -
  have fw: "obtaining c (nat_sends S c) (getFirewall S (fws_FirewallId (nws_Firewall (cs_Network (uc_Spec c)))))"
    and ip: "obtaining c (nat_sends S c) (createEIP S (nats_EIP (nat_spec c)))"
    by (auto simp: obtaining_def getFirewall_outcome createEIP_outcome Let_def)
  have req: "obtaining c (nat_sends S c)
      (invoke (sdk_CreateNATGW (vpcClient S)) CallCreateNATGW (create_nat_req c f e))" for f e
    by (rule obtaining_call) simp
  show ?thesis
    unfolding create_nat_def Let_def
    by (simp add: obtaining_simple) (intro impI obtaining_rules fw ip req)
qed

lemma recording_record_nat: "recording record_nat"
  by (auto simp: recording_def record_nat_def prog_simps bind_index split: if_splits)

text \<open>The part of the step that obtains the gateway's description.\<close>

definition lookup_nat :: "'w Service \<Rightarrow> UCloudCluster \<Rightarrow> ('w st, NatGatewayDataSet) prog" where
  "lookup_nat S c =
     bind (invoke (sdk_DescribeNATGW (vpcClient S)) CallDescribeNATGW (describe_nat_req c)) (\<lambda>natGWs.
     if_err (rp_err natGWs) (ErrorfErr ''describe nat gateway failed: %s'' [])
     (case find_nat c (rp_body natGWs) of Some g \<Rightarrow> ret g | None \<Rightarrow> create_nat S c))"

lemma obtaining_lookup_nat: "obtaining c (nat_sends S c) (lookup_nat S c)"
proof -
  have "obtaining c (nat_sends S c)
      (invoke (sdk_DescribeNATGW (vpcClient S)) CallDescribeNATGW (describe_nat_req c))"
    by (rule obtaining_call) simp
  then show ?thesis
    unfolding lookup_nat_def
    by (intro obtaining_bind obtaining_if_err) (auto simp: obtaining_simple obtaining_create_nat split: option.split)
qed

lemma ReconcileNat_run: "ReconcileNat S s =
    (if nat_NatGatewayId (nat_of (ucluster s)) \<noteq> '''' then (Ok (), s)
     else if vpc_VpcId (vpc_of (ucluster s)) = '''' then (Err (Errorf ''vpc is not created'' []), s)
     else bind (lookup_nat S (ucluster s)) record_nat s)"
  by (simp add: ReconcileNat_def lookup_nat_def prog_simps bind_assoc if_err_run bind_if_err
      split: option.split)

interpretation nat: provision_step "ReconcileNat S" "\<lambda>c. nat_NatGatewayId (nat_of c)" "nat_sends S" for S
  by (rule provision_by_recording [OF _ _ obtaining_lookup_nat recording_record_nat])
    (auto simp: ReconcileNat_run split: if_splits)

definition nat_owned :: "UCloudCluster \<Rightarrow> bool" where
  "nat_owned c \<longleftrightarrow> nat_NatGatewayId (nat_of c) \<noteq> '''' \<and> ngs_NatGatewayId (natgw_spec c) \<noteq> nat_NatGatewayId (nat_of c)"

lemmas DeleteNat_run = DeleteNat_def prog_simps Let_def

interpretation nat_del: delete_step "DeleteNat S" nat_owned "\<lambda>c now. CallDeleteNATGW (delete_nat_req c)" for S
  by unfold_locales (auto simp: DeleteNat_run nat_owned_def split: if_splits option.splits)

end
