(* ===== verification/Uk8s_Service.thy ===== *)
theory Uk8s_Service
  imports Ugroup_Service Nat_Service
begin

text \<open>\<open>cloud/services/uk8s.go\<close>: registering the cluster and its hosts with UK8S.\<close>

section \<open>The cluster\<close>

definition create_capu_req ::
  "'w Service \<Rightarrow> UCloudCluster \<Rightarrow> nat \<Rightarrow> string \<Rightarrow> string \<Rightarrow> CreateCAPUClusterRequest" where
  "create_capu_req S c now podCIDR serviceCIDR =
     \<lparr>rb_Action = ''CreateCAPUCluster'', rb_RequestTime = now, rb_Region = Some (Region c), rb_Zone = None,
      rb_ProjectId = Some (ProjectId c), cc_VPCId = Some (vpc_VpcId (vpc_of c)),
      cc_SubnetId = Some (sub_SubnetId (subnet_of c)), cc_PodCIDR = Some podCIDR,
      cc_NATGWId = Some (nat_NatGatewayId (nat_of c)), cc_ServiceCIDR = Some serviceCIDR,
      cc_ClusterName = Some (om_Name (uc_Meta c)), cc_ULBId = Some (ulb_LoadBalancerId (ulb_of c)),
      cc_FWId = Some (fw_FirewallId (nw_Firewall (network c))),
      cc_NodeCIDR = Some (sub_CidrBlock (subnet_of c)), cc_K8SVersion = Some (cs_Version (uc_Spec c)),
      cc_APIServer = Some (lib_EndpointString (lib S) (cs_ControlPlaneEndpoint (uc_Spec c))),
      cc_BastionId = map_option inst_InstanceId (cst_Bastion (uc_Status c)),
      cc_BastionZone = map_option inst_Zone (cst_Bastion (uc_Status c))\<rparr>"

definition zero_CreateCAPUClusterResponse :: CreateCAPUClusterResponse where
  "zero_CreateCAPUClusterResponse = \<lparr>rs_RetCode = 0, rs_Message = '''', ccr_ClusterId = ''''\<rparr>"

text \<open>\<open>Pods.CIDRBlocks[0]\<close> and \<open>Services.CIDRBlocks[0]\<close> go through pointers.\<close>

definition first_cidr :: "'w Service \<Rightarrow> (ClusterNetwork \<Rightarrow> string list option) \<Rightarrow> ('w st, string) prog" where
  "first_cidr S f =
     bind (deref (cl_ClusterNetwork (sv_Cluster S))) (\<lambda>cn.
     bind (deref (f cn)) (\<lambda>blocks. index blocks 0))"

definition create_capu :: "'w Service \<Rightarrow> UCloudCluster \<Rightarrow> ('w st, string) prog" where
  "create_capu S c =
     bind (gets clock) (\<lambda>now.
     bind (first_cidr S cn_Pods) (\<lambda>podCIDR.
     bind (first_cidr S cn_Services) (\<lambda>serviceCIDR.
     try_else (doRequest S (cd_CreateCAPUCluster (http S)) CallCreateCAPUCluster
         (create_capu_req S c now podCIDR serviceCIDR) zero_CreateCAPUClusterResponse)
       (\<lambda>e. Wrapf e ''create uk8s capu cluster failed'' []) (\<lambda>res.
     ret (ccr_ClusterId res)))))"

definition record_capu :: "string \<Rightarrow> ('w st, unit) prog" where
  "record_capu clusterId = modify (upd_status (cst_ClusterId_update (\<lambda>_. clusterId)))"

definition CreateCAPUCluster :: "'w Service \<Rightarrow> ('w st, unit) prog" where
  "CreateCAPUCluster S =
     bind (gets ucluster) (\<lambda>c.
     if cst_ClusterId (uc_Status c) \<noteq> '''' then ret ()
     else bind (create_capu S c) record_capu)"

definition delete_capu_req :: "UCloudCluster \<Rightarrow> nat \<Rightarrow> DeleteCAPUClusterRequest" where
  "delete_capu_req c now = \<lparr>rb_Action = ''DeleteCAPUCluster'', rb_RequestTime = now,
     rb_Region = Some (Region c), rb_Zone = None, rb_ProjectId = Some (ProjectId c),
     dc_ClusterId = Some (cst_ClusterId (uc_Status c))\<rparr>"

definition DeleteCAPUCluster :: "'w Service \<Rightarrow> ('w st, unit) prog" where
  "DeleteCAPUCluster S =
     bind (gets ucluster) (\<lambda>c.
     if cst_ClusterId (uc_Status c) = '''' then ret ()
     else
     bind (gets clock) (\<lambda>now.
     try_else (doRequest S (cd_DeleteCAPUCluster (http S)) CallDeleteCAPUCluster
         (delete_capu_req c now) zero_ResponseBase)
       (\<lambda>e. Wrapf e ''delete uk8s capu cluster failed'' []) (\<lambda>_.
     ret ())))"

section \<open>Its hosts\<close>

definition create_host_req :: "'w Service \<Rightarrow> UCloudCluster \<Rightarrow> UCloudMachine \<Rightarrow> nat \<Rightarrow> CreateCAPUHostRequest" where
  "create_host_req S c m now = \<lparr>rb_Action = ''CreateCAPUHost'', rb_RequestTime = now,
     rb_Region = Some (Region c), rb_Zone = Some (GetZone m), rb_ProjectId = Some (ProjectId c),
     chost_ClusterId = Some (cst_ClusterId (uc_Status c)), chost_InstanceId = GetInstanceID S m,
     chost_Type = Some ''uhost'', chost_Role = Some (if IsControlPlane S then ''master'' else ''node'')\<rparr>"

definition CreateCAPUHost :: "'w Service \<Rightarrow> ('w st, unit) prog" where
  "CreateCAPUHost S =
     bind (gets ucluster) (\<lambda>c. bind (gets umachine) (\<lambda>m.
     if mst_ClusterId (um_Status m) \<noteq> '''' then ret ()
     else
     bind (gets clock) (\<lambda>now.
     try_else (doRequest S (cd_CreateCAPUHost (http S)) CallCreateCAPUHost
         (create_host_req S c m now) zero_ResponseBase)
       (\<lambda>e. Wrapf e ''create uk8s capu host failed'' []) (\<lambda>_.
     modify (umachine_update (um_Status_update (mst_ClusterId_update (\<lambda>_. cst_ClusterId (uc_Status c)))))))))"

definition delete_host_req :: "'w Service \<Rightarrow> UCloudCluster \<Rightarrow> UCloudMachine \<Rightarrow> nat \<Rightarrow> DeleteCAPUHostRequest" where
  "delete_host_req S c m now = \<lparr>rb_Action = ''DeleteCAPUHost'', rb_RequestTime = now,
     rb_Region = Some (Region c), rb_Zone = None, rb_ProjectId = Some (ProjectId c),
     dhost_ClusterId = Some (cst_ClusterId (uc_Status c)), dhost_InstanceId = GetInstanceID S m\<rparr>"

definition DeleteCAPUHost :: "'w Service \<Rightarrow> ('w st, unit) prog" where
  "DeleteCAPUHost S =
     bind (gets ucluster) (\<lambda>c. bind (gets umachine) (\<lambda>m.
     bind (gets clock) (\<lambda>now.
     try_else (doRequest S (cd_DeleteCAPUHost (http S)) CallDeleteCAPUHost
         (delete_host_req S c m now) zero_ResponseBase)
       (\<lambda>e. Wrapf e ''delete uk8s capu host failed'' []) (\<lambda>_.
     ret ()))))"

section \<open>Contracts\<close>

definition capu_sends :: "'w Service \<Rightarrow> UCloudCluster \<Rightarrow> call \<Rightarrow> bool" where
  "capu_sends S c call \<longleftrightarrow> (\<exists>now p v. call = CallCreateCAPUCluster (create_capu_req S c now p v))"

lemma obtaining_create_capu: "obtaining c (capu_sends S c) (create_capu S c)"
proof -
  have "capu_sends S c (CallCreateCAPUCluster (create_capu_req S c now p v))" for now p v
    by (auto simp: capu_sends_def)
  then show ?thesis
    unfolding create_capu_def first_cidr_def
    by (auto intro!: obtaining_bind obtaining_try_else obtaining_doRequest
        simp: obtaining_simple obtaining_deref)
qed

lemma recording_record_capu: "recording record_capu"
  by (auto simp: recording_def record_capu_def prog_simps)

lemma CreateCAPUCluster_run: "CreateCAPUCluster S s =
    (if cst_ClusterId (uc_Status (ucluster s)) \<noteq> '''' then (Ok (), s)
     else bind (create_capu S (ucluster s)) record_capu s)"
  by (simp add: CreateCAPUCluster_def prog_simps)

interpretation capu: provision_step "CreateCAPUCluster S" "\<lambda>c. cst_ClusterId (uc_Status c)" "capu_sends S" for S
  by (rule provision_by_recording [OF _ _ obtaining_create_capu recording_record_capu])
    (auto simp: CreateCAPUCluster_run split: if_splits)

interpretation capu_del: delete_step "DeleteCAPUCluster S" "\<lambda>c. cst_ClusterId (uc_Status c) \<noteq> ''''"
    "\<lambda>c now. CallDeleteCAPUCluster (delete_capu_req c now)" for S
  by unfold_locales (auto simp: DeleteCAPUCluster_def prog_simps dest: try_doRequest_run try_doRequest_Ok split: if_splits)

text \<open>Registering a host writes the machine's status; unregistering writes nothing.\<close>

lemma CreateCAPUHost_cases:
  assumes "CreateCAPUHost S s = (r, t)"
  obtains (skip) "t = s" and "mst_ClusterId (um_Status (umachine s)) \<noteq> ''''" and "r = Ok ()"
  | (failed) "mst_ClusterId (um_Status (umachine s)) = ''''" and "r \<noteq> Ok ()"
      and "t = s \<or> (\<exists>d w. t = sent (CallCreateCAPUHost (create_host_req S (ucluster s) (umachine s) (clock s))) d w s)"
  | (created) d w where "mst_ClusterId (um_Status (umachine s)) = ''''" and "r = Ok ()"
      and "t = umachine_update (um_Status_update (mst_ClusterId_update (\<lambda>_. cst_ClusterId (uc_Status (ucluster s)))))
             (sent (CallCreateCAPUHost (create_host_req S (ucluster s) (umachine s) (clock s))) d w s)"
proof -
  define req where "req = create_host_req S (ucluster s) (umachine s) (clock s)"
  obtain q u where q: "doRequest S (cd_CreateCAPUHost (http S)) CallCreateCAPUHost req zero_ResponseBase s = (q, u)"
    by fastforce
  show thesis
  proof (cases "mst_ClusterId (um_Status (umachine s)) = ''''")
    case False
    then show thesis
      using assms skip by (auto simp: CreateCAPUHost_def prog_simps)
  next
    case True
    show thesis
    proof (cases q)
      case (Ok x)
      then obtain d w where "u = sent (CallCreateCAPUHost req) d w s"
        using doRequest_OkE(2) [of S "cd_CreateCAPUHost (http S)"] q by blast
      then show thesis
        using assms True q Ok created by (auto simp: CreateCAPUHost_def prog_simps try_else_def req_def)
    qed (use assms True q doRequest_sent [OF q] failed in
        \<open>auto simp: CreateCAPUHost_def prog_simps try_else_def req_def\<close>)
  qed
qed

lemma DeleteCAPUHost_sent:
  assumes "DeleteCAPUHost S s = (r, t)"
  shows "t = s \<or> (\<exists>d w. t = sent (CallDeleteCAPUHost (delete_host_req S (ucluster s) (umachine s) (clock s))) d w s)"
  using assms by (auto simp: DeleteCAPUHost_def prog_simps dest: try_doRequest_run)

end
