(* ===== verification/Helpers.thy ===== *)
theory Helpers
  imports Uk8s_Service
begin

text \<open>
  \<open>controllers/helpers.go\<close>, what both controllers share of the controller runtime (results of a
  reconcile call, watch events and their predicates), and \<open>services.NewService\<close>.
\<close>

section \<open>Results, requests and events\<close>

text \<open>\<open>ctrl.Result\<close>: milliseconds after which to reconcile again, 0 for not at all.\<close>

record Result =
  RequeueAfter :: nat

definition no_requeue :: Result where
  "no_requeue = \<lparr>RequeueAfter = 0\<rparr>"

definition requeue_seconds :: "nat \<Rightarrow> Result" where
  "requeue_seconds n = \<lparr>RequeueAfter = 1000 * n\<rparr>"

type_synonym NamespacedName = "string \<times> string"

datatype 'o event = CreateEvent 'o | UpdateEvent 'o 'o | DeleteEvent 'o | GenericEvent 'o

fun IsNotFound :: "error option \<Rightarrow> bool" where
  "IsNotFound (Some (NotFoundError m)) = True"
| "IsNotFound _ = False"

section \<open>Pausing\<close>

text \<open>A nil cluster stands for one that is not paused.\<close>

definition isPaused :: "'w Service \<Rightarrow> Cluster option \<Rightarrow> ObjectMeta \<Rightarrow> bool" where
  "isPaused S cluster v = (case cluster of
      None \<Rightarrow> lib_IsPaused (lib S) False v
    | Some c \<Rightarrow> lib_IsPaused (lib S) (cl_Paused c) v)"

text \<open>A predicate function that is not set lets the event through.\<close>

fun pausePredicates :: "'w Service \<Rightarrow> ObjectMeta event \<Rightarrow> bool" where
  "pausePredicates S (UpdateEvent old new) = (\<not> isPaused S None new)"
| "pausePredicates S (CreateEvent m) = (\<not> isPaused S None m)"
| "pausePredicates S (DeleteEvent m) = (\<not> isPaused S None m)"
| "pausePredicates S (GenericEvent m) = True"

text \<open>The predicate both controllers put on their watch of the owner clusters.\<close>

fun cluster_predicate :: "Cluster event \<Rightarrow> bool" where
  "cluster_predicate (CreateEvent c) = (\<not> cl_Paused c)"
| "cluster_predicate (DeleteEvent c) = False"
| "cluster_predicate (UpdateEvent old new) = (cl_Paused old \<and> \<not> cl_Paused new)"
| "cluster_predicate (GenericEvent c) = True"

section \<open>Services and scopes\<close>

text \<open>What the constructors of the scopes call outside the repository.\<close>

record Env =
  env_NewConfig :: Config
  env_Getenv :: "string \<Rightarrow> string"
  env_NewClusterHelper :: "UCloudCluster \<Rightarrow> error option"
  env_NewMachineHelper :: "UCloudMachine \<Rightarrow> error option"

text \<open>\<open>NewService\<close> builds the clients from the scope's configuration and credential.\<close>

definition NewService :: "'w Service \<Rightarrow> ClusterScope \<Rightarrow> 'w Service" where
  "NewService S sc = S\<lparr>sv_Config := (case ucl_Config (csc_Clients sc) of Some c \<Rightarrow> c | None \<Rightarrow> sv_Config S),
     sv_Credential := ucl_Credential (csc_Clients sc), sv_Cluster := csc_Cluster sc\<rparr>"

section \<open>Finalizers\<close>

definition add_finalizer :: "'w Service \<Rightarrow> string \<Rightarrow> ObjectMeta \<Rightarrow> ObjectMeta" where
  "add_finalizer S f = om_Finalizers_update (lib_AddFinalizer (lib S) f)"

definition remove_finalizer :: "'w Service \<Rightarrow> string \<Rightarrow> ObjectMeta \<Rightarrow> ObjectMeta" where
  "remove_finalizer S f = om_Finalizers_update (\<lambda>fs. fst (lib_RemoveFinalizer (lib S) f fs))"

definition upd_cluster_meta :: "(ObjectMeta \<Rightarrow> ObjectMeta) \<Rightarrow> 'w st \<Rightarrow> 'w st" where
  "upd_cluster_meta f = ucluster_update (uc_Meta_update f)"

definition upd_machine_meta :: "(ObjectMeta \<Rightarrow> ObjectMeta) \<Rightarrow> 'w st \<Rightarrow> 'w st" where
  "upd_machine_meta f = umachine_update (um_Meta_update f)"

definition upd_machine :: "(UCloudMachine \<Rightarrow> UCloudMachine) \<Rightarrow> 'w st \<Rightarrow> 'w st" where
  "upd_machine f = umachine_update f"

lemma upd_cluster_meta_simps [simp]:
  "world (upd_cluster_meta f s) = world s" "clock (upd_cluster_meta f s) = clock s"
  "calls (upd_cluster_meta f s) = calls s" "umachine (upd_cluster_meta f s) = umachine s"
  "ucluster (upd_cluster_meta f s) = uc_Meta_update f (ucluster s)"
  by (simp_all add: upd_cluster_meta_def)

lemma upd_machine_simps [simp]:
  "world (upd_machine g s) = world s" "clock (upd_machine g s) = clock s"
  "calls (upd_machine g s) = calls s" "ucluster (upd_machine g s) = ucluster s"
  "umachine (upd_machine g s) = g (umachine s)"
  "world (upd_machine_meta f s) = world s" "clock (upd_machine_meta f s) = clock s"
  "calls (upd_machine_meta f s) = calls s" "ucluster (upd_machine_meta f s) = ucluster s"
  "umachine (upd_machine_meta f s) = um_Meta_update f (umachine s)"
  by (simp_all add: upd_machine_def upd_machine_meta_def)

end
