(* ===== verification/Cluster_Controller.thy ===== *)
theory Cluster_Controller
  imports Helpers
begin

text \<open>\<open>controllers/ucloudcluster_controller.go\<close>: the reconciler of \<open>UCloudCluster\<close> objects.\<close>

section \<open>Reconciling a live cluster\<close>

text \<open>The error of a step is wrapped with the object's namespace and name.\<close>

definition step_failed :: "string \<Rightarrow> UCloudCluster \<Rightarrow> error \<Rightarrow> error" where
  "step_failed msg c e = Wrapf e msg [om_Namespace (uc_Meta c), om_Name (uc_Meta c)]"

definition set_endpoint :: "'w st \<Rightarrow> 'w st" where
  "set_endpoint s = ucluster_update (uc_Spec_update (cs_ControlPlaneEndpoint_update (\<lambda>_.
     \<lparr>ep_Host = eip_EIPAddr (ulb_EIP (ulb_of (ucluster s))), ep_Port = 6443\<rparr>))) s"

definition failure_domains :: "string list \<Rightarrow> (string \<rightharpoonup> FailureDomainSpec)" where
  "failure_domains zones = fold (\<lambda>z m. m(z \<mapsto> \<lparr>fd_ControlPlane = True, fd_Attributes = None\<rparr>)) zones Map.empty"

text \<open>What remains once the load balancer has an address.\<close>

definition reconcile_endpoint :: "'w Service \<Rightarrow> ('w st, Result) prog" where
  "reconcile_endpoint S =
     bind (modify set_endpoint) (\<lambda>_.
     bind (gets ucluster) (\<lambda>c.
     (case GetZones c of
        Inl err \<Rightarrow> raise (step_failed ''failed to get available zones for UCloudCluster %s/%s'' c err)
      | Inr zones \<Rightarrow>
     bind (modify (upd_status (\<lambda>x. x\<lparr>cst_FailureDomains := failure_domains zones, cst_Ready := True\<rparr>))) (\<lambda>_.
     try_else (CreateBastionInstance S)
       (step_failed ''failed to create bastion instance for UCloudCluster %s/%s'' c) (\<lambda>_.
     try_else (CreateCAPUCluster S)
       (step_failed ''failed to create uk8s capu cluster for UCloudCluster %s/%s'' c) (\<lambda>_.
     ret no_requeue))))))"

text \<open>The five provisioning steps, each after the one before has succeeded.\<close>

definition provision :: "'w Service \<Rightarrow> ('w st, unit) prog" where
  "provision S =
     bind (gets ucluster) (\<lambda>c.
     try_else (ReconcileUGroup S) (step_failed ''failed to reconcile group for UCloudCluster %s/%s'' c) (\<lambda>_.
     try_else (ReconcileVPC S) (step_failed ''failed to reconcile network for UCloudCluster %s/%s'' c) (\<lambda>_.
     try_else (ReconcileSubnet S) (step_failed ''failed to reconcile subnet for UCloudCluster %s/%s'' c) (\<lambda>_.
     try_else (ReconcileNat S) (step_failed ''failed to reconcile nat gateway for UCloudCluster %s/%s'' c) (\<lambda>_.
     try_else (ReconcileULB S) (step_failed ''failed to reconcile load balancers for UCloudCluster %s/%s'' c) (\<lambda>_.
     ret ()))))))"

definition cluster_reconcile :: "'w Service \<Rightarrow> ('w st, Result) prog" where
  "cluster_reconcile S =
     bind (modify (upd_cluster_meta (add_finalizer S ClusterFinalizer))) (\<lambda>_.
     bind (PatchObject S) (\<lambda>_.
     bind (provision S) (\<lambda>_.
     bind (gets ucluster) (\<lambda>c.
     if eip_EIPAddr (ulb_EIP (ulb_of c)) = '''' then ret (requeue_seconds 15)
     else reconcile_endpoint S))))"

section \<open>Reconciling a deleted cluster\<close>

definition machine_suffix :: string where
  "machine_suffix = ''.ucloudmachine''"

text \<open>What the old slice shows after a helper has written the cells \<open>a\<close> from its start.\<close>

definition overlay :: "string list \<Rightarrow> string list \<Rightarrow> string list" where
  "overlay a view = take (length view) a @ drop (length a) view"

text \<open>
  The loop over \<open>GetFinalizers()\<close> ranges over the slice \<open>view\<close>, \<open>k\<close> entries of which are still to
  be looked at, while \<open>RemoveFinalizer\<close> changes the object. \<open>aliased\<close> says whether the object's
  slice still starts on the same array. The result says whether to wait for a machine.
\<close>

primrec machines_remain :: "'w Service \<Rightarrow> nat \<Rightarrow> string list \<Rightarrow> bool \<Rightarrow> ('w st, bool) prog" where
  "machines_remain S 0 view aliased = ret False"
| "machines_remain S (Suc k) view aliased =
     (let finalizer = view ! (length view - Suc k) in
      if \<not> HasSuffix finalizer machine_suffix then machines_remain S k view aliased
      else
      bind (invoke (kube_GetUCloudMachine (kube S)) (\<lambda>(ns, n). CallGetMachine ns n)
         (scope_Namespace S, Split finalizer (CHR ''.'') ! 0)) (\<lambda>r.
      if \<not> IsNotFound (rp_err r) then ret True
      else
      bind (gets (\<lambda>s. om_Finalizers (uc_Meta (ucluster s)))) (\<lambda>fs.
      let (fs', shown) = lib_RemoveFinalizer (lib S) finalizer fs in
      bind (modify (upd_cluster_meta (om_Finalizers_update (\<lambda>_. fs')))) (\<lambda>_.
      case shown of
        Some a \<Rightarrow> machines_remain S k (if aliased then overlay a view else view) aliased
      | None \<Rightarrow> machines_remain S k view False))))"

text \<open>The eight deletions, each after the one before has succeeded.\<close>

definition delete_resources :: "'w Service \<Rightarrow> ('w st, unit) prog" where
  "delete_resources S =
     bind (gets ucluster) (\<lambda>c.
     try_else (TerminateBastion S) (step_failed ''error deleting bastion for UCloudCluster %s/%s'' c) (\<lambda>_.
     try_else (DeleteULB S) (step_failed ''error deleting load balancer for UCloudCluster %s/%s'' c) (\<lambda>_.
     try_else (DeleteNat S) (step_failed ''error deleting nat gateway for UCloudCluster %s/%s'' c) (\<lambda>_.
     try_else (CleanResourceInGroup S)
       (step_failed ''error cleaning resource in business group for UCloudCluster %s/%s'' c) (\<lambda>_.
     try_else (DeleteSubnet S) (step_failed ''error deleting vpc subnet for UCloudCluster %s/%s'' c) (\<lambda>_.
     try_else (DeleteVPC S) (step_failed ''error deleting vpc for UCloudCluster %s/%s'' c) (\<lambda>_.
     try_else (DeleteGroup S) (step_failed ''error deleting group for UCloudCluster %s/%s'' c) (\<lambda>_.
     try_else (DeleteCAPUCluster S)
       (step_failed ''failed to delete uk8s capu cluster for UCloudCluster %s/%s'' c) (\<lambda>_.
     ret ())))))))))"

definition cluster_reconcileDelete :: "'w Service \<Rightarrow> ('w st, Result) prog" where
  "cluster_reconcileDelete S =
     bind (gets (\<lambda>s. om_Finalizers (uc_Meta (ucluster s)))) (\<lambda>finalizers.
     bind (machines_remain S (length finalizers) finalizers True) (\<lambda>waiting.
     if waiting then ret (requeue_seconds 15)
     else
     bind (delete_resources S) (\<lambda>_.
     bind (modify (upd_cluster_meta (remove_finalizer S ClusterFinalizer))) (\<lambda>_.
     ret no_requeue))))"

section \<open>The entry point\<close>

definition cluster_Reconcile :: "Env \<Rightarrow> 'w Service \<Rightarrow> NamespacedName \<Rightarrow> ('w st, Result) prog" where
  "cluster_Reconcile E S req =
     bind (peek (kube_GetUCloudCluster (kube S)) req) (\<lambda>r.
     if IsNotFound (rp_err r) then ret no_requeue
     else if_err (rp_err r) id
     (let ucloudCluster = rp_body r in
      bind (peek (kube_GetOwnerCluster (kube S)) (uc_Meta ucloudCluster)) (\<lambda>own.
      if_err (rp_err own) id
      (if isPaused S (rp_body own) (uc_Meta ucloudCluster) then ret no_requeue
       else (case rp_body own of
         None \<Rightarrow> ret no_requeue
       | Some cluster \<Rightarrow>
      (case NewClusterScope (env_NewConfig E) (env_Getenv E) (env_NewClusterHelper E)
          \<lparr>csp_Clients = \<lparr>ucl_Config = None, ucl_Credential = None\<rparr>, csp_Cluster = Some cluster,
           csp_UCloudCluster = Some ucloudCluster\<rparr> of
         Inl err \<Rightarrow> raise (ErrorfErr ''failed to create scope: %+v'' [] err)
       | Inr clusterScope \<Rightarrow>
      let S = NewService S clusterScope in
      bind (modify (ucluster_update (\<lambda>_. csc_UCloudCluster clusterScope))) (\<lambda>_.
      with_defer
        (if om_DeletionTimestamp (uc_Meta ucloudCluster) \<noteq> None then cluster_reconcileDelete S
         else cluster_reconcile S)
        (Close S))))))))"

section \<open>Watches\<close>

text \<open>\<open>None\<close> is an object that is not a \<open>Cluster\<close>.\<close>

definition requeueUCloudClusterForUnpausedCluster :: "Cluster option \<Rightarrow> NamespacedName list" where
  "requeueUCloudClusterForUnpausedCluster obj = (case obj of
      None \<Rightarrow> []
    | Some c \<Rightarrow>
        if cl_DeletionTimestamp c \<noteq> None then []
        else (case cl_InfrastructureRef c of
            None \<Rightarrow> []
          | Some ref \<Rightarrow> [(cl_Namespace c, ref)]))"

end
