(* ===== verification/Cluster_Facts.thy ===== *)
theory Cluster_Facts
  imports Cluster_Controller
begin

text \<open>
  What the proofs about the cluster controller share: which requests the passes send, what they
  write, and how far a cluster has been provisioned.
\<close>

section \<open>Kinds of requests\<close>

text \<open>Requests that create or look up, and requests that delete.\<close>

fun provisioning :: "call \<Rightarrow> bool" where
  "provisioning (CallListBusinessGroup q) = True"
| "provisioning (CallCreateBusinessGroup q) = True"
| "provisioning (CallDescribeVPC q) = True"
| "provisioning (CallCreateVPC q) = True"
| "provisioning (CallDescribeSubnet q) = True"
| "provisioning (CallCreateSubnet q) = True"
| "provisioning (CallDescribeNATGW q) = True"
| "provisioning (CallDescribeFirewall q) = True"
| "provisioning (CallAllocateEIP q) = True"
| "provisioning (CallCreateNATGW q) = True"
| "provisioning (CallDescribeULB q) = True"
| "provisioning (CallCreateULB q) = True"
| "provisioning (CallBindEIP q) = True"
| "provisioning (CallCreateVServer q) = True"
| "provisioning (CallDescribeUHostInstance q) = True"
| "provisioning (CallCreateUHostInstance q) = True"
| "provisioning (CallCreateCAPUCluster q) = True"
| "provisioning (CallGetSecret ns n) = True"
| "provisioning (CallEvent e) = True"
| "provisioning _ = False"

lemma sends_provisioning:
  "group_sends S c x \<Longrightarrow> provisioning x"
  "vpc_sends S c x \<Longrightarrow> provisioning x"
  "subnet_sends S c x \<Longrightarrow> provisioning x"
  "nat_sends S c x \<Longrightarrow> provisioning x"
  "ulb_sends S c x \<Longrightarrow> provisioning x"
  "capu_sends S c x \<Longrightarrow> provisioning x"
  "uhost_sends c x \<Longrightarrow> provisioning x"
  by (auto simp: group_sends_def vpc_sends_def subnet_sends_def nat_sends_def ulb_sends_def capu_sends_def
      uhost_sends_def Let_def split: call.splits)

section \<open>What provisioning writes\<close>

text \<open>The metadata, the specification and the machine are not written by a provisioning step.\<close>

definition objects :: "'w st \<Rightarrow> ObjectMeta \<times> UCloudClusterSpec \<times> UCloudMachine" where
  "objects s = (uc_Meta (ucluster s), uc_Spec (ucluster s), umachine s)"

definition prov_frame :: "'w st \<Rightarrow> 'w st \<Rightarrow> bool" where
  "prov_frame = emits (\<lambda>_. provisioning) objects"

interpretation prov: frame prov_frame
  unfolding prov_frame_def by (rule emits.frame_axioms)

lemma prov_frameD:
  assumes "prov_frame s t"
  shows "uc_Meta (ucluster t) = uc_Meta (ucluster s)" and "uc_Spec (ucluster t) = uc_Spec (ucluster s)"
    and "umachine t = umachine s" and "\<exists>cs. calls t = calls s @ cs \<and> list_all provisioning cs"
  using assms by (auto simp: prov_frame_def emits_def objects_def)

context provision_step
begin

lemma prov_step:
  assumes "\<And>c x. sends c x \<Longrightarrow> provisioning x"
  shows "keeps prov_frame step"
proof (rule keepsI)
  fix s
  obtain r t where st: "step s = (r, t)" by fastforce
  obtain cs where cs: "calls t = calls s @ cs" and "list_all (sends (ucluster s)) cs"
    using sends_only [OF st] by blast
  then have "list_all provisioning cs" using assms by (auto simp: list_all_iff)
  then show "prov_frame s (snd (step s))"
    using keeps_objects [OF st] cs by (auto simp: prov_frame_def objects_def st intro!: emitsI)
qed

end

lemma uhost_list: "list_all (uhost_sends c) cs \<Longrightarrow> list_all provisioning cs"
  by (erule list.pred_mono_strong) (rule sends_provisioning(7))

lemma prov_CreateBastionInstance: "keeps prov_frame (CreateBastionInstance S)"
proof (rule keepsI)
  fix s :: "'a st"
  obtain r t where st: "CreateBastionInstance S s = (r, t)" by fastforce
  then show "prov_frame s (snd (CreateBastionInstance S s))"
    by (rule CreateBastionInstance_cases)
      (auto simp: st prov_frame_def objects_def intro!: emitsI dest: uhost_list)
qed

lemmas prov_steps =
  group.prov_step [OF sends_provisioning(1)] vpc.prov_step [OF sends_provisioning(2)]
  subnet.prov_step [OF sends_provisioning(3)] nat.prov_step [OF sends_provisioning(4)]
  ulb.prov_step [OF sends_provisioning(5)] capu.prov_step [OF sends_provisioning(6)]
  prov_CreateBastionInstance

lemma prov_provision: "keeps prov_frame (provision S)"
  unfolding provision_def by (intro prov.keeps_rules prov_steps)

section \<open>Which part of the status a step writes\<close>

text \<open>The cluster with the part of the status that one step records blanked out.\<close>

definition but_group :: "UCloudCluster \<Rightarrow> UCloudCluster" where
  "but_group = uc_Status_update (cst_Group_update (\<lambda>_. zero_Group))"

definition but_vpc :: "UCloudCluster \<Rightarrow> UCloudCluster" where
  "but_vpc = uc_Status_update (cst_Network_update (nw_VPC_update (\<lambda>_. zero_VPC)))"

definition but_subnet :: "UCloudCluster \<Rightarrow> UCloudCluster" where
  "but_subnet = uc_Status_update (cst_Network_update (nw_Subnet_update (\<lambda>_. zero_Subnet)))"

definition but_nat :: "UCloudCluster \<Rightarrow> UCloudCluster" where
  "but_nat = uc_Status_update (cst_Network_update
     (nw_Nat_update (\<lambda>_. zero_Nat) \<circ> nw_Firewall_update (\<lambda>_. zero_Firewall)))"

definition but_ulb :: "UCloudCluster \<Rightarrow> UCloudCluster" where
  "but_ulb = uc_Status_update (cst_Network_update (nw_ULB_update (\<lambda>_. zero_ULB)))"

definition but_capu :: "UCloudCluster \<Rightarrow> UCloudCluster" where
  "but_capu = uc_Status_update (cst_ClusterId_update (\<lambda>_. ''''))"

definition but_bastion :: "UCloudCluster \<Rightarrow> UCloudCluster" where
  "but_bastion = uc_Status_update (cst_Bastion_update (\<lambda>_. None))"

lemma obtain_record_same:
  assumes "bind m f s = (r, t)" and "obtaining (ucluster s) P m"
    and "\<And>a u. g (ucluster (snd (f a u))) = g (ucluster u)"
  shows "g (ucluster t) = g (ucluster s)"
proof -
  obtain q u where q: "m s = (q, u)" by fastforce
  have u: "ucluster u = ucluster s" using obtainingD [OF assms(2) q refl] by blast
  show ?thesis
  proof (cases q)
    case (Ok a)
    then have "f a u = (r, t)" using assms(1) q by (simp add: bind_def)
    then show ?thesis using assms(3) [of a u] u by simp
  qed (use assms(1) q u in \<open>auto simp: bind_def\<close>)
qed

lemma group_only: "ReconcileUGroup S s = (r, t) \<Longrightarrow> but_group (ucluster t) = but_group (ucluster s)"
  using obtain_record_same [OF _ obtaining_lookup_group, of S s record_group r t but_group]
  by (auto simp: ReconcileUGroup_run record_group_def but_group_def modify_run split: if_splits)

lemma vpc_only: "ReconcileVPC S s = (r, t) \<Longrightarrow> but_vpc (ucluster t) = but_vpc (ucluster s)"
  by (auto simp: ReconcileVPC_run but_vpc_def split: if_splits option.splits list.splits)

lemma subnet_only: "ReconcileSubnet S s = (r, t) \<Longrightarrow> but_subnet (ucluster t) = but_subnet (ucluster s)"
  by (auto simp: ReconcileSubnet_run but_subnet_def split: if_splits option.splits)

lemma nat_only: "ReconcileNat S s = (r, t) \<Longrightarrow> but_nat (ucluster t) = but_nat (ucluster s)"
  using obtain_record_same [OF _ obtaining_lookup_nat, of S s record_nat r t but_nat]
  by (auto simp: ReconcileNat_run record_nat_def but_nat_def prog_simps bind_index split: if_splits)

lemma ulb_only: "ReconcileULB S s = (r, t) \<Longrightarrow> but_ulb (ucluster t) = but_ulb (ucluster s)"
  using obtain_record_same [OF _ obtaining_lookup_ulb, of S s record_ulb r t but_ulb]
  by (auto simp: ReconcileULB_run record_ulb_def but_ulb_def prog_simps bind_index split: if_splits)

lemma capu_only: "CreateCAPUCluster S s = (r, t) \<Longrightarrow> but_capu (ucluster t) = but_capu (ucluster s)"
  using obtain_record_same [OF _ obtaining_create_capu, of S s record_capu r t but_capu]
  by (auto simp: CreateCAPUCluster_run record_capu_def but_capu_def modify_run split: if_splits)

lemma bastion_only: "CreateBastionInstance S s = (r, t) \<Longrightarrow> but_bastion (ucluster t) = but_bastion (ucluster s)"
  by (erule CreateBastionInstance_cases) (simp_all add: but_bastion_def)

section \<open>How far a cluster is provisioned\<close>

text \<open>The identifiers of the status, in the order the steps record them.\<close>

definition ids :: "UCloudCluster \<Rightarrow> string list" where
  "ids c = [grp_GroupId (group_of c), vpc_VpcId (vpc_of c), sub_SubnetId (subnet_of c),
     nat_NatGatewayId (nat_of c), ulb_LoadBalancerId (ulb_of c), cst_ClusterId (uc_Status c)]"

text \<open>The first step whose identifier is missing is the one the next pass works on.\<close>

datatype phase = AtGroup | AtVPC | AtSubnet | AtNat | AtULB | AtCAPU | Provisioned

fun phase_rank :: "phase \<Rightarrow> nat" where
  "phase_rank AtGroup = 0"
| "phase_rank AtVPC = 1"
| "phase_rank AtSubnet = 2"
| "phase_rank AtNat = 3"
| "phase_rank AtULB = 4"
| "phase_rank AtCAPU = 5"
| "phase_rank Provisioned = 6"

lemma phase_rank_inj: "phase_rank p = phase_rank q \<Longrightarrow> p = q"
  by (cases p; cases q) simp_all

instantiation phase :: linorder
begin

definition less_eq_phase :: "phase \<Rightarrow> phase \<Rightarrow> bool" where
  "less_eq_phase p q \<longleftrightarrow> phase_rank p \<le> phase_rank q"

definition less_phase :: "phase \<Rightarrow> phase \<Rightarrow> bool" where
  "less_phase p q \<longleftrightarrow> phase_rank p < phase_rank q"

instance
  by standard (auto simp: less_eq_phase_def less_phase_def intro: phase_rank_inj)

end

definition phase_of :: "UCloudCluster \<Rightarrow> phase" where
  "phase_of c =
     (if grp_GroupId (group_of c) = '''' then AtGroup
      else if vpc_VpcId (vpc_of c) = '''' then AtVPC
      else if sub_SubnetId (subnet_of c) = '''' then AtSubnet
      else if nat_NatGatewayId (nat_of c) = '''' then AtNat
      else if ulb_LoadBalancerId (ulb_of c) = '''' then AtULB
      else if cst_ClusterId (uc_Status c) = '''' then AtCAPU
      else Provisioned)"

text \<open>An identifier that is recorded stays.\<close>

definition ids_stable :: "UCloudCluster \<Rightarrow> UCloudCluster \<Rightarrow> bool" where
  "ids_stable c d \<longleftrightarrow> list_all2 (\<lambda>x y. x \<noteq> '''' \<longrightarrow> y = x) (ids c) (ids d)"

definition stable :: "'w st \<Rightarrow> 'w st \<Rightarrow> bool" where
  "stable s t \<longleftrightarrow> ids_stable (ucluster s) (ucluster t)"

interpretation stable: frame stable
  by unfold_locales (auto simp: stable_def ids_stable_def ids_def)

lemma phase_mono: "ids_stable c d \<Longrightarrow> phase_of c \<le> phase_of d"
  by (auto simp: ids_stable_def ids_def phase_of_def less_eq_phase_def)

lemma ids_stable_refl: "ids d = ids c \<Longrightarrow> ids_stable c d"
  by (auto simp: ids_stable_def ids_def)

text \<open>What a blanked cluster still determines.\<close>

lemmas status_parts = group_of_def vpc_of_def subnet_of_def nat_of_def ulb_of_def network_def

lemma ids_but:
  "tl (ids (but_group c)) = tl (ids c)"
  "hd (ids (but_vpc c)) = hd (ids c) \<and> drop 2 (ids (but_vpc c)) = drop 2 (ids c)"
  "take 2 (ids (but_subnet c)) = take 2 (ids c) \<and> drop 3 (ids (but_subnet c)) = drop 3 (ids c)"
  "take 3 (ids (but_nat c)) = take 3 (ids c) \<and> drop 4 (ids (but_nat c)) = drop 4 (ids c)"
  "take 4 (ids (but_ulb c)) = take 4 (ids c) \<and> drop 5 (ids (but_ulb c)) = drop 5 (ids c)"
  "take 5 (ids (but_capu c)) = take 5 (ids c)"
  "ids (but_bastion c) = ids c"
  by (simp_all add: ids_def but_group_def but_vpc_def but_subnet_def but_nat_def but_ulb_def but_capu_def
      but_bastion_def status_parts)

lemma but_ids:
  "but_group d = but_group c \<Longrightarrow> tl (ids d) = tl (ids c)"
  "but_vpc d = but_vpc c \<Longrightarrow> hd (ids d) = hd (ids c) \<and> drop 2 (ids d) = drop 2 (ids c)"
  "but_subnet d = but_subnet c \<Longrightarrow> take 2 (ids d) = take 2 (ids c) \<and> drop 3 (ids d) = drop 3 (ids c)"
  "but_nat d = but_nat c \<Longrightarrow> take 3 (ids d) = take 3 (ids c) \<and> drop 4 (ids d) = drop 4 (ids c)"
  "but_ulb d = but_ulb c \<Longrightarrow> take 4 (ids d) = take 4 (ids c) \<and> drop 5 (ids d) = drop 5 (ids c)"
  "but_capu d = but_capu c \<Longrightarrow> take 5 (ids d) = take 5 (ids c)"
  "but_bastion d = but_bastion c \<Longrightarrow> ids d = ids c"
  using ids_but [of c] ids_but [of d] by metis+

text \<open>A provisioning step whose identifier is recorded is skipped, so it cannot change it.\<close>

lemma stable_steps:
  "keeps stable (ReconcileUGroup S)" "keeps stable (ReconcileVPC S)" "keeps stable (ReconcileSubnet S)"
  "keeps stable (ReconcileNat S)" "keeps stable (ReconcileULB S)" "keeps stable (CreateCAPUCluster S)"
  "keeps stable (CreateBastionInstance S)"
proof (rule_tac [!] keepsI)
  fix s :: "'a st"
  note defs = stable_def ids_stable_def ids_def
  show "stable s (snd (ReconcileUGroup S s))"
    using but_ids(1) [OF group_only, of S s] group.done_skip [of s S]
    by (cases "ReconcileUGroup S s"; cases "grp_GroupId (group_of (ucluster s)) = ''''") (auto simp: defs)
  show "stable s (snd (ReconcileVPC S s))"
    using but_ids(2) [OF vpc_only, of S s] vpc.done_skip [of s S]
    by (cases "ReconcileVPC S s"; cases "vpc_VpcId (vpc_of (ucluster s)) = ''''") (auto simp: defs)
  show "stable s (snd (ReconcileSubnet S s))"
    using but_ids(3) [OF subnet_only, of S s] subnet.done_skip [of s S]
    by (cases "ReconcileSubnet S s"; cases "sub_SubnetId (subnet_of (ucluster s)) = ''''")
      (auto simp: defs numeral_2_eq_2 numeral_3_eq_3)
  show "stable s (snd (ReconcileNat S s))"
    using but_ids(4) [OF nat_only, of S s] nat.done_skip [of s S]
    by (cases "ReconcileNat S s"; cases "nat_NatGatewayId (nat_of (ucluster s)) = ''''")
      (auto simp: defs numeral_2_eq_2 numeral_3_eq_3)
  show "stable s (snd (ReconcileULB S s))"
    using but_ids(5) [OF ulb_only, of S s] ulb.done_skip [of s S]
    by (cases "ReconcileULB S s"; cases "ulb_LoadBalancerId (ulb_of (ucluster s)) = ''''")
      (auto simp: defs)
  show "stable s (snd (CreateCAPUCluster S s))"
    using but_ids(6) [OF capu_only, of S s] capu.done_skip [of s S]
    by (cases "CreateCAPUCluster S s"; cases "cst_ClusterId (uc_Status (ucluster s)) = ''''")
      (auto simp: defs)
  show "stable s (snd (CreateBastionInstance S s))"
    using but_ids(7) [OF bastion_only, of S s]
    by (cases "CreateBastionInstance S s") (auto simp: stable_def intro: ids_stable_refl)
qed

section \<open>A pass over a live cluster\<close>

lemma stable_provision: "keeps stable (provision S)"
  unfolding provision_def by (intro stable.keeps_rules stable_steps)

text \<open>Nothing is sent for a cluster whose five network identifiers are recorded.\<close>

lemma provision_settled:
  assumes "phase_of (ucluster s) \<ge> AtCAPU"
  shows "provision S s = (Ok (), s)"
proof -
  have "grp_GroupId (group_of (ucluster s)) \<noteq> ''''" "vpc_VpcId (vpc_of (ucluster s)) \<noteq> ''''"
    "sub_SubnetId (subnet_of (ucluster s)) \<noteq> ''''" "nat_NatGatewayId (nat_of (ucluster s)) \<noteq> ''''"
    "ulb_LoadBalancerId (ulb_of (ucluster s)) \<noteq> ''''"
    using assms by (auto simp: phase_of_def less_eq_phase_def split: if_splits)
  then show ?thesis
    by (simp add: provision_def prog_simps try_else_def group.done_skip vpc.done_skip subnet.done_skip
        nat.done_skip ulb.done_skip)
qed

text \<open>The object that the first patch of a pass persists.\<close>

definition finalized :: "'w Service \<Rightarrow> UCloudCluster \<Rightarrow> UCloudCluster" where
  "finalized S = uc_Meta_update (add_finalizer S ClusterFinalizer)"

definition after_patch :: "'w Service \<Rightarrow> 'w st \<Rightarrow> 'w st" where
  "after_patch S s =
     (let a = kube_PatchCluster (kube S) (finalized S (ucluster s)) (world s)
      in sent (CallPatchCluster (finalized S (ucluster s))) (rp_took (fst a)) (snd a)
           (upd_cluster_meta (add_finalizer S ClusterFinalizer) s))"

definition patch_error :: "'w Service \<Rightarrow> 'w st \<Rightarrow> error option" where
  "patch_error S s = rp_err (fst (kube_PatchCluster (kube S) (finalized S (ucluster s)) (world s)))"

lemma after_patch_simps [simp]:
  "ucluster (after_patch S s) = finalized S (ucluster s)" "umachine (after_patch S s) = umachine s"
  "calls (after_patch S s) = calls s @ [CallPatchCluster (finalized S (ucluster s))]"
  by (simp_all add: after_patch_def finalized_def Let_def)

lemma finalized_simps [simp]:
  "uc_Spec (finalized S c) = uc_Spec c" "uc_Status (finalized S c) = uc_Status c"
  "ids (finalized S c) = ids c" "phase_of (finalized S c) = phase_of c"
  by (simp_all add: finalized_def ids_def phase_of_def status_parts)

lemma cluster_reconcile_run: "cluster_reconcile S s =
    (case patch_error S s of
       Some e \<Rightarrow> (Err e, after_patch S s)
     | None \<Rightarrow> (case provision S (after_patch S s) of
         (Ok _, u) \<Rightarrow>
            if eip_EIPAddr (ulb_EIP (ulb_of (ucluster u))) = '''' then (Ok (requeue_seconds 15), u)
            else reconcile_endpoint S u
       | (Err e, u) \<Rightarrow> (Err e, u)
       | (Panic p, u) \<Rightarrow> (Panic p, u)))"
  by (simp add: cluster_reconcile_def prog_simps bind_def PatchObject_run Let_def after_patch_def patch_error_def
      finalized_def split: option.split prod.split result.split)

text \<open>The state when the endpoint and the failure domains have been written.\<close>

definition made_ready :: "string list \<Rightarrow> 'w st \<Rightarrow> 'w st" where
  "made_ready zones s =
     upd_status (\<lambda>x. x\<lparr>cst_FailureDomains := failure_domains zones, cst_Ready := True\<rparr>) (set_endpoint s)"

lemma set_endpoint_simps [simp]:
  "world (set_endpoint s) = world s" "clock (set_endpoint s) = clock s" "calls (set_endpoint s) = calls s"
  "umachine (set_endpoint s) = umachine s"
  "uc_Meta (ucluster (set_endpoint s)) = uc_Meta (ucluster s)"
  "uc_Status (ucluster (set_endpoint s)) = uc_Status (ucluster s)"
  "Region (ucluster (set_endpoint s)) = Region (ucluster s)"
  "cs_ControlPlaneEndpoint (uc_Spec (ucluster (set_endpoint s))) =
     \<lparr>ep_Host = eip_EIPAddr (ulb_EIP (ulb_of (ucluster s))), ep_Port = 6443\<rparr>"
  by (simp_all add: set_endpoint_def Region_def)

lemma GetZones_set_endpoint: "GetZones (ucluster (set_endpoint s)) = GetZones (ucluster s)"
  by (simp add: GetZones_def split: option.split)

lemma reconcile_endpoint_run: "reconcile_endpoint S u =
    (case GetZones (ucluster u) of
       Inl err \<Rightarrow> (Err (step_failed ''failed to get available zones for UCloudCluster %s/%s''
                       (ucluster (set_endpoint u)) err), set_endpoint u)
     | Inr zones \<Rightarrow> (case CreateBastionInstance S (made_ready zones u) of
         (Ok _, v) \<Rightarrow> (case CreateCAPUCluster S v of
             (Ok _, t) \<Rightarrow> (Ok no_requeue, t)
           | (Err e, t) \<Rightarrow> (Err (step_failed ''failed to create uk8s capu cluster for UCloudCluster %s/%s''
                              (ucluster (set_endpoint u)) e), t)
           | (Panic p, t) \<Rightarrow> (Panic p, t))
       | (Err e, v) \<Rightarrow> (Err (step_failed ''failed to create bastion instance for UCloudCluster %s/%s''
                          (ucluster (set_endpoint u)) e), v)
       | (Panic p, v) \<Rightarrow> (Panic p, v)))"
  by (simp add: reconcile_endpoint_def prog_simps try_else_def made_ready_def GetZones_set_endpoint
      split: sum.split prod.split result.split)

lemma but_commute: "but_capu (but_bastion c) = but_bastion (but_capu c)"
proof (rule UCloudCluster.equality)
  show "uc_Status (but_capu (but_bastion c)) = uc_Status (but_bastion (but_capu c))"
    by (rule UCloudClusterStatus.equality) (simp_all add: but_capu_def but_bastion_def)
qed (simp_all add: but_capu_def but_bastion_def)

text \<open>The two steps after that keep what has been made ready.\<close>

lemma prov_last_steps:
  assumes "reconcile_endpoint S u = (r, t)" and "GetZones (ucluster u) = Inr zones"
  shows "prov_frame (made_ready zones u) t"
    and "but_capu (but_bastion (ucluster t)) = but_capu (but_bastion (ucluster (made_ready zones u)))"
proof -
  obtain q v where q: "CreateBastionInstance S (made_ready zones u) = (q, v)" by fastforce
  obtain p w where p: "CreateCAPUCluster S v = (p, w)" by fastforce
  have v: "prov_frame (made_ready zones u) v" using prov_CreateBastionInstance q by (rule keepsD)
  have w: "prov_frame v w" using prov_steps(6) p by (rule keepsD)
  have t: "t = v \<or> t = w"
    using assms q p by (auto simp: reconcile_endpoint_run split: result.splits)
  then show "prov_frame (made_ready zones u) t" using v w by (auto intro: prov.frame_trans)
  have "but_capu (but_bastion (ucluster w)) = but_capu (but_bastion (ucluster v))"
    using capu_only [OF p] by (simp add: but_commute)
  with t bastion_only [OF q]
  show "but_capu (but_bastion (ucluster t)) = but_capu (but_bastion (ucluster (made_ready zones u)))"
    by auto
qed

lemma but_capu_bastion_parts:
  "but_capu (but_bastion c) = but_capu (but_bastion d) \<Longrightarrow>
     network c = network d \<and> cst_Ready (uc_Status c) = cst_Ready (uc_Status d)
     \<and> cst_FailureDomains (uc_Status c) = cst_FailureDomains (uc_Status d) \<and> group_of c = group_of d"
proof -
  assume eq: "but_capu (but_bastion c) = but_capu (but_bastion d)"
  have "network (but_capu (but_bastion x)) = network x"
    "cst_Ready (uc_Status (but_capu (but_bastion x))) = cst_Ready (uc_Status x)"
    "cst_FailureDomains (uc_Status (but_capu (but_bastion x))) = cst_FailureDomains (uc_Status x)"
    "group_of (but_capu (but_bastion x)) = group_of x" for x
    by (simp_all add: but_capu_def but_bastion_def status_parts)
  with eq show ?thesis by metis
qed

lemma stable_reconcile_endpoint: "keeps stable (reconcile_endpoint S)"
proof (rule keepsI)
  fix s :: "'a st"
  obtain r t where run: "reconcile_endpoint S s = (r, t)" by fastforce
  have e: "ids (ucluster (set_endpoint s)) = ids (ucluster s)"
    by (simp add: ids_def status_parts)
  show "stable s (snd (reconcile_endpoint S s))"
  proof (cases "GetZones (ucluster s)")
    case (Inl err)
    then show ?thesis using e by (simp add: reconcile_endpoint_run stable_def ids_stable_refl)
  next
    case (Inr zones)
    have r: "stable s (made_ready zones s)"
      using e by (simp add: stable_def made_ready_def ids_stable_refl ids_def status_parts)
    obtain q v where q: "CreateBastionInstance S (made_ready zones s) = (q, v)" by fastforce
    obtain p w where p: "CreateCAPUCluster S v = (p, w)" by fastforce
    have "stable (made_ready zones s) v" using stable_steps(7) q by (rule keepsD)
    moreover have "stable v w" using stable_steps(6) p by (rule keepsD)
    moreover have "t = v \<or> t = w"
      using run Inr q p by (auto simp: reconcile_endpoint_run split: result.splits)
    ultimately show ?thesis using r run by (auto intro: stable.frame_trans)
  qed
qed

lemma stable_cluster_reconcile: "keeps stable (cluster_reconcile S)"
  unfolding cluster_reconcile_def
proof (intro stable.keeps_rules stable_provision stable_reconcile_endpoint)
  show "keeps stable (modify (upd_cluster_meta (add_finalizer S ClusterFinalizer)))"
    by (rule stable.keeps_modify) (simp add: stable_def ids_stable_refl ids_def status_parts)
  show "keeps stable (PatchObject S)"
    by (rule keepsI) (simp add: PatchObject_run Let_def stable_def ids_stable_refl)
qed

end
