(* ===== verification/Deletion_Facts.thy ===== *)
theory Deletion_Facts
  imports Cluster_Facts
begin

text \<open>
  What the proofs about deleting a cluster share: the loop over the machine finalizers, and the
  sequence of requests of the eight deletions.
\<close>

section \<open>The loop over the machine finalizers\<close>

text \<open>The loop looks machines up and removes finalizers; it neither fails nor panics.\<close>

fun get_machine_call :: "call \<Rightarrow> bool" where
  "get_machine_call (CallGetMachine ns n) = True"
| "get_machine_call _ = False"

lemma machines_remain_frame:
  assumes "machines_remain S k view aliased s = (r, t)"
  shows "uc_Spec (ucluster t) = uc_Spec (ucluster s) \<and> uc_Status (ucluster t) = uc_Status (ucluster s)
    \<and> umachine t = umachine s \<and> (\<exists>cs. calls t = calls s @ cs \<and> list_all get_machine_call cs)
    \<and> (\<exists>b. r = Ok b)"
  using assms
proof (induction k arbitrary: view aliased s r t)
  case 0
  then show ?case by (auto simp: prog_simps)
next
  case (Suc k)
  define f where "f = view ! (length view - Suc k)"
  show ?case
  proof (cases "HasSuffix f machine_suffix")
    case False
    then show ?thesis using Suc by (simp add: f_def)
  next
    case True
    define q where "q = (scope_Namespace S, Split f (CHR ''.'') ! 0)"
    define a where "a = kube_GetUCloudMachine (kube S) q (world s)"
    define u where "u = sent (CallGetMachine (fst q) (snd q)) (rp_took (fst a)) (snd a) s"
    obtain fs' shown where rm: "lib_RemoveFinalizer (lib S) f (om_Finalizers (uc_Meta (ucluster s))) = (fs', shown)"
      by fastforce
    define v where "v = upd_cluster_meta (om_Finalizers_update (\<lambda>_. fs')) u"
    have run: "(r, t) = (if \<not> IsNotFound (rp_err (fst a)) then (Ok True, u)
        else (case shown of Some b \<Rightarrow> machines_remain S k (if aliased then overlay b view else view) aliased v
              | None \<Rightarrow> machines_remain S k view False v))"
      using Suc.prems True rm
      by (auto simp: Let_def prog_simps f_def u_def q_def a_def v_def split: option.splits if_splits)
    have uv: "uc_Spec (ucluster v) = uc_Spec (ucluster s)" "uc_Status (ucluster v) = uc_Status (ucluster s)"
        "umachine v = umachine s" "calls v = calls s @ [CallGetMachine (fst q) (snd q)]"
      by (simp_all add: v_def u_def)
    show ?thesis
    proof (cases "IsNotFound (rp_err (fst a))")
      case False
      then show ?thesis using run by (auto simp: u_def)
    next
      case True
      then obtain view' aliased' where "machines_remain S k view' aliased' v = (r, t)"
        using run by (auto split: option.splits)
      from Suc.IH [OF this] uv show ?thesis by auto
    qed
  qed
qed

text \<open>
  The documented behaviour of the library function: it removes one entry. Whether it works in
  place is another matter.
\<close>

definition removes_only :: "'w Service \<Rightarrow> bool" where
  "removes_only S \<longleftrightarrow> (\<forall>f g fs. g \<noteq> f \<longrightarrow> g \<in> set fs \<longrightarrow> g \<in> set (fst (lib_RemoveFinalizer (lib S) f fs)))"

text \<open>The machine of a finalizer is found to be gone in some world.\<close>

definition machine_absent :: "'w Service \<Rightarrow> string \<Rightarrow> bool" where
  "machine_absent S f \<longleftrightarrow> (\<exists>w. IsNotFound (rp_err (fst (kube_GetUCloudMachine (kube S)
     (scope_Namespace S, Split f (CHR ''.'') ! 0) w))))"

text \<open>A finalizer stays unless it is that of a machine that is gone.\<close>

lemma machines_remain_keeps:
  assumes "machines_remain S k view aliased s = (r, t)" and "removes_only S"
    and "\<not> (HasSuffix g machine_suffix \<and> machine_absent S g)" and "g \<in> set (om_Finalizers (uc_Meta (ucluster s)))"
  shows "g \<in> set (om_Finalizers (uc_Meta (ucluster t)))"
  using assms(1,4)
proof (induction k arbitrary: view aliased s r t)
  case 0
  then show ?case by (auto simp: prog_simps)
next
  case (Suc k)
  define f where "f = view ! (length view - Suc k)"
  show ?case
  proof (cases "HasSuffix f machine_suffix")
    case False
    then show ?thesis using Suc by (simp add: f_def)
  next
    case True
    then have "g \<noteq> f" if "IsNotFound (rp_err (fst (kube_GetUCloudMachine (kube S)
        (scope_Namespace S, Split f (CHR ''.'') ! 0) (world s))))"
      using assms(3) that unfolding machine_absent_def by blast
    then have keep: "g \<in> set (fst (lib_RemoveFinalizer (lib S) f (om_Finalizers (uc_Meta (ucluster s)))))"
      if "IsNotFound (rp_err (fst (kube_GetUCloudMachine (kube S) (scope_Namespace S, Split f (CHR ''.'') ! 0) (world s))))"
      using assms(2) Suc.prems(2) that by (auto simp: removes_only_def)
    show ?thesis
      using Suc.prems True keep
      by (auto simp: Let_def prog_simps f_def [symmetric] split: option.splits if_splits prod.splits intro: Suc.IH)
  qed
qed

section \<open>Removal in place\<close>

text \<open>
  What \<open>controllerutil.RemoveFinalizer\<close> does: \<open>append(f[:i], f[i+1:]...)\<close> moves the entries behind the
  removed one to the left in the shared array, and the old slice shows its last entry twice.
\<close>

definition remove_in_place :: "string \<Rightarrow> string list \<Rightarrow> string list \<times> string list option" where
  "remove_in_place f fs = (let new = remove1 f fs in (new, Some (new @ drop (length new) fs)))"

lemma removes_only_in_place: "lib_RemoveFinalizer (lib S) = remove_in_place \<Longrightarrow> removes_only S"
  by (simp add: removes_only_def remove_in_place_def Let_def)

text \<open>
  The machine finalizers that the loop looks at when all their machines are gone: each removal moves
  the rest of the slice to the left under the loop, which skips the next entry, and leaves one more copy
  of the last entry \<open>z\<close> at the end. \<open>r\<close> counts the copies.
\<close>

fun visits :: "nat \<Rightarrow> string \<Rightarrow> string list \<Rightarrow> string list" where
  "visits r z [] = (if HasSuffix z machine_suffix then replicate r z else [])"
| "visits r z [f] = (if HasSuffix f machine_suffix then f # visits r z [] else visits r z [])"
| "visits r z (f # g # fs) = (if HasSuffix f machine_suffix then f # visits (Suc r) z fs else visits r z (g # fs))"

definition looked_up :: "string list \<Rightarrow> string list" where
  "looked_up fs = (if fs = [] then [] else visits 0 (last fs) fs)"

definition lookup :: "'w Service \<Rightarrow> string \<Rightarrow> call" where
  "lookup S f = CallGetMachine (scope_Namespace S) (Split f (CHR ''.'') ! 0)"

text \<open>Each lookup, in the world that the ones before have led to, says that the machine is not found.\<close>

primrec all_absent :: "'w Service \<Rightarrow> string list \<Rightarrow> 'w \<Rightarrow> bool" where
  "all_absent S [] w = True"
| "all_absent S (f # fs) w =
     (IsNotFound (rp_err (fst (kube_GetUCloudMachine (kube S) (scope_Namespace S, Split f (CHR ''.'') ! 0) w)))
      \<and> all_absent S fs (after_call S (lookup S f) w))"

lemma all_absentD: "all_absent S fs w \<Longrightarrow> f \<in> set fs \<Longrightarrow> machine_absent S f"
  by (induction fs arbitrary: w) (auto simp: machine_absent_def)

text \<open>One round that removes a finalizer.\<close>

lemma machines_remain_gone:
  assumes lib: "lib_RemoveFinalizer (lib S) = remove_in_place"
    and "HasSuffix (view ! (length view - Suc k)) machine_suffix"
    and "machines_remain S (Suc k) view True s = (Ok False, t)"
  obtains v where "IsNotFound (rp_err (fst (kube_GetUCloudMachine (kube S)
      (scope_Namespace S, Split (view ! (length view - Suc k)) (CHR ''.'') ! 0) (world s))))"
    and "machines_remain S k (overlay (the (snd (remove_in_place (view ! (length view - Suc k))
      (om_Finalizers (uc_Meta (ucluster s)))))) view) True v = (Ok False, t)"
    and "calls v = calls s @ [lookup S (view ! (length view - Suc k))]"
    and "world v = after_call S (lookup S (view ! (length view - Suc k))) (world s)"
    and "om_Finalizers (uc_Meta (ucluster v)) = remove1 (view ! (length view - Suc k)) (om_Finalizers (uc_Meta (ucluster s)))"
proof -
  define f where "f = view ! (length view - Suc k)"
  define q where "q = (scope_Namespace S, Split f (CHR ''.'') ! 0)"
  define a where "a = kube_GetUCloudMachine (kube S) q (world s)"
  define v where "v = upd_cluster_meta (om_Finalizers_update (\<lambda>_. remove1 f (om_Finalizers (uc_Meta (ucluster s)))))
      (sent (CallGetMachine (fst q) (snd q)) (rp_took (fst a)) (snd a) s)"
  have "IsNotFound (rp_err (fst a))"
    and "machines_remain S k (overlay (the (snd (remove_in_place f (om_Finalizers (uc_Meta (ucluster s)))))) view) True v = (Ok False, t)"
    using assms(2,3)
    by (auto simp: Let_def prog_simps lib remove_in_place_def v_def q_def a_def simp flip: f_def split: if_splits)
  then show thesis
    by (intro that [of v]) (simp_all add: v_def a_def q_def lookup_def flip: f_def)
qed

lemma remove_last_in_place:
  assumes "distinct fs" and "fs = as @ f # bs"
  shows "remove1 f fs = as @ bs" and "the (snd (remove_in_place f fs)) = as @ bs @ [last fs]"
proof -
  show r: "remove1 f fs = as @ bs"
    using assms by (auto simp: remove1_append)
  have "drop (length (as @ bs)) fs = [last fs]"
    unfolding assms(2) by (cases bs rule: rev_cases) simp_all
  then show "the (snd (remove_in_place f fs)) = as @ bs @ [last fs]"
    by (simp add: remove_in_place_def r Let_def)
qed

text \<open>Behind the entries of the object the slice has copies of the last one.\<close>

lemma machines_remain_tail:
  assumes lib: "lib_RemoveFinalizer (lib S) = remove_in_place"
    and "machines_remain S k view True s = (Ok False, t)"
    and "view = om_Finalizers (uc_Meta (ucluster s)) @ replicate r z" and "k \<le> r"
    and "distinct (om_Finalizers (uc_Meta (ucluster s)))"
    and "z \<in> set (om_Finalizers (uc_Meta (ucluster s))) \<Longrightarrow> last (om_Finalizers (uc_Meta (ucluster s))) = z"
  shows "\<exists>fs. fs = (if HasSuffix z machine_suffix then replicate k z else [])
    \<and> calls t = calls s @ map (lookup S) fs \<and> all_absent S fs (world s)"
  using assms(2-)
proof (induction k arbitrary: s r)
  case 0
  then show ?case
    by (simp add: prog_simps)
next
  case (Suc k)
  define L where "L = om_Finalizers (uc_Meta (ucluster s))"
  have "\<not> length L + r - Suc k < length L"
    using Suc.prems(3) by arith
  then have z: "view ! (length view - Suc k) = z"
    using Suc.prems(2,3) by (simp add: nth_append flip: L_def)
  show ?case
  proof (cases "HasSuffix z machine_suffix")
    case False
    then have "machines_remain S k view True s = (Ok False, t)"
      using Suc.prems(1) z by simp
    from Suc.IH [OF this Suc.prems(2)] False Suc.prems(3-) show ?thesis
      by simp
  next
    case True
    from Suc.prems(1) True obtain v where absent: "IsNotFound (rp_err (fst (kube_GetUCloudMachine (kube S)
        (scope_Namespace S, Split z (CHR ''.'') ! 0) (world s))))"
      and run: "machines_remain S k (overlay (the (snd (remove_in_place z L))) view) True v = (Ok False, t)"
      and v: "calls v = calls s @ [lookup S z]" "world v = after_call S (lookup S z) (world s)"
        "om_Finalizers (uc_Meta (ucluster v)) = remove1 z L"
      using machines_remain_gone [OF lib, of view k s t] unfolding z L_def by blast
    obtain r' where r': "overlay (the (snd (remove_in_place z L))) view = view" "view = remove1 z L @ replicate r' z" "k \<le> r'"
    proof (cases "z \<in> set L")
      case True
      then have "last L = z" and "L \<noteq> []"
        using Suc.prems(5) by (auto simp: L_def)
      then have L: "L = butlast L @ z # []"
        by (metis append_butlast_last_id)
      have "distinct L"
        using Suc.prems(4) by (simp add: L_def)
      note remove_last_in_place [OF this L]
      moreover have "view = butlast L @ [z] @ replicate r z"
        using Suc.prems(2) L by (metis L_def append.assoc)
      ultimately show thesis
        using \<open>last L = z\<close> Suc.prems(3) by (intro that [of "Suc r"]) (simp_all add: overlay_def)
    next
      case False
      then have "remove_in_place z L = (L, Some L)" and "remove1 z L = L"
        by (simp_all add: remove_in_place_def remove1_idem)
      then show thesis
        using Suc.prems(2,3) by (intro that [of r]) (simp_all add: overlay_def L_def)
    qed
    have "distinct (remove1 z L)" and "z \<notin> set (remove1 z L)"
      using Suc.prems(4) by (simp_all add: L_def set_remove1_eq)
    with Suc.IH [OF run [unfolded r'(1)], of r'] r'(2,3) v True absent show ?thesis
      by auto
  qed
qed

text \<open>
  A deletion that does not wait has looked up exactly the finalizers that the moving slice has shown,
  and found no machine for any of them.
\<close>

lemma machines_remain_visits:
  assumes lib: "lib_RemoveFinalizer (lib S) = remove_in_place"
    and "machines_remain S (length rest + r) (pre @ rest @ replicate r z) True s = (Ok False, t)"
    and "om_Finalizers (uc_Meta (ucluster s)) = pre @ rest" and "distinct (pre @ rest)"
    and "rest \<noteq> [] \<Longrightarrow> last rest = z" and "z \<in> set (pre @ rest) \<Longrightarrow> last (pre @ rest) = z"
  shows "calls t = calls s @ map (lookup S) (visits r z rest) \<and> all_absent S (visits r z rest) (world s)"
  using assms(2-)
proof (induction r z rest arbitrary: pre s rule: visits.induct)
  case (1 r z)
  have "\<exists>fs. fs = (if HasSuffix z machine_suffix then replicate r z else [])
      \<and> calls t = calls s @ map (lookup S) fs \<and> all_absent S fs (world s)"
    using 1 by (intro machines_remain_tail [OF lib, where r = r and view = "pre @ replicate r z"]) simp_all
  then show ?case
    by simp
next
  case (2 r z f)
  let ?view = "pre @ [f] @ replicate r z"
  have z: "f = z" and f: "?view ! (length ?view - Suc r) = f"
    using "2.prems"(4) by (simp_all add: nth_append)
  show ?case
  proof (cases "HasSuffix f machine_suffix")
    case False
    then have "machines_remain S (length [] + r) ((pre @ [f]) @ [] @ replicate r z) True s = (Ok False, t)"
      using "2.prems"(1) f by simp
    from "2.IH"(2) [OF False this] "2.prems"(2-) False show ?thesis
      by simp
  next
    case True
    from machines_remain_gone [OF lib, of ?view r s t] True "2.prems"(1,2) obtain v where
      absent: "IsNotFound (rp_err (fst (kube_GetUCloudMachine (kube S) (scope_Namespace S, Split f (CHR ''.'') ! 0) (world s))))"
      and run: "machines_remain S r (overlay (the (snd (remove_in_place f (pre @ [f])))) ?view) True v = (Ok False, t)"
      and v: "calls v = calls s @ [lookup S f]" "world v = after_call S (lookup S f) (world s)"
        "om_Finalizers (uc_Meta (ucluster v)) = remove1 f (pre @ [f])"
      unfolding f by auto
    note moved = remove_last_in_place [of "pre @ [f]" pre f "[]", OF "2.prems"(3)]
    have "overlay (the (snd (remove_in_place f (pre @ [f])))) ?view = pre @ replicate (Suc r) z"
      using moved(2) by (simp add: overlay_def z)
    with run have "machines_remain S r (pre @ replicate (Suc r) z) True v = (Ok False, t)"
      by simp
    from machines_remain_tail [OF lib this, of "Suc r" z] v moved(1) "2.prems"(3) absent True
    show ?thesis by (auto simp: z)
  qed
next
  case (3 r z f g fs)
  let ?view = "pre @ (f # g # fs) @ replicate r z"
  have f: "?view ! (length ?view - Suc (length (g # fs) + r)) = f"
    by (simp add: nth_append)
  show ?case
  proof (cases "HasSuffix f machine_suffix")
    case False
    then have "machines_remain S (length (g # fs) + r) ((pre @ [f]) @ (g # fs) @ replicate r z) True s = (Ok False, t)"
      using "3.prems"(1) f by simp
    from "3.IH"(2) [OF False this] "3.prems"(2-) False show ?thesis
      by simp
  next
    case True
    from machines_remain_gone [OF lib, of ?view "length (g # fs) + r" s t] True "3.prems"(1,2) obtain v where
      absent: "IsNotFound (rp_err (fst (kube_GetUCloudMachine (kube S) (scope_Namespace S, Split f (CHR ''.'') ! 0) (world s))))"
      and run: "machines_remain S (length (g # fs) + r) (overlay (the (snd (remove_in_place f (pre @ f # g # fs)))) ?view) True v
          = (Ok False, t)"
      and v: "calls v = calls s @ [lookup S f]" "world v = after_call S (lookup S f) (world s)"
        "om_Finalizers (uc_Meta (ucluster v)) = remove1 f (pre @ f # g # fs)"
      unfolding f by auto
    note moved = remove_last_in_place [of "pre @ f # g # fs" pre f "g # fs", OF "3.prems"(3)]
    have z: "last (g # fs) = z"
      using "3.prems"(4) by simp
    then have "overlay (the (snd (remove_in_place f (pre @ f # g # fs)))) ?view = (pre @ [g]) @ fs @ replicate (Suc r) z"
      using moved(2) by (simp add: overlay_def)
    with run have run: "machines_remain S (length fs + Suc r) ((pre @ [g]) @ fs @ replicate (Suc r) z) True v = (Ok False, t)"
      by (simp del: machines_remain.simps)
    from "3.IH"(1) [OF True run] v(3) moved(1) "3.prems"(3) z v(1,2) absent True
    show ?thesis by (auto split: if_splits)
  qed
qed

lemma machines_remain_looked_up:
  assumes "lib_RemoveFinalizer (lib S) = remove_in_place" and "om_Finalizers (uc_Meta (ucluster s)) = fs" and "distinct fs"
    and "machines_remain S (length fs) fs True s = (Ok False, t)"
  shows "calls t = calls s @ map (lookup S) (looked_up fs) \<and> all_absent S (looked_up fs) (world s)"
proof (cases "fs = []")
  case True
  then show ?thesis
    using assms(4) by (simp add: prog_simps looked_up_def)
next
  case False
  then show ?thesis
    using machines_remain_visits [OF assms(1), of fs 0 "[]" "last fs" s t] assms(2-4) by (simp add: looked_up_def)
qed

text \<open>The last entry is looked at in any case, and up to two machine finalizers at the end both are.\<close>

lemma last_visited:
  "fs \<noteq> [] \<Longrightarrow> z = last fs \<Longrightarrow> HasSuffix z machine_suffix \<Longrightarrow> z \<in> set (visits r z fs)"
proof (induction r z fs rule: visits.induct)
  case (3 r z f g fs)
  then show ?case
    by (cases "fs = []") auto
qed auto

lemma looked_up_two:
  assumes "\<forall>f\<in>set pre. \<not> HasSuffix f machine_suffix" and "\<forall>f\<in>set ms. HasSuffix f machine_suffix" and "length ms \<le> 2"
  shows "looked_up (pre @ ms) = ms"
proof -
  have skip: "visits r z (us @ vs) = visits r z vs" if "\<forall>f\<in>set us. \<not> HasSuffix f machine_suffix" "vs \<noteq> []" for r z us vs
    using that
  proof (induction us)
    case (Cons u us)
    then show ?case by (cases "us @ vs") auto
  qed simp
  have none: "visits 0 z us = []" if "\<forall>f\<in>set us. \<not> HasSuffix f machine_suffix" for z us
    using that by (induction "0 :: nat" z us rule: visits.induct) auto
  consider "ms = []" | a where "ms = [a]" | a b where "ms = [a, b]"
    using assms(3) by (cases ms; cases "tl ms") auto
  then show ?thesis
    by cases (use assms(1,2) skip [OF assms(1)] none [OF assms(1)] in \<open>simp_all add: looked_up_def\<close>)
qed

section \<open>The eight deletions\<close>

text \<open>Deleting the bastion blanks its entry of the status; the requests do not depend on it.\<close>

lemma but_bastion_parts:
  assumes "but_bastion c = but_bastion d"
  shows "uc_Meta c = uc_Meta d" and "uc_Spec c = uc_Spec d" and "network c = network d"
    and "group_of c = group_of d" and "cst_ClusterId (uc_Status c) = cst_ClusterId (uc_Status d)"
proof -
  have "uc_Meta (but_bastion x) = uc_Meta x" "uc_Spec (but_bastion x) = uc_Spec x"
    "network (but_bastion x) = network x" "group_of (but_bastion x) = group_of x"
    "cst_ClusterId (uc_Status (but_bastion x)) = cst_ClusterId (uc_Status x)" for x
    by (simp_all add: but_bastion_def status_parts)
  with assms show "uc_Meta c = uc_Meta d" and "uc_Spec c = uc_Spec d" and "network c = network d"
    and "group_of c = group_of d" and "cst_ClusterId (uc_Status c) = cst_ClusterId (uc_Status d)"
    by metis+
qed

lemma but_bastion_requests:
  assumes "but_bastion c = but_bastion d"
  shows "delete_ulb_req c = delete_ulb_req d" and "delete_nat_req c = delete_nat_req d"
    and "delete_subnet_req c = delete_subnet_req d" and "delete_vpc_req c = delete_vpc_req d"
    and "delete_group_req c = delete_group_req d" and "delete_capu_req c = delete_capu_req d"
    and "clean_sends c = clean_sends d" and "ulb_of c = ulb_of d"
    and "ulb_owned c = ulb_owned d" and "nat_owned c = nat_owned d" and "subnet_owned c = subnet_owned d"
    and "vpc_owned c = vpc_owned d"
proof -
  note parts = but_bastion_parts [OF assms]
  have "Region c = Region d" "ProjectId c = ProjectId d" "GroupName c = GroupName d"
    using parts by (simp_all add: Region_def ProjectId_def GroupName_def group_of_def)
  moreover have "vpc_of c = vpc_of d" "subnet_of c = subnet_of d" "nat_of c = nat_of d" and u: "ulb_of c = ulb_of d"
    using parts by (simp_all add: vpc_of_def subnet_of_def nat_of_def ulb_of_def)
  moreover have "search_group_req c = search_group_req d" "uhost_del_sends c = uhost_del_sends d"
      "delete_ulb_req c = delete_ulb_req d"
    using calculation parts
    by (auto simp: search_group_req_def uhost_del_sends_def delete_ulb_req_def describe_instance_req_def
        poweroff_req_def terminate_req_def fun_eq_iff)
  ultimately show "delete_ulb_req c = delete_ulb_req d" and "delete_nat_req c = delete_nat_req d"
    and "delete_subnet_req c = delete_subnet_req d" and "delete_vpc_req c = delete_vpc_req d"
    and "delete_group_req c = delete_group_req d" and "delete_capu_req c = delete_capu_req d"
    and "clean_sends c = clean_sends d" and "ulb_of c = ulb_of d"
    and "ulb_owned c = ulb_owned d" and "nat_owned c = nat_owned d" and "subnet_owned c = subnet_owned d"
    and "vpc_owned c = vpc_owned d"
    using parts
    by (simp_all add: delete_nat_req_def delete_subnet_req_def delete_vpc_req_def delete_group_req_def
        delete_capu_req_def clean_sends_def ulb_owned_def nat_owned_def subnet_owned_def vpc_owned_def
        ulb_spec_def natgw_spec_def nat_spec_def scope_Subnet_def vpc_spec_def fun_eq_iff)
qed

lemma TerminateBastion_but:
  assumes "TerminateBastion S s = (r, t)"
  shows "but_bastion (ucluster t) = but_bastion (ucluster s)"
  using TerminateBastion_frame(1-6) [OF assms]
    obtainingD [OF obtaining_terminateUHost] assms
  by (auto simp: TerminateBastion_def prog_simps bind_def but_bastion_def
      split: option.splits if_splits prod.splits result.splits dest!: obtainingD [OF obtaining_terminateUHost])

text \<open>
  The requests of a successful deletion, in order. Two parts depend on what the cloud answers: the
  termination of the bastion, and the cleaning of the group.
\<close>

definition balancer_and_gateway :: "UCloudCluster \<Rightarrow> call list" where
  "balancer_and_gateway c =
     (if ulb_owned c then [CallDeleteULB (delete_ulb_req c (ulb_LoadBalancerId (ulb_of c)))] else [])
     @ (if nat_owned c then [CallDeleteNATGW (delete_nat_req c)] else [])"

definition deletion_sequence :: "UCloudCluster \<Rightarrow> call list \<Rightarrow> call list \<Rightarrow> nat \<Rightarrow> nat \<Rightarrow> call list" where
  "deletion_sequence c bastion cleaning now1 now2 =
     bastion @ balancer_and_gateway c @ cleaning
     @ (if subnet_owned c then [CallDeleteSubnet (delete_subnet_req c)] else [])
     @ (if vpc_owned c then [CallDeleteVPC (delete_vpc_req c)] else [])
     @ (if grp_GroupId (group_of c) \<noteq> '''' then [CallDeleteBusinessGroup (delete_group_req c now1)] else [])
     @ (if cst_ClusterId (uc_Status c) \<noteq> '''' then [CallDeleteCAPUCluster (delete_capu_req c now2)] else [])"

definition bastion_trace :: "'w Service \<Rightarrow> UCloudCluster \<Rightarrow> 'w \<Rightarrow> call list \<Rightarrow> bool" where
  "bastion_trace S c w cs = (case cst_Bastion (uc_Status c) of
      None \<Rightarrow> cs = []
    | Some b \<Rightarrow> if inst_InstanceId b = '''' then cs = []
                else termination_trace S c (inst_InstanceId b) (inst_Zone b) w cs)"

definition deletion_trace :: "'w Service \<Rightarrow> UCloudCluster \<Rightarrow> 'w \<Rightarrow> call list \<Rightarrow> bool" where
  "deletion_trace S c w cs \<longleftrightarrow> (\<exists>bastion cleaning now1 now2.
     cs = deletion_sequence c bastion cleaning now1 now2 \<and> bastion_trace S c w bastion
     \<and> cleaning_trace S c (after_calls S (bastion @ balancer_and_gateway c) w) cleaning)"

text \<open>The traces read the cluster through its requests only.\<close>

lemma termination_trace_cong:
  assumes "Region c = Region d" and "ProjectId c = ProjectId d" and "GroupName c = GroupName d"
  shows "termination_trace S c = termination_trace S d"
  using assms
  by (simp add: fun_eq_iff termination_trace_def describe_instance_req_def poweroff_req_def terminate_req_def)

lemma cleaning_trace_cong:
  assumes "Region c = Region d" and "ProjectId c = ProjectId d" and "GroupName c = GroupName d"
    and "group_of c = group_of d"
  shows "cleaning_trace S c = cleaning_trace S d"
proof -
  have "resource_trace S c = resource_trace S d"
    using assms by (intro ext) (simp add: resource_trace_def delete_ulb_req_def termination_trace_cong [OF assms(1-3)])
  then have "cleaned S c is w cs = cleaned S d is w cs" for "is" w cs
    by (induction "is" arbitrary: w cs) simp_all
  moreover have "searched S c = searched S d"
    using assms by (simp add: fun_eq_iff searched_def search_group_req_def)
  ultimately show ?thesis
    using assms(4) by (simp add: fun_eq_iff cleaning_trace_def)
qed

lemma replayed_TerminateBastion: "keeps (replayed S) (TerminateBastion S)"
  unfolding TerminateBastion_def
  by (intro replayed_rules) (auto intro!: replayed_rules replayed_terminateUHost replayed_modify split: option.split)

lemma replayed_deletions:
  "keeps (replayed S) (DeleteULB S)" "keeps (replayed S) (DeleteNat S)" "keeps (replayed S) (DeleteSubnet S)"
  "keeps (replayed S) (DeleteVPC S)" "keeps (replayed S) (DeleteGroup S)" "keeps (replayed S) (DeleteCAPUCluster S)"
proof -
  show "keeps (replayed S) (DeleteULB S)"
    unfolding DeleteULB_def Let_def by (intro replayed_rules replayed_deleteULB)
  show "keeps (replayed S) (DeleteNat S)" "keeps (replayed S) (DeleteSubnet S)" "keeps (replayed S) (DeleteVPC S)"
    by (rule keepsI, simp add: DeleteNat_run DeleteSubnet_run DeleteVPC_run replayed_def Let_def split: option.split)+
  show "keeps (replayed S) (DeleteGroup S)" "keeps (replayed S) (DeleteCAPUCluster S)"
    unfolding DeleteGroup_def DeleteCAPUCluster_def by (intro replayed_rules replayed_doRequest; simp)+
qed

lemma TerminateBastion_trace:
  assumes run: "TerminateBastion S s = (Ok (), t)"
  obtains cs where "calls t = calls s @ cs" and "bastion_trace S (ucluster s) (world s) cs"
proof (cases "\<exists>b. cst_Bastion (uc_Status (ucluster s)) = Some b \<and> inst_InstanceId b \<noteq> ''''")
  case True
  then obtain b u where b: "cst_Bastion (uc_Status (ucluster s)) = Some b" "inst_InstanceId b \<noteq> ''''"
    and u: "terminateUHost S (inst_InstanceId b) (inst_Zone b) s = (Ok (), u)" "calls t = calls u"
    using run by (auto simp: TerminateBastion_def prog_simps bind_def split: prod.splits result.splits)
  from u(1) obtain cs where "calls u = calls s @ cs"
      "termination_trace S (ucluster s) (inst_InstanceId b) (inst_Zone b) (world s) cs"
    by (rule terminateUHost_trace)
  with b u(2) show thesis
    by (intro that [of cs]) (simp_all add: bastion_trace_def)
next
  case False
  then have "t = s" and "bastion_trace S (ucluster s) (world s) []"
    using run by (auto simp: TerminateBastion_def prog_simps bastion_trace_def split: option.splits)
  then show thesis
    by (intro that [of "[]"]) simp_all
qed

lemma delete_resources_Ok:
  assumes "delete_resources S s = (Ok (), t)"
  obtains cs where "calls t = calls s @ cs" and "deletion_trace S (ucluster s) (world s) cs"
    and "but_bastion (ucluster t) = but_bastion (ucluster s)"
proof -
  obtain s1 s2 s3 s4 s5 s6 s7 where
    st: "TerminateBastion S s = (Ok (), s1)" "DeleteULB S s1 = (Ok (), s2)" "DeleteNat S s2 = (Ok (), s3)"
      "CleanResourceInGroup S s3 = (Ok (), s4)" "DeleteSubnet S s4 = (Ok (), s5)" "DeleteVPC S s5 = (Ok (), s6)"
      "DeleteGroup S s6 = (Ok (), s7)" "DeleteCAPUCluster S s7 = (Ok (), t)"
    using assms unfolding delete_resources_def bind_gets
    by (auto elim!: try_else_OkE simp: prog_simps)
  obtain bs where bs: "calls s1 = calls s @ bs" "bastion_trace S (ucluster s) (world s) bs"
    using st(1) by (rule TerminateBastion_trace)
  obtain cl where cl: "calls s4 = calls s3 @ cl" "cleaning_trace S (ucluster s3) (world s3) cl"
    using st(4) by (rule CleanResourceInGroup_trace)
  have c1: "but_bastion (ucluster s1) = but_bastion (ucluster s)"
    using st(1) by (rule TerminateBastion_but)
  have "ucluster s4 = ucluster s3"
    using obtainingD [OF obtaining_CleanResourceInGroup st(4) refl] by blast
  then have same: "ucluster s2 = ucluster s1" "ucluster s3 = ucluster s1" "ucluster s4 = ucluster s1"
      "ucluster s5 = ucluster s1" "ucluster s6 = ucluster s1" "ucluster s7 = ucluster s1" "ucluster t = ucluster s1"
    using ulb_del.keeps_cluster [OF st(2)] nat_del.keeps_cluster [OF st(3)] subnet_del.keeps_cluster [OF st(5)]
      vpc_del.keeps_cluster [OF st(6)] group_del.keeps_cluster [OF st(7)] capu_del.keeps_cluster [OF st(8)]
    by simp_all
  note reqs = but_bastion_requests [OF c1] but_bastion_parts [OF c1]
  have s3: "calls s3 = calls s @ bs @ balancer_and_gateway (ucluster s)"
    using ulb_del.success_requests [OF st(2)] nat_del.success_requests [OF st(3)] bs(1)
    by (simp add: balancer_and_gateway_def same reqs)
  have "replayed S s s3"
    using keepsD [OF replayed_TerminateBastion st(1)] keepsD [OF replayed_deletions(1) st(2)]
      keepsD [OF replayed_deletions(2) st(3)] by (blast intro: replayed.frame_trans)
  then have "world s3 = after_calls S (bs @ balancer_and_gateway (ucluster s)) (world s)"
    using s3 by (rule replayedD)
  moreover have "cleaning_trace S (ucluster s3) = cleaning_trace S (ucluster s)"
    by (rule cleaning_trace_cong) (use reqs in \<open>simp_all add: same Region_def ProjectId_def GroupName_def group_of_def\<close>)
  ultimately have clean: "cleaning_trace S (ucluster s) (after_calls S (bs @ balancer_and_gateway (ucluster s)) (world s)) cl"
    using cl(2) by simp
  show thesis
  proof (rule that)
    show "calls t = calls s @ deletion_sequence (ucluster s) bs cl (clock s6) (clock s7)"
      using s3 subnet_del.success_requests [OF st(5)] vpc_del.success_requests [OF st(6)]
        group_del.success_requests [OF st(7)] capu_del.success_requests [OF st(8)] cl(1)
      by (simp add: deletion_sequence_def same reqs)
    show "deletion_trace S (ucluster s) (world s) (deletion_sequence (ucluster s) bs cl (clock s6) (clock s7))"
      using bs(2) clean unfolding deletion_trace_def by blast
    show "but_bastion (ucluster t) = but_bastion (ucluster s)" using c1 by (simp add: same)
  qed
qed

text \<open>A deletion pass can be replayed.\<close>

lemma replayed_machines_remain: "keeps (replayed S) (machines_remain S k view aliased)"
proof (induction k arbitrary: view aliased)
  case (Suc k)
  have look: "keeps (replayed S) (invoke (kube_GetUCloudMachine (kube S)) (\<lambda>(ns, n). CallGetMachine ns n) q)" for q
    by (rule replayed_invoke) (simp add: case_prod_beta)
  have "keeps (replayed S) (let (fs', shown) = p in
      bind (modify (upd_cluster_meta (om_Finalizers_update (\<lambda>_. fs')))) (\<lambda>_.
      case shown of
        Some a \<Rightarrow> machines_remain S k (if aliased then overlay a view else view) aliased
      | None \<Rightarrow> machines_remain S k view False))" for p
    by (auto intro!: replayed_rules replayed_modify Suc.IH simp: case_prod_beta split: option.split)
  then show ?case
    unfolding machines_remain.simps Let_def [of "view ! (length view - Suc k)"]
    by (intro replayed_rules look Suc.IH)
qed (simp add: replayed_rules)

lemma replayed_delete_resources: "keeps (replayed S) (delete_resources S)"
  unfolding delete_resources_def
  by (intro replayed_rules replayed_TerminateBastion replayed_deletions replayed_CleanResourceInGroup)

section \<open>Deletions that may fail half way\<close>

text \<open>
  Every request of a deletion names what the status records, and never a VPC, subnet or gateway
  the specification names. (Load balancers and instances may also come from the group.)
\<close>

fun deletes_owned :: "UCloudCluster \<Rightarrow> call \<Rightarrow> bool" where
  "deletes_owned c (CallDeleteVPC q) = (vpc_owned c \<and> q = delete_vpc_req c)"
| "deletes_owned c (CallDeleteSubnet q) = (subnet_owned c \<and> q = delete_subnet_req c)"
| "deletes_owned c (CallDeleteNATGW q) = (nat_owned c \<and> q = delete_nat_req c)"
| "deletes_owned c (CallDeleteBusinessGroup q) = (dbg_BusinessId q = Some (grp_GroupId (group_of c)))"
| "deletes_owned c (CallDeleteCAPUCluster q) = (dc_ClusterId q = Some (cst_ClusterId (uc_Status c)))"
| "deletes_owned c (CallDeleteULB q) = (rq_ProjectId q = ProjectId c)"
| "deletes_owned c (CallSearchBusinessGroupResource q) = (sbg_BusinessId q = Some (grp_GroupId (group_of c)))"
| "deletes_owned c (CallDescribeUHostInstance q) = (rq_ProjectId q = ProjectId c)"
| "deletes_owned c (CallPoweroffUHostInstance q) = (rq_ProjectId q = ProjectId c)"
| "deletes_owned c (CallTerminateUHostInstance q) = (rq_ProjectId q = ProjectId c)"
| "deletes_owned c _ = False"

text \<open>Subnet, VPC, group and UK8S cluster go last, in this order.\<close>

fun deletion_rank :: "call \<Rightarrow> nat" where
  "deletion_rank (CallDeleteSubnet q) = 1"
| "deletion_rank (CallDeleteVPC q) = 2"
| "deletion_rank (CallDeleteBusinessGroup q) = 3"
| "deletion_rank (CallDeleteCAPUCluster q) = 4"
| "deletion_rank _ = 0"

definition staged :: "nat \<Rightarrow> nat \<Rightarrow> ('w st, 'a) prog \<Rightarrow> bool" where
  "staged lo hi m \<longleftrightarrow> (\<forall>s r t. m s = (r, t) \<longrightarrow> (\<exists>cs. calls t = calls s @ cs \<and> sorted (map deletion_rank cs)
     \<and> list_all (\<lambda>x. lo \<le> deletion_rank x \<and> deletion_rank x \<le> hi) cs))"

lemma stagedD:
  assumes "staged lo hi m" and "m s = (r, t)"
  obtains cs where "calls t = calls s @ cs" and "sorted (map deletion_rank cs)"
    and "list_all (\<lambda>x. lo \<le> deletion_rank x \<and> deletion_rank x \<le> hi) cs"
  using assms unfolding staged_def by blast

lemma stagedI:
  assumes "\<And>s r t. m s = (r, t) \<Longrightarrow> \<exists>cs. calls t = calls s @ cs \<and> sorted (map deletion_rank cs)
     \<and> list_all (\<lambda>x. lo \<le> deletion_rank x \<and> deletion_rank x \<le> hi) cs"
  shows "staged lo hi m"
  using assms unfolding staged_def by blast

lemma staged_flat:
  assumes "list_all (\<lambda>x. deletion_rank x = k) cs"
  shows "sorted (map deletion_rank cs) \<and> list_all (\<lambda>x. k \<le> deletion_rank x \<and> deletion_rank x \<le> k) cs"
  using assms by (induction cs) (auto simp: list_all_iff)

lemma staged_ret: "lo \<le> hi \<Longrightarrow> staged lo hi (ret a)"
  by (rule stagedI) (simp add: ret_run)

lemma staged_try_else:
  assumes m: "staged lo mid m" and f: "\<And>a. staged mid' hi (f a)" and "mid \<le> mid'" and "mid' \<le> hi"
    and "lo \<le> mid'"
  shows "staged lo hi (try_else m g f)"
proof (rule stagedI)
  fix s r t
  assume run: "try_else m g f s = (r, t)"
  obtain q u where q: "m s = (q, u)" by fastforce
  obtain cs where cs: "calls u = calls s @ cs" "sorted (map deletion_rank cs)"
      "list_all (\<lambda>x. lo \<le> deletion_rank x \<and> deletion_rank x \<le> mid) cs"
    by (rule stagedD [OF m q])
  show "\<exists>cs. calls t = calls s @ cs \<and> sorted (map deletion_rank cs)
      \<and> list_all (\<lambda>x. lo \<le> deletion_rank x \<and> deletion_rank x \<le> hi) cs"
  proof (cases q)
    case (Ok a)
    then have fa: "f a u = (r, t)" using run q by (simp add: try_else_def)
    obtain ds where ds: "calls t = calls u @ ds" "sorted (map deletion_rank ds)"
        "list_all (\<lambda>x. mid' \<le> deletion_rank x \<and> deletion_rank x \<le> hi) ds"
      by (rule stagedD [OF f fa])
    have "\<forall>x\<in>set cs. \<forall>y\<in>set ds. deletion_rank x \<le> deletion_rank y"
      using cs(3) ds(3) assms(3) by (fastforce simp: list_all_iff)
    then have "sorted (map deletion_rank (cs @ ds))"
      using cs(2) ds(2) by (simp add: sorted_append)
    moreover have "list_all (\<lambda>x. lo \<le> deletion_rank x \<and> deletion_rank x \<le> hi) (cs @ ds)"
      using cs(3) ds(3) assms(3-5) by (fastforce simp: list_all_iff)
    ultimately show ?thesis using cs(1) ds(1) by (intro exI [of _ "cs @ ds"]) simp
  next
    case (Err e)
    then have "t = u" using run q by (simp add: try_else_def)
    moreover have "list_all (\<lambda>x. lo \<le> deletion_rank x \<and> deletion_rank x \<le> hi) cs"
      using cs(3) assms(3,4) by (fastforce simp: list_all_iff)
    ultimately show ?thesis using cs by blast
  next
    case (Panic p)
    then have "t = u" using run q by (simp add: try_else_def)
    moreover have "list_all (\<lambda>x. lo \<le> deletion_rank x \<and> deletion_rank x \<le> hi) cs"
      using cs(3) assms(3,4) by (fastforce simp: list_all_iff)
    ultimately show ?thesis using cs by blast
  qed
qed

context delete_step
begin

lemma staged_step:
  assumes "\<And>c now. deletion_rank (req c now) = k"
  shows "staged k k step"
proof (rule stagedI)
  fix s r t
  assume "step s = (r, t)"
  then have "calls t = calls s \<or> calls t = calls s @ [req (ucluster s) (clock s)]"
    using requests by blast
  then show "\<exists>cs. calls t = calls s @ cs \<and> sorted (map deletion_rank cs)
      \<and> list_all (\<lambda>x. k \<le> deletion_rank x \<and> deletion_rank x \<le> k) cs"
    using assms by auto
qed

end

lemma rank_uhost: "uhost_del_sends c iid zone x \<Longrightarrow> deletion_rank x = 0"
  by (auto simp: uhost_del_sends_def)

lemma rank_clean: "clean_sends c x \<Longrightarrow> deletion_rank x = 0"
  by (auto simp: clean_sends_def dest: rank_uhost)

lemma staged_TerminateBastion: "staged 0 0 (TerminateBastion S)"
proof (rule stagedI)
  fix s r t
  assume run: "TerminateBastion S s = (r, t)"
  obtain cs where cs: "calls t = calls s @ cs"
    and "list_all (\<lambda>x. \<exists>iid zone. uhost_del_sends (ucluster s) iid zone x) cs"
    using TerminateBastion_frame(7) [OF run] by blast
  then have "list_all (\<lambda>x. deletion_rank x = 0) cs"
    by (auto elim!: list.pred_mono_strong dest: rank_uhost)
  with cs show "\<exists>cs. calls t = calls s @ cs \<and> sorted (map deletion_rank cs)
      \<and> list_all (\<lambda>x. 0 \<le> deletion_rank x \<and> deletion_rank x \<le> 0) cs"
    using staged_flat by blast
qed

lemma staged_CleanResourceInGroup: "staged 0 0 (CleanResourceInGroup S)"
proof (rule stagedI)
  fix s r t
  assume run: "CleanResourceInGroup S s = (r, t)"
  from obtainingD [OF obtaining_CleanResourceInGroup run refl] obtain cs where
    cs: "calls t = calls s @ cs" and "list_all (clean_sends (ucluster s)) cs" by blast
  then have "list_all (\<lambda>x. deletion_rank x = 0) cs"
    by (auto elim!: list.pred_mono_strong dest: rank_clean)
  with cs show "\<exists>cs. calls t = calls s @ cs \<and> sorted (map deletion_rank cs)
      \<and> list_all (\<lambda>x. 0 \<le> deletion_rank x \<and> deletion_rank x \<le> 0) cs"
    using staged_flat by blast
qed

lemma staged_delete_resources: "staged 0 4 (delete_resources S)"
proof (rule stagedI)
  fix s r t
  assume run: "delete_resources S s = (r, t)"
  define c where "c = ucluster s"
  have "staged 0 4 (
     try_else (TerminateBastion S) (step_failed ''error deleting bastion for UCloudCluster %s/%s'' c) (\<lambda>_.
     try_else (DeleteULB S) (step_failed ''error deleting load balancer for UCloudCluster %s/%s'' c) (\<lambda>_.
     try_else (DeleteNat S) (step_failed ''error deleting nat gateway for UCloudCluster %s/%s'' c) (\<lambda>_.
     try_else (CleanResourceInGroup S)
       (step_failed ''error cleaning resource in business group for UCloudCluster %s/%s'' c) (\<lambda>_.
     try_else (DeleteSubnet S) (step_failed ''error deleting vpc subnet for UCloudCluster %s/%s'' c) (\<lambda>_.
     try_else (DeleteVPC S) (step_failed ''error deleting vpc for UCloudCluster %s/%s'' c) (\<lambda>_.
     try_else (DeleteGroup S) (step_failed ''error deleting group for UCloudCluster %s/%s'' c) (\<lambda>_.
     try_else (DeleteCAPUCluster S)
       (step_failed ''failed to delete uk8s capu cluster for UCloudCluster %s/%s'' c) (\<lambda>_.
     ret ())))))))))"
    by (rule staged_try_else [OF staged_TerminateBastion], rule staged_try_else [OF ulb_del.staged_step [of 0]], simp,
        rule staged_try_else [OF nat_del.staged_step [of 0]], simp,
        rule staged_try_else [OF staged_CleanResourceInGroup],
        rule staged_try_else [OF subnet_del.staged_step [of 1]], simp,
        rule staged_try_else [OF vpc_del.staged_step [of 2]], simp,
        rule staged_try_else [OF group_del.staged_step [of 3]], simp,
        rule staged_try_else [OF capu_del.staged_step [of 4]], simp,
        rule staged_ret [of 4], simp_all)
  moreover note run [unfolded delete_resources_def bind_gets, folded c_def]
  ultimately show "\<exists>cs. calls t = calls s @ cs \<and> sorted (map deletion_rank cs)
      \<and> list_all (\<lambda>x. 0 \<le> deletion_rank x \<and> deletion_rank x \<le> 4) cs"
    unfolding staged_def by blast
qed

text \<open>The deletions after the bastion's write neither object.\<close>

lemma obtaining_after_bastion:
  "obtaining c (deletes_owned c)
    (try_else (DeleteULB S) e2 (\<lambda>_. try_else (DeleteNat S) e3 (\<lambda>_. try_else (CleanResourceInGroup S) e4 (\<lambda>_.
     try_else (DeleteSubnet S) e5 (\<lambda>_. try_else (DeleteVPC S) e6 (\<lambda>_. try_else (DeleteGroup S) e7 (\<lambda>_.
     try_else (DeleteCAPUCluster S) e8 (\<lambda>_. ret ()))))))))"
proof -
  have "clean_sends c x \<Longrightarrow> deletes_owned c x" for x
    by (auto simp: clean_sends_def uhost_del_sends_def search_group_req_def delete_ulb_req_def
        describe_instance_req_def poweroff_req_def terminate_req_def)
  then have clean: "obtaining c (deletes_owned c) (CleanResourceInGroup S)"
    by (rule obtaining_mono [OF obtaining_CleanResourceInGroup])
  show ?thesis
    by (rule obtaining_try_else, rule ulb_del.obtaining_step, simp add: delete_ulb_req_def,
        rule obtaining_try_else, rule nat_del.obtaining_step, simp,
        rule obtaining_try_else, rule clean,
        rule obtaining_try_else, rule subnet_del.obtaining_step, simp,
        rule obtaining_try_else, rule vpc_del.obtaining_step, simp,
        rule obtaining_try_else, rule group_del.obtaining_step, simp add: delete_group_req_def,
        rule obtaining_try_else, rule capu_del.obtaining_step, simp add: delete_capu_req_def,
        rule obtaining_simple)
qed

lemma deletes_owned_but_bastion:
  assumes "but_bastion c = but_bastion d"
  shows "deletes_owned c x = deletes_owned d x"
proof -
  note parts = but_bastion_parts [OF assms] and reqs = but_bastion_requests [OF assms]
  have "ProjectId c = ProjectId d" using parts by (simp add: ProjectId_def)
  then show ?thesis using parts reqs by (cases x) simp_all
qed

lemma delete_resources_sends:
  assumes "delete_resources S s = (r, t)"
  shows "but_bastion (ucluster t) = but_bastion (ucluster s) \<and> umachine t = umachine s
    \<and> (\<exists>cs. calls t = calls s @ cs \<and> list_all (deletes_owned (ucluster s)) cs)"
proof -
  obtain q u where q: "TerminateBastion S s = (q, u)" by fastforce
  have c: "but_bastion (ucluster u) = but_bastion (ucluster s)"
    using q by (rule TerminateBastion_but)
  obtain bs where bs: "calls u = calls s @ bs"
      and "list_all (\<lambda>x. \<exists>iid zone. uhost_del_sends (ucluster s) iid zone x) bs"
    using TerminateBastion_frame(7) [OF q] by blast
  then have owned: "list_all (deletes_owned (ucluster s)) bs"
    by (auto elim!: list.pred_mono_strong simp: uhost_del_sends_def describe_instance_req_def
        poweroff_req_def terminate_req_def)
  have m: "umachine u = umachine s" using TerminateBastion_frame(6) [OF q] .
  show ?thesis
  proof (cases q)
    case (Ok x)
    note run = assms [unfolded delete_resources_def bind_gets try_else_def [of "TerminateBastion S"] q Ok
      prod.case result.case]
    obtain cs where "ucluster t = ucluster u" "umachine t = umachine u" "calls t = calls u @ cs"
        and cs: "list_all (deletes_owned (ucluster u)) cs"
      using obtainingD [OF obtaining_after_bastion, OF run refl] by blast
    moreover have "list_all (deletes_owned (ucluster s)) cs"
      using cs deletes_owned_but_bastion [OF c] by (auto simp: list_all_iff)
    ultimately show ?thesis using c bs m owned by auto
  next
    case (Err e)
    then have "t = u" using assms q unfolding delete_resources_def bind_gets by (simp add: try_else_def)
    then show ?thesis using c bs m owned by auto
  next
    case (Panic p)
    then have "t = u" using assms q unfolding delete_resources_def bind_gets by (simp add: try_else_def)
    then show ?thesis using c bs m owned by auto
  qed
qed

section \<open>A pass over a deleted cluster\<close>

lemma cluster_reconcileDelete_run: "cluster_reconcileDelete S s =
    (case machines_remain S (length (om_Finalizers (uc_Meta (ucluster s)))) (om_Finalizers (uc_Meta (ucluster s))) True s of
       (Ok waiting, u) \<Rightarrow>
         if waiting then (Ok (requeue_seconds 15), u)
         else (case delete_resources S u of
             (Ok _, t) \<Rightarrow> (Ok no_requeue, upd_cluster_meta (remove_finalizer S ClusterFinalizer) t)
           | (Err e, t) \<Rightarrow> (Err e, t)
           | (Panic p, t) \<Rightarrow> (Panic p, t))
     | (Err e, u) \<Rightarrow> (Err e, u)
     | (Panic p, u) \<Rightarrow> (Panic p, u))"
  by (simp add: cluster_reconcileDelete_def prog_simps bind_def split: prod.split result.split)

lemma ClusterFinalizer_no_suffix: "\<not> HasSuffix ClusterFinalizer machine_suffix"
  by (simp add: HasSuffix_def ClusterFinalizer_def machine_suffix_def)

end
