(* ===== verification/Machine_Controller.thy ===== *)
theory Machine_Controller
  imports Helpers
begin

text \<open>\<open>controllers/ucloudmachine_controller.go\<close>: the reconciler of \<open>UCloudMachine\<close> objects.\<close>

section \<open>Addresses\<close>

text \<open>The type of an address is empty unless the address's own type is one of three.\<close>

definition address_type :: "'w Service \<Rightarrow> string \<Rightarrow> string" where
  "address_type S t =
     (if t = ''Internation'' \<or> t = ''Bgp'' then MachineExternalIP (lib S)
      else if t = ''Private'' then MachineInternalIP (lib S)
      else '''')"

definition getAddresses :: "'w Service \<Rightarrow> UHostInstanceSet \<Rightarrow> MachineAddress list" where
  "getAddresses S instance' =
     map (\<lambda>nic. \<lparr>adr_Type = address_type S (hip_Type nic), adr_Address = hip_IP nic\<rparr>) (uh_IPSet instance')"

section \<open>Reconciling a live machine\<close>

text \<open>\<open>fmt.Sprintf("ucloud://%s/%s/%s", ...)\<close>.\<close>

definition provider_id :: "UCloudCluster \<Rightarrow> UHostInstanceSet \<Rightarrow> string" where
  "provider_id c i = ''ucloud://'' @ ProjectId c @ ''/'' @ uh_Zone i @ ''/'' @ uh_UHostId i"

definition fail_machine :: "'w Service \<Rightarrow> error \<Rightarrow> UCloudMachine \<Rightarrow> UCloudMachine" where
  "fail_machine S e = SetNotReady \<circ> SetFailureMessage e \<circ> SetFailureReason (UpdateMachineError (lib S))"

text \<open>
  The instance of the machine: the one its provider ID names, or a new one if it has none. An
  instance that is gone is a terminal failure: the owner machine is deleted, and \<open>None\<close> ends
  the reconciliation.
\<close>

definition find_or_create_instance :: "'w Service \<Rightarrow> ('w st, UHostInstanceSet option) prog" where
  "find_or_create_instance S =
     try_else (InstanceIfExists S) (\<lambda>e. Wrapf e ''failed to query UCloudMachine instance'' []) (\<lambda>found.
     (case found of
        Some i \<Rightarrow> ret (Some i)
      | None \<Rightarrow>
     bind (gets umachine) (\<lambda>m.
     if GetInstanceID S m \<noteq> None then
       bind (modify (upd_machine (fail_machine S
         (Errorf ''uhost instance cannot be found, you may have deleted it manually'' [])))) (\<lambda>_.
       bind (invoke (kube_DeleteMachine (kube S)) (\<lambda>(ns, n). CallDeleteMachine ns n)
         (ma_Namespace (sv_Machine S), ma_Name (sv_Machine S))) (\<lambda>r.
       if_err (rp_err r) id (ret None)))
     else
       try_else (CreateInstance S) (\<lambda>e. Wrapf e ''failed to create UCloudMachine instance'' []) (\<lambda>i.
       ret (Some i)))))"

text \<open>What the instance says is copied to the machine.\<close>

definition record_instance :: "'w Service \<Rightarrow> UCloudCluster \<Rightarrow> UHostInstanceSet \<Rightarrow> UCloudMachine \<Rightarrow> UCloudMachine" where
  "record_instance S c i =
     SetAddresses (getAddresses S i) \<circ> SetInstanceStatus (uh_State i)
     \<circ> um_Status_update (mst_InstanceId_update (\<lambda>_. uh_UHostId i))
     \<circ> SetZone (uh_Zone i) \<circ> SetProviderID (provider_id c i)"

text \<open>Logging dereferences \<open>GetInstanceID()\<close>.\<close>

definition log_instance_id :: "'w Service \<Rightarrow> ('w st, unit) prog" where
  "log_instance_id S = bind (gets umachine) (\<lambda>m. bind (deref (GetInstanceID S m)) (\<lambda>_. ret ()))"

text \<open>
  The switch over the state of the instance. \<open>Some r\<close> is an early return of \<open>r\<close>, \<open>None\<close> goes on
  to the registration with UK8S.
\<close>

definition act_on_state :: "'w Service \<Rightarrow> UHostInstanceSet \<Rightarrow> ('w st, Result option) prog" where
  "act_on_state S i =
     (if uh_State i = StateRunning (lib S) then
        bind (log_instance_id S) (\<lambda>_.
        bind (modify (upd_machine SetReady)) (\<lambda>_.
        if IsControlPlane S then bind (AddRealServer S (uh_UHostId i)) (\<lambda>_. ret None)
        else ret None))
      else if uh_State i = StateInitializing (lib S) \<or> uh_State i = StateStarting (lib S) then
        bind (log_instance_id S) (\<lambda>_. ret None)
      else if uh_State i = '''' then ret (Some (requeue_seconds 5))
      else
        bind (modify (upd_machine (fail_machine S
          (Errorf ''uhost instance %s state %q is unexpected'' [uh_UHostId i, uh_State i])))) (\<lambda>_.
        if IsControlPlane S then bind (DelRealServer S (uh_UHostId i)) (\<lambda>_. ret None)
        else ret None))"

definition reconcile_instance :: "'w Service \<Rightarrow> UHostInstanceSet \<Rightarrow> ('w st, Result) prog" where
  "reconcile_instance S i =
     bind (gets ucluster) (\<lambda>c.
     bind (modify (upd_machine (record_instance S c i))) (\<lambda>_.
     bind (act_on_state S i) (\<lambda>early.
     (case early of
        Some r \<Rightarrow> ret r
      | None \<Rightarrow>
     try_else (CreateCAPUHost S) (\<lambda>e. Wrapf e ''failed to create uk8s capu host'' []) (\<lambda>_.
     ret no_requeue)))))"

definition machine_finalizer :: "UCloudMachine \<Rightarrow> string" where
  "machine_finalizer m = machine_Name m @ ''.ucloudmachine''"

definition register_finalizers :: "'w Service \<Rightarrow> ('w st, unit) prog" where
  "register_finalizers S =
     bind (modify (upd_machine_meta (add_finalizer S MachineFinalizer))) (\<lambda>_.
     bind (machine_PatchObject S) (\<lambda>_.
     bind (gets umachine) (\<lambda>m.
     bind (modify (upd_cluster_meta (add_finalizer S (machine_finalizer m)))) (\<lambda>_.
     PatchObject S))))"

definition machine_reconcile :: "'w Service \<Rightarrow> ('w st, Result) prog" where
  "machine_reconcile S =
     bind (gets umachine) (\<lambda>m.
     if mst_FailureReason (um_Status m) \<noteq> None \<or> mst_FailureMessage (um_Status m) \<noteq> None
     then ret no_requeue
     else
     bind (register_finalizers S) (\<lambda>_.
     if \<not> cl_InfrastructureReady (sv_Cluster S) then ret no_requeue
     else if ma_DataSecretName (sv_Machine S) = None then ret no_requeue
     else
     bind (find_or_create_instance S) (\<lambda>found.
     (case found of None \<Rightarrow> ret no_requeue | Some i \<Rightarrow> reconcile_instance S i))))"

section \<open>Reconciling a deleted machine\<close>

definition remove_instance :: "'w Service \<Rightarrow> UHostInstanceSet \<Rightarrow> ('w st, unit) prog" where
  "remove_instance S i =
     bind (if IsControlPlane S
           then try_else (DelRealServer S (uh_UHostId i))
                  (\<lambda>e. Wrapf e ''failed to terminate instance %s'' [uh_UHostId i]) ret
           else ret ()) (\<lambda>_.
     try_else (DeleteCAPUHost S) (\<lambda>e. Wrapf e ''failed to delete uk8s capu host'' []) (\<lambda>_.
     try_or (TerminateInstanceAndWait S)
       (\<lambda>e. bind (emit_event ''FailedTerminate'') (\<lambda>_.
            raise (ErrorfErr ''failed to terminate instance: %+v'' [] e))) (\<lambda>_.
     emit_event ''SuccessfulTerminate'')))"

definition machine_reconcileDelete :: "'w Service \<Rightarrow> ('w st, Result) prog" where
  "machine_reconcileDelete S =
     try_else (InstanceIfExists S) (\<lambda>e. Wrapf e ''failed to query UCloudMachine instance'' []) (\<lambda>found.
     bind (case found of None \<Rightarrow> ret () | Some i \<Rightarrow> remove_instance S i) (\<lambda>_.
     bind (modify (upd_machine_meta (remove_finalizer S MachineFinalizer))) (\<lambda>_.
     ret no_requeue)))"

section \<open>The entry point\<close>

definition machine_Reconcile :: "Env \<Rightarrow> 'w Service \<Rightarrow> NamespacedName \<Rightarrow> ('w st, Result) prog" where
  "machine_Reconcile E S req =
     bind (peek (kube_GetUCloudMachine (kube S)) req) (\<lambda>r.
     if IsNotFound (rp_err r) then ret no_requeue
     else if_err (rp_err r) id
     (let ucloudMachine = rp_body r in
      bind (peek (kube_GetOwnerMachine (kube S)) (um_Meta ucloudMachine)) (\<lambda>own.
      if_err (rp_err own) id
      (case rp_body own of
         None \<Rightarrow> ret no_requeue
       | Some machine \<Rightarrow>
      bind (peek (kube_GetClusterFromMetadata (kube S)) machine) (\<lambda>rc.
      if rp_err rc \<noteq> None then ret no_requeue
      else let cluster = rp_body rc in
      if isPaused S (Some cluster) (um_Meta ucloudMachine) then ret no_requeue
      else
      bind (deref (cl_InfrastructureRef cluster)) (\<lambda>ref.
      bind (peek (kube_GetUCloudCluster (kube S)) (om_Namespace (um_Meta ucloudMachine), ref)) (\<lambda>ru.
      if rp_err ru \<noteq> None then ret no_requeue
      else
      (case NewClusterScope (env_NewConfig E) (env_Getenv E) (env_NewClusterHelper E)
          \<lparr>csp_Clients = \<lparr>ucl_Config = None, ucl_Credential = None\<rparr>, csp_Cluster = Some cluster,
           csp_UCloudCluster = Some (rp_body ru)\<rparr> of
         Inl err \<Rightarrow> raise err
       | Inr clusterScope \<Rightarrow>
      let S = (NewService S clusterScope)\<lparr>sv_Machine := machine\<rparr> in
      bind (modify (ucluster_update (\<lambda>_. csc_UCloudCluster clusterScope))) (\<lambda>_.
      with_defer
        (case NewMachineScope (env_NewMachineHelper E)
            \<lparr>msp_Client = True, msp_Cluster = Some cluster, msp_Machine = Some machine,
             msp_UCloudCluster = Some (rp_body ru), msp_UCloudMachine = Some ucloudMachine\<rparr> of
           Inl err \<Rightarrow> raise (ErrorfErr ''failed to create scope: %+v'' [] err)
         | Inr machineScope \<Rightarrow>
        bind (modify (umachine_update (\<lambda>_. msc_UCloudMachine machineScope))) (\<lambda>_.
        with_defer
          (if om_DeletionTimestamp (um_Meta ucloudMachine) \<noteq> None then machine_reconcileDelete S
           else machine_reconcile S)
          (machine_Close S)))
        (Close S))))))))))"

section \<open>Watches\<close>

definition requestsForCluster :: "'w Service \<Rightarrow> string \<Rightarrow> string \<Rightarrow> ('w st, NamespacedName list) prog" where
  "requestsForCluster S namespace name =
     bind (peek (kube_ListMachines (kube S)) (namespace, name)) (\<lambda>r.
     if rp_err r \<noteq> None then ret []
     else ret (map (\<lambda>m. (ma_Namespace m, ma_InfrastructureRef m))
                 (filter (\<lambda>m. ma_InfrastructureRef m \<noteq> '''') (rp_body r))))"

text \<open>\<open>None\<close> is an object of another type.\<close>

definition UCloudClusterToUCloudMachines :: "'w Service \<Rightarrow> UCloudCluster option \<Rightarrow> ('w st, NamespacedName list) prog" where
  "UCloudClusterToUCloudMachines S obj = (case obj of
      None \<Rightarrow> ret []
    | Some c \<Rightarrow>
        bind (peek (kube_GetOwnerCluster (kube S)) (uc_Meta c)) (\<lambda>r.
        if IsNotFound (rp_err r) then ret []
        else (case rp_body r of
           None \<Rightarrow> ret []
         | Some cluster \<Rightarrow>
             if rp_err r \<noteq> None then ret []
             else requestsForCluster S (cl_Namespace cluster) (cl_Name cluster))))"

definition requeueUCloudMachinesForUnpausedCluster :: "'w Service \<Rightarrow> Cluster option \<Rightarrow> ('w st, NamespacedName list) prog" where
  "requeueUCloudMachinesForUnpausedCluster S obj = (case obj of
      None \<Rightarrow> ret []
    | Some c \<Rightarrow>
        if cl_DeletionTimestamp c \<noteq> None then ret []
        else requestsForCluster S (cl_Namespace c) (cl_Name c))"

end
