(* ===== verification/Machine_Facts.thy ===== *)
theory Machine_Facts
  imports Machine_Controller Cluster_Facts
begin

text \<open>What the proofs about the machine controller share.\<close>

section \<open>The cluster behind a machine\<close>

text \<open>A machine's pass may add a finalizer to the cluster; it writes nothing else of it.\<close>

definition cluster_part :: "'w st \<Rightarrow> UCloudClusterSpec \<times> UCloudClusterStatus" where
  "cluster_part s = (uc_Spec (ucluster s), uc_Status (ucluster s))"

lemma obtaining_same:
  assumes "\<And>c. obtaining c (P c) m" and "\<And>s t. ucluster t = ucluster s \<Longrightarrow> umachine t = umachine s \<Longrightarrow> f t = f s"
  shows "keeps (same f) m"
proof (rule keepsI)
  fix s
  obtain r t where m: "m s = (r, t)" by fastforce
  have "ucluster t = ucluster s" and "umachine t = umachine s"
    using obtainingD [OF assms(1) m refl] by blast+
  then have "f t = f s" by (rule assms(2))
  then show "same f s (snd (m s))" by (simp add: same_def m)
qed

lemma AddRealServer_obtaining: "obtaining c (\<lambda>x. x = CallDescribeVServer (describe_vserver_req c)
    \<or> x = CallAllocateBackend (add_backend_req c h)) (AddRealServer S h)"
  unfolding AddRealServer_def Let_def
  by (rule obtaining_gets_cluster)
    (auto intro!: obtaining_bind obtaining_if_err obtaining_call simp: obtaining_simple split: list.split)

lemma DelRealServer_obtaining: "obtaining c (\<lambda>x. x = CallDescribeVServer (describe_vserver_req c)
    \<or> (\<exists>b. x = CallReleaseBackend (del_backend_req c b))) (DelRealServer S h)"
  unfolding DelRealServer_def Let_def
  by (rule obtaining_gets_cluster)
    (auto intro!: obtaining_bind obtaining_if_err obtaining_call simp: obtaining_simple split: list.split)

lemma DeleteCAPUHost_obtaining: "obtaining c (\<lambda>x. \<exists>m now. x = CallDeleteCAPUHost (delete_host_req S c m now)) (DeleteCAPUHost S)"
proof (rule obtainingI)
  fix s :: "'a st" and r t
  assume c: "ucluster s = c" and "DeleteCAPUHost S s = (r, t)"
  then have "t = s \<or> (\<exists>d w. t = sent (CallDeleteCAPUHost (delete_host_req S c (umachine s) (clock s))) d w s)"
    using DeleteCAPUHost_sent by blast
  then show "ucluster t = c \<and> umachine t = umachine s \<and> (\<exists>cs. calls t = calls s @ cs
      \<and> list_all (\<lambda>x. \<exists>m now. x = CallDeleteCAPUHost (delete_host_req S c m now)) cs)"
    using c by (elim disjE exE) (simp, simp, blast)
qed

lemma TerminateInstance_obtaining: "obtaining c (\<lambda>x. \<exists>iid zone. uhost_del_sends c iid zone x) (TerminateInstanceAndWait S)"
proof -
  have "obtaining c (\<lambda>x. \<exists>iid zone. uhost_del_sends c iid zone x) (terminateUHost S iid zone)" for iid zone
    by (rule obtaining_mono [OF obtaining_terminateUHost]) blast
  then show ?thesis
    unfolding TerminateInstanceAndWait_def
    by (auto intro!: obtaining_gets_machine obtaining_bind simp: obtaining_simple split: option.split)
qed

lemma cluster_part_keeps:
  "keeps (same cluster_part) (InstanceIfExists S)" "keeps (same cluster_part) (CreateInstance S)"
  "keeps (same cluster_part) (AddRealServer S h)" "keeps (same cluster_part) (DelRealServer S h)"
  "keeps (same cluster_part) (DeleteCAPUHost S)" "keeps (same cluster_part) (TerminateInstanceAndWait S)"
  by (rule obtaining_same [OF obtaining_InstanceIfExists] obtaining_same [OF obtaining_CreateInstance]
      obtaining_same [OF AddRealServer_obtaining] obtaining_same [OF DelRealServer_obtaining]
      obtaining_same [OF DeleteCAPUHost_obtaining] obtaining_same [OF TerminateInstance_obtaining],
      simp add: cluster_part_def)+

lemma cluster_part_patch: "keeps (same cluster_part) (PatchObject S)"
    "keeps (same cluster_part) (machine_PatchObject S)"
  by (rule keepsI, simp add: PatchObject_run machine_PatchObject_run Let_def same_def cluster_part_def)+

lemma cluster_part_modify:
  "keeps (same cluster_part) (modify (upd_machine f))" "keeps (same cluster_part) (modify (upd_machine_meta g))"
  "keeps (same cluster_part) (modify (upd_cluster_meta h))"
  by (rule same.keeps_modify, simp add: same_def cluster_part_def)+

lemma cluster_part_CreateCAPUHost: "keeps (same cluster_part) (CreateCAPUHost S)"
proof (rule keepsI)
  fix s :: "'a st"
  obtain r t where st: "CreateCAPUHost S s = (r, t)" by fastforce
  then show "same cluster_part s (snd (CreateCAPUHost S s))"
    by (rule CreateCAPUHost_cases) (auto simp: st same_def cluster_part_def)
qed

lemma cluster_part_log: "keeps (same cluster_part) (log_instance_id S)"
  unfolding log_instance_id_def by (intro same.keeps_rules)

lemma cluster_part_call: "keeps (same cluster_part) (invoke f tag q)"
  by (rule keepsI) (simp add: prog_simps same_def cluster_part_def)

lemma cluster_part_emit: "keeps (same cluster_part) (emit_event e)"
  by (rule keepsI) (simp add: prog_simps same_def cluster_part_def)

lemmas cluster_part_rules = same.keeps_rules cluster_part_keeps cluster_part_patch cluster_part_modify
  cluster_part_CreateCAPUHost cluster_part_log cluster_part_call cluster_part_emit

lemma cluster_part_reconcile_instance: "keeps (same cluster_part) (reconcile_instance S i)"
  unfolding reconcile_instance_def act_on_state_def
  by (intro cluster_part_rules) (auto split: option.split intro!: cluster_part_rules)

lemma cluster_part_find_or_create: "keeps (same cluster_part) (find_or_create_instance S)"
  unfolding find_or_create_instance_def
  by (intro cluster_part_rules) (auto split: option.split intro!: cluster_part_rules)

lemma cluster_part_machine_reconcile: "keeps (same cluster_part) (machine_reconcile S)"
  unfolding machine_reconcile_def register_finalizers_def
  by (intro cluster_part_rules)
    (auto split: option.split intro!: cluster_part_rules cluster_part_find_or_create cluster_part_reconcile_instance)

lemma cluster_part_machine_reconcileDelete: "keeps (same cluster_part) (machine_reconcileDelete S)"
  unfolding machine_reconcileDelete_def remove_instance_def
  by (intro cluster_part_rules) (auto split: option.split intro!: cluster_part_rules)

section \<open>The passes, step by step\<close>

definition marked_machine :: "'w Service \<Rightarrow> UCloudMachine \<Rightarrow> UCloudMachine" where
  "marked_machine S = um_Meta_update (add_finalizer S MachineFinalizer)"

definition marked_cluster :: "'w Service \<Rightarrow> UCloudMachine \<Rightarrow> UCloudCluster \<Rightarrow> UCloudCluster" where
  "marked_cluster S m = uc_Meta_update (add_finalizer S (machine_finalizer m))"

lemma marked_machine_simps [simp]:
  "um_Spec (marked_machine S m) = um_Spec m" "um_Status (marked_machine S m) = um_Status m"
  "machine_finalizer (marked_machine S m) = machine_finalizer m"
  "GetInstanceID S (marked_machine S m) = GetInstanceID S m"
  by (simp_all add: marked_machine_def machine_finalizer_def machine_Name_def add_finalizer_def
      GetInstanceID_def GetProviderID_def)

lemma register_finalizers_run: "register_finalizers S s =
    (let m = marked_machine S (umachine s);
         a = kube_PatchMachine (kube S) m (world s);
         s1 = sent (CallPatchMachine m) (rp_took (fst a)) (snd a) (upd_machine_meta (add_finalizer S MachineFinalizer) s);
         c = marked_cluster S (umachine s) (ucluster s);
         b = kube_PatchCluster (kube S) c (world s1);
         s2 = sent (CallPatchCluster c) (rp_took (fst b)) (snd b)
                (upd_cluster_meta (add_finalizer S (machine_finalizer (umachine s))) s1)
     in (case rp_err (fst a) of
           Some e \<Rightarrow> (Err e, s1)
         | None \<Rightarrow> ((case rp_err (fst b) of Some e \<Rightarrow> Err e | None \<Rightarrow> Ok ()), s2)))"
proof -
  have m: "um_Meta_update (add_finalizer S MachineFinalizer) (umachine s) = marked_machine S (umachine s)"
    by (simp add: marked_machine_def)
  show ?thesis
    by (simp add: register_finalizers_def prog_simps bind_def machine_PatchObject_run PatchObject_run Let_def
        marked_cluster_def m split: option.split)
qed

lemma register_finalizers_sends:
  assumes "register_finalizers S s = (r, t)"
  shows "umachine t = marked_machine S (umachine s)"
    and "calls t = calls s @ [CallPatchMachine (marked_machine S (umachine s))] \<and> r \<noteq> Ok ()
      \<or> calls t = calls s @ [CallPatchMachine (marked_machine S (umachine s)),
          CallPatchCluster (marked_cluster S (umachine s) (ucluster s))]
        \<and> ucluster t = marked_cluster S (umachine s) (ucluster s)"
  using assms
  by (auto simp: register_finalizers_run Let_def marked_machine_def marked_cluster_def split: option.splits)

lemma InstanceIfExists_run: "InstanceIfExists S s =
    (case GetInstanceID S (umachine s) of
       None \<Rightarrow> (Ok None, s)
     | Some iid \<Rightarrow>
         let req = describe_instance_req (ucluster s) (GetZone (umachine s)) [iid];
             a = sdk_DescribeUHostInstance (uhostClient S) req (world s)
         in ((case rp_err (fst a) of
                Some e \<Rightarrow> Err (Wrapf e ''failed to describe instance: %s'' [iid])
              | None \<Rightarrow> (case rp_body (fst a) of [] \<Rightarrow> Ok None | h # _ \<Rightarrow> Ok (Some h))),
             sent (CallDescribeUHostInstance req) (rp_took (fst a)) (snd a) s))"
  by (simp add: InstanceIfExists_def prog_simps if_err_run Let_def split: option.split list.split)

text \<open>A machine with an instance never gets another one.\<close>

definition gone_error :: error where
  "gone_error = Errorf ''uhost instance cannot be found, you may have deleted it manually'' []"

lemma find_or_create_run: "find_or_create_instance S s =
    (case GetInstanceID S (umachine s) of
       None \<Rightarrow> (case CreateInstance S s of
           (Ok i, t) \<Rightarrow> (Ok (Some i), t)
         | (Err e, t) \<Rightarrow> (Err (Wrapf e ''failed to create UCloudMachine instance'' []), t)
         | (Panic p, t) \<Rightarrow> (Panic p, t))
     | Some iid \<Rightarrow>
         let req = describe_instance_req (ucluster s) (GetZone (umachine s)) [iid];
             a = sdk_DescribeUHostInstance (uhostClient S) req (world s);
             s1 = sent (CallDescribeUHostInstance req) (rp_took (fst a)) (snd a) s;
             b = kube_DeleteMachine (kube S) (ma_Namespace (sv_Machine S), ma_Name (sv_Machine S)) (world s1);
             s2 = sent (CallDeleteMachine (ma_Namespace (sv_Machine S)) (ma_Name (sv_Machine S)))
                    (rp_took (fst b)) (snd b) (upd_machine (fail_machine S gone_error) s1)
         in (case rp_err (fst a) of
               Some e \<Rightarrow> (Err (Wrapf (Wrapf e ''failed to describe instance: %s'' [iid])
                            ''failed to query UCloudMachine instance'' []), s1)
             | None \<Rightarrow> (case rp_body (fst a) of
                 h # _ \<Rightarrow> (Ok (Some h), s1)
               | [] \<Rightarrow> ((case rp_err (fst b) of Some e \<Rightarrow> Err e | None \<Rightarrow> Ok None), s2))))"
  by (simp add: find_or_create_instance_def try_else_def InstanceIfExists_run prog_simps Let_def if_err_run
      gone_error_def split: option.split list.split prod.split result.split)

fun creates_instance :: "call \<Rightarrow> bool" where
  "creates_instance (CallCreateUHostInstance q) = True"
| "creates_instance _ = False"

lemma reconcile_instance_sends:
  assumes "reconcile_instance S i s = (r, t)"
  shows "\<exists>cs. calls t = calls s @ cs \<and> list_all (\<lambda>x. \<not> creates_instance x) cs"
proof -
  let ?A = "\<lambda>_ :: unit. \<lambda>x. \<not> creates_instance x" and ?key = "\<lambda>_ :: 'a st. ()"
  have mach: "keeps (emits ?A ?key) (modify (upd_machine f))" for f
    by (rule emits.keeps_modify) (auto intro: emitsI)
  have logs: "keeps (emits ?A ?key) (log_instance_id S)"
    unfolding log_instance_id_def by (intro emits.keeps_rules)
  have obt: "keeps (emits ?A ?key) m" if ob: "\<And>c. obtaining c (P c) m" and no: "\<And>c x. P c x \<Longrightarrow> \<not> creates_instance x"
    for P and m :: "('a st, unit) prog"
  proof (rule keepsI)
    fix s
    obtain r t where m: "m s = (r, t)" by fastforce
    obtain cs where "calls t = calls s @ cs" and "list_all (P (ucluster s)) cs"
      using obtainingD [OF ob m refl] by blast
    then show "emits ?A ?key s (snd (m s))"
      using no by (auto simp: m intro!: emitsI elim!: list.pred_mono_strong)
  qed
  have "keeps (emits ?A ?key) (AddRealServer S h)" for h
    by (rule obt [OF AddRealServer_obtaining]) auto
  moreover have "keeps (emits ?A ?key) (DelRealServer S h)" for h
    by (rule obt [OF DelRealServer_obtaining]) auto
  moreover have "keeps (emits ?A ?key) (CreateCAPUHost S)"
  proof (rule keepsI)
    fix s :: "'a st"
    obtain r t where st: "CreateCAPUHost S s = (r, t)" by fastforce
    then show "emits ?A ?key s (snd (CreateCAPUHost S s))"
      by (rule CreateCAPUHost_cases) (auto simp: st intro: emitsI)
  qed
  ultimately have "keeps (emits ?A ?key) (reconcile_instance S i)"
    unfolding reconcile_instance_def act_on_state_def
    by (intro emits.keeps_rules mach logs)
      (auto split: option.split intro!: emits.keeps_rules mach logs)
  from keepsD [OF this assms] show ?thesis by (auto elim: emitsE)
qed

lemma machine_reconcile_run: "machine_reconcile S s =
    (if mst_FailureReason (um_Status (umachine s)) \<noteq> None \<or> mst_FailureMessage (um_Status (umachine s)) \<noteq> None
     then (Ok no_requeue, s)
     else (case register_finalizers S s of
         (Ok _, u) \<Rightarrow>
           if \<not> cl_InfrastructureReady (sv_Cluster S) \<or> ma_DataSecretName (sv_Machine S) = None
           then (Ok no_requeue, u)
           else (case find_or_create_instance S u of
               (Ok (Some i), v) \<Rightarrow> reconcile_instance S i v
             | (Ok None, v) \<Rightarrow> (Ok no_requeue, v)
             | (Err e, v) \<Rightarrow> (Err e, v)
             | (Panic p, v) \<Rightarrow> (Panic p, v))
       | (Err e, u) \<Rightarrow> (Err e, u)
       | (Panic p, u) \<Rightarrow> (Panic p, u)))"
  by (auto simp: machine_reconcile_def prog_simps bind_def split: prod.split result.split option.split)

section \<open>Removing an instance\<close>

fun vserver_call :: "call \<Rightarrow> bool" where
  "vserver_call (CallDescribeVServer q) = True"
| "vserver_call (CallReleaseBackend q) = True"
| "vserver_call _ = False"

lemma DelRealServer_sends:
  assumes "DelRealServer S h s = (r, t)"
  shows "ucluster t = ucluster s" and "umachine t = umachine s"
    and "\<exists>cs. calls t = calls s @ cs \<and> cs \<noteq> [] \<and> list_all vserver_call cs"
  using assms
  by (auto simp: DelRealServer_def prog_simps if_err_run Let_def split: option.splits list.splits if_splits)

lemma DeleteCAPUHost_Ok:
  assumes "DeleteCAPUHost S s = (Ok (), t)"
  shows "\<exists>d w. t = sent (CallDeleteCAPUHost (delete_host_req S (ucluster s) (umachine s) (clock s))) d w s"
proof -
  have "t \<noteq> s"
    using assms by (auto simp: DeleteCAPUHost_def prog_simps dest: try_doRequest_Ok)
  with DeleteCAPUHost_sent [OF assms] show ?thesis by blast
qed

text \<open>
  The backend first, then the host's registration, then the instance; what was not reached is
  not sent, and neither object is written.
\<close>

lemma remove_instance_calls:
  assumes "remove_instance S i s = (r, t)"
  obtains rs hs trm ev where "calls t = calls s @ rs @ hs @ trm @ ev"
    and "list_all vserver_call rs" and "IsControlPlane S \<longleftrightarrow> rs \<noteq> []"
    and "hs = [] \<and> trm = [] \<and> ev = [] \<and> r \<noteq> Ok ()
      \<or> (\<exists>now. hs = [CallDeleteCAPUHost (delete_host_req S (ucluster s) (umachine s) now)])"
    and "list_all (\<lambda>x. \<exists>iid zone. uhost_del_sends (ucluster s) iid zone x) trm"
    and "r = Ok () \<longrightarrow> ev = [CallEvent ''SuccessfulTerminate'']" and "list_all (\<lambda>x. \<exists>e. x = CallEvent e) ev"
    and "ucluster t = ucluster s" and "umachine t = umachine s"
proof -
  define first where "first = (if IsControlPlane S
           then try_else (DelRealServer S (uh_UHostId i))
                  (\<lambda>e. Wrapf e ''failed to terminate instance %s'' [uh_UHostId i]) ret
           else ret ())"
  obtain q1 s1 where q1: "first s = (q1, s1)" by fastforce
  have s1: "ucluster s1 = ucluster s" "umachine s1 = umachine s"
    "\<exists>rs. calls s1 = calls s @ rs \<and> (IsControlPlane S \<longleftrightarrow> rs \<noteq> []) \<and> list_all vserver_call rs"
  proof -
    obtain q u where q: "DelRealServer S (uh_UHostId i) s = (q, u)" by fastforce
    have "if IsControlPlane S then s1 = u else s1 = s"
      using q1 q by (cases q) (auto simp: first_def try_else_def ret_run)
    then show "ucluster s1 = ucluster s" "umachine s1 = umachine s"
      "\<exists>rs. calls s1 = calls s @ rs \<and> (IsControlPlane S \<longleftrightarrow> rs \<noteq> []) \<and> list_all vserver_call rs"
      using DelRealServer_sends [OF q] by (auto split: if_splits)
  qed
  then obtain rs where rs: "calls s1 = calls s @ rs" "IsControlPlane S \<longleftrightarrow> rs \<noteq> []" "list_all vserver_call rs"
    by blast
  obtain q2 s2 where q2: "DeleteCAPUHost S s1 = (q2, s2)" by fastforce
  obtain q3 s3 where q3: "TerminateInstanceAndWait S s2 = (q3, s3)" by fastforce
  have s3: "ucluster s3 = ucluster s2" "umachine s3 = umachine s2"
      "\<exists>trm. calls s3 = calls s2 @ trm \<and> list_all (\<lambda>x. \<exists>iid zone. uhost_del_sends (ucluster s2) iid zone x) trm"
    using obtainingD [OF TerminateInstance_obtaining q3 refl] by blast+
  have run: "(r, t) = (case q1 of
        Ok _ \<Rightarrow> (case q2 of
            Ok _ \<Rightarrow> (case q3 of
                Ok _ \<Rightarrow> (Ok (), s3\<lparr>calls := calls s3 @ [CallEvent ''SuccessfulTerminate'']\<rparr>)
              | Err e \<Rightarrow> (Err (ErrorfErr ''failed to terminate instance: %+v'' [] e),
                            s3\<lparr>calls := calls s3 @ [CallEvent ''FailedTerminate'']\<rparr>)
              | Panic p \<Rightarrow> (Panic p, s3))
          | Err e \<Rightarrow> (Err (Wrapf e ''failed to delete uk8s capu host'' []), s2)
          | Panic p \<Rightarrow> (Panic p, s2))
      | Err e \<Rightarrow> (Err e, s1)
      | Panic p \<Rightarrow> (Panic p, s1))"
    using assms [symmetric] q1 q2 q3
    by (simp add: remove_instance_def first_def [symmetric] bind_def try_else_def try_or_def prog_simps
        split: result.split)
  show thesis
  proof (cases "\<exists>a. q1 = Ok a")
    case False
    then have "t = s1" and "r \<noteq> Ok ()" using run by (auto split: result.splits)
    then show thesis using s1 rs by (intro that [of rs "[]" "[]" "[]"]) auto
  next
    case ok1: True
    show thesis
    proof (cases "\<exists>a. q2 = Ok a")
      case False
      then have t: "t = s2" and r: "r \<noteq> Ok ()" using run ok1 by (auto split: result.splits)
      have "s2 = s1 \<or> (\<exists>d w. s2 = sent (CallDeleteCAPUHost (delete_host_req S (ucluster s1) (umachine s1) (clock s1))) d w s1)"
        using q2 by (rule DeleteCAPUHost_sent)
      then show thesis
      proof (elim disjE exE)
        assume "s2 = s1"
        then show thesis using t r s1 rs by (intro that [of rs "[]" "[]" "[]"]) auto
      next
        fix d w
        assume "s2 = sent (CallDeleteCAPUHost (delete_host_req S (ucluster s1) (umachine s1) (clock s1))) d w s1"
        then show thesis using t r s1 rs
          by (intro that [of rs "[CallDeleteCAPUHost (delete_host_req S (ucluster s) (umachine s) (clock s1))]" "[]" "[]"])
            auto
      qed
    next
      case True
      then have q2': "DeleteCAPUHost S s1 = (Ok (), s2)" using q2 by simp
      then obtain d w where s2: "s2 = sent (CallDeleteCAPUHost (delete_host_req S (ucluster s) (umachine s) (clock s1))) d w s1"
        using DeleteCAPUHost_Ok s1 by metis
      from s3 s2 s1 obtain trm where trm: "calls s3 = calls s2 @ trm"
          "list_all (\<lambda>x. \<exists>iid zone. uhost_del_sends (ucluster s) iid zone x) trm"
        by auto
      show thesis
      proof (cases q3)
        case (Ok a)
        then show thesis using run ok1 True s1 s2 s3 rs trm
          by (intro that [of rs "[CallDeleteCAPUHost (delete_host_req S (ucluster s) (umachine s) (clock s1))]" trm
                "[CallEvent ''SuccessfulTerminate'']"]) auto
      next
        case (Err e)
        then show thesis using run ok1 True s1 s2 s3 rs trm
          by (intro that [of rs "[CallDeleteCAPUHost (delete_host_req S (ucluster s) (umachine s) (clock s1))]" trm
                "[CallEvent ''FailedTerminate'']"]) auto
      next
        case (Panic p)
        then show thesis using run ok1 True s1 s2 s3 rs trm
          by (intro that [of rs "[CallDeleteCAPUHost (delete_host_req S (ucluster s) (umachine s) (clock s1))]" trm "[]"]) auto
      qed
    qed
  qed
qed

lemma machine_reconcileDelete_run: "machine_reconcileDelete S s =
    (case InstanceIfExists S s of
       (Ok None, u) \<Rightarrow> (Ok no_requeue, upd_machine_meta (remove_finalizer S MachineFinalizer) u)
     | (Ok (Some i), u) \<Rightarrow> (case remove_instance S i u of
           (Ok _, t) \<Rightarrow> (Ok no_requeue, upd_machine_meta (remove_finalizer S MachineFinalizer) t)
         | (Err e, t) \<Rightarrow> (Err e, t)
         | (Panic p, t) \<Rightarrow> (Panic p, t))
     | (Err e, u) \<Rightarrow> (Err (Wrapf e ''failed to query UCloudMachine instance'' []), u)
     | (Panic p, u) \<Rightarrow> (Panic p, u))"
  by (simp add: machine_reconcileDelete_def try_else_def bind_def prog_simps
      split: prod.split result.split option.split)

section \<open>What a machine says about its instance\<close>

lemma record_instance_fields:
  "mst_InstanceId (um_Status (record_instance S c i m)) = uh_UHostId i"
  "mst_InstanceStatus (um_Status (record_instance S c i m)) = uh_State i"
  "mst_Zone (um_Status (record_instance S c i m)) = uh_Zone i"
  "mst_Addresses (um_Status (record_instance S c i m)) = getAddresses S i"
  "ms_ProviderID (um_Spec (record_instance S c i m)) = Some (provider_id c i)"
  "mst_Ready (um_Status (record_instance S c i m)) = mst_Ready (um_Status m)"
  "mst_FailureReason (um_Status (record_instance S c i m)) = mst_FailureReason (um_Status m)"
  "mst_FailureMessage (um_Status (record_instance S c i m)) = mst_FailureMessage (um_Status m)"
  "um_Meta (record_instance S c i m) = um_Meta m"
  by (simp_all add: record_instance_def machine_setters)

text \<open>Registering backends and hosts leaves the machine's readiness and failure fields alone.\<close>

definition health :: "'w st \<Rightarrow> bool \<times> string option \<times> error option" where
  "health s = (mst_Ready (um_Status (umachine s)), mst_FailureReason (um_Status (umachine s)),
     mst_FailureMessage (um_Status (umachine s)))"

lemma health_CreateCAPUHost: "keeps (same health) (CreateCAPUHost S)"
proof (rule keepsI)
  fix s :: "'a st"
  obtain r t where st: "CreateCAPUHost S s = (r, t)" by fastforce
  then show "same health s (snd (CreateCAPUHost S s))"
    by (rule CreateCAPUHost_cases) (auto simp: st same_def health_def)
qed

lemma health_servers: "keeps (same health) (AddRealServer S h)" "keeps (same health) (DelRealServer S h)"
  by (rule obtaining_same [OF AddRealServer_obtaining] obtaining_same [OF DelRealServer_obtaining],
      simp add: health_def)+

lemma health_log: "keeps (same health) (log_instance_id S)"
  unfolding log_instance_id_def by (intro same.keeps_rules)

lemma log_instance_run: "log_instance_id S s =
    ((case GetInstanceID S (umachine s) of None \<Rightarrow> Panic ''nil pointer dereference'' | Some _ \<Rightarrow> Ok ()), s)"
  by (simp add: log_instance_id_def prog_simps bind_deref split: option.split)

text \<open>The readiness after a pass over a live instance is decided by the state of the instance.\<close>

lemma reconcile_instance_Ok:
  assumes "reconcile_instance S i s = (Ok q, t)"
  shows "health t =
    (if uh_State i = StateRunning (lib S) then (True, snd (health s))
     else if uh_State i \<in> {StateInitializing (lib S), StateStarting (lib S), ''''} then health s
     else (False, Some (UpdateMachineError (lib S)),
       Some (Errorf ''uhost instance %s state %q is unexpected'' [uh_UHostId i, uh_State i])))"
proof -
  define u where "u = upd_machine (record_instance S (ucluster s) i) s"
  have hu: "health u = health s" by (simp add: health_def u_def record_instance_fields)
  obtain early v where act: "act_on_state S i u = (Ok early, v)" and
      rest: "t = v \<or> (\<exists>p. CreateCAPUHost S v = (p, t))"
    using assms
    by (auto simp: reconcile_instance_def prog_simps bind_def try_else_def u_def [symmetric]
        split: prod.splits result.splits option.splits)
  have "health t = health v"
    using rest keepsD [OF health_CreateCAPUHost] by (auto simp: same_def)
  moreover have "health v =
    (if uh_State i = StateRunning (lib S) then (True, snd (health s))
     else if uh_State i \<in> {StateInitializing (lib S), StateStarting (lib S), ''''} then health s
     else (False, Some (UpdateMachineError (lib S)),
       Some (Errorf ''uhost instance %s state %q is unexpected'' [uh_UHostId i, uh_State i])))"
  proof -
    have set_health: "health (upd_machine SetReady u) = (True, snd (health u))"
      "health (upd_machine (fail_machine S e) u) = (False, Some (UpdateMachineError (lib S)), Some e)" for e
      by (simp_all add: health_def fail_machine_def machine_setters)
    have servers: "AddRealServer S h w = (p, v) \<Longrightarrow> health v = health w"
      "DelRealServer S h w = (p, v) \<Longrightarrow> health v = health w" for h w p
      using keepsD [OF health_servers(1)] keepsD [OF health_servers(2)] by (auto simp: same_def)
    show ?thesis
      using act hu
      by (auto simp: act_on_state_def log_instance_run bind_def modify_run ret_run set_health
          split: if_splits option.splits prod.splits result.splits dest!: servers)
  qed
  ultimately show ?thesis by simp
qed

section \<open>What the deletion of a machine sends\<close>

text \<open>
  Leaving the load balancer: the server is described, and the backend of the host, if there is one, is
  released.
\<close>

definition backend_trace :: "'w Service \<Rightarrow> UCloudCluster \<Rightarrow> string \<Rightarrow> 'w \<Rightarrow> call list \<Rightarrow> bool" where
  "backend_trace S c hostId w cs \<longleftrightarrow>
     (let servers = rp_body (fst (sdk_DescribeVServer (ulbClient S) (describe_vserver_req c) w));
          backend = find_backend hostId (vs_BackendSet (hd servers)) in
      servers \<noteq> [] \<and> cs = CallDescribeVServer (describe_vserver_req c)
        # (if backend \<noteq> '''' then [CallReleaseBackend (del_backend_req c backend)] else []))"

text \<open>
  A deletion that succeeds looks the instance up; if it is there, it leaves the load balancer (if it is
  a control plane), the host is deregistered, and the instance is terminated.
\<close>

definition machine_deletion_trace :: "'w Service \<Rightarrow> UCloudCluster \<Rightarrow> UCloudMachine \<Rightarrow> 'w \<Rightarrow> call list \<Rightarrow> bool" where
  "machine_deletion_trace S c m w cs \<longleftrightarrow> (case GetInstanceID S m of
      None \<Rightarrow> cs = []
    | Some iid \<Rightarrow>
        let req = describe_instance_req c (GetZone m) [iid]; look = CallDescribeUHostInstance req;
            found = rp_body (fst (sdk_DescribeUHostInstance (uhostClient S) req w)) in
        if found = [] then cs = [look]
        else \<exists>rs now trm. let host = CallDeleteCAPUHost (delete_host_req S c m now) in
          cs = look # rs @ host # trm @ [CallEvent ''SuccessfulTerminate'']
          \<and> (if IsControlPlane S then backend_trace S c (uh_UHostId (hd found)) (after_call S look w) rs else rs = [])
          \<and> (if iid = '''' then trm = []
             else termination_trace S c iid (Zone S m) (after_calls S (look # rs @ [host]) w) trm))"

lemma DelRealServer_trace:
  assumes "DelRealServer S h s = (Ok (), t)"
  obtains cs where "calls t = calls s @ cs" and "backend_trace S (ucluster s) h (world s) cs"
  using assms
  by (auto simp: DelRealServer_def prog_simps if_err_run Let_def backend_trace_def intro!: that
      split: option.splits list.splits if_splits)

lemma replayed_machine_deletion:
  "keeps (replayed S) (DelRealServer S h)" "keeps (replayed S) (DeleteCAPUHost S)"
  "keeps (replayed S) (TerminateInstanceAndWait S)"
proof -
  show "keeps (replayed S) (DelRealServer S h)"
    unfolding DelRealServer_def
    by (intro replayed_rules replayed_invoke) (auto intro!: replayed_rules replayed_invoke simp: Let_def split: list.split)
  show "keeps (replayed S) (DeleteCAPUHost S)"
    unfolding DeleteCAPUHost_def by (intro replayed_rules replayed_doRequest; simp)
  show "keeps (replayed S) (TerminateInstanceAndWait S)"
    unfolding TerminateInstanceAndWait_def
    by (intro replayed_rules) (auto intro!: replayed_rules replayed_terminateUHost split: option.split)
qed

lemma remove_instance_trace:
  assumes run: "remove_instance S i s = (Ok (), t)" and iid: "GetInstanceID S (umachine s) = Some iid"
  obtains rs now trm where "calls t = calls s @ rs @ CallDeleteCAPUHost (delete_host_req S (ucluster s) (umachine s) now)
      # trm @ [CallEvent ''SuccessfulTerminate'']"
    and "if IsControlPlane S then backend_trace S (ucluster s) (uh_UHostId i) (world s) rs else rs = []"
    and "if iid = '''' then trm = [] else termination_trace S (ucluster s) iid (Zone S (umachine s))
      (after_calls S (rs @ [CallDeleteCAPUHost (delete_host_req S (ucluster s) (umachine s) now)]) (world s)) trm"
proof -
  obtain s1 s2 s3 where s1: "if IsControlPlane S then DelRealServer S (uh_UHostId i) s = (Ok (), s1) else s1 = s"
    and s2: "DeleteCAPUHost S s1 = (Ok (), s2)" and s3: "TerminateInstanceAndWait S s2 = (Ok (), s3)"
    and t: "t = s3\<lparr>calls := calls s3 @ [CallEvent ''SuccessfulTerminate'']\<rparr>"
    using run by (auto simp: remove_instance_def bind_def try_else_def try_or_def prog_simps
        split: if_splits prod.splits result.splits)
  have same: "ucluster s1 = ucluster s" "umachine s1 = umachine s"
    using s1 DelRealServer_sends(1,2) by (auto split: if_splits)
  obtain rs where rs: "calls s1 = calls s @ rs"
      "if IsControlPlane S then backend_trace S (ucluster s) (uh_UHostId i) (world s) rs else rs = []"
    using s1 by (cases "IsControlPlane S") (auto elim: DelRealServer_trace)
  define host where "host = CallDeleteCAPUHost (delete_host_req S (ucluster s) (umachine s) (clock s1))"
  have "calls s2 = calls s1 @ [host]" and same2: "ucluster s2 = ucluster s" "umachine s2 = umachine s"
    using DeleteCAPUHost_Ok [OF s2] by (auto simp: host_def same)
  then have s2': "calls s2 = calls s @ rs @ [host]"
    using rs(1) by simp
  have "replayed S s s1"
    using s1 keepsD [OF replayed_machine_deletion(1)] replayed.frame_refl by (metis (full_types))
  then have "replayed S s s2"
    using keepsD [OF replayed_machine_deletion(2) s2] by (rule replayed.frame_trans)
  then have w: "world s2 = after_calls S (rs @ [host]) (world s)"
    using s2' by (rule replayedD)
  obtain trm where trm: "calls s3 = calls s2 @ trm" "if iid = '''' then trm = []
      else termination_trace S (ucluster s) iid (Zone S (umachine s)) (world s2) trm"
  proof (cases "iid = ''''")
    case True
    then show thesis
      using s3 iid same2 by (intro that [of "[]"]) (simp_all add: TerminateInstanceAndWait_def prog_simps)
  next
    case False
    then have "terminateUHost S iid (Zone S (umachine s)) s2 = (Ok (), s3)"
      using s3 iid same2 by (auto simp: TerminateInstanceAndWait_def prog_simps bind_def split: prod.splits result.splits)
    then show thesis
      using False same2 by (elim terminateUHost_trace) (auto intro: that)
  qed
  show thesis
    using rs(2) trm(2) unfolding w
    by (intro that [of rs "clock s1" trm]) (auto simp: t s2' trm(1) simp flip: host_def split: if_splits)
qed

end
