(* ===== verification/Sample.thy ===== *)
theory Sample
  imports Deletion_Facts Machine_Facts
begin

text \<open>
  A concrete cloud to run the model on: the witnesses of the properties evaluate the operations
  against it. Every call succeeds, nothing exists to begin with, and the world is a number that
  says how far the one instance is: 0 running, 1 stopped, 2 gone.
\<close>

definition reply_ok :: "'r \<Rightarrow> 'r reply" where
  "reply_ok b = \<lparr>rp_body = b, rp_err = None, rp_code = 0, rp_took = 1\<rparr>"

definition reply_err :: "'r \<Rightarrow> error \<Rightarrow> 'r reply" where
  "reply_err b e = \<lparr>rp_body = b, rp_err = Some e, rp_code = 1, rp_took = 1\<rparr>"

definition const_api :: "'r \<Rightarrow> 'q \<Rightarrow> 'w \<Rightarrow> 'r reply \<times> 'w" where
  "const_api b q w = (reply_ok b, w)"

definition sample_vpcs :: "nat VPCClient" where
  "sample_vpcs = \<lparr>sdk_DescribeVPC = const_api [], sdk_CreateVPC = const_api ''uvnet-1'',
     sdk_DeleteVPC = const_api (), sdk_DescribeSubnet = const_api [], sdk_CreateSubnet = const_api ''subnet-1'',
     sdk_DeleteSubnet = const_api (), sdk_DescribeNATGW = const_api [], sdk_CreateNATGW = const_api ''natgw-1'',
     sdk_DeleteNATGW = const_api ()\<rparr>"

definition sample_unet :: "nat UNetClient" where
  "sample_unet = \<lparr>sdk_AllocateEIP = const_api [\<lparr>ae_EIPId = ''eip-1'', ae_EIPAddr = [''1.2.3.4'']\<rparr>],
     sdk_ReleaseEIP = const_api (), sdk_BindEIP = const_api (), sdk_UnBindEIP = const_api (),
     sdk_DescribeFirewall = const_api [\<lparr>fi_FWId = ''fw-1'', fi_Name = ''web'', fi_Type = ''default''\<rparr>]\<rparr>"

definition sample_vserver :: ULBVServerSet where
  "sample_vserver = \<lparr>vs_BackendSet = [\<lparr>be_ResourceId = ''uhost-1'', be_BackendId = ''backend-1''\<rparr>],
     vs_FrontendPort = 6443, vs_ListenType = '''', vs_Method = '''', vs_MonitorType = '''', vs_Protocol = ''TCP'',
     vs_VServerId = ''vserver-1'', vs_VServerName = ''k8s-api-server''\<rparr>"

definition sample_ulb :: "nat ULBClient" where
  "sample_ulb = \<lparr>sdk_DescribeULB = const_api [], sdk_DeleteULB = const_api (),
     sdk_CreateVServer = const_api ''vserver-1'', sdk_DescribeVServer = const_api [sample_vserver],
     sdk_AllocateBackend = const_api (), sdk_ReleaseBackend = const_api ()\<rparr>"

definition sample_host :: "nat \<Rightarrow> UHostInstanceSet" where
  "sample_host w = \<lparr>uh_UHostId = ''uhost-1'', uh_State = (if w = 0 then ''Running'' else ''Stopped''),
     uh_Zone = ''cn-bj2-02'', uh_Name = ''host'',
     uh_IPSet = [\<lparr>hip_Default = ''true'', hip_Type = ''Private'', hip_IP = ''10.0.0.2''\<rparr>]\<rparr>"

definition describe_host :: "DescribeUHostInstanceRequest \<Rightarrow> nat \<Rightarrow> UHostInstanceSet list reply \<times> nat" where
  "describe_host q w = (reply_ok (if dh_UHostIds q = [] \<or> w \<ge> 2 then [] else [sample_host w]), w)"

definition sample_uhost :: "nat UHostClient" where
  "sample_uhost = \<lparr>sdk_DescribeUHostInstance = describe_host,
     sdk_CreateUHostInstance = (\<lambda>q w. (reply_ok [''uhost-1''], 0)),
     sdk_PoweroffUHostInstance = (\<lambda>q w. (reply_ok (), 1)),
     sdk_TerminateUHostInstance = (\<lambda>q w. (reply_ok (), 2))\<rparr>"

definition to_query :: "'q \<Rightarrow> error + query" where
  "to_query q = Inr []"

definition sample_http :: "nat Http" where
  "sample_http = \<lparr>http_Send = const_api (Some \<lparr>hres_StatusCode = 200, hres_Body = ''{}''\<rparr>),
     http_BuildCredentialedQuery = (\<lambda>c q. ''''), http_PatchRetCode = (\<lambda>b. b), http_IsNetworkError = (\<lambda>e. False),
     http_GoVersion = ''1.13'', http_SdkVersion = ''0.12'',
     cd_CreateULB = \<lparr>cd_ToQueryMap = to_query, cd_Unmarshal = (\<lambda>b r. Inr (r\<lparr>culbr_ULBId := ''ulb-1''\<rparr>))\<rparr>,
     cd_ListBusinessGroup = \<lparr>cd_ToQueryMap = to_query, cd_Unmarshal = (\<lambda>b r. Inr r)\<rparr>,
     cd_CreateBusinessGroup = \<lparr>cd_ToQueryMap = to_query, cd_Unmarshal =
       (\<lambda>b r. Inr (r\<lparr>cbgr_BusinessId := ''group-1'', cbgr_BusinessName := ''capu-sha''\<rparr>))\<rparr>,
     cd_DeleteBusinessGroup = \<lparr>cd_ToQueryMap = to_query, cd_Unmarshal = (\<lambda>b r. Inr r)\<rparr>,
     cd_SearchBusinessGroupResource = \<lparr>cd_ToQueryMap = to_query, cd_Unmarshal = (\<lambda>b r. Inr r)\<rparr>,
     cd_CreateCAPUCluster = \<lparr>cd_ToQueryMap = to_query, cd_Unmarshal = (\<lambda>b r. Inr (r\<lparr>ccr_ClusterId := ''uk8s-1''\<rparr>))\<rparr>,
     cd_DeleteCAPUCluster = \<lparr>cd_ToQueryMap = to_query, cd_Unmarshal = (\<lambda>b r. Inr r)\<rparr>,
     cd_CreateCAPUHost = \<lparr>cd_ToQueryMap = to_query, cd_Unmarshal = (\<lambda>b r. Inr r)\<rparr>,
     cd_DeleteCAPUHost = \<lparr>cd_ToQueryMap = to_query, cd_Unmarshal = (\<lambda>b r. Inr r)\<rparr>\<rparr>"

definition sample_owner :: Cluster where
  "sample_owner = \<lparr>cl_Name = ''c1'', cl_Namespace = ''default'', cl_UID = ''uid'',
     cl_CreationTimestamp = ''2020-01-01'', cl_DeletionTimestamp = None, cl_Paused = False,
     cl_InfrastructureRef = Some ''c1'',
     cl_ClusterNetwork = Some \<lparr>cn_APIServerPort = None, cn_Services = Some [''10.96.0.0/12''], cn_Pods = Some [''192.168.0.0/16'']\<rparr>,
     cl_InfrastructureReady = True\<rparr>"

definition sample_machine_owner :: Machine where
  "sample_machine_owner = \<lparr>ma_Name = ''m1'', ma_Namespace = ''default'', ma_Labels = [], ma_FailureDomain = Some ''cn-bj2-02'',
     ma_Version = Some ''1.16.3'', ma_DataSecretName = Some ''m1-bootstrap'', ma_InfrastructureRef = ''m1''\<rparr>"

definition sample_cluster :: UCloudCluster where
  "sample_cluster = \<lparr>uc_Meta = zero_ObjectMeta\<lparr>om_Name := ''c1'', om_Namespace := ''default''\<rparr>,
     uc_Spec = zero_UCloudClusterSpec\<lparr>cs_ProjectId := ''org-1'', cs_Region := ''cn-bj2'', cs_Version := ''1.16.3'',
       cs_Network := zero_NetworkSpec\<lparr>nws_VPC := zero_VPCSpec\<lparr>vpcs_CidrBlock := ''10.0.0.0/8''\<rparr>,
         nws_Subnet := zero_SubnetSpec\<lparr>subs_CidrBlock := ''10.0.0.0/16''\<rparr>\<rparr>\<rparr>,
     uc_Status = zero_UCloudClusterStatus\<rparr>"

definition sample_machine :: UCloudMachine where
  "sample_machine = \<lparr>um_Meta = zero_ObjectMeta\<lparr>om_Name := ''m1'', om_Namespace := ''default''\<rparr>,
     um_Spec = zero_UCloudMachineSpec\<lparr>ms_SSHPassword := ''cGFzc3dvcmQ=''\<rparr>, um_Status = zero_UCloudMachineStatus\<rparr>"

definition sample_kube :: "nat Kube" where
  "sample_kube = \<lparr>kube_PatchCluster = const_api (), kube_PatchMachine = const_api (),
     kube_GetUCloudCluster = const_api sample_cluster,
     kube_GetUCloudMachine = (\<lambda>q w. (reply_err sample_machine (NotFoundError ''gone''), w)),
     kube_GetSecret = const_api [(''value'', ''#cloud-config'')], kube_DeleteMachine = const_api (),
     kube_ListMachines = const_api [sample_machine_owner], kube_GetOwnerCluster = const_api (Some sample_owner),
     kube_GetOwnerMachine = const_api (Some sample_machine_owner), kube_GetClusterFromMetadata = const_api sample_owner\<rparr>"

text \<open>Adding a finalizer the way the library documents it.\<close>

definition add_once :: "string \<Rightarrow> string list \<Rightarrow> string list" where
  "add_once f fs = (if f \<in> set fs then fs else fs @ [f])"

definition sample_lib :: "nat Lib" where
  "sample_lib = \<lparr>lib_NewSHA1 = (\<lambda>ns x. ''sha''), lib_ParseProviderID = (\<lambda>p. if p = '''' then None else Some ''uhost-1''),
     lib_IsControlPlaneMachine = (\<lambda>m. True), lib_AddFinalizer = add_once, lib_RemoveFinalizer = remove_in_place,
     lib_EndpointString = ep_Host, lib_MarshalCredential = (\<lambda>c. Inr (cr_PublicKey c)),
     lib_IsPaused = (\<lambda>p m. p), lib_Random = (\<lambda>w. (0, w)),
     StateRunning = ''Running'', StateInitializing = ''Initializing'', StateStarting = ''Starting'',
     StateStopped = ''Stopped'', UpdateMachineError = ''UpdateError'', MachineExternalIP = ''ExternalIP'',
     MachineInternalIP = ''InternalIP'', ClusterLabelName = ''cluster.x-k8s.io/cluster-name''\<rparr>"

definition sample :: "nat Service" where
  "sample = \<lparr>vpcClient = sample_vpcs, unetClient = sample_unet, ulbClient = sample_ulb, uhostClient = sample_uhost,
     http = sample_http, kube = sample_kube, lib = sample_lib,
     sv_Config = \<lparr>cfg_BaseUrl = ''https://api.ucloud.cn'', cfg_Timeout = 30, cfg_UserAgent = UserAgent\<rparr>,
     sv_Credential = Some \<lparr>cr_PublicKey = ''pub'', cr_PrivateKey = ''pri''\<rparr>,
     sv_Cluster = sample_owner, sv_Machine = sample_machine_owner\<rparr>"

definition start :: "nat st" where
  "start = \<lparr>world = 2, clock = 0, calls = [], ucluster = sample_cluster, umachine = sample_machine\<rparr>"

lemmas sample_defs = sample_def sample_vpcs_def sample_unet_def sample_ulb_def sample_uhost_def sample_http_def
  sample_kube_def sample_lib_def sample_owner_def sample_machine_owner_def

text \<open>The answers of the sample, one by one.\<close>

lemma sample_answers [simp]:
  "sdk_DescribeVPC (vpcClient sample) q w = (reply_ok [], w)"
  "sdk_CreateVPC (vpcClient sample) q1 w = (reply_ok ''uvnet-1'', w)"
  "sdk_DeleteVPC (vpcClient sample) q2 w = (reply_ok (), w)"
  "sdk_DescribeSubnet (vpcClient sample) q3 w = (reply_ok [], w)"
  "sdk_CreateSubnet (vpcClient sample) q4 w = (reply_ok ''subnet-1'', w)"
  "sdk_DeleteSubnet (vpcClient sample) q5 w = (reply_ok (), w)"
  "sdk_DescribeNATGW (vpcClient sample) q6 w = (reply_ok [], w)"
  "sdk_CreateNATGW (vpcClient sample) q7 w = (reply_ok ''natgw-1'', w)"
  "sdk_DeleteNATGW (vpcClient sample) q8 w = (reply_ok (), w)"
  "sdk_AllocateEIP (unetClient sample) q9 w = (reply_ok [\<lparr>ae_EIPId = ''eip-1'', ae_EIPAddr = [''1.2.3.4'']\<rparr>], w)"
  "sdk_BindEIP (unetClient sample) q10 w = (reply_ok (), w)"
  "sdk_DescribeFirewall (unetClient sample) q11 w =
     (reply_ok [\<lparr>fi_FWId = ''fw-1'', fi_Name = ''web'', fi_Type = ''default''\<rparr>], w)"
  "sdk_DescribeULB (ulbClient sample) q12 w = (reply_ok [], w)"
  "sdk_DeleteULB (ulbClient sample) q13 w = (reply_ok (), w)"
  "sdk_CreateVServer (ulbClient sample) q14 w = (reply_ok ''vserver-1'', w)"
  "sdk_DescribeVServer (ulbClient sample) q15 w = (reply_ok [sample_vserver], w)"
  "sdk_AllocateBackend (ulbClient sample) q16 w = (reply_ok (), w)"
  "sdk_ReleaseBackend (ulbClient sample) q17 w = (reply_ok (), w)"
  "sdk_DescribeUHostInstance (uhostClient sample) q18 w = describe_host q18 w"
  "sdk_CreateUHostInstance (uhostClient sample) q19 w = (reply_ok [''uhost-1''], 0)"
  "sdk_PoweroffUHostInstance (uhostClient sample) q20 w = (reply_ok (), 1)"
  "sdk_TerminateUHostInstance (uhostClient sample) q21 w = (reply_ok (), 2)"
  "kube_PatchCluster (kube sample) q22 w = (reply_ok (), w)"
  "kube_PatchMachine (kube sample) q23 w = (reply_ok (), w)"
  "kube_GetUCloudMachine (kube sample) q24 w = (reply_err sample_machine (NotFoundError ''gone''), w)"
  "kube_GetSecret (kube sample) q25 w = (reply_ok [(''value'', ''#cloud-config'')], w)"
  "kube_DeleteMachine (kube sample) q26 w = (reply_ok (), w)"
  "http_Send (http sample) q27 w = (reply_ok (Some \<lparr>hres_StatusCode = 200, hres_Body = ''{}''\<rparr>), w)"
  by (simp_all add: sample_defs const_api_def)

lemma sample_replies [simp]:
  "rp_body (reply_ok b) = b" "rp_err (reply_ok b) = None" "rp_code (reply_ok b) = 0" "rp_took (reply_ok b) = 1"
  "rp_body (reply_err b e) = b" "rp_err (reply_err b e) = Some e" "rp_took (reply_err b e) = 1"
  by (simp_all add: reply_ok_def reply_err_def)

lemma sample_http [simp]:
  "buildHTTPRequest sample \<lparr>cd_ToQueryMap = to_query, cd_Unmarshal = f\<rparr> q = Inr
     \<lparr>hr_URL = ''https://api.ucloud.cn'', hr_Method = ''POST'', hr_Timeout = 30, hr_QueryString = '''',
      hr_Headers = [(''User-Agent'', TrimSpace (''GO/1.13 GO-SDK/0.12 '' @ UserAgent))]\<rparr>"
  by (simp add: buildHTTPRequest_def to_query_def sample_defs)

lemma sample_fields [simp]:
  "sv_Machine sample = sample_machine_owner" "sv_Cluster sample = sample_owner"
  "sv_Credential sample = Some \<lparr>cr_PublicKey = ''pub'', cr_PrivateKey = ''pri''\<rparr>"
  "StateRunning (lib sample) = ''Running''" "StateInitializing (lib sample) = ''Initializing''"
  "StateStarting (lib sample) = ''Starting''" "StateStopped (lib sample) = ''Stopped''"
  "UpdateMachineError (lib sample) = ''UpdateError''" "MachineExternalIP (lib sample) = ''ExternalIP''"
  "MachineInternalIP (lib sample) = ''InternalIP''"
  "lib_MarshalCredential (lib sample) c = Inr (cr_PublicKey c)"
  "lib_AddFinalizer (lib sample) = add_once" "lib_RemoveFinalizer (lib sample) = remove_in_place"
  "lib_IsControlPlaneMachine (lib sample) x = True" "lib_NewSHA1 (lib sample) ns n = ''sha''"
  "lib_ParseProviderID (lib sample) p = (if p = '''' then None else Some ''uhost-1'')"
  "lib_IsPaused (lib sample) paused om = paused" "lib_EndpointString (lib sample) e = ep_Host e"
  by (simp_all add: sample_defs)

lemma sample_owners [simp]:
  "ma_Name sample_machine_owner = ''m1''" "ma_Namespace sample_machine_owner = ''default''"
  "ma_FailureDomain sample_machine_owner = Some ''cn-bj2-02''" "ma_Version sample_machine_owner = Some ''1.16.3''"
  "ma_DataSecretName sample_machine_owner = Some ''m1-bootstrap''"
  "cl_Name sample_owner = ''c1''" "cl_Namespace sample_owner = ''default''" "cl_InfrastructureReady sample_owner = True"
  by (simp_all add: sample_machine_owner_def sample_owner_def)

text \<open>So \<open>doRequest\<close> succeeds, with what the codec makes of the answer.\<close>

lemma sample_doRequest [simp]:
  "doRequest sample \<lparr>cd_ToQueryMap = to_query, cd_Unmarshal = (\<lambda>b r. Inr (f r))\<rparr> tag q res s =
     (if rs_RetCode (f res) = 0 then Ok (f res) else Err (ServerCodeError (rs_RetCode (f res)) (rs_Message (f res))),
      sent (tag q) 1 (world s) s)"
  by (simp add: doRequest_run http_outcome_def)

lemma sample_codecs [simp]:
  "cd_CreateULB (http sample) = \<lparr>cd_ToQueryMap = to_query, cd_Unmarshal = (\<lambda>b r. Inr (r\<lparr>culbr_ULBId := ''ulb-1''\<rparr>))\<rparr>"
  "cd_ListBusinessGroup (http sample) = \<lparr>cd_ToQueryMap = to_query, cd_Unmarshal = (\<lambda>b r. Inr r)\<rparr>"
  "cd_CreateBusinessGroup (http sample) = \<lparr>cd_ToQueryMap = to_query, cd_Unmarshal =
     (\<lambda>b r. Inr (r\<lparr>cbgr_BusinessId := ''group-1'', cbgr_BusinessName := ''capu-sha''\<rparr>))\<rparr>"
  "cd_DeleteBusinessGroup (http sample) = \<lparr>cd_ToQueryMap = to_query, cd_Unmarshal = (\<lambda>b r. Inr r)\<rparr>"
  "cd_SearchBusinessGroupResource (http sample) = \<lparr>cd_ToQueryMap = to_query, cd_Unmarshal = (\<lambda>b r. Inr r)\<rparr>"
  "cd_CreateCAPUCluster (http sample) = \<lparr>cd_ToQueryMap = to_query, cd_Unmarshal = (\<lambda>b r. Inr (r\<lparr>ccr_ClusterId := ''uk8s-1''\<rparr>))\<rparr>"
  "cd_DeleteCAPUCluster (http sample) = \<lparr>cd_ToQueryMap = to_query, cd_Unmarshal = (\<lambda>b r. Inr r)\<rparr>"
  "cd_CreateCAPUHost (http sample) = \<lparr>cd_ToQueryMap = to_query, cd_Unmarshal = (\<lambda>b r. Inr r)\<rparr>"
  "cd_DeleteCAPUHost (http sample) = \<lparr>cd_ToQueryMap = to_query, cd_Unmarshal = (\<lambda>b r. Inr r)\<rparr>"
  by (simp_all add: sample_defs)

end
