(* ===== verification/Service_Properties.thy ===== *)
theory Service_Properties
  imports Sample
begin

text \<open>
  The properties of the services under \<open>cloud/services\<close>: what each provisioning step records,
  how instances are created and terminated, how machines join and leave the load balancer, and
  how requests and addresses are formed. Each property that has hypotheses is followed by a
  witness that applies it to the sample cloud.
\<close>

section \<open>Provisioning\<close>

text \<open>C35: \<open>ReconcileVPC\<close> on a cluster without a VPC records either the first described VPC that has
  the wanted name or the wanted identifier, after the describe request alone, or, if there is
  none, a new VPC with the wanted name and CIDR block and the identifier the create request
  returned, after these two requests.\<close>

theorem ReconcileVPC_finds_or_creates:
  assumes run: "ReconcileVPC S s = (Ok (), t)" and none: "vpc_VpcId (vpc_of (ucluster s)) = ''''"
  shows "let c = ucluster s; v = vpc_of (ucluster t);
      listed = fst (sdk_DescribeVPC (vpcClient S) (describe_vpc_req c) (world s));
      matches = (\<lambda>x. vi_Name x = vpcName S c \<or> vi_VPCId x = vpcs_VpcId (vpc_spec c)) in
    rp_err listed = None \<and>
    ((\<exists>x before after. rp_body listed = before @ x # after \<and> (\<forall>y\<in>set before. \<not> matches y) \<and> matches x
        \<and> vpc_VpcId v = vi_VPCId x \<and> vpc_VpcName v = vi_Name x \<and> vpc_CidrBlock v = vi_Network x ! 0
        \<and> calls t = calls s @ [CallDescribeVPC (describe_vpc_req c)])
     \<or> ((\<forall>y\<in>set (rp_body listed). \<not> matches y)
        \<and> vpc_VpcName v = vpcName S c \<and> vpc_CidrBlock v = vpcs_CidrBlock (vpc_spec c)
        \<and> (\<exists>w. vpc_VpcId v = rp_body (fst (sdk_CreateVPC (vpcClient S) (create_vpc_req S c) w)))
        \<and> calls t = calls s @ [CallDescribeVPC (describe_vpc_req c), CallCreateVPC (create_vpc_req S c)]))"
proof (cases "find_vpc S (ucluster s) (rp_body (fst (sdk_DescribeVPC (vpcClient S)
      (describe_vpc_req (ucluster s)) (world s))))")
  case None
  then have "\<forall>y\<in>set (rp_body (fst (sdk_DescribeVPC (vpcClient S) (describe_vpc_req (ucluster s)) (world s)))).
      \<not> (vi_Name y = vpcName S (ucluster s) \<or> vi_VPCId y = vpcs_VpcId (vpc_spec (ucluster s)))"
    by (simp add: find_vpc_def find_None_iff_all)
  with None show ?thesis
    using run none
    by (auto simp: ReconcileVPC_run Let_def vpc_of_def network_def split: if_splits option.splits list.splits)
next
  case (Some x)
  have "vpc_VpcId (vpc_of (ucluster t)) = vi_VPCId x \<and> vpc_VpcName (vpc_of (ucluster t)) = vi_Name x
      \<and> vpc_CidrBlock (vpc_of (ucluster t)) = vi_Network x ! 0
      \<and> calls t = calls s @ [CallDescribeVPC (describe_vpc_req (ucluster s))]
      \<and> rp_err (fst (sdk_DescribeVPC (vpcClient S) (describe_vpc_req (ucluster s)) (world s))) = None"
    using run none Some
    by (auto simp: ReconcileVPC_run vpc_of_def network_def split: if_splits option.splits list.splits)
  with find_Some_split [OF Some [unfolded find_vpc_def]] show ?thesis
    unfolding Let_def by blast
qed

theorem ReconcileVPC_finds_or_creates_witness:
  "let t = snd (ReconcileVPC sample start) in
    vpc_VpcId (vpc_of (ucluster t)) = ''uvnet-1'' \<and> vpc_VpcName (vpc_of (ucluster t)) = ''cluster-api-c1-vpc''"
proof -
  note ev = ReconcileVPC_run find_vpc_def create_vpc_req_def vpc_of_def vpc_spec_def network_def start_def
    sample_cluster_def zero_defs
  define t where "t = snd (ReconcileVPC sample start)"
  have "ReconcileVPC sample start = (Ok (), t)" and "vpc_VpcId (vpc_of (ucluster start)) = ''''"
    unfolding t_def by (simp_all add: ev)
  from ReconcileVPC_finds_or_creates [OF this]
  have "vpc_VpcId (vpc_of (ucluster t)) = ''uvnet-1''"
    and "vpc_VpcName (vpc_of (ucluster t)) = vpcName sample (ucluster start)"
    by (auto simp: Let_def start_def)
  then show ?thesis
    by (simp add: t_def vpcName_def vpc_spec_def scope_Name_def start_def sample_cluster_def zero_defs
        sample_defs Let_def)
qed

text \<open>C40: a subnet created for a CIDR block of the form address, slash, decimal mask is created with
  that address and that mask, and the status shows the CIDR block of the specification.\<close>

theorem ReconcileSubnet_created_cidr:
  assumes run: "ReconcileSubnet S s = (Ok (), t)" and none: "sub_SubnetId (subnet_of (ucluster s)) = ''''"
    and absent: "find_subnet S (ucluster s) (rp_body (fst (sdk_DescribeSubnet (vpcClient S)
          (describe_subnet_req (ucluster s)) (world s)))) = None"
    and cidr: "subs_CidrBlock (scope_Subnet (ucluster s)) = addr @ ''/'' @ Itoa n"
    and addr: "CHR ''/'' \<notin> set addr" and n: "0 \<le> n" "n < 2 ^ 63"
  shows "sub_CidrBlock (subnet_of (ucluster t)) = subs_CidrBlock (scope_Subnet (ucluster s))
    \<and> sub_VpcId (subnet_of (ucluster t)) = vpc_VpcId (vpc_of (ucluster s))
    \<and> calls t = calls s @ [CallDescribeSubnet (describe_subnet_req (ucluster s)),
        CallCreateSubnet \<lparr>rq_Region = Region (ucluster s), rq_ProjectId = ProjectId (ucluster s),
          csub_SubnetName = subnetName S (ucluster s), csub_Subnet = addr, csub_Netmask = n,
          csub_VPCId = vpc_VpcId (vpc_of (ucluster s)), csub_Tag = GroupName (ucluster s)\<rparr>]"
proof -
  have mask: "CHR ''/'' \<notin> set (Itoa n)"
    using n(1) digits_all [of "CHR ''/''" "nat n"] by (auto simp: Itoa_def is_digit_def Let_def)
  have split: "Split (addr @ CHR ''/'' # Itoa n) (CHR ''/'') = [addr, Itoa n]"
    using Split_append [OF addr, of "Itoa n"] Split_no_sep [OF mask] by simp
  have atoi: "Atoi (Itoa n) = (n, None)" by (rule Atoi_Itoa) (use n in simp_all)
  show ?thesis
    using run none absent
    by (auto simp: ReconcileSubnet_run split atoi cidr create_subnet_req_def subnet_of_def network_def
        split: if_splits option.splits)
qed

theorem ReconcileSubnet_created_cidr_witness:
  "let s = upd_network (nw_VPC_update (vpc_VpcId_update (\<lambda>_. ''uvnet-1''))) start;
       t = snd (ReconcileSubnet sample s) in
   sub_CidrBlock (subnet_of (ucluster t)) = ''10.0.0.0/16''"
proof -
  note ev = ReconcileSubnet_run find_subnet_def create_subnet_req_def vpc_of_def subnet_of_def scope_Subnet_def
    network_def start_def sample_cluster_def zero_defs
  define s where "s = upd_network (nw_VPC_update (vpc_VpcId_update (\<lambda>_. ''uvnet-1''))) start"
  define t where "t = snd (ReconcileSubnet sample s)"
  have itoa: "Itoa 16 = ''16''" by code_simp
  have cidr: "subs_CidrBlock (scope_Subnet (ucluster s)) = ''10.0.0.0'' @ ''/'' @ Itoa 16"
    by (simp add: s_def ev itoa)
  have "ReconcileSubnet sample s = (Ok (), t)" and "sub_SubnetId (subnet_of (ucluster s)) = ''''"
    and "find_subnet sample (ucluster s) (rp_body (fst (sdk_DescribeSubnet (vpcClient sample)
          (describe_subnet_req (ucluster s)) (world s)))) = None"
    unfolding t_def s_def by (simp_all add: ev)
  from ReconcileSubnet_created_cidr [OF this cidr]
  have "sub_CidrBlock (subnet_of (ucluster t)) = ''10.0.0.0'' @ ''/'' @ Itoa 16"
    by (simp add: cidr)
  then show ?thesis by (simp add: Let_def itoa flip: s_def t_def)
qed

text \<open>A CIDR block without a slash makes \<open>ReconcileSubnet\<close> panic before it creates anything.\<close>

theorem ReconcileSubnet_panics_without_mask:
  assumes none: "sub_SubnetId (subnet_of (ucluster s)) = ''''" and vpc: "vpc_VpcId (vpc_of (ucluster s)) \<noteq> ''''"
    and listed: "rp_err (fst (sdk_DescribeSubnet (vpcClient S) (describe_subnet_req (ucluster s)) (world s))) = None"
    and absent: "find_subnet S (ucluster s) (rp_body (fst (sdk_DescribeSubnet (vpcClient S)
          (describe_subnet_req (ucluster s)) (world s)))) = None"
    and slash: "CHR ''/'' \<notin> set (subs_CidrBlock (scope_Subnet (ucluster s)))"
  shows "fst (ReconcileSubnet S s) = Panic ''index out of range''
    \<and> calls (snd (ReconcileSubnet S s)) = calls s @ [CallDescribeSubnet (describe_subnet_req (ucluster s))]"
  using none vpc listed absent Split_no_sep [OF slash]
  by (simp add: ReconcileSubnet_run)

theorem ReconcileSubnet_panics_without_mask_witness:
  "let s = upd_network (nw_VPC_update (vpc_VpcId_update (\<lambda>_. ''uvnet-1'')))
         (ucluster_update (uc_Spec_update (cs_Network_update (nws_Subnet_update (subs_CidrBlock_update (\<lambda>_. ''10.0.0.0''))))) start)
   in fst (ReconcileSubnet sample s) = Panic ''index out of range''"
proof -
  note ev = find_subnet_def vpc_of_def subnet_of_def scope_Subnet_def network_def start_def sample_cluster_def zero_defs
  define s where "s = upd_network (nw_VPC_update (vpc_VpcId_update (\<lambda>_. ''uvnet-1'')))
         (ucluster_update (uc_Spec_update (cs_Network_update (nws_Subnet_update (subs_CidrBlock_update (\<lambda>_. ''10.0.0.0''))))) start)"
  have "sub_SubnetId (subnet_of (ucluster s)) = ''''" "vpc_VpcId (vpc_of (ucluster s)) \<noteq> ''''"
    "rp_err (fst (sdk_DescribeSubnet (vpcClient sample) (describe_subnet_req (ucluster s)) (world s))) = None"
    "find_subnet sample (ucluster s) (rp_body (fst (sdk_DescribeSubnet (vpcClient sample)
          (describe_subnet_req (ucluster s)) (world s)))) = None"
    "CHR ''/'' \<notin> set (subs_CidrBlock (scope_Subnet (ucluster s)))"
    by (simp_all add: s_def ev)
  from ReconcileSubnet_panics_without_mask [OF this] show ?thesis by (simp add: Let_def flip: s_def)
qed

text \<open>With neither a name nor an identifier in the specification, \<open>ReconcileNat\<close> does not recognise
  any named gateway, not even the one it created itself under the default name: it goes on to
  allocate another address and to create another gateway.\<close>

theorem ReconcileNat_ignores_default_name:
  assumes run: "ReconcileNat S s = (r, t)" and none: "nat_NatGatewayId (nat_of (ucluster s)) = ''''"
    and vpc: "vpc_VpcId (vpc_of (ucluster s)) \<noteq> ''''" and subnet: "sub_SubnetId (subnet_of (ucluster s)) \<noteq> ''''"
    and spec: "ngs_Name (natgw_spec (ucluster s)) = ''''" "ngs_NatGatewayId (natgw_spec (ucluster s)) = ''''"
    and listed: "rp_err (fst (sdk_DescribeNATGW (vpcClient S) (describe_nat_req (ucluster s)) (world s))) = None"
    and named: "\<forall>g\<in>set (rp_body (fst (sdk_DescribeNATGW (vpcClient S) (describe_nat_req (ucluster s)) (world s)))).
      ni_NATGWName g \<noteq> '''' \<and> ni_NATGWId g \<noteq> ''''"
  shows "\<exists>cs. calls t = calls s @ [CallDescribeNATGW (describe_nat_req (ucluster s)),
      CallDescribeFirewall (describe_firewall_req (ucluster s)
        (fws_FirewallId (nws_Firewall (cs_Network (uc_Spec (ucluster s))))))] @ cs
    \<and> (r = Ok () \<longrightarrow> (\<exists>f e. CallCreateNATGW (create_nat_req (ucluster s) f e) \<in> set cs))"
proof -
  have "find_nat (ucluster s) (rp_body (fst (sdk_DescribeNATGW (vpcClient S)
      (describe_nat_req (ucluster s)) (world s)))) = None"
    using spec named by (auto simp: find_nat_def find_None_iff_all)
  then have "bind (bind (invoke (sdk_DescribeNATGW (vpcClient S)) CallDescribeNATGW (describe_nat_req (ucluster s)))
      (\<lambda>_. create_nat S (ucluster s))) record_nat s = (r, t)"
    using run none vpc listed by (simp add: ReconcileNat_run lookup_nat_def prog_simps bind_def)
  then show ?thesis
    using subnet
    by (auto simp: create_nat_def prog_simps bind_def getFirewall_outcome createEIP_outcome Let_def if_err_run
        record_nat_def index_run split: option.splits list.splits result.splits prod.splits if_splits) blast
qed

theorem ReconcileNat_ignores_default_name_witness:
  "let g = \<lparr>ni_FirewallId = ''fw-1'', ni_NATGWId = ''natgw-1'', ni_NATGWName = ''natgw-for-c1'',
         ni_VPCId = ''uvnet-1'', ni_IPSet = [], ni_SubnetSet = [''subnet-1'']\<rparr>;
       S = sample\<lparr>vpcClient := sample_vpcs\<lparr>sdk_DescribeNATGW := const_api [g]\<rparr>\<rparr>;
       s = upd_network (nw_VPC_update (vpc_VpcId_update (\<lambda>_. ''uvnet-1''))
         \<circ> nw_Subnet_update (sub_SubnetId_update (\<lambda>_. ''subnet-1''))) start
   in natName (ucluster s) = ni_NATGWName g \<and> (\<exists>cs f e. calls (snd (ReconcileNat S s)) =
       [CallDescribeNATGW (describe_nat_req (ucluster s)), CallDescribeFirewall (describe_firewall_req (ucluster s) '''')]
       @ cs \<and> CallCreateNATGW (create_nat_req (ucluster s) f e) \<in> set cs)"
proof -
  note ev = find_nat_def vpc_of_def subnet_of_def nat_of_def natgw_spec_def nat_spec_def network_def start_def
    sample_cluster_def zero_defs const_api_def
  define g where "g = \<lparr>ni_FirewallId = ''fw-1'', ni_NATGWId = ''natgw-1'', ni_NATGWName = ''natgw-for-c1'',
         ni_VPCId = ''uvnet-1'', ni_IPSet = [], ni_SubnetSet = [''subnet-1'']\<rparr>"
  define S where "S = sample\<lparr>vpcClient := sample_vpcs\<lparr>sdk_DescribeNATGW := const_api [g]\<rparr>\<rparr>"
  define s where "s = upd_network (nw_VPC_update (vpc_VpcId_update (\<lambda>_. ''uvnet-1''))
         \<circ> nw_Subnet_update (sub_SubnetId_update (\<lambda>_. ''subnet-1''))) start"
  define t where "t = snd (ReconcileNat S s)"
  have run: "ReconcileNat S s = (Ok (), t)"
    unfolding t_def by (simp add: ReconcileNat_run lookup_nat_def create_nat_def prog_simps bind_def getFirewall_outcome
      createEIP_outcome Let_def allocated_def record_nat_def index_run s_def S_def g_def ev sample_defs)
  have "nat_NatGatewayId (nat_of (ucluster s)) = ''''" "vpc_VpcId (vpc_of (ucluster s)) \<noteq> ''''"
    "sub_SubnetId (subnet_of (ucluster s)) \<noteq> ''''" "ngs_Name (natgw_spec (ucluster s)) = ''''"
    "ngs_NatGatewayId (natgw_spec (ucluster s)) = ''''"
    "rp_err (fst (sdk_DescribeNATGW (vpcClient S) (describe_nat_req (ucluster s)) (world s))) = None"
    "\<forall>x\<in>set (rp_body (fst (sdk_DescribeNATGW (vpcClient S) (describe_nat_req (ucluster s)) (world s)))).
      ni_NATGWName x \<noteq> '''' \<and> ni_NATGWId x \<noteq> ''''"
    by (simp_all add: s_def S_def g_def ev)
  note again = ReconcileNat_ignores_default_name [OF run this]
  have "calls s = []" "fws_FirewallId (nws_Firewall (cs_Network (uc_Spec (ucluster s)))) = ''''"
    and name: "natName (ucluster s) = ni_NATGWName g"
    by (simp_all add: s_def ev natName_def g_def)
  with again have "\<exists>cs f e. calls t =
       [CallDescribeNATGW (describe_nat_req (ucluster s)), CallDescribeFirewall (describe_firewall_req (ucluster s) '''')]
       @ cs \<and> CallCreateNATGW (create_nat_req (ucluster s) f e) \<in> set cs"
    by auto
  with name show ?thesis unfolding Let_def t_def S_def s_def g_def by blast
qed

text \<open>A load balancer that is found but has no VServer makes \<open>ReconcileULB\<close> panic after it has
written the load balancer's identifier: the next pass then takes the load balancer for done, and
its address stays unknown.\<close>

theorem ReconcileULB_half_recorded:
  assumes none: "ulb_LoadBalancerId (ulb_of (ucluster s)) = ''''" and vpc: "vpc_VpcId (vpc_of (ucluster s)) \<noteq> ''''"
    and listed: "rp_err (fst (sdk_DescribeULB (ulbClient S) (describe_ulb_req (ucluster s)) (world s))) = None"
    and found: "find_ulb (ucluster s) (rp_body (fst (sdk_DescribeULB (ulbClient S)
          (describe_ulb_req (ucluster s)) (world s)))) = Some u"
    and empty: "ui_VServerSet u = []" and named: "ui_ULBId u \<noteq> ''''"
  shows "let t = snd (ReconcileULB S s) in
    fst (ReconcileULB S s) = Panic ''index out of range'' \<and> ulb_LoadBalancerId (ulb_of (ucluster t)) = ui_ULBId u
    \<and> ulb_EIP (ulb_of (ucluster t)) = ulb_EIP (ulb_of (ucluster s)) \<and> ReconcileULB S t = (Ok (), t)"
proof -
  define a where "a = sdk_DescribeULB (ulbClient S) (describe_ulb_req (ucluster s)) (world s)"
  define v where "v = sent (CallDescribeULB (describe_ulb_req (ucluster s))) (rp_took (fst a)) (snd a) s"
  define t where "t = upd_network (nw_ULB_update (\<lambda>x. x\<lparr>ulb_LoadBalancerId := ui_ULBId u,
         ulb_LoadBalancerName := ui_Name u, ulb_VpcId := ui_VPCId u\<rparr>)) v"
  have run: "ReconcileULB S s = (Panic ''index out of range'', t)"
    using none vpc listed found empty
    by (simp add: ReconcileULB_run lookup_ulb_def bind_assoc prog_simps record_ulb_def bind_index t_def v_def a_def)
  have "ulb_LoadBalancerId (ulb_of (ucluster t)) = ui_ULBId u"
    and "ulb_EIP (ulb_of (ucluster t)) = ulb_EIP (ulb_of (ucluster s))"
    by (simp_all add: t_def v_def ulb_of_def network_def)
  then show ?thesis using run named by (simp add: Let_def ulb.done_skip)
qed

theorem ReconcileULB_half_recorded_witness:
  "let u = \<lparr>ui_Bandwidth = 1, ui_Name = '''', ui_ULBId = ''ulb-7'', ui_ULBType = '''', ui_VPCId = ''uvnet-1'',
         ui_IPSet = [], ui_VServerSet = []\<rparr>;
       S = sample\<lparr>ulbClient := sample_ulb\<lparr>sdk_DescribeULB := const_api [u]\<rparr>\<rparr>;
       s = upd_network (nw_VPC_update (vpc_VpcId_update (\<lambda>_. ''uvnet-1''))) start;
       t = snd (ReconcileULB S s)
   in ulb_LoadBalancerId (ulb_of (ucluster t)) = ''ulb-7'' \<and> ReconcileULB S t = (Ok (), t)"
proof -
  note ev = find_ulb_def vpc_of_def ulb_of_def ulb_spec_def network_def start_def sample_cluster_def zero_defs
    const_api_def
  define u where "u = \<lparr>ui_Bandwidth = 1, ui_Name = '''', ui_ULBId = ''ulb-7'', ui_ULBType = '''',
         ui_VPCId = ''uvnet-1'', ui_IPSet = [], ui_VServerSet = []\<rparr>"
  define S where "S = sample\<lparr>ulbClient := sample_ulb\<lparr>sdk_DescribeULB := const_api [u]\<rparr>\<rparr>"
  define s where "s = upd_network (nw_VPC_update (vpc_VpcId_update (\<lambda>_. ''uvnet-1''))) start"
  have "ulb_LoadBalancerId (ulb_of (ucluster s)) = ''''" "vpc_VpcId (vpc_of (ucluster s)) \<noteq> ''''"
    "rp_err (fst (sdk_DescribeULB (ulbClient S) (describe_ulb_req (ucluster s)) (world s))) = None"
    "find_ulb (ucluster s) (rp_body (fst (sdk_DescribeULB (ulbClient S)
        (describe_ulb_req (ucluster s)) (world s)))) = Some u"
    "ui_VServerSet u = []" "ui_ULBId u \<noteq> ''''"
    by (simp_all add: s_def S_def u_def ev)
  note half = ReconcileULB_half_recorded [OF this]
  have "ui_ULBId u = ''ulb-7''" by (simp add: u_def)
  with half have "ulb_LoadBalancerId (ulb_of (ucluster (snd (ReconcileULB S s)))) = ''ulb-7''
      \<and> ReconcileULB S (snd (ReconcileULB S s)) = (Ok (), snd (ReconcileULB S s))"
    by (simp add: Let_def)
  then show ?thesis unfolding Let_def S_def s_def u_def .
qed

text \<open>An address is allocated with the bandwidth of its specification, or 10 if that is zero, from
the operator of the region, which is \<open>Bgp\<close> or \<open>International\<close> for every known region; the
result carries the same bandwidth and the first address of the answer, after this one request.\<close>

theorem createEIP_allocates:
  assumes run: "createEIP S spec s = (Ok e, t)" and known: "map_of RegionZoneMap (Region (ucluster s)) \<noteq> None"
  shows "eip_Bandwidth e = (if eips_Bandwidth spec = 0 then 10 else eips_Bandwidth spec)
    \<and> (\<exists>q r rs a as. calls t = calls s @ [CallAllocateEIP q] \<and> aeip_Bandwidth q = eip_Bandwidth e
        \<and> aeip_Tag q = GroupName (ucluster s) \<and> aeip_OperatorName q \<in> {''Bgp'', ''International''}
        \<and> rp_body (fst (sdk_AllocateEIP (unetClient S) q (world s))) = r # rs
        \<and> eip_EIPId e = ae_EIPId r \<and> ae_EIPAddr r = a # as \<and> eip_EIPAddr e = a)"
proof -
  define q where "q = allocate_eip_req (ucluster s) spec"
  have "aeip_OperatorName q \<in> {''Bgp'', ''International''}"
    using region_operator_cases [of "Region (ucluster s)"] region_operator_known [of "Region (ucluster s)"] known
    by (simp add: q_def allocate_eip_req_def)
  moreover have "aeip_Bandwidth q = (if eips_Bandwidth spec = 0 then 10 else eips_Bandwidth spec)"
    by (simp add: q_def allocate_eip_req_def eip_bandwidth_def DefaultNatGatewayEIPBandwidth_def)
  moreover have "aeip_Tag q = GroupName (ucluster s)" by (simp add: q_def allocate_eip_req_def)
  ultimately show ?thesis
    using run
    by (auto simp: createEIP_outcome Let_def allocated_def eip_bandwidth_def DefaultNatGatewayEIPBandwidth_def
        simp flip: q_def split: option.splits list.splits)
qed

theorem createEIP_allocates_witness:
  "eip_Bandwidth (case fst (createEIP sample zero_EIPSpec start) of Ok e \<Rightarrow> e | _ \<Rightarrow> zero_EIP) = 10"
proof -
  have run: "createEIP sample zero_EIPSpec start = (Ok (zero_EIP\<lparr>eip_Bandwidth := 10, eip_EIPId := ''eip-1'',
      eip_EIPAddr := ''1.2.3.4''\<rparr>), snd (createEIP sample zero_EIPSpec start))"
    by (simp add: createEIP_outcome Let_def allocated_def eip_bandwidth_def DefaultNatGatewayEIPBandwidth_def zero_defs)
  have "map_of RegionZoneMap (Region (ucluster start)) \<noteq> None"
    by (simp add: start_def sample_cluster_def zero_defs Region_def region_zones_bj2)
  from createEIP_allocates [OF run this] show ?thesis by (subst run) (simp add: zero_defs)
qed

text \<open>C27: a provisioning step that returns an error leaves the cluster object as it was: nothing is
recorded of what it may have created.\<close>

theorem provisioning_error_records_nothing:
  assumes "ReconcileUGroup S s = (Err e, t) \<or> ReconcileVPC S s = (Err e, t) \<or> ReconcileSubnet S s = (Err e, t)
    \<or> ReconcileNat S s = (Err e, t) \<or> ReconcileULB S s = (Err e, t) \<or> CreateCAPUCluster S s = (Err e, t)
    \<or> CreateBastionInstance S s = (Err e, t)"
  shows "ucluster t = ucluster s"
  using assms
  by (elim disjE)
    (auto dest: group.failure_keeps vpc.failure_keeps subnet.failure_keeps nat.failure_keeps ulb.failure_keeps
      capu.failure_keeps elim: CreateBastionInstance_cases)

theorem provisioning_error_records_nothing_witness:
  "ucluster (snd (ReconcileNat sample start)) = sample_cluster"
proof -
  have "ReconcileNat sample start = (Err (Errorf ''vpc is not created'' []), snd (ReconcileNat sample start))"
    by (simp add: ReconcileNat_run start_def sample_cluster_def zero_defs nat_of_def vpc_of_def network_def)
  then have "ucluster (snd (ReconcileNat sample start)) = ucluster start"
    by (intro provisioning_error_records_nothing) blast
  then show ?thesis by (simp add: start_def)
qed

end
