(* ===== verification/Uhost_Facts.thy ===== *)
theory Uhost_Facts
  imports Uhost_Service
begin

text \<open>
  What a successful creation of an instance has done: the zone it picked, the one create request,
  and the rounds of the wait for the instance to run.
\<close>

lemma pick_zone_OkE:
  assumes "pick_zone S c z s = (Ok zone, t)"
  obtains w where "t = s\<lparr>world := w\<rparr>" and "z \<noteq> '''' \<Longrightarrow> zone = z"
    and "z = '''' \<Longrightarrow> \<exists>zs. map_of RegionZoneMap (Region c) = Some zs \<and> zone \<in> set zs"
proof (cases "z = ''''")
  case False
  with assms have "zone = z" "t = s" by (simp_all add: pick_zone_def prog_simps)
  with False show thesis by (intro that [of "world s"]) simp_all
next
  case True
  then show thesis
    using assms that
    by (auto simp: pick_zone_def bind_def rand_Intn_def index_run warn_raise_def raise_run emit_event_def
        split: option.splits prod.splits if_splits result.splits)
qed

lemma wait_running_OkE:
  assumes "wait_running S req s = (Ok h, t)"
  obtains n where "n \<le> 10" and "uh_State h = StateRunning (lib S)"
    and "calls t = calls s @ replicate (Suc n) (CallDescribeUHostInstance req)"
    and "ucluster t = ucluster s" and "umachine t = umachine s"
proof -
  from assms obtain left where
    "poll S req (judge_running S) (warn_raise ''FailedCreate'') 30000 (NewTimer (clock s) five_minutes) s = (Ok (h, left), t)"
    by (auto simp: wait_running_def prog_simps bind_def split: prod.splits result.splits)
  then show thesis
  proof (rule poll_Ok)
    fix e u
    show "fst (warn_raise ''FailedCreate'' e u) \<noteq> Ok (h, left)"
      by (simp add: warn_raise_def prog_simps)
  next
    fix n v
    assume v: "polled S req 30000 (fires_at (NewTimer (clock s) five_minutes)) n s v"
      and run: "judge_running S (rp_body (fst (sdk_DescribeUHostInstance (uhostClient S) req (world v)))) = Done h"
      and t: "t = sent (CallDescribeUHostInstance req)
       (rp_took (fst (sdk_DescribeUHostInstance (uhostClient S) req (world v))))
       (snd (sdk_DescribeUHostInstance (uhostClient S) req (world v))) v"
    have "n \<le> five_minutes div 30000"
      by (rule polled_bound [where s = s]) (use v in \<open>simp_all add: five_minutes_def\<close>)
    moreover have "uh_State h = StateRunning (lib S)"
      using run by (auto simp: judge_running_def split: list.splits if_splits)
    ultimately show thesis
      using v t by (intro that [of n]) (auto simp: polled_def five_minutes_def replicate_append_same [symmetric])
  qed
qed

lemma GetBootstrapData_OkE:
  assumes "GetBootstrapData S s = (Ok d, t)"
  obtains ns x w where "t = sent (CallGetSecret (machine_Namespace (umachine s)) ns) x w s"
    and "ma_DataSecretName (sv_Machine S) = Some ns"
  using assms
  by (auto simp: GetBootstrapData_def prog_simps if_err_run raise_run split: option.splits)

lemma warn_raise_run: "warn_raise reason e s = (Err e, s\<lparr>calls := calls s @ [CallEvent reason]\<rparr>)"
  by (simp add: warn_raise_def prog_simps)

lemma launch_instance_OkE:
  assumes "launch_instance S c zone req s = (Ok h, t)"
  obtains n ids where "n \<le> 10" and "uh_State h = StateRunning (lib S)"
    and "ucluster t = ucluster s" and "umachine t = umachine s"
    and "rp_body (fst (sdk_CreateUHostInstance (uhostClient S) req (world s))) = ids"
    and "calls t = calls s @ CallCreateUHostInstance req
         # replicate (Suc n) (CallDescribeUHostInstance (describe_instance_req c zone ids))
         @ [CallEvent ''SuccessfulCreate'']"
proof -
  define a where "a = sdk_CreateUHostInstance (uhostClient S) req (world s)"
  define u where "u = sent (CallCreateUHostInstance req) (rp_took (fst a)) (snd a) s"
  from assms obtain v where w: "wait_running S (describe_instance_req c zone (rp_body (fst a))) u = (Ok h, v)"
    and t: "t = v\<lparr>calls := calls v @ [CallEvent ''SuccessfulCreate'']\<rparr>"
    unfolding launch_instance_def bind_invoke a_def [symmetric] u_def [symmetric]
    by (auto simp: warn_raise_run bind_index ret_run bind_emit emit_run elim!: bind_OkE split: option.splits if_splits)
  from w show thesis
  proof (rule wait_running_OkE)
    fix n
    assume "n \<le> 10" "uh_State h = StateRunning (lib S)" "ucluster v = ucluster u" "umachine v = umachine u"
      "calls v = calls u @ replicate (Suc n)
         (CallDescribeUHostInstance (describe_instance_req c zone (rp_body (fst a))))"
    then show thesis by (intro that [of n "rp_body (fst a)"]) (simp_all add: t u_def a_def)
  qed
qed

lemma CreateInstance_OkE:
  assumes "CreateInstance S s = (Ok h, t)"
  obtains zone pass data ns n ids where "uh_State h = StateRunning (lib S)" and "n \<le> 10"
    and "ucluster t = ucluster s" and "umachine t = umachine s"
    and "DecodeString (ms_SSHPassword (um_Spec (umachine s))) = Some pass"
    and "getImageId (ucluster s) (umachine s) zone \<noteq> ''''"
    and "Zone S (umachine s) \<noteq> '''' \<Longrightarrow> zone = Zone S (umachine s)"
    and "ma_DataSecretName (sv_Machine S) = Some ns"
    and "calls t = calls s @ [CallGetSecret (machine_Namespace (umachine s)) ns,
           CallCreateUHostInstance (create_instance_req S (ucluster s) (umachine s) zone
             (getImageId (ucluster s) (umachine s) zone) pass data)]
         @ replicate (Suc n) (CallDescribeUHostInstance (describe_instance_req (ucluster s) zone ids))
         @ [CallEvent ''SuccessfulCreate'']"
proof -
  from assms obtain d s1 zone s2 pass cr cd vn where d: "GetBootstrapData S s = (Ok d, s1)"
    and z: "pick_zone S (ucluster s) (Zone S (umachine s)) s1 = (Ok zone, s2)"
    and image: "getImageId (ucluster s) (umachine s) zone \<noteq> ''''"
    and pass: "DecodeString (ms_SSHPassword (um_Spec (umachine s))) = Some pass"
    and l: "launch_instance S (ucluster s) zone (create_instance_req S (ucluster s) (umachine s) zone
         (getImageId (ucluster s) (umachine s) zone) pass (user_data d cd vn)) s2 = (Ok h, t)"
    by (auto simp: CreateInstance_def bind_gets try_or_def warn_raise_run bind_def deref_run Let_def raise_run
        gets_run split: prod.splits result.splits if_splits option.splits sum.splits)
  obtain ns x w where s1: "s1 = sent (CallGetSecret (machine_Namespace (umachine s)) ns) x w s"
    and ns: "ma_DataSecretName (sv_Machine S) = Some ns"
    using d by (rule GetBootstrapData_OkE)
  from z obtain w2 where s2: "s2 = s1\<lparr>world := w2\<rparr>"
    and zone: "Zone S (umachine s) \<noteq> '''' \<Longrightarrow> zone = Zone S (umachine s)"
    by (rule pick_zone_OkE) blast
  from l obtain n ids where "n \<le> 10" "uh_State h = StateRunning (lib S)" "ucluster t = ucluster s2"
    "umachine t = umachine s2" and calls: "calls t = calls s2 @ CallCreateUHostInstance
         (create_instance_req S (ucluster s) (umachine s) zone (getImageId (ucluster s) (umachine s) zone) pass
           (user_data d cd vn))
       # replicate (Suc n) (CallDescribeUHostInstance (describe_instance_req (ucluster s) zone ids))
       @ [CallEvent ''SuccessfulCreate'']"
    by (rule launch_instance_OkE) blast
  with pass image zone ns show thesis
    by (intro that [of n pass zone ns "user_data d cd vn" ids]) (simp_all add: s2 s1)
qed

end
