(* ===== verification/Webhooks.thy ===== *)
theory Webhooks
  imports Api_Types
begin

text \<open>
  \<open>api/v1alpha3/ucloudmachine_webhook.go\<close> and \<open>ucloudmachinetemplate_webhook.go\<close>: which
  updates of the machine resources the validating webhooks let through.
\<close>

section \<open>The specification as an unstructured object\<close>

text \<open>
  The converter of the Kubernetes libraries is a parameter \<open>conv\<close>: it gives the \<open>spec\<close> entry of
  the unstructured object, a map from keys to JSON values written as an association list with
  one entry per key. \<open>spec_json\<close> is what the struct tags of \<open>UCloudMachineSpec\<close> say it is.
\<close>

datatype json = JStr string | JInt int | JBool bool | JStrs "string list"

definition omit_str :: "string \<Rightarrow> string \<Rightarrow> (string \<times> json) list" where
  "omit_str key v = (if v = '''' then [] else [(key, JStr v)])"

definition omit_int :: "string \<Rightarrow> int \<Rightarrow> (string \<times> json) list" where
  "omit_int key v = (if v = 0 then [] else [(key, JInt v)])"

definition omit_ptr :: "string \<Rightarrow> ('a \<Rightarrow> json) \<Rightarrow> 'a option \<Rightarrow> (string \<times> json) list" where
  "omit_ptr key f v = (case v of None \<Rightarrow> [] | Some x \<Rightarrow> [(key, f x)])"

definition spec_json :: "UCloudMachineSpec \<Rightarrow> (string \<times> json) list" where
  "spec_json x = (''instanceType'', JStr (ms_InstanceType x)) # omit_int ''cpu'' (ms_CPU x)
     @ omit_int ''memory'' (ms_Memory x) @ omit_int ''rootDiskSize'' (ms_RootDiskSize x)
     @ omit_int ''dataDiskSize'' (ms_DataDiskSize x) @ omit_str ''sshPassword'' (ms_SSHPassword x)
     @ omit_ptr ''providerID'' JStr (ms_ProviderID x) @ omit_ptr ''imageId'' JStr (ms_ImageId x)
     @ omit_ptr ''publicIP'' JBool (ms_PublicIP x)
     @ (case ms_AdditionalNetworkTags x of None \<Rightarrow> [] | Some [] \<Rightarrow> []
        | Some ts \<Rightarrow> [(''additionalNetworkTags'', JStrs ts)])"

section \<open>UCloudMachine\<close>

text \<open>The two errors the update validation builds, with the object's name.\<close>

datatype invalid = InternalInvalid string error | ForbiddenSpec string string

text \<open>\<open>delete(m, key)\<close>, and \<open>reflect.DeepEqual\<close> on two maps.\<close>

definition delete_key :: "string \<Rightarrow> (string \<times> json) list \<Rightarrow> (string \<times> json) list" where
  "delete_key key m = filter (\<lambda>e. fst e \<noteq> key) m"

definition same_map :: "(string \<times> json) list \<Rightarrow> (string \<times> json) list \<Rightarrow> bool" where
  "same_map a b = list_all (\<lambda>k. map_of a k = map_of b k) (map fst a @ map fst b)"

definition mutable_keys :: "string list" where
  "mutable_keys = [''providerID'', ''additionalLabels'', ''additionalNetworkTags'']"

definition ValidateCreate :: "UCloudMachine \<Rightarrow> invalid option" where
  "ValidateCreate r = None"

definition ValidateUpdate ::
  "(UCloudMachine \<Rightarrow> error + (string \<times> json) list) \<Rightarrow> UCloudMachine \<Rightarrow> UCloudMachine \<Rightarrow> invalid option" where
  "ValidateUpdate conv r old =
     (case conv r of
        Inl err \<Rightarrow> Some (InternalInvalid (om_Name (um_Meta r))
            (Wrapf err ''failed to convert new UCloudMachine to unstructured object'' []))
      | Inr newSpec \<Rightarrow>
     (case conv old of
        Inl err \<Rightarrow> Some (InternalInvalid (om_Name (um_Meta r))
            (Wrapf err ''failed to convert old UCloudMachine to unstructured object'' []))
      | Inr oldSpec \<Rightarrow>
        if same_map (fold delete_key mutable_keys oldSpec) (fold delete_key mutable_keys newSpec)
        then None
        else Some (ForbiddenSpec (om_Name (um_Meta r)) ''cannot be modified'')))"

definition ValidateDelete :: "UCloudMachine \<Rightarrow> invalid option" where
  "ValidateDelete r = None"

section \<open>UCloudMachineTemplate\<close>

definition template_ValidateCreate :: "UCloudMachineTemplate \<Rightarrow> error option" where
  "template_ValidateCreate r = None"

definition template_ValidateUpdate :: "UCloudMachineTemplate \<Rightarrow> UCloudMachineTemplate \<Rightarrow> error option" where
  "template_ValidateUpdate r old =
     (if tpl_Spec r \<noteq> tpl_Spec old then Some (Errorf ''ucloudMachineTemplateSpec is immutable'' []) else None)"

definition template_ValidateDelete :: "UCloudMachineTemplate \<Rightarrow> error option" where
  "template_ValidateDelete r = None"

section \<open>Facts\<close>

lemma same_map_iff: "same_map a b \<longleftrightarrow> map_of a = map_of b"
proof
  assume eq: "same_map a b"
  show "map_of a = map_of b"
  proof
    fix k
    show "map_of a k = map_of b k"
    proof (cases "k \<in> set (map fst a @ map fst b)")
      case True
      with eq show ?thesis by (auto simp: same_map_def list_all_iff)
    next
      case False
      then have "map_of a k = None" "map_of b k = None" by (simp_all add: map_of_eq_None_iff)
      then show ?thesis by simp
    qed
  qed
qed (simp add: same_map_def list_all_iff)

lemma map_of_delete_key: "map_of (delete_key k m) = (map_of m)(k := None)"
  by (induction m) (auto simp: delete_key_def fun_eq_iff)

lemma map_of_delete_mutable:
  "map_of (fold delete_key mutable_keys m) =
     (map_of m)(''providerID'' := None, ''additionalLabels'' := None, ''additionalNetworkTags'' := None)"
  by (simp add: mutable_keys_def map_of_delete_key)

text \<open>The unstructured specification, read key by key.\<close>

lemma map_of_omit:
  "map_of (omit_str key v) k = (if k = key \<and> v \<noteq> '''' then Some (JStr v) else None)"
  "map_of (omit_int key i) k = (if k = key \<and> i \<noteq> 0 then Some (JInt i) else None)"
  "map_of (omit_ptr key f p) k = (if k = key then map_option f p else None)"
  by (simp_all add: omit_str_def omit_int_def omit_ptr_def split: option.split)

lemma spec_json_lookup:
  "map_of (spec_json x) ''instanceType'' = Some (JStr (ms_InstanceType x))"
  "map_of (spec_json x) ''cpu'' = (if ms_CPU x = 0 then None else Some (JInt (ms_CPU x)))"
  "map_of (spec_json x) ''memory'' = (if ms_Memory x = 0 then None else Some (JInt (ms_Memory x)))"
  "map_of (spec_json x) ''rootDiskSize'' = (if ms_RootDiskSize x = 0 then None else Some (JInt (ms_RootDiskSize x)))"
  "map_of (spec_json x) ''dataDiskSize'' = (if ms_DataDiskSize x = 0 then None else Some (JInt (ms_DataDiskSize x)))"
  "map_of (spec_json x) ''sshPassword'' = (if ms_SSHPassword x = '''' then None else Some (JStr (ms_SSHPassword x)))"
  "map_of (spec_json x) ''imageId'' = map_option JStr (ms_ImageId x)"
  "map_of (spec_json x) ''publicIP'' = map_option JBool (ms_PublicIP x)"
  by (auto simp: spec_json_def map_add_def map_of_omit split: option.split list.split)

lemma spec_json_other:
  assumes "k \<notin> {''instanceType'', ''cpu'', ''memory'', ''rootDiskSize'', ''dataDiskSize'', ''sshPassword'',
    ''providerID'', ''imageId'', ''publicIP'', ''additionalNetworkTags''}"
  shows "map_of (spec_json x) k = None"
  using assms by (auto simp: spec_json_def map_add_def map_of_omit split: option.split list.split)

text \<open>Two specifications that agree outside the mutable keys have the same other fields.\<close>

lemma spec_json_agree:
  "map_of (fold delete_key mutable_keys (spec_json x)) = map_of (fold delete_key mutable_keys (spec_json y))
    \<longleftrightarrow> y\<lparr>ms_ProviderID := ms_ProviderID x, ms_AdditionalNetworkTags := ms_AdditionalNetworkTags x\<rparr> = x"
  (is "?same \<longleftrightarrow> ?eq")
proof
  assume ?same
  then have eq: "map_of (spec_json x) k = map_of (spec_json y) k" if "k \<notin> set mutable_keys" for k
    using that unfolding map_of_delete_mutable by (auto simp: mutable_keys_def dest!: fun_cong [of _ _ k])
  have "map_of (spec_json x) ''instanceType'' = map_of (spec_json y) ''instanceType''"
    by (rule eq) (simp add: mutable_keys_def)
  then have f0: "ms_InstanceType x = ms_InstanceType y"
    by (simp add: spec_json_lookup map_option_case split: if_splits option.splits)
  have "map_of (spec_json x) ''cpu'' = map_of (spec_json y) ''cpu''"
    by (rule eq) (simp add: mutable_keys_def)
  then have f1: "ms_CPU x = ms_CPU y"
    by (simp add: spec_json_lookup map_option_case split: if_splits option.splits)
  have "map_of (spec_json x) ''memory'' = map_of (spec_json y) ''memory''"
    by (rule eq) (simp add: mutable_keys_def)
  then have f2: "ms_Memory x = ms_Memory y"
    by (simp add: spec_json_lookup map_option_case split: if_splits option.splits)
  have "map_of (spec_json x) ''rootDiskSize'' = map_of (spec_json y) ''rootDiskSize''"
    by (rule eq) (simp add: mutable_keys_def)
  then have f3: "ms_RootDiskSize x = ms_RootDiskSize y"
    by (simp add: spec_json_lookup map_option_case split: if_splits option.splits)
  have "map_of (spec_json x) ''dataDiskSize'' = map_of (spec_json y) ''dataDiskSize''"
    by (rule eq) (simp add: mutable_keys_def)
  then have f4: "ms_DataDiskSize x = ms_DataDiskSize y"
    by (simp add: spec_json_lookup map_option_case split: if_splits option.splits)
  have "map_of (spec_json x) ''sshPassword'' = map_of (spec_json y) ''sshPassword''"
    by (rule eq) (simp add: mutable_keys_def)
  then have f5: "ms_SSHPassword x = ms_SSHPassword y"
    by (simp add: spec_json_lookup map_option_case split: if_splits option.splits)
  have "map_of (spec_json x) ''imageId'' = map_of (spec_json y) ''imageId''"
    by (rule eq) (simp add: mutable_keys_def)
  then have f6: "ms_ImageId x = ms_ImageId y"
    by (simp add: spec_json_lookup map_option_case split: if_splits option.splits)
  have "map_of (spec_json x) ''publicIP'' = map_of (spec_json y) ''publicIP''"
    by (rule eq) (simp add: mutable_keys_def)
  then have f7: "ms_PublicIP x = ms_PublicIP y"
    by (simp add: spec_json_lookup map_option_case split: if_splits option.splits)
  from f0 f1 f2 f3 f4 f5 f6 f7 show ?eq by simp
next
  assume e: ?eq
  have fields: "ms_InstanceType x = ms_InstanceType y" "ms_CPU x = ms_CPU y" "ms_Memory x = ms_Memory y"
    "ms_RootDiskSize x = ms_RootDiskSize y" "ms_DataDiskSize x = ms_DataDiskSize y"
    "ms_SSHPassword x = ms_SSHPassword y" "ms_ImageId x = ms_ImageId y" "ms_PublicIP x = ms_PublicIP y"
    by (subst e [symmetric], simp)+
  have same: "map_of (spec_json x) k = map_of (spec_json y) k" if "k \<notin> set mutable_keys" for k
  proof (cases "k \<in> {''instanceType'', ''cpu'', ''memory'', ''rootDiskSize'', ''dataDiskSize'', ''sshPassword'',
      ''imageId'', ''publicIP''}")
    case True
    then show ?thesis by (auto simp: spec_json_lookup fields)
  next
    case False
    with that have "k \<notin> {''instanceType'', ''cpu'', ''memory'', ''rootDiskSize'', ''dataDiskSize'', ''sshPassword'',
        ''providerID'', ''imageId'', ''publicIP'', ''additionalNetworkTags''}"
      by (simp add: mutable_keys_def)
    then show ?thesis using spec_json_other [of k x] spec_json_other [of k y] by simp
  qed
  show ?same
    unfolding map_of_delete_mutable
  proof
    fix k
    show "((map_of (spec_json x))(''providerID'' := None, ''additionalLabels'' := None, ''additionalNetworkTags'' := None)) k
      = ((map_of (spec_json y))(''providerID'' := None, ''additionalLabels'' := None, ''additionalNetworkTags'' := None)) k"
      using same [of k] by (cases "k \<in> set mutable_keys") (simp_all add: mutable_keys_def)
  qed
qed

end
