(* ===== verification/Instance_Properties.thy ===== *)
theory Instance_Properties
  imports Sample Uhost_Facts Webhooks "HOL-Library.Word"
begin

text \<open>
  The properties of the instance service (\<open>cloud/services/uhost.go\<close>), of the backends of the load
  balancer, of the HTTP request path, and of the two webhooks. Each property that has hypotheses is
  followed by a witness that applies it to the sample cloud.
\<close>

section \<open>Creating instances\<close>

text \<open>C22: \<open>CreateInstance\<close> that succeeds returns an instance the cloud described as running. It has
  read the bootstrap secret, sent exactly one create request, in the cluster's network and with
  the machine's decoded password, and described the instance at most eleven times; it writes
  neither object.\<close>

theorem CreateInstance_creates_one:
  assumes "CreateInstance S s = (Ok h, t)"
  shows "uh_State h = StateRunning (lib S) \<and> ucluster t = ucluster s \<and> umachine t = umachine s
    \<and> (\<exists>q ns n d. n \<le> 10 \<and> DecodeString (ms_SSHPassword (um_Spec (umachine s))) = Some (ch_Password q)
        \<and> ch_VPCId q = vpc_VpcId (vpc_of (ucluster s)) \<and> ch_SubnetId q = sub_SubnetId (subnet_of (ucluster s))
        \<and> ch_Quantity q = 1 \<and> ch_ImageId q \<noteq> '''' \<and> ch_Name q = instanceName S (ucluster s) (umachine s)
        \<and> ma_DataSecretName (sv_Machine S) = Some ns
        \<and> calls t = calls s @ [CallGetSecret (machine_Namespace (umachine s)) ns, CallCreateUHostInstance q]
             @ replicate (Suc n) (CallDescribeUHostInstance d) @ [CallEvent ''SuccessfulCreate''])"
proof -
  from assms obtain zone pass data ns n ids where "uh_State h = StateRunning (lib S)" "n \<le> 10"
    "ucluster t = ucluster s" "umachine t = umachine s"
    "DecodeString (ms_SSHPassword (um_Spec (umachine s))) = Some pass"
    "getImageId (ucluster s) (umachine s) zone \<noteq> ''''" "ma_DataSecretName (sv_Machine S) = Some ns"
    and calls: "calls t = calls s @ [CallGetSecret (machine_Namespace (umachine s)) ns,
           CallCreateUHostInstance (create_instance_req S (ucluster s) (umachine s) zone
             (getImageId (ucluster s) (umachine s) zone) pass data)]
         @ replicate (Suc n) (CallDescribeUHostInstance (describe_instance_req (ucluster s) zone ids))
         @ [CallEvent ''SuccessfulCreate'']"
    by (rule CreateInstance_OkE) blast
  then show ?thesis
    by (intro conjI exI [of _ ns] exI [of _ n] exI [of _ "describe_instance_req (ucluster s) zone ids"]
        exI [of _ "create_instance_req S (ucluster s) (umachine s) zone
             (getImageId (ucluster s) (umachine s) zone) pass data"] calls)
      (simp_all add: create_instance_req_def)
qed

theorem CreateInstance_creates_one_witness:
  "\<exists>q n d. calls (snd (CreateInstance sample start)) = [CallGetSecret ''default'' ''m1-bootstrap'', CallCreateUHostInstance q]
     @ replicate (Suc n) (CallDescribeUHostInstance d) @ [CallEvent ''SuccessfulCreate'']
   \<and> ch_Password q = ''password''"
proof -
  have pass: "DecodeString ''cGFzc3dvcmQ='' = Some ''password''" by code_simp
  have image: "region_image ''cn-bj2'' ''cn-bj2-02'' = ''uimage-kdwczn''"
    by (simp add: region_image_def region_image_bj2 map_index_def)
  note ev = start_def sample_cluster_def sample_machine_def zero_defs
  have zone: "Zone sample m = ''cn-bj2-02''" for m
    by (simp add: Zone_def)
  have "CreateInstance sample start = (Ok (sample_host 0), snd (CreateInstance sample start))"
    by (simp add: CreateInstance_def GetBootstrapData_def prog_simps if_err_run try_or_def bind_def pick_zone_def
        zone Let_def getImageId_def image pass deref_run launch_instance_def wait_running_def poll.simps
        judge_running_def describe_host_def describe_instance_req_def index_run sample_host_def ev Region_def)
  from CreateInstance_creates_one [OF this] show ?thesis
    by (auto simp: start_def pass sample_machine_def machine_Namespace_def zero_defs)
qed

text \<open>Outside the region \<open>cn-bj2\<close> no default image is known: a machine that names no image never
  gets an instance, and no create request is sent for it.\<close>

theorem CreateInstance_needs_image:
  assumes region: "Region (ucluster s) \<noteq> ''cn-bj2''" and image: "ms_ImageId (um_Spec (umachine s)) = None"
  shows "(\<forall>h. fst (CreateInstance S s) \<noteq> Ok h)
    \<and> (\<exists>cs. calls (snd (CreateInstance S s)) = calls s @ cs \<and> list_all (\<lambda>x. \<not> creates_instance x) cs)"
proof -
  have none: "getImageId (ucluster s) (umachine s) zone = ''''" for zone
    using region image by (simp add: getImageId_def region_image_other)
  obtain q s1 where q: "GetBootstrapData S s = (q, s1)" by fastforce
  obtain z s2 where z: "pick_zone S (ucluster s) (Zone S (umachine s)) s1 = (z, s2)" by fastforce
  have s1: "\<exists>cs. calls s1 = calls s @ cs \<and> list_all (\<lambda>x. \<not> creates_instance x) cs"
    and c1: "ucluster s1 = ucluster s"
    using q by (auto simp: GetBootstrapData_def prog_simps if_err_run raise_run split: option.splits)
  have "obtaining (ucluster s) (\<lambda>x. \<not> creates_instance x) (pick_zone S (ucluster s) (Zone S (umachine s)))"
    by (rule obtaining_pick_zone) simp
  from obtainingD [OF this z c1]
  have s2: "\<exists>cs. calls s2 = calls s1 @ cs \<and> list_all (\<lambda>x. \<not> creates_instance x) cs" by blast
  have "CreateInstance S s = (case q of
      Ok d \<Rightarrow> (case z of
          Ok zone \<Rightarrow> (Err (Errorf ''can not get image id for region %s'' [Region (ucluster s)]),
              s2\<lparr>calls := calls s2 @ [CallEvent ''FailedCreate'']\<rparr>)
        | Err e \<Rightarrow> (Err e, s2) | Panic p \<Rightarrow> (Panic p, s2))
    | Err e \<Rightarrow> (Err (Wrapf e ''failed to retrieve bootstrap data'' []),
        s1\<lparr>calls := calls s1 @ [CallEvent ''FailedCreate'']\<rparr>)
    | Panic p \<Rightarrow> (Panic p, s1))"
    unfolding CreateInstance_def bind_gets try_or_def q
    using z by (simp add: bind_def warn_raise_run none split: result.split)
  then show ?thesis using s1 s2 by (auto split: result.split)
qed

theorem CreateInstance_needs_image_witness:
  "\<forall>h. fst (CreateInstance sample (ucluster_update (uc_Spec_update (cs_Region_update (\<lambda>_. ''hk''))) start)) \<noteq> Ok h"
proof -
  define s where "s = ucluster_update (uc_Spec_update (cs_Region_update (\<lambda>_. ''hk''))) start"
  have "Region (ucluster s) \<noteq> ''cn-bj2''" "ms_ImageId (um_Spec (umachine s)) = None"
    by (simp_all add: s_def Region_def start_def sample_machine_def zero_defs)
  from CreateInstance_needs_image [OF this] show ?thesis by (simp flip: s_def)
qed

section \<open>Terminating instances\<close>

text \<open>C26: terminating a machine's instance sends at most 65 requests whatever the cloud answers, and
  writes neither object.\<close>

theorem TerminateInstanceAndWait_bounded:
  "let t = snd (TerminateInstanceAndWait S s) in
     length (calls t) \<le> length (calls s) + 65 \<and> ucluster t = ucluster s \<and> umachine t = umachine s"
proof -
  obtain r t where run: "TerminateInstanceAndWait S s = (r, t)" by fastforce
  have "length (calls t) \<le> length (calls s) + 65"
    using run terminateUHost_bound
    by (fastforce simp: TerminateInstanceAndWait_def prog_simps bind_def
        split: option.splits if_splits prod.splits result.splits)
  then show ?thesis
    using obtainingD [OF TerminateInstance_obtaining run refl] by (simp add: Let_def run)
qed

text \<open>C5: the terminate request is sent only for an instance that the run has just seen stopped: the
  calls of the run up to it are a describe request, the power off, and describe requests, and the
  answer to the last of these, in the world that all the calls before it have led to, shows the
  instance stopped. At most 31 answers are waited for, and nothing but describe requests follows.\<close>

theorem terminateUHost_only_stopped:
  assumes "terminateUHost S iid zone s = (r, t)"
    and "CallTerminateUHostInstance x \<in> set (drop (length (calls s)) (calls t))"
  shows "\<exists>n h hs cs.
      let req = describe_instance_req (ucluster s) zone [iid];
         before = [CallDescribeUHostInstance req, CallPoweroffUHostInstance (poweroff_req (ucluster s) iid zone)]
           @ replicate n (CallDescribeUHostInstance req);
         a = sdk_DescribeUHostInstance (uhostClient S) req (after_calls S before (world s))
      in rp_err (fst a) = None \<and> rp_body (fst a) = h # hs \<and> uh_State h = StateStopped (lib S) \<and> n \<le> 30
        \<and> calls t = calls s @ before @ [CallDescribeUHostInstance req,
             CallTerminateUHostInstance (terminate_req (ucluster s) iid zone)] @ cs
        \<and> list_all (\<lambda>x. x = CallDescribeUHostInstance req) cs"
  using assms by (rule terminateUHost_stopped) (auto simp: Let_def)

text \<open>The sample's instance is running, is powered off, and is stopped at the first look.\<close>

theorem terminateUHost_only_stopped_witness:
  "let s = start\<lparr>world := 0\<rparr>; req = describe_instance_req sample_cluster ''cn-bj2-02'' [''uhost-1'']
   in \<exists>n cs. calls (snd (terminateUHost sample ''uhost-1'' ''cn-bj2-02'' s))
       = [CallDescribeUHostInstance req, CallPoweroffUHostInstance (poweroff_req sample_cluster ''uhost-1'' ''cn-bj2-02'')]
         @ replicate n (CallDescribeUHostInstance req) @ [CallDescribeUHostInstance req,
           CallTerminateUHostInstance (terminate_req sample_cluster ''uhost-1'' ''cn-bj2-02'')] @ cs"
proof -
  define s where "s = start\<lparr>world := 0\<rparr>"
  define t where "t = snd (terminateUHost sample ''uhost-1'' ''cn-bj2-02'' s)"
  define req where "req = describe_instance_req sample_cluster ''cn-bj2-02'' [''uhost-1'']"
  have ids: "dh_UHostIds req = [''uhost-1'']" by (simp add: req_def describe_instance_req_def)
  have c: "ucluster s = sample_cluster" "world s = 0" "calls s = []" by (simp_all add: s_def start_def)
  have run: "terminateUHost sample ''uhost-1'' ''cn-bj2-02'' s = (Ok (), t)"
    unfolding t_def terminateUHost_run Let_def c req_def [symmetric]
    by (simp add: poll.simps describe_host_def judge_stopped_def judge_deleted_def ids c sample_host_def)
  have "CallTerminateUHostInstance (terminate_req sample_cluster ''uhost-1'' ''cn-bj2-02'')
      \<in> set (drop (length (calls s)) (calls t))"
    unfolding t_def terminateUHost_run Let_def c req_def [symmetric]
    by (simp add: poll.simps describe_host_def judge_stopped_def judge_deleted_def ids c sample_host_def)
  from terminateUHost_only_stopped [OF run this] show ?thesis
    unfolding Let_def c s_def [symmetric] t_def [symmetric] req_def [symmetric] by auto
qed

text \<open>A termination that succeeds has seen in its last answer that the instance is gone.\<close>

theorem terminateUHost_seen_gone:
  fixes S :: "'w Service"
  assumes "terminateUHost S iid zone s = (Ok (), t)"
  shows "\<exists>v :: 'w st. let req = describe_instance_req (ucluster s) zone [iid];
         a = sdk_DescribeUHostInstance (uhostClient S) req (world v)
     in rp_body (fst a) = [] \<and> (rp_err (fst a) = None \<or> rp_code (fst a) = 8039)
        \<and> world t = snd a \<and> calls t = calls v @ [CallDescribeUHostInstance req]"
  using assms by (rule terminateUHost_Ok) (auto simp: Let_def)

theorem terminateUHost_seen_gone_witness:
  "let t = snd (terminateUHost sample ''uhost-1'' ''cn-bj2-02'' (start\<lparr>world := 0\<rparr>))
   in rp_body (fst (describe_host (describe_instance_req sample_cluster ''cn-bj2-02'' [''uhost-1'']) (world t))) = []"
proof -
  define s where "s = start\<lparr>world := 0\<rparr>"
  define t where "t = snd (terminateUHost sample ''uhost-1'' ''cn-bj2-02'' s)"
  define req where "req = describe_instance_req sample_cluster ''cn-bj2-02'' [''uhost-1'']"
  have ids: "dh_UHostIds req = [''uhost-1'']" by (simp add: req_def describe_instance_req_def)
  have c: "ucluster s = sample_cluster" "world s = 0" by (simp_all add: s_def start_def)
  have run: "terminateUHost sample ''uhost-1'' ''cn-bj2-02'' s = (Ok (), t)"
    unfolding t_def terminateUHost_run Let_def c req_def [symmetric]
    by (simp add: poll.simps describe_host_def judge_stopped_def judge_deleted_def ids c sample_host_def)
  from terminateUHost_seen_gone [OF this]
  obtain v :: "nat st" where "rp_body (fst (describe_host req (world v))) = []" "world t = snd (describe_host req (world v))"
    by (auto simp: Let_def c simp flip: req_def)
  then have "rp_body (fst (describe_host req (world t))) = []" by (simp add: describe_host_def split: if_splits)
  then show ?thesis unfolding Let_def t_def s_def req_def .
qed

text \<open>C36: the timer's channel is not drained between the two waits. If it fired while the describe
  request that found the instance stopped was under way, the wait for the deletion that follows
  gives up after a single describe request, instead of five minutes.\<close>

theorem terminateUHost_stale_tick:
  fixes S :: "'w Service" and s :: "'w st"
  defines "req \<equiv> \<lambda>iid zone. describe_instance_req (ucluster s) zone [iid]"
  assumes first: "sdk_DescribeUHostInstance (uhostClient S) (req iid zone) (world s) = (a, w1)"
      "rp_err a = None" "rp_body a \<noteq> []"
    and off: "sdk_PoweroffUHostInstance (uhostClient S) (poweroff_req (ucluster s) iid zone) w1 = (b, w2)"
      "rp_err b = None"
    and stopped: "sdk_DescribeUHostInstance (uhostClient S) (req iid zone) w2 = (h, w3)" "rp_err h = None"
      "rp_body h = x # xs" "uh_State x = StateStopped (lib S)" "rp_took h \<ge> five_minutes"
    and trm: "sdk_TerminateUHostInstance (uhostClient S) (terminate_req (ucluster s) iid zone) w3 = (d, w4)"
      "rp_err d = None"
    and again: "sdk_DescribeUHostInstance (uhostClient S) (req iid zone) w4 = (g, w5)" "rp_err g = None"
      "rp_body g \<noteq> []"
  shows "fst (terminateUHost S iid zone s) = Err (Errorf ''waiting for uhost %s deleted timeout'' [iid])
    \<and> calls (snd (terminateUHost S iid zone s)) = calls s @ [CallDescribeUHostInstance (req iid zone),
        CallPoweroffUHostInstance (poweroff_req (ucluster s) iid zone), CallDescribeUHostInstance (req iid zone),
        CallTerminateUHostInstance (terminate_req (ucluster s) iid zone), CallDescribeUHostInstance (req iid zone)]"
proof -
  define s2 where "s2 = sent (CallPoweroffUHostInstance (poweroff_req (ucluster s) iid zone)) (rp_took b) w2
      (sent (CallDescribeUHostInstance (req iid zone)) (rp_took a) w1 s)"
  define s3 where "s3 = sent (CallDescribeUHostInstance (req iid zone)) (rp_took h) w3 s2"
  define s4 where "s4 = sent (CallTerminateUHostInstance (terminate_req (ucluster s) iid zone)) (rp_took d) w4 s3"
  have "poll S (req iid zone) (judge_stopped S iid) raise 10000 (NewTimer (clock s2) five_minutes) s2
      = (Ok ((), True), s3)"
    by (subst poll.simps)
      (simp add: s2_def stopped judge_stopped_def Stop_def ticked_def NewTimer_def s3_def)
  moreover have "poll S (req iid zone) (judge_deleted iid) raise 10000 (Reset (clock s4) five_minutes True) s4
      = (Err (Errorf ''waiting for uhost %s deleted timeout'' [iid]),
         sent (CallDescribeUHostInstance (req iid zone)) (rp_took g) w5 s4)"
    by (subst poll_stale) (simp_all add: s4_def again judge_deleted_def raise_run)
  ultimately have "terminateUHost S iid zone s = (Err (Errorf ''waiting for uhost %s deleted timeout'' [iid]),
      sent (CallDescribeUHostInstance (req iid zone)) (rp_took g) w5 s4)"
    using first off trm
    by (simp add: terminateUHost_run Let_def req_def s2_def s3_def s4_def)
  then show ?thesis by (simp add: s4_def s3_def s2_def)
qed

text \<open>A cloud that takes five minutes to show the instance stopped, and deletes it only later.\<close>

definition slow_uhost :: "nat UHostClient" where
  "slow_uhost = sample_uhost\<lparr>sdk_DescribeUHostInstance := (\<lambda>q w.
      ((reply_ok [sample_host w])\<lparr>rp_took := (if w = 1 then five_minutes else 1)\<rparr>, w))\<rparr>"

theorem terminateUHost_stale_tick_witness:
  "fst (terminateUHost (sample\<lparr>uhostClient := slow_uhost\<rparr>) ''uhost-1'' ''cn-bj2-02'' (start\<lparr>world := 0\<rparr>))
     = Err (Errorf ''waiting for uhost %s deleted timeout'' [''uhost-1''])"
proof -
  define S where "S = sample\<lparr>uhostClient := slow_uhost\<rparr>"
  define s where "s = start\<lparr>world := 0\<rparr>"
  have w: "world s = 0" by (simp add: s_def)
  have d: "sdk_DescribeUHostInstance (uhostClient S) q w
      = ((reply_ok [sample_host w])\<lparr>rp_took := (if w = 1 then five_minutes else 1)\<rparr>, w)" for q w
    by (simp add: S_def slow_uhost_def)
  have p: "sdk_PoweroffUHostInstance (uhostClient S) q w = (reply_ok (), 1)" for q w
    by (simp add: S_def slow_uhost_def sample_uhost_def)
  have t: "sdk_TerminateUHostInstance (uhostClient S) q w = (reply_ok (), 2)" for q w
    by (simp add: S_def slow_uhost_def sample_uhost_def)
  have l: "lib S = lib sample" by (simp add: S_def)
  have "fst (terminateUHost S ''uhost-1'' ''cn-bj2-02'' s) = Err (Errorf ''waiting for uhost %s deleted timeout'' [''uhost-1''])"
    by (rule conjunct1 [OF terminateUHost_stale_tick
          [where x = "sample_host 1" and xs = "[]", OF d _ _ p _ d _ _ _ _ t _ d]])
      (simp_all add: w l sample_host_def reply_ok_def)
  then show ?thesis unfolding S_def s_def .
qed

section \<open>The bastion and the backends\<close>

text \<open>\<open>TerminateBastion\<close> leaves a bastion with an identifier in the status exactly if it fails,
  and a failure leaves the whole object as it was.\<close>

theorem TerminateBastion_clears:
  "let (r, t) = TerminateBastion S s;
       present = (\<lambda>c. \<exists>b. cst_Bastion (uc_Status c) = Some b \<and> inst_InstanceId b \<noteq> '''')
   in (present (ucluster t) = (r \<noteq> Ok () \<and> present (ucluster s)))
      \<and> (r = Ok () \<or> ucluster t = ucluster s)"
proof -
  obtain r t where run: "TerminateBastion S s = (r, t)" by fastforce
  have del: "ucluster u = ucluster s" if "terminateUHost S iid zone s = (q, u)" for iid zone q u
    using obtainingD [OF obtaining_terminateUHost that refl] by blast
  show ?thesis
    using run
    by (auto simp: Let_def TerminateBastion_def prog_simps bind_def
        split: option.splits if_splits prod.splits result.splits dest!: del)
qed

text \<open>\<open>AddRealServer\<close> that succeeds has registered the host once: it sends the registration only
  if the described VServer does not list the host yet.\<close>

theorem AddRealServer_registers_once:
  assumes "AddRealServer S h s = (Ok (), t)"
  shows "\<exists>v vs. rp_body (fst (sdk_DescribeVServer (ulbClient S) (describe_vserver_req (ucluster s)) (world s))) = v # vs
    \<and> ucluster t = ucluster s \<and> umachine t = umachine s
    \<and> calls t = calls s @ CallDescribeVServer (describe_vserver_req (ucluster s))
        # (if \<exists>b\<in>set (vs_BackendSet v). be_ResourceId b = h then []
           else [CallAllocateBackend (add_backend_req (ucluster s) h)])"
  using assms
  by (auto simp: AddRealServer_def prog_simps if_err_run Let_def split: option.splits list.splits if_splits)

theorem AddRealServer_registers_once_witness:
  "calls (snd (AddRealServer sample ''uhost-1'' start)) = [CallDescribeVServer (describe_vserver_req sample_cluster)]
   \<and> calls (snd (AddRealServer sample ''uhost-2'' start)) = [CallDescribeVServer (describe_vserver_req sample_cluster),
       CallAllocateBackend (add_backend_req sample_cluster ''uhost-2'')]"
proof -
  have run: "AddRealServer sample h start = (Ok (), snd (AddRealServer sample h start))" for h
    by (simp add: AddRealServer_def prog_simps if_err_run Let_def)
  have c: "ucluster start = sample_cluster" "calls start = []" by (simp_all add: start_def)
  show ?thesis
    using AddRealServer_registers_once [OF run [of "''uhost-1''"]] AddRealServer_registers_once [OF run [of "''uhost-2''"]]
    by (auto simp: c sample_vserver_def)
qed

text \<open>\<open>DelRealServer\<close> that succeeds sends a release for the first backend of the host that the
  described VServer lists, and none if it lists none.\<close>

theorem DelRealServer_releases_first:
  assumes "DelRealServer S h s = (Ok (), t)"
  shows "\<exists>v vs. rp_body (fst (sdk_DescribeVServer (ulbClient S) (describe_vserver_req (ucluster s)) (world s))) = v # vs
    \<and> ((\<forall>b\<in>set (vs_BackendSet v). be_ResourceId b \<noteq> h)
         \<and> calls t = calls s @ [CallDescribeVServer (describe_vserver_req (ucluster s))]
     \<or> (\<exists>b before after. vs_BackendSet v = before @ b # after \<and> be_ResourceId b = h
         \<and> (\<forall>x\<in>set before. be_ResourceId x \<noteq> h)
         \<and> calls t = calls s @ CallDescribeVServer (describe_vserver_req (ucluster s))
             # (if be_BackendId b = '''' then [] else [CallReleaseBackend (del_backend_req (ucluster s) (be_BackendId b))])))"
proof -
  obtain v vs where v: "rp_body (fst (sdk_DescribeVServer (ulbClient S) (describe_vserver_req (ucluster s)) (world s))) = v # vs"
    and calls: "calls t = calls s @ CallDescribeVServer (describe_vserver_req (ucluster s))
       # (if find_backend h (vs_BackendSet v) = '''' then []
          else [CallReleaseBackend (del_backend_req (ucluster s) (find_backend h (vs_BackendSet v)))])"
    using assms
    by (auto simp: DelRealServer_def prog_simps if_err_run Let_def split: option.splits list.splits if_splits)
  show ?thesis
  proof (cases "List.find (\<lambda>b. be_ResourceId b = h) (vs_BackendSet v)")
    case None
    then have "\<forall>b\<in>set (vs_BackendSet v). be_ResourceId b \<noteq> h" by (simp add: find_None_iff_all)
    then show ?thesis using v calls None by (auto simp: find_backend_def)
  next
    case (Some b)
    with find_Some_split [OF Some] show ?thesis using v calls by (auto simp: find_backend_def)
  qed
qed

theorem DelRealServer_releases_first_witness:
  "calls (snd (DelRealServer sample ''uhost-1'' start)) = [CallDescribeVServer (describe_vserver_req sample_cluster),
       CallReleaseBackend (del_backend_req sample_cluster ''backend-1'')]"
proof -
  have run: "DelRealServer sample ''uhost-1'' start = (Ok (), snd (DelRealServer sample ''uhost-1'' start))"
    by (simp add: DelRealServer_def prog_simps if_err_run Let_def)
  have c: "ucluster start = sample_cluster" "calls start = []" by (simp_all add: start_def)
  show ?thesis
    using DelRealServer_releases_first [OF run] by (auto simp: c sample_vserver_def Cons_eq_append_conv)
qed

section \<open>Addresses\<close>

text \<open>The public address \<open>getPublicIP\<close> finds in a region whose addresses are of the type
  \<open>International\<close> is listed by \<open>getAddresses\<close> with an empty type: the machine shows no external
  address there.\<close>

theorem getAddresses_international_untyped:
  assumes region: "region_operator (Region c) = ''International''" and found: "getPublicIP c h \<noteq> ''''"
  shows "\<exists>a\<in>set (getAddresses S h). adr_Address a = getPublicIP c h \<and> adr_Type a = ''''"
proof -
  obtain i where i: "List.find (\<lambda>i. ToLower (hip_Type i) = ToLower (region_operator (Region c))) (uh_IPSet h) = Some i"
    and ip: "getPublicIP c h = hip_IP i"
    using found by (auto simp: getPublicIP_def split: option.splits)
  from find_Some_in [OF i] region have mem: "i \<in> set (uh_IPSet h)"
    and low: "ToLower (hip_Type i) = ToLower ''International''" by auto
  have "ToLower ''Internation'' \<noteq> ToLower ''International''" "ToLower ''Bgp'' \<noteq> ToLower ''International''"
    "ToLower ''Private'' \<noteq> ToLower ''International''"
    by code_simp+
  with low have "address_type S (hip_Type i) = ''''" by (auto simp: address_type_def)
  with mem ip show ?thesis by (auto simp: getAddresses_def)
qed

theorem getAddresses_international_untyped_witness:
  "\<exists>a\<in>set (getAddresses sample ((sample_host 0)\<lparr>uh_IPSet := [\<lparr>hip_Default = ''false'',
     hip_Type = ''International'', hip_IP = ''5.6.7.8''\<rparr>]\<rparr>)). adr_Address a = ''5.6.7.8'' \<and> adr_Type a = ''''"
proof -
  define c where "c = uc_Spec_update (cs_Region_update (\<lambda>_. ''hk'')) sample_cluster"
  define h where "h = (sample_host 0)\<lparr>uh_IPSet := [\<lparr>hip_Default = ''false'',
     hip_Type = ''International'', hip_IP = ''5.6.7.8''\<rparr>]\<rparr>"
  have r: "region_operator (Region c) = ''International''"
    by (simp add: c_def Region_def region_operator_def map_index_def RegionEIPOperator_def)
  have p: "getPublicIP c h = ''5.6.7.8''"
    unfolding getPublicIP_def r by (simp add: h_def)
  have "getPublicIP c h \<noteq> ''''" by (simp add: p)
  from getAddresses_international_untyped [OF r this, of sample]
  have "\<exists>a\<in>set (getAddresses sample h). adr_Address a = ''5.6.7.8'' \<and> adr_Type a = ''''"
    by (simp only: p)
  then show ?thesis unfolding h_def .
qed

section \<open>Requests over HTTP\<close>

text \<open>C38: \<open>doRequest\<close> that succeeds has sent exactly one request, got a body that decodes, and returns
  the decoded response, whose return code is zero; if the transport failed, its error is one of the
  SDK's own kinds.\<close>

theorem doRequest_outcome:
  assumes build: "buildHTTPRequest S cd req = Inr h"
  shows "let a = fst (http_Send (http S) h (world s)); (r, t) = doRequest S cd tag req res s in
    calls t = calls s @ [tag req] \<and> ucluster t = ucluster s \<and> umachine t = umachine s
    \<and> (\<forall>x. r = Ok x \<longleftrightarrow> rp_err a = None \<and> rs_RetCode x = 0
        \<and> (\<exists>hr. rp_body a = Some hr \<and> cd_Unmarshal cd (http_PatchRetCode (http S) (hres_Body hr)) res = Inr x))
    \<and> (rp_err a \<noteq> None \<longrightarrow> (\<exists>e. r = Err e \<and> is_uerr e))"
proof -
  define a where "a = fst (http_Send (http S) h (world s))"
  have transport: "is_uerr (the (snd (errorHandler S res (snd (errorHTTPHandler (rp_body a) (Some e))))))" for e
  proof -
    obtain e1 where "errorHTTPHandler (rp_body a) (Some e) = (rp_body a, Some e1)"
      by (metis errorHTTPHandler_None errorHTTPHandler_fst option.distinct(1) option.exhaust prod.collapse)
    then show ?thesis using errorHandler_Some [of S res e1] by auto
  qed
  show ?thesis
    by (auto simp: doRequest_run build Let_def http_outcome_def transport simp flip: a_def
        split: option.split sum.split)
qed

theorem doRequest_outcome_witness:
  "rs_RetCode (case fst (doRequest sample (cd_CreateULB (http sample)) CallCreateULB
      (create_ulb_req 0 sample_cluster) zero_CreateULBResponse start) of Ok x \<Rightarrow> x) = 0"
proof -
  define r where "r = fst (doRequest sample (cd_CreateULB (http sample)) CallCreateULB
      (create_ulb_req 0 sample_cluster) zero_CreateULBResponse start)"
  have r: "r = Ok (zero_CreateULBResponse\<lparr>culbr_ULBId := ''ulb-1''\<rparr>)"
    by (simp add: r_def zero_CreateULBResponse_def)
  obtain h where h: "buildHTTPRequest sample (cd_CreateULB (http sample)) (create_ulb_req 0 sample_cluster) = Inr h"
    by simp
  have "rs_RetCode x = 0" if "r = Ok x" for x
    using doRequest_outcome [OF h, where s = start and tag = CallCreateULB and res = zero_CreateULBResponse] that
    by (auto simp: r_def Let_def split: prod.splits)
  with r show ?thesis unfolding r_def [symmetric] by simp
qed

text \<open>C39: for a non-negative retry count the delay is \<open>4 ^ min 7 retryCount\<close> times 100 to 199
  milliseconds, without overflow.\<close>

theorem getExpBackoffDelay_bounds:
  assumes "r < 100" and "0 \<le> sint n"
  shows "uint (getExpBackoffDelay r n) = 4 ^ min 7 (nat (sint n)) * (100 + int r) * 1000000
    \<and> uint (getExpBackoffDelay r n) < 2 ^ 42"
proof -
  define k where "k = min 7 (nat (sint n))"
  define m where "m = (if sint n > 7 then 7 else n)"
  have "word_of_int (sint n) = (of_nat (nat (sint n)) :: 64 word)"
    using assms(2) by (simp add: of_nat_nat flip: word_of_int_nat)
  then have n: "n = of_nat (nat (sint n))" by simp
  have "m = of_nat k"
  proof (cases "sint n > 7")
    case True
    then have "k = 7" by (simp add: k_def min_def)
    with True show ?thesis by (simp add: m_def)
  next
    case False
    then have "nat (sint n) \<le> 7" by simp
    then have "k = nat (sint n)" by (simp add: k_def)
    with False n show ?thesis by (simp add: m_def)
  qed
  moreover have k: "k \<le> 7" by (simp add: k_def)
  then have "unat ((of_nat k :: 64 word) * 2) = 2 * k"
    by (simp add: unat_word_ariths unat_of_nat take_bit_nat_eq_self_iff)
  ultimately have "getExpBackoffDelay r n = push_bit (2 * k) 1 * (of_nat r + 100) * 1000000"
    using k by (simp add: getExpBackoffDelay_def Let_def flip: m_def)
  then have eq: "getExpBackoffDelay r n = word_of_int (4 ^ k * (100 + int r) * 1000000)"
    by (simp add: push_bit_eq_mult power_mult add.commute)
  have "(4::int) ^ k \<le> 4 ^ 7" using k by (intro power_increasing) simp_all
  then have "4 ^ k * (100 + int r) \<le> 4 ^ 7 * 199" using assms(1) by (intro mult_mono) simp_all
  then have small: "4 ^ k * (100 + int r) * 1000000 < 2 ^ 42" by simp
  have "uint (getExpBackoffDelay r n) = 4 ^ k * (100 + int r) * 1000000"
    unfolding eq uint_word_of_int by (rule mod_pos_pos_trivial) (use small in simp_all)
  with small show ?thesis by (simp add: k_def)
qed

theorem getExpBackoffDelay_bounds_witness:
  "uint (getExpBackoffDelay 5 9) = 4 ^ 7 * 105 * 1000000"
  using getExpBackoffDelay_bounds [of 5 9] by simp

section \<open>Webhooks\<close>

lemma only_mutable_fields:
  "x\<lparr>ms_ProviderID := ms_ProviderID y, ms_AdditionalNetworkTags := ms_AdditionalNetworkTags y\<rparr> = y
    \<longleftrightarrow> (\<exists>p ts. x = y\<lparr>ms_ProviderID := p, ms_AdditionalNetworkTags := ts\<rparr>)" (is "?swap = y \<longleftrightarrow> ?only")
proof
  assume eq: "?swap = y"
  have "x = ?swap\<lparr>ms_ProviderID := ms_ProviderID x, ms_AdditionalNetworkTags := ms_AdditionalNetworkTags x\<rparr>"
    by (rule UCloudMachineSpec.equality) simp_all
  then show ?only unfolding eq by blast
next
  assume ?only
  then obtain p ts where "x = y\<lparr>ms_ProviderID := p, ms_AdditionalNetworkTags := ts\<rparr>" by blast
  then show "?swap = y" by (intro UCloudMachineSpec.equality) simp_all
qed

text \<open>C37: with the object converted as its struct tags say, the update of a machine is let through
  exactly if the old specification becomes the new one by changing the provider identifier and the
  additional network tags.\<close>

theorem ValidateUpdate_iff:
  "ValidateUpdate (\<lambda>m. Inr (spec_json (um_Spec m))) r old = None \<longleftrightarrow>
    (\<exists>p ts. um_Spec r = (um_Spec old)\<lparr>ms_ProviderID := p, ms_AdditionalNetworkTags := ts\<rparr>)"
proof -
  have "ValidateUpdate (\<lambda>m. Inr (spec_json (um_Spec m))) r old = None
      \<longleftrightarrow> (um_Spec r)\<lparr>ms_ProviderID := ms_ProviderID (um_Spec old),
            ms_AdditionalNetworkTags := ms_AdditionalNetworkTags (um_Spec old)\<rparr> = um_Spec old"
    by (simp add: ValidateUpdate_def same_map_iff spec_json_agree)
  then show ?thesis by (simp only: only_mutable_fields)
qed

end
