(* ===== verification/Passes.thy ===== *)
theory Passes
  imports Machine_Facts Deletion_Facts
begin

text \<open>
  The passes of both controllers over one cluster as a step relation. A pass starts from the
  objects the previous one left and runs a reconcile function of a controller to any of its
  outcomes; in between the rest of the world moves on. The invariants of the cluster object are
  proved for every step here, and lifted to all reachable states.
\<close>

section \<open>The step relation\<close>

text \<open>
  \<open>live_cluster\<close>, \<open>gone_cluster\<close>, \<open>live_machine\<close> and \<open>gone_machine\<close> are the reconcile functions of
  \<open>ucloudcluster_controller.go\<close> and \<open>ucloudmachine_controller.go\<close> on objects that are not being
  deleted and on objects that are. Each pass reads its own copies of the owners, the Cluster \<open>cl\<close> and
  the Machine \<open>ma\<close>. \<open>outside\<close> is everything else: the cloud changes, time goes by.
  \<open>lost\<close> is a pass whose closing patch did not get through: what it wrote is forgotten, except
  for the finalizers that were persisted early.
\<close>

inductive pass :: "'w Service \<Rightarrow> 'w st \<Rightarrow> 'w st \<Rightarrow> bool" for S where
  live_cluster: "cluster_reconcile (S\<lparr>sv_Cluster := cl\<rparr>) s = (r, t) \<Longrightarrow> pass S s t"
| gone_cluster: "cluster_reconcileDelete (S\<lparr>sv_Cluster := cl\<rparr>) s = (r, t) \<Longrightarrow> pass S s t"
| live_machine: "machine_reconcile (S\<lparr>sv_Cluster := cl, sv_Machine := ma\<rparr>) (s\<lparr>umachine := m\<rparr>) = (r, t) \<Longrightarrow> pass S s t"
| gone_machine: "machine_reconcileDelete (S\<lparr>sv_Cluster := cl, sv_Machine := ma\<rparr>) (s\<lparr>umachine := m\<rparr>) = (r, t) \<Longrightarrow> pass S s t"
| outside: "pass S s (s\<lparr>world := w, clock := clock s + d\<rparr>)"
| lost: "pass S s t \<Longrightarrow> uc_Spec c = uc_Spec (ucluster s) \<Longrightarrow> uc_Status c = uc_Status (ucluster s)
     \<Longrightarrow> pass S s (t\<lparr>ucluster := c\<rparr>)"

text \<open>A deletion pass writes the metadata, and the bastion in the status.\<close>

lemma reconcileDelete_but_bastion:
  assumes "cluster_reconcileDelete S s = (r, t)"
  obtains m where "but_bastion (ucluster t) = but_bastion ((ucluster s)\<lparr>uc_Meta := m\<rparr>)"
proof -
  obtain q u where q: "machines_remain S (length (om_Finalizers (uc_Meta (ucluster s))))
      (om_Finalizers (uc_Meta (ucluster s))) True s = (q, u)"
    by fastforce
  then have u: "ucluster u = (ucluster s)\<lparr>uc_Meta := uc_Meta (ucluster u)\<rparr>"
    using machines_remain_frame [OF q] by (intro UCloudCluster.equality) simp_all
  obtain p v where v: "delete_resources S u = (p, v)" by fastforce
  then have c: "but_bastion (ucluster v) = but_bastion (ucluster u)"
    using delete_resources_sends by blast
  have swap: "but_bastion (x\<lparr>uc_Meta := m\<rparr>) = (but_bastion x)\<lparr>uc_Meta := m\<rparr>" for x m
    by (simp add: but_bastion_def)
  define w where "w = upd_cluster_meta (remove_finalizer S ClusterFinalizer) v"
  have cu: "but_bastion (ucluster u) = but_bastion ((ucluster s)\<lparr>uc_Meta := uc_Meta (ucluster u)\<rparr>)"
    using u by (rule arg_cong)
  have "ucluster w = (ucluster v)\<lparr>uc_Meta := uc_Meta (ucluster w)\<rparr>"
    by (simp add: w_def)
  then have "but_bastion (ucluster w) = (but_bastion (ucluster u))\<lparr>uc_Meta := uc_Meta (ucluster w)\<rparr>"
    using swap c by metis
  then have cw: "but_bastion (ucluster w) = but_bastion ((ucluster s)\<lparr>uc_Meta := uc_Meta (ucluster w)\<rparr>)"
    unfolding cu swap by simp
  have "t = u \<or> t = v \<or> t = w"
    using assms q v by (auto simp: cluster_reconcileDelete_run w_def split: result.splits if_splits)
  then have "\<exists>m. but_bastion (ucluster t) = but_bastion ((ucluster s)\<lparr>uc_Meta := m\<rparr>)"
    using cu cw c by metis
  then show thesis
    using that by blast
qed

text \<open>
  A pass is one over the live cluster, or over the deleted one, or it leaves the specification and the
  status of the cluster as they are.
\<close>

lemma pass_cluster:
  assumes "pass S s t"
  obtains (live) cl r where "cluster_reconcile (S\<lparr>sv_Cluster := cl\<rparr>) s = (r, t)"
  | (gone) m where "but_bastion (ucluster t) = but_bastion ((ucluster s)\<lparr>uc_Meta := m\<rparr>)"
  | (kept) "cluster_part t = cluster_part s"
  using assms
proof (cases rule: pass.cases)
  case (gone_cluster cl r)
  then show ?thesis by (elim reconcileDelete_but_bastion gone)
next
  case (live_machine cl ma m r)
  then have "cluster_part t = cluster_part (s\<lparr>umachine := m\<rparr>)"
    using keepsD [OF cluster_part_machine_reconcile] by (auto simp: same_def)
  then show ?thesis by (intro kept) (simp add: cluster_part_def)
next
  case (gone_machine cl ma m r)
  then have "cluster_part t = cluster_part (s\<lparr>umachine := m\<rparr>)"
    using keepsD [OF cluster_part_machine_reconcileDelete] by (auto simp: same_def)
  then show ?thesis by (intro kept) (simp add: cluster_part_def)
qed (auto intro: live kept simp: cluster_part_def)

section \<open>Identifiers\<close>

lemma pass_ids_stable:
  assumes "pass S s t"
  shows "ids_stable (ucluster s) (ucluster t)"
  using assms
proof (cases rule: pass_cluster)
  case (live cl r)
  then show ?thesis using keepsD [OF stable_cluster_reconcile] by (auto simp: stable_def)
next
  case (gone m)
  then have "ids (ucluster t) = ids ((ucluster s)\<lparr>uc_Meta := m\<rparr>)" by (rule but_ids(7))
  then show ?thesis by (intro ids_stable_refl) (simp add: ids_def status_parts)
next
  case kept
  then show ?thesis by (intro ids_stable_refl) (simp add: cluster_part_def ids_def status_parts)
qed

section \<open>Readiness\<close>

text \<open>What a cluster that says it is ready promises to the other controllers.\<close>

definition ready_ok :: "UCloudCluster \<Rightarrow> bool" where
  "ready_ok c \<longleftrightarrow> (cst_Ready (uc_Status c) \<longrightarrow>
     ep_Host (cs_ControlPlaneEndpoint (uc_Spec c)) \<noteq> '''' \<and> ep_Port (cs_ControlPlaneEndpoint (uc_Spec c)) = 6443
     \<and> (\<exists>zones. map_of RegionZoneMap (Region c) = Some zones
          \<and> cst_FailureDomains (uc_Status c) = failure_domains zones))"

definition readiness :: "'w st \<Rightarrow> UCloudClusterSpec \<times> bool \<times> (string \<rightharpoonup> FailureDomainSpec)" where
  "readiness s = (uc_Spec (ucluster s), cst_Ready (uc_Status (ucluster s)), cst_FailureDomains (uc_Status (ucluster s)))"

lemma ready_ok_same: "readiness t = readiness s \<Longrightarrow> ready_ok (ucluster t) = ready_ok (ucluster s)"
  by (simp add: ready_ok_def readiness_def Region_def)

text \<open>No provisioning step writes the specification, the readiness or the failure domains.\<close>

lemma but_readiness:
  "but_group c = but_group d \<or> but_vpc c = but_vpc d \<or> but_subnet c = but_subnet d \<or> but_nat c = but_nat d
    \<or> but_ulb c = but_ulb d \<or> but_capu c = but_capu d \<or> but_bastion c = but_bastion d \<Longrightarrow>
   uc_Spec c = uc_Spec d \<and> cst_Ready (uc_Status c) = cst_Ready (uc_Status d)
    \<and> cst_FailureDomains (uc_Status c) = cst_FailureDomains (uc_Status d)"
proof -
  have parts: "uc_Spec (f x) = uc_Spec x \<and> cst_Ready (uc_Status (f x)) = cst_Ready (uc_Status x)
      \<and> cst_FailureDomains (uc_Status (f x)) = cst_FailureDomains (uc_Status x)"
    if "f \<in> {but_group, but_vpc, but_subnet, but_nat, but_ulb, but_capu, but_bastion}" for f x
    using that by (auto simp: but_group_def but_vpc_def but_subnet_def but_nat_def but_ulb_def but_capu_def
        but_bastion_def)
  assume "but_group c = but_group d \<or> but_vpc c = but_vpc d \<or> but_subnet c = but_subnet d \<or> but_nat c = but_nat d
    \<or> but_ulb c = but_ulb d \<or> but_capu c = but_capu d \<or> but_bastion c = but_bastion d"
  then obtain f where "f \<in> {but_group, but_vpc, but_subnet, but_nat, but_ulb, but_capu, but_bastion}" "f c = f d"
    by blast
  then show ?thesis using parts [of f c] parts [of f d] by simp
qed

lemma readiness_steps:
  "keeps (same readiness) (ReconcileUGroup S)" "keeps (same readiness) (ReconcileVPC S)"
  "keeps (same readiness) (ReconcileSubnet S)" "keeps (same readiness) (ReconcileNat S)"
  "keeps (same readiness) (ReconcileULB S)" "keeps (same readiness) (CreateCAPUCluster S)"
  "keeps (same readiness) (CreateBastionInstance S)"
proof (rule_tac [!] keepsI)
  fix s :: "'a st"
  have only: "same readiness s (snd (m s))"
    if "\<And>r t. m s = (r, t) \<Longrightarrow> uc_Spec (ucluster t) = uc_Spec (ucluster s)
        \<and> cst_Ready (uc_Status (ucluster t)) = cst_Ready (uc_Status (ucluster s))
        \<and> cst_FailureDomains (uc_Status (ucluster t)) = cst_FailureDomains (uc_Status (ucluster s))"
    for m :: "('a st, unit) prog"
    using that [of "fst (m s)" "snd (m s)"] by (simp add: same_def readiness_def)
  show "same readiness s (snd (ReconcileUGroup S s))"
    by (rule only, rule but_readiness) (use group_only in blast)
  show "same readiness s (snd (ReconcileVPC S s))"
    by (rule only, rule but_readiness) (use vpc_only in blast)
  show "same readiness s (snd (ReconcileSubnet S s))"
    by (rule only, rule but_readiness) (use subnet_only in blast)
  show "same readiness s (snd (ReconcileNat S s))"
    by (rule only, rule but_readiness) (use nat_only in blast)
  show "same readiness s (snd (ReconcileULB S s))"
    by (rule only, rule but_readiness) (use ulb_only in blast)
  show "same readiness s (snd (CreateCAPUCluster S s))"
    by (rule only, rule but_readiness) (use capu_only in blast)
  show "same readiness s (snd (CreateBastionInstance S s))"
    by (rule only, rule but_readiness) (use bastion_only in blast)
qed

lemma readiness_provision: "keeps (same readiness) (provision S)"
  unfolding provision_def by (intro same.keeps_rules readiness_steps)

lemma ready_ok_reconcile_endpoint:
  assumes "reconcile_endpoint S u = (r, t)" and "ready_ok (ucluster u)"
    and "eip_EIPAddr (ulb_EIP (ulb_of (ucluster u))) \<noteq> ''''"
  shows "ready_ok (ucluster t)"
proof (cases "GetZones (ucluster u)")
  case (Inl e)
  then have "t = set_endpoint u" using assms(1) by (simp add: reconcile_endpoint_run)
  moreover have "map_of RegionZoneMap (Region (ucluster u)) = None"
    using Inl by (simp add: GetZones_def split: option.splits)
  ultimately show ?thesis using assms(2) by (simp add: ready_ok_def)
next
  case (Inr zones)
  note last = prov_last_steps [OF assms(1) Inr]
  have "uc_Spec (ucluster t) = uc_Spec (ucluster (set_endpoint u))"
    using prov_frameD(2) [OF last(1)] by (simp add: made_ready_def)
  moreover have "cst_FailureDomains (uc_Status (ucluster t)) = failure_domains zones"
    using but_capu_bastion_parts [OF last(2)] by (simp add: made_ready_def)
  moreover have "map_of RegionZoneMap (Region (ucluster u)) = Some zones"
    using Inr by (simp add: GetZones_def split: option.splits)
  moreover have "Region (ucluster t) = Region (ucluster u)"
    using calculation(1) by (simp add: Region_def set_endpoint_def)
  ultimately show ?thesis using assms(3) by (simp add: ready_ok_def)
qed

lemma ready_ok_cluster_reconcile:
  assumes run: "cluster_reconcile S s = (r, t)" and "ready_ok (ucluster s)"
  shows "ready_ok (ucluster t)"
proof -
  have a: "readiness (after_patch S s) = readiness s" by (simp add: readiness_def)
  obtain q u where q: "provision S (after_patch S s) = (q, u)" by fastforce
  have "readiness u = readiness s"
    using keepsD [OF readiness_provision q] a by (simp add: same_def)
  then have "ready_ok (ucluster u)" "ready_ok (ucluster (after_patch S s))"
    using assms(2) a ready_ok_same by blast+
  then show ?thesis
    using run q ready_ok_reconcile_endpoint [of S u r t]
    by (auto simp: cluster_reconcile_run split: option.splits result.splits if_splits)
qed

lemma pass_ready_ok:
  assumes "pass S s t" and "ready_ok (ucluster s)"
  shows "ready_ok (ucluster t)"
  using assms(1)
proof (cases rule: pass_cluster)
  case (live cl r)
  then show ?thesis using assms(2) by (rule ready_ok_cluster_reconcile)
next
  case (gone m)
  then have "uc_Spec (ucluster t) = uc_Spec ((ucluster s)\<lparr>uc_Meta := m\<rparr>)
      \<and> cst_Ready (uc_Status (ucluster t)) = cst_Ready (uc_Status ((ucluster s)\<lparr>uc_Meta := m\<rparr>))
      \<and> cst_FailureDomains (uc_Status (ucluster t)) = cst_FailureDomains (uc_Status ((ucluster s)\<lparr>uc_Meta := m\<rparr>))"
    by (intro but_readiness disjI2)
  then have "readiness t = readiness s" by (simp add: readiness_def)
  then show ?thesis using assms(2) ready_ok_same by blast
next
  case kept
  then show ?thesis using assms(2) by (simp add: cluster_part_def ready_ok_def Region_def)
qed

section \<open>Reachable states\<close>

lemma reachable_ids_stable: "rtranclp (pass S) s t \<Longrightarrow> ids_stable (ucluster s) (ucluster t)"
proof (induction rule: rtranclp_induct)
  case base
  show ?case by (rule ids_stable_refl) simp
next
  case (step t u)
  then have "stable s t" "stable t u" by (simp_all add: stable_def pass_ids_stable)
  then show ?case using stable.frame_trans stable_def by blast
qed

lemma reachable_ready_ok: "rtranclp (pass S) s t \<Longrightarrow> ready_ok (ucluster s) \<Longrightarrow> ready_ok (ucluster t)"
  by (induction rule: rtranclp_induct) (auto intro: pass_ready_ok)

section \<open>Passes over a machine\<close>

text \<open>
  The same for the machine object: passes of the machine controller over it, and everything else,
  which may change the cluster and the world.
\<close>

inductive machine_pass :: "'w Service \<Rightarrow> 'w st \<Rightarrow> 'w st \<Rightarrow> bool" for S where
  live: "machine_reconcile S s = (r, t) \<Longrightarrow> machine_pass S s t"
| gone: "machine_reconcileDelete S s = (r, t) \<Longrightarrow> machine_pass S s t"
| elsewhere: "machine_pass S s (s\<lparr>world := w, clock := clock s + d, ucluster := c\<rparr>)"

text \<open>
  The failure reason and the failure message come together, a failed machine is not ready, and a
  ready one has a provider identifier.
\<close>

definition machine_ok :: "UCloudMachine \<Rightarrow> bool" where
  "machine_ok m \<longleftrightarrow>
     (mst_FailureReason (um_Status m) = None) = (mst_FailureMessage (um_Status m) = None)
     \<and> (mst_FailureReason (um_Status m) \<noteq> None \<longrightarrow> \<not> mst_Ready (um_Status m))
     \<and> (mst_Ready (um_Status m) \<longrightarrow> ms_ProviderID (um_Spec m) \<noteq> None)"

definition vitals :: "'w st \<Rightarrow> (bool \<times> string option \<times> error option) \<times> string option" where
  "vitals s = (health s, ms_ProviderID (um_Spec (umachine s)))"

lemma machine_ok_vitals: "vitals t = vitals s \<Longrightarrow> machine_ok (umachine t) = machine_ok (umachine s)"
  by (simp add: machine_ok_def vitals_def health_def)

lemma vitals_keeps:
  "keeps (same vitals) (AddRealServer S h)" "keeps (same vitals) (DelRealServer S h)"
  "keeps (same vitals) (CreateInstance S)" "keeps (same vitals) (InstanceIfExists S)"
  "keeps (same vitals) (DeleteCAPUHost S)" "keeps (same vitals) (TerminateInstanceAndWait S)"
  by (rule obtaining_same [OF AddRealServer_obtaining] obtaining_same [OF DelRealServer_obtaining]
      obtaining_same [OF obtaining_CreateInstance] obtaining_same [OF obtaining_InstanceIfExists]
      obtaining_same [OF DeleteCAPUHost_obtaining] obtaining_same [OF TerminateInstance_obtaining],
      simp add: vitals_def health_def)+

lemma vitals_CreateCAPUHost: "keeps (same vitals) (CreateCAPUHost S)"
proof (rule keepsI)
  fix s :: "'a st"
  obtain r t where st: "CreateCAPUHost S s = (r, t)" by fastforce
  then show "same vitals s (snd (CreateCAPUHost S s))"
    by (rule CreateCAPUHost_cases) (auto simp: st same_def vitals_def health_def)
qed

text \<open>A pass over a live instance leaves its provider identifier and one of three healths.\<close>

lemma reconcile_instance_vitals:
  assumes "reconcile_instance S i s = (r, t)"
  shows "ms_ProviderID (um_Spec (umachine t)) = Some (provider_id (ucluster s) i)
    \<and> (health t = health s \<or> health t = (True, snd (health s))
       \<or> (\<exists>e. health t = (False, Some (UpdateMachineError (lib S)), Some e)))"
proof -
  define u where "u = upd_machine (record_instance S (ucluster s) i) s"
  have u: "vitals u = (health s, Some (provider_id (ucluster s) i))"
    by (simp add: vitals_def health_def u_def record_instance_fields)
  obtain q v where q: "act_on_state S i u = (q, v)" by fastforce
  have "t = v \<or> (\<exists>p. CreateCAPUHost S v = (p, t))"
    using assms q
    by (auto simp: reconcile_instance_def prog_simps bind_def try_else_def u_def [symmetric]
        split: prod.splits result.splits option.splits)
  then have "vitals t = vitals v"
    using keepsD [OF vitals_CreateCAPUHost] by (auto simp: same_def)
  moreover have servers: "AddRealServer S h w = (p, v) \<Longrightarrow> vitals v = vitals w"
      "DelRealServer S h w = (p, v) \<Longrightarrow> vitals v = vitals w" for h w p
    using keepsD [OF vitals_keeps(1)] keepsD [OF vitals_keeps(2)] by (auto simp: same_def)
  have set_vitals: "vitals (upd_machine SetReady u) = ((True, snd (health s)), Some (provider_id (ucluster s) i))"
    "vitals (upd_machine (fail_machine S e) u)
       = ((False, Some (UpdateMachineError (lib S)), Some e), Some (provider_id (ucluster s) i))" for e
    using u by (simp_all add: vitals_def health_def fail_machine_def machine_setters)
  have "vitals v = vitals u \<or> vitals v = vitals (upd_machine SetReady u)
      \<or> (\<exists>e. vitals v = vitals (upd_machine (fail_machine S e) u))"
    using q
    by (auto simp: act_on_state_def log_instance_run bind_def modify_run ret_run
        split: if_splits option.splits prod.splits result.splits dest!: servers)
  ultimately have "vitals t = vitals u \<or> vitals t = vitals (upd_machine SetReady u)
      \<or> (\<exists>e. vitals t = vitals (upd_machine (fail_machine S e) u))" by simp
  then have "vitals t = (health s, Some (provider_id (ucluster s) i))
      \<or> vitals t = ((True, snd (health s)), Some (provider_id (ucluster s) i))
      \<or> (\<exists>e. vitals t = ((False, Some (UpdateMachineError (lib S)), Some e), Some (provider_id (ucluster s) i)))"
    by (simp only: u set_vitals)
  then show ?thesis by (auto simp: vitals_def)
qed

lemma machine_ok_reconcile:
  assumes run: "machine_reconcile S s = (r, t)" and ok: "machine_ok (umachine s)"
  shows "machine_ok (umachine t)"
proof (cases "mst_FailureReason (um_Status (umachine s)) \<noteq> None \<or> mst_FailureMessage (um_Status (umachine s)) \<noteq> None")
  case True
  then have "t = s" using run by (simp add: machine_reconcile_run)
  with ok show ?thesis by simp
next
  case healthy: False
  obtain q u where q: "register_finalizers S s = (q, u)" by fastforce
  have u: "vitals u = vitals s"
    using register_finalizers_sends(1) [OF q] by (simp add: vitals_def health_def)
  obtain p v where p: "find_or_create_instance S u = (p, v)" by fastforce
  have v: "vitals v = vitals u \<or> p \<noteq> Ok (Some i) \<and> machine_ok (umachine v)" for i
  proof (cases "GetInstanceID S (umachine u)")
    case None
    then have "\<exists>a. CreateInstance S u = (a, v)"
      using p by (auto simp: find_or_create_run split: result.splits prod.splits)
    then show ?thesis using keepsD [OF vitals_keeps(3)] by (auto simp: same_def)
  next
    case (Some iid)
    have "machine_ok (fail_machine S gone_error m)" for m
      by (simp add: machine_ok_def fail_machine_def machine_setters)
    with p Some show ?thesis
      by (auto simp: find_or_create_run Let_def vitals_def health_def split: option.splits list.splits)
  qed
  have "machine_ok (umachine w)" if "reconcile_instance S i v = (a, w)" and "vitals v = vitals u" for i a w
  proof -
    have h: "health v = health s" and "snd (health s) = (None, None)"
      using that(2) u healthy by (auto simp: vitals_def health_def)
    with reconcile_instance_vitals [OF that(1)] show ?thesis
      by (auto simp: machine_ok_def health_def)
  qed
  then show ?thesis
    using run q p v ok machine_ok_vitals [OF u] machine_ok_vitals [of v u]
    by (auto simp: machine_reconcile_run healthy split: result.splits option.splits if_splits)
qed

lemma vitals_reconcileDelete: "keeps (same vitals) (machine_reconcileDelete S)"
proof -
  have "keeps (same vitals) (modify (upd_machine_meta f))" "keeps (same vitals) (emit_event e)" for f e
    by (rule keepsI, simp add: prog_simps same_def vitals_def health_def)+
  then show ?thesis
    unfolding machine_reconcileDelete_def remove_instance_def
    by (intro same.keeps_rules vitals_keeps) (auto split: option.split intro!: same.keeps_rules vitals_keeps)
qed

lemma machine_ok_reconcileDelete:
  assumes "machine_reconcileDelete S s = (r, t)" and "machine_ok (umachine s)"
  shows "machine_ok (umachine t)"
  using keepsD [OF vitals_reconcileDelete assms(1)] assms(2) machine_ok_vitals by (auto simp: same_def)

lemma reachable_machine_ok: "rtranclp (machine_pass S) s t \<Longrightarrow> machine_ok (umachine s) \<Longrightarrow> machine_ok (umachine t)"
  by (induction rule: rtranclp_induct)
    (auto elim!: machine_pass.cases intro: machine_ok_reconcile machine_ok_reconcileDelete)

end
