(* ===== verification/Cluster_Properties.thy ===== *)
theory Cluster_Properties
  imports Sample Passes
begin

text \<open>
  What a pass over a live cluster guarantees, and what holds in every state that sequences of
  passes reach. Each property that has hypotheses is followed by a witness that applies it to the
  sample cloud.
\<close>

section \<open>Passes over a live cluster\<close>

lemma failure_domains_zones:
  "failure_domains zones = (\<lambda>z. if z \<in> set zones then Some \<lparr>fd_ControlPlane = True, fd_Attributes = None\<rparr> else None)"
proof -
  have "fold (\<lambda>z m. m(z \<mapsto> \<lparr>fd_ControlPlane = True, fd_Attributes = None\<rparr>)) zones m
      = (\<lambda>z. if z \<in> set zones then Some \<lparr>fd_ControlPlane = True, fd_Attributes = None\<rparr> else m z)" for m :: "string \<rightharpoonup> FailureDomainSpec"
    by (induction zones arbitrary: m) (auto simp: fun_eq_iff)
  then show ?thesis by (simp add: failure_domains_def)
qed

text \<open>The pass over a cluster with nothing left to create.\<close>

lemma settled_pass:
  assumes phase: "phase_of (ucluster s) = Provisioned" and host: "eip_EIPAddr (ulb_EIP (ulb_of (ucluster s))) \<noteq> ''''"
    and zones: "map_of RegionZoneMap (Region (ucluster s)) = Some zones"
    and bastion: "bas_SSHPassword (cs_Bastion (uc_Spec (ucluster s))) = '''' \<or> cst_Bastion (uc_Status (ucluster s)) \<noteq> None"
    and patch: "\<And>c w. rp_err (fst (kube_PatchCluster (kube S) c w)) = None"
  shows "cluster_reconcile S s = (Ok no_requeue, made_ready zones (after_patch S s))"
proof -
  define u where "u = after_patch S s"
  have "provision S u = (Ok (), u)"
    by (rule provision_settled) (simp add: u_def phase less_eq_phase_def)
  moreover have "eip_EIPAddr (ulb_EIP (ulb_of (ucluster u))) \<noteq> ''''"
    using host by (simp add: u_def ulb_of_def network_def)
  moreover have "GetZones (ucluster u) = Inr zones"
    using zones by (simp add: u_def GetZones_def Region_def)
  moreover have "CreateBastionInstance S (made_ready zones u) = (Ok (), made_ready zones u)"
    using bastion by (auto simp: CreateBastionInstance_def prog_simps made_ready_def set_endpoint_def u_def)
  moreover have "CreateCAPUCluster S (made_ready zones u) = (Ok (), made_ready zones u)"
    using phase by (intro capu.done_skip) (simp add: made_ready_def u_def phase_of_def split: if_splits)
  ultimately show ?thesis
    using patch by (simp add: cluster_reconcile_run patch_error_def reconcile_endpoint_run flip: u_def)
qed

lemma made_ready_keeps:
  "network (ucluster (made_ready zones s)) = network (ucluster s)"
  "cst_Bastion (uc_Status (ucluster (made_ready zones s))) = cst_Bastion (uc_Status (ucluster s))"
  "phase_of (ucluster (made_ready zones s)) = phase_of (ucluster s)"
  "calls (made_ready zones s) = calls s"
  by (simp_all add: made_ready_def phase_of_def status_parts)

text \<open>A settled cluster of the sample cloud.\<close>

definition settled :: "nat st" where
  "settled = upd_status (\<lambda>x. x\<lparr>cst_Group := \<lparr>grp_GroupName = ''capu-sha'', grp_GroupId = ''group-1''\<rparr>,
     cst_ClusterId := ''uk8s-1'', cst_Network := (cst_Network x)\<lparr>
       nw_VPC := zero_VPC\<lparr>vpc_VpcId := ''uvnet-1''\<rparr>, nw_Subnet := zero_Subnet\<lparr>sub_SubnetId := ''subnet-1''\<rparr>,
       nw_Nat := zero_Nat\<lparr>nat_NatGatewayId := ''natgw-1''\<rparr>,
       nw_ULB := zero_ULB\<lparr>ulb_LoadBalancerId := ''ulb-1'', ulb_EIP := zero_EIP\<lparr>eip_EIPAddr := ''1.2.3.4''\<rparr>\<rparr>\<rparr>\<rparr>) start"

lemma settled_calls: "calls settled = []"
  by (simp add: settled_def start_def)

lemma settled_facts:
  "phase_of (ucluster settled) = Provisioned" "eip_EIPAddr (ulb_EIP (ulb_of (ucluster settled))) \<noteq> ''''"
  "map_of RegionZoneMap (Region (ucluster settled))
     = Some [''cn-bj2-02'', ''cn-bj2-03'', ''cn-bj2-04'', ''cn-bj2-05'']"
  "bas_SSHPassword (cs_Bastion (uc_Spec (ucluster settled))) = '''' \<or> cst_Bastion (uc_Status (ucluster settled)) \<noteq> None"
  "rp_err (fst (kube_PatchCluster (kube sample) c w)) = None"
  by (simp_all add: settled_def phase_of_def status_parts start_def sample_cluster_def zero_defs Region_def
      region_zones_bj2)

text \<open>C4: the first request of a pass persists the cluster with its finalizer, before anything is
  created; if that request fails, nothing else is sent and its error is returned. What follows are
  provisioning requests only, and the pass writes neither the metadata again nor the machine.\<close>

theorem cluster_finalizer_first:
  assumes adds: "\<And>fs. ClusterFinalizer \<in> set (lib_AddFinalizer (lib S) ClusterFinalizer fs)"
  shows "let (r, t) = cluster_reconcile S s in \<exists>c cs.
      calls t = calls s @ CallPatchCluster c # cs \<and> list_all provisioning cs
      \<and> ClusterFinalizer \<in> set (om_Finalizers (uc_Meta c))
      \<and> uc_Spec c = uc_Spec (ucluster s) \<and> uc_Status c = uc_Status (ucluster s)
      \<and> uc_Meta (ucluster t) = uc_Meta c \<and> umachine t = umachine s
      \<and> (case rp_err (fst (kube_PatchCluster (kube S) c (world s))) of
           Some e \<Rightarrow> r = Err e \<and> cs = [] | None \<Rightarrow> True)"
proof -
  define c where "c = finalized S (ucluster s)"
  obtain r t where run: "cluster_reconcile S s = (r, t)" by fastforce
  obtain q u where q: "provision S (after_patch S s) = (q, u)" by fastforce
  obtain q' v where q': "reconcile_endpoint S u = (q', v)" by fastforce
  have pu: "prov_frame (after_patch S s) u" using prov_provision q by (rule keepsD)
  have "t = after_patch S s \<or> t = u \<or> t = v"
    using run q q' by (auto simp: cluster_reconcile_run split: option.splits result.splits if_splits)
  moreover have v: "uc_Meta (ucluster v) = uc_Meta (ucluster u) \<and> umachine v = umachine u
      \<and> (\<exists>cs. calls v = calls u @ cs \<and> list_all provisioning cs)"
  proof (cases "GetZones (ucluster u)")
    case (Inl e)
    then show ?thesis using q' by (auto simp: reconcile_endpoint_run)
  next
    case (Inr zones)
    from prov_frameD [OF prov_last_steps(1) [OF q' this]] show ?thesis by (simp add: made_ready_def)
  qed
  ultimately obtain cs where "uc_Meta (ucluster t) = uc_Meta c" "umachine t = umachine s"
    and cs: "calls t = calls s @ CallPatchCluster c # cs" "list_all provisioning cs"
    using prov_frameD [OF pu] by (auto simp: c_def)
  moreover have "r = Err e \<and> cs = []"
    if "rp_err (fst (kube_PatchCluster (kube S) c (world s))) = Some e" for e
    using that run cs by (auto simp: cluster_reconcile_run patch_error_def c_def)
  moreover have "ClusterFinalizer \<in> set (om_Finalizers (uc_Meta c))"
    using adds by (simp add: c_def finalized_def add_finalizer_def)
  moreover have "uc_Spec c = uc_Spec (ucluster s) \<and> uc_Status c = uc_Status (ucluster s)"
    by (simp add: c_def)
  ultimately show ?thesis
    unfolding run Let_def prod.case
    by (intro exI [of _ c] exI [of _ cs]) (simp split: option.split)
qed

theorem cluster_finalizer_first_witness:
  "\<exists>c cs. calls (snd (cluster_reconcile sample start)) = CallPatchCluster c # cs
     \<and> om_Finalizers (uc_Meta c) \<noteq> []"
proof -
  have "ClusterFinalizer \<in> set (lib_AddFinalizer (lib sample) ClusterFinalizer fs)" for fs
    by (simp add: add_once_def)
  from cluster_finalizer_first [OF this, where s = start]
  show ?thesis by (fastforce simp: start_def split: prod.splits)
qed

text \<open>C16: a pass that ends with nothing left to do has made the cluster ready: the endpoint is the
  recorded address of the load balancer, which is not empty, with port 6443, and the failure domains
  are exactly the zones of the region, all of them for the control plane.\<close>

theorem cluster_reconcile_ready:
  assumes run: "cluster_reconcile S s = (Ok no_requeue, t)"
  shows "let c = ucluster t; ep = cs_ControlPlaneEndpoint (uc_Spec c) in
    cst_Ready (uc_Status c) \<and> ep_Host ep = eip_EIPAddr (ulb_EIP (ulb_of c)) \<and> ep_Host ep \<noteq> ''''
    \<and> ep_Port ep = 6443
    \<and> (\<exists>zones. map_of RegionZoneMap (Region c) = Some zones
        \<and> cst_FailureDomains (uc_Status c) = (\<lambda>z. if z \<in> set zones then Some \<lparr>fd_ControlPlane = True, fd_Attributes = None\<rparr> else None))"
proof -
  obtain u where u: "reconcile_endpoint S u = (Ok no_requeue, t)"
    and host: "eip_EIPAddr (ulb_EIP (ulb_of (ucluster u))) \<noteq> ''''"
    using run by (auto simp: cluster_reconcile_run no_requeue_def requeue_seconds_def
        split: option.splits prod.splits result.splits if_splits)
  from u obtain zones where zones: "GetZones (ucluster u) = Inr zones"
    by (auto simp: reconcile_endpoint_run split: sum.splits)
  note last = prov_last_steps [OF u zones]
  have spec: "uc_Spec (ucluster t) = uc_Spec (ucluster (set_endpoint u))"
    using prov_frameD(2) [OF last(1)] by (simp add: made_ready_def)
  have status: "network (ucluster t) = network (ucluster u)" "cst_Ready (uc_Status (ucluster t))"
    "cst_FailureDomains (uc_Status (ucluster t)) = failure_domains zones"
    using but_capu_bastion_parts [OF last(2)] by (simp_all add: made_ready_def network_def)
  have "map_of RegionZoneMap (Region (ucluster t)) = Some zones"
    using zones spec by (auto simp: GetZones_def Region_def set_endpoint_def split: option.splits)
  moreover have "failure_domains zones = (\<lambda>z. if z \<in> set zones then Some \<lparr>fd_ControlPlane = True, fd_Attributes = None\<rparr> else None)"
    by (rule failure_domains_zones)
  ultimately show ?thesis
    using host status by (simp add: Let_def spec ulb_of_def)
qed

theorem cluster_reconcile_ready_witness:
  "let t = snd (cluster_reconcile sample settled) in
     cst_Ready (uc_Status (ucluster t)) \<and> ep_Port (cs_ControlPlaneEndpoint (uc_Spec (ucluster t))) = 6443"
proof -
  have "cluster_reconcile sample settled = (Ok no_requeue, snd (cluster_reconcile sample settled))"
    using settled_pass [OF settled_facts] by simp
  from cluster_reconcile_ready [OF this] show ?thesis by (simp add: Let_def)
qed

text \<open>A pass over a cluster that is provisioned, needs no bastion and has an address sends nothing
  but the patch, ends with nothing left to do, and keeps every recorded part of the network: passes
  are idempotent.\<close>

theorem settled_cluster_sends_patch_only:
  assumes "phase_of (ucluster s) = Provisioned" and "eip_EIPAddr (ulb_EIP (ulb_of (ucluster s))) \<noteq> ''''"
    and "map_of RegionZoneMap (Region (ucluster s)) = Some zones"
    and "bas_SSHPassword (cs_Bastion (uc_Spec (ucluster s))) = '''' \<or> cst_Bastion (uc_Status (ucluster s)) \<noteq> None"
    and "\<And>c w. rp_err (fst (kube_PatchCluster (kube S) c w)) = None"
  shows "let (r, t) = cluster_reconcile S s in r = Ok no_requeue
    \<and> (\<exists>c. calls t = calls s @ [CallPatchCluster c]) \<and> network (ucluster t) = network (ucluster s)
    \<and> cst_Bastion (uc_Status (ucluster t)) = cst_Bastion (uc_Status (ucluster s))
    \<and> phase_of (ucluster t) = Provisioned"
  using assms(1) made_ready_keeps [of zones "after_patch S s"] by (simp add: settled_pass [OF assms] network_def)

theorem settled_cluster_sends_patch_only_witness:
  "\<exists>c. calls (snd (cluster_reconcile sample settled)) = [CallPatchCluster c]"
  using settled_cluster_sends_patch_only [OF settled_facts] by (auto simp: settled_calls split: prod.splits)

section \<open>Sequences of passes\<close>

lemma settled_pass_step: "pass sample settled (snd (cluster_reconcile sample settled))"
proof -
  have "cluster_reconcile (sample\<lparr>sv_Cluster := sv_Cluster sample\<rparr>) settled
      = (fst (cluster_reconcile sample settled), snd (cluster_reconcile sample settled))"
    by (simp del: sample_fields)
  then show ?thesis
    by (rule pass.live_cluster)
qed



text \<open>C15: in every state reachable from one where the cluster is not ready yet, a cluster that is
  ready has a control plane endpoint with a host and port 6443, and its failure domains are those of
  a region the provider knows.\<close>

theorem ready_cluster_has_endpoint:
  assumes "rtranclp (pass S) s t" and "\<not> cst_Ready (uc_Status (ucluster s))" and "cst_Ready (uc_Status (ucluster t))"
  shows "ep_Host (cs_ControlPlaneEndpoint (uc_Spec (ucluster t))) \<noteq> ''''
    \<and> ep_Port (cs_ControlPlaneEndpoint (uc_Spec (ucluster t))) = 6443
    \<and> (\<exists>zones. map_of RegionZoneMap (Region (ucluster t)) = Some zones
         \<and> dom (cst_FailureDomains (uc_Status (ucluster t))) = set zones)"
proof -
  have "ready_ok (ucluster s)" using assms(2) by (simp add: ready_ok_def)
  with assms(1) have "ready_ok (ucluster t)" by (rule reachable_ready_ok)
  with assms(3) show ?thesis
    by (auto simp: ready_ok_def failure_domains_zones dom_def)
qed

theorem ready_cluster_has_endpoint_witness:
  "ep_Host (cs_ControlPlaneEndpoint (uc_Spec (ucluster (snd (cluster_reconcile sample settled))))) \<noteq> ''''"
proof -
  have "rtranclp (pass sample) settled (snd (cluster_reconcile sample settled))"
    by (intro r_into_rtranclp settled_pass_step)
  moreover have "\<not> cst_Ready (uc_Status (ucluster settled))"
    by (simp add: settled_def start_def sample_cluster_def zero_defs)
  moreover have "cst_Ready (uc_Status (ucluster (snd (cluster_reconcile sample settled))))"
    by (simp add: settled_pass [OF settled_facts] made_ready_def)
  ultimately show ?thesis using ready_cluster_has_endpoint by blast
qed

end
