(* ===== verification/Deletion_Properties.thy ===== *)
theory Deletion_Properties
  imports Sample Passes
begin

text \<open>
  How a deleted cluster is torn down: the loop that waits for its machines, the order of the
  deletions and what they spare, and when the finalizer of the cluster goes.
\<close>

section \<open>A sample deletion\<close>

text \<open>A deleted cluster of the sample cloud, with a machine finalizer left.\<close>

definition deleting :: "nat st" where
  "deleting = upd_cluster_meta (om_Finalizers_update (\<lambda>_. [ClusterFinalizer, ''m1.ucloudmachine'']))
     (upd_status (\<lambda>x. x\<lparr>cst_ClusterId := ''uk8s-1'', cst_Network := (cst_Network x)\<lparr>
       nw_VPC := zero_VPC\<lparr>vpc_VpcId := ''uvnet-1''\<rparr>, nw_Subnet := zero_Subnet\<lparr>sub_SubnetId := ''subnet-1''\<rparr>\<rparr>\<rparr>) start)"

lemma deleting_fields:
  "om_Finalizers (uc_Meta (ucluster deleting)) = [ClusterFinalizer, ''m1.ucloudmachine'']"
  "calls deleting = []" "cst_Bastion (uc_Status (ucluster deleting)) = None"
  by (simp_all add: deleting_def start_def sample_cluster_def zero_defs)

lemma deleting_loop:
  "machines_remain sample (Suc (Suc 0)) [ClusterFinalizer, ''m1.ucloudmachine''] True deleting
     = (Ok False, upd_cluster_meta (om_Finalizers_update (\<lambda>_. [ClusterFinalizer]))
          (sent (CallGetMachine ''default'' ''m1'') 1 (world deleting) deleting))"
proof -
  have a: "\<not> HasSuffix ClusterFinalizer machine_suffix" by (rule ClusterFinalizer_no_suffix)
  have b: "HasSuffix ''m1.ucloudmachine'' machine_suffix" by (simp add: HasSuffix_def machine_suffix_def)
  have c: "scope_Namespace sample = ''default''" by (simp add: scope_Namespace_def)
  have d: "remove_in_place ''m1.ucloudmachine'' [ClusterFinalizer, ''m1.ucloudmachine'']
      = ([ClusterFinalizer], Some [ClusterFinalizer, ''m1.ucloudmachine''])"
    by (simp add: remove_in_place_def ClusterFinalizer_def)
  show ?thesis
    by (simp add: Let_def a b c d prog_simps deleting_fields)
qed

lemma deleting_lookups:
  "looked_up [ClusterFinalizer, ''m1.ucloudmachine''] = [''m1.ucloudmachine'']"
  "lookup sample ''m1.ucloudmachine'' = CallGetMachine ''default'' ''m1''"
proof -
  have "HasSuffix ''m1.ucloudmachine'' machine_suffix" by (simp add: HasSuffix_def machine_suffix_def)
  then show "looked_up [ClusterFinalizer, ''m1.ucloudmachine''] = [''m1.ucloudmachine'']"
    by (simp add: looked_up_def ClusterFinalizer_no_suffix)
qed (simp add: lookup_def scope_Namespace_def)

lemma deleting_resources:
  assumes "uc_Spec (ucluster u) = uc_Spec (ucluster deleting)"
    and "uc_Status (ucluster u) = uc_Status (ucluster deleting)"
  shows "\<exists>t. delete_resources sample u = (Ok (), t)"
proof -
  have "cst_Bastion (uc_Status (ucluster u)) = None" "cst_ClusterId (uc_Status (ucluster u)) = ''uk8s-1''"
    "ulb_LoadBalancerId (ulb_of (ucluster u)) = ''''" "nat_NatGatewayId (nat_of (ucluster u)) = ''''"
    "grp_GroupId (group_of (ucluster u)) = ''''" "subs_SubnetId (scope_Subnet (ucluster u)) = ''''"
    "vpcs_VpcId (vpc_spec (ucluster u)) = ''''"
    "sub_SubnetId (subnet_of (ucluster u)) = ''subnet-1''" "vpc_VpcId (vpc_of (ucluster u)) = ''uvnet-1''"
    using assms
    by (simp_all add: status_parts scope_Subnet_def vpc_spec_def deleting_def start_def sample_cluster_def zero_defs)
  then show ?thesis
    by (simp add: delete_resources_def try_else_def prog_simps bind_def TerminateBastion_def DeleteULB_def
        DeleteNat_def CleanResourceInGroup_def DeleteSubnet_def DeleteVPC_def DeleteGroup_def DeleteCAPUCluster_def
        Let_def zero_ResponseBase_def)
qed

lemma deleting_run: "\<exists>t. cluster_reconcileDelete sample deleting = (Ok no_requeue, t)"
proof -
  define u where "u = upd_cluster_meta (om_Finalizers_update (\<lambda>_. [ClusterFinalizer]))
      (sent (CallGetMachine ''default'' ''m1'') 1 (world deleting) deleting)"
  obtain v where "delete_resources sample u = (Ok (), v)"
    using deleting_resources [of u] by (auto simp: u_def)
  then show ?thesis
    unfolding u_def
    by (simp add: cluster_reconcileDelete_run deleting_fields deleting_loop del: machines_remain.simps)
qed

section \<open>Deleting a cluster\<close>

lemma deletion_sequence_parts:
  assumes "uc_Spec c = uc_Spec d" and "uc_Status c = uc_Status d"
  shows "deletion_sequence c = deletion_sequence d" and "clean_sends c = clean_sends d"
    and "uhost_del_sends c = uhost_del_sends d" and "deletes_owned c = deletes_owned d"
proof -
  have reqs: "delete_ulb_req c = delete_ulb_req d" "delete_nat_req c = delete_nat_req d"
    "delete_subnet_req c = delete_subnet_req d" "delete_vpc_req c = delete_vpc_req d"
    "delete_group_req c = delete_group_req d" "delete_capu_req c = delete_capu_req d"
    "search_group_req c = search_group_req d" "ulb_of c = ulb_of d" "group_of c = group_of d"
    "ulb_owned c = ulb_owned d" "nat_owned c = nat_owned d" "subnet_owned c = subnet_owned d"
    "vpc_owned c = vpc_owned d" "ProjectId c = ProjectId d"
    using assms
    by (simp_all add: fun_eq_iff delete_ulb_req_def delete_nat_req_def delete_subnet_req_def delete_vpc_req_def
        delete_group_req_def delete_capu_req_def search_group_req_def ulb_owned_def nat_owned_def
        subnet_owned_def vpc_owned_def ulb_spec_def natgw_spec_def nat_spec_def scope_Subnet_def vpc_spec_def
        status_parts Region_def ProjectId_def)
  show hosts: "uhost_del_sends c = uhost_del_sends d"
    using assms by (simp add: fun_eq_iff uhost_del_sends_def describe_instance_req_def poweroff_req_def
        terminate_req_def Region_def ProjectId_def GroupName_def)
  show "deletion_sequence c = deletion_sequence d"
    using reqs assms by (simp add: fun_eq_iff deletion_sequence_def balancer_and_gateway_def)
  show "clean_sends c = clean_sends d"
    using reqs hosts by (simp add: fun_eq_iff clean_sends_def)
  show "deletes_owned c = deletes_owned d"
  proof
    fix x
    show "deletes_owned c x = deletes_owned d x" using reqs assms by (cases x) simp_all
  qed
qed

lemma deletion_trace_cong:
  assumes "uc_Spec c = uc_Spec d" and "uc_Status c = uc_Status d"
  shows "deletion_trace S c = deletion_trace S d"
proof -
  have parts: "Region c = Region d" "ProjectId c = ProjectId d" "GroupName c = GroupName d" "group_of c = group_of d"
    using assms by (simp_all add: Region_def ProjectId_def GroupName_def group_of_def)
  note traces = cleaning_trace_cong [OF parts] termination_trace_cong [OF parts(1-3)]
  have "bastion_trace S c = bastion_trace S d"
    using assms by (intro ext) (simp add: bastion_trace_def traces(2) split: option.split)
  moreover have "balancer_and_gateway c = balancer_and_gateway d"
    using assms by (simp add: balancer_and_gateway_def ulb_owned_def nat_owned_def delete_ulb_req_def delete_nat_req_def
        ulb_spec_def natgw_spec_def nat_spec_def status_parts Region_def ProjectId_def)
  ultimately show ?thesis
    by (intro ext) (simp add: deletion_trace_def traces(1) deletion_sequence_parts(1) [OF assms])
qed

lemma cluster_deletion_parts:
  assumes "cluster_reconcileDelete S s = (Ok no_requeue, t)"
  obtains u v where "machines_remain S (length (om_Finalizers (uc_Meta (ucluster s)))) (om_Finalizers (uc_Meta (ucluster s)))
      True s = (Ok False, u)"
    and "delete_resources S u = (Ok (), v)" and "t = upd_cluster_meta (remove_finalizer S ClusterFinalizer) v"
  using assms
  by (auto simp: cluster_reconcileDelete_run no_requeue_def requeue_seconds_def
      split: prod.splits result.splits if_splits)

lemma deletion_pass_trace:
  assumes lib: "lib_RemoveFinalizer (lib S) = remove_in_place" and dist: "distinct (om_Finalizers (uc_Meta (ucluster s)))"
    and run: "cluster_reconcileDelete S s = (Ok no_requeue, t)"
  shows "let lookups = map (lookup S) (looked_up (om_Finalizers (uc_Meta (ucluster s)))) in
    \<exists>cs. calls t = calls s @ lookups @ cs \<and> deletion_trace S (ucluster s) (after_calls S lookups (world s)) cs"
proof -
  obtain u v where loop: "machines_remain S (length (om_Finalizers (uc_Meta (ucluster s))))
      (om_Finalizers (uc_Meta (ucluster s))) True s = (Ok False, u)"
    and del: "delete_resources S u = (Ok (), v)" and t: "t = upd_cluster_meta (remove_finalizer S ClusterFinalizer) v"
    using run by (rule cluster_deletion_parts)
  define lookups where "lookups = map (lookup S) (looked_up (om_Finalizers (uc_Meta (ucluster s))))"
  have u: "calls u = calls s @ lookups"
    using machines_remain_looked_up [OF lib refl dist loop] by (simp add: lookups_def)
  have w: "world u = after_calls S lookups (world s)"
    using replayed_machines_remain loop u by (rule replayed_run)
  have same: "uc_Spec (ucluster u) = uc_Spec (ucluster s)" "uc_Status (ucluster u) = uc_Status (ucluster s)"
    using machines_remain_frame [OF loop] by simp_all
  obtain cs where "calls v = calls u @ cs" "deletion_trace S (ucluster u) (world u) cs"
    using del by (rule delete_resources_Ok)
  then show ?thesis
    using u by (auto simp: t w deletion_trace_cong [OF same] Let_def simp flip: lookups_def)
qed



text \<open>However a deletion pass ends, it sends nothing about the subnet after the VPC, nothing about
  the VPC after the group, and nothing about the group after the UK8S cluster; instances, load
  balancers and the gateway go before all of them.\<close>

theorem cluster_deletion_sorted:
  "let (r, t) = cluster_reconcileDelete S s in
     \<exists>cs. calls t = calls s @ cs \<and> sorted (map deletion_rank cs)"
proof -
  obtain r t where run: "cluster_reconcileDelete S s = (r, t)" by fastforce
  obtain q u where loop: "machines_remain S (length (om_Finalizers (uc_Meta (ucluster s))))
      (om_Finalizers (uc_Meta (ucluster s))) True s = (q, u)" by fastforce
  obtain p v where del: "delete_resources S u = (p, v)" by fastforce
  from machines_remain_frame [OF loop] obtain ls where ls: "calls u = calls s @ ls" "list_all get_machine_call ls"
    by blast
  have rank: "deletion_rank x = 0" if "get_machine_call x" for x
    using that by (cases x rule: get_machine_call.cases) simp_all
  then have "\<forall>x\<in>set ls. deletion_rank x = 0" using ls(2) by (simp add: list_all_iff)
  then have zero: "map deletion_rank ls = replicate (length ls) 0" by (induction ls) simp_all
  obtain cs where cs: "calls v = calls u @ cs" "sorted (map deletion_rank cs)"
    by (rule stagedD [OF staged_delete_resources del])
  have "calls t = calls u \<or> calls t = calls v"
    using run loop del by (auto simp: cluster_reconcileDelete_run split: result.splits if_splits)
  moreover have "sorted (map deletion_rank (ls @ cs))"
    using cs(2) by (simp add: zero sorted_append)
  moreover have "sorted (map deletion_rank ls)" by (simp add: zero)
  ultimately show ?thesis
    using ls(1) cs(1) by (auto simp: run)
qed

text \<open>C17: however a deletion pass ends, it never deletes a VPC, a subnet or a NAT gateway that the
  specification names: what it deletes of these is what the status records and the specification
  does not.\<close>

theorem cluster_deletion_spares_given:
  "let (r, t) = cluster_reconcileDelete S s; c = ucluster s in
     \<exists>cs. calls t = calls s @ cs \<and> list_all (\<lambda>x. case x of
         CallDeleteVPC q \<Rightarrow> delvpc_VPCId q = vpc_VpcId (vpc_of c) \<and> vpcs_VpcId (vpc_spec c) \<noteq> delvpc_VPCId q
       | CallDeleteSubnet q \<Rightarrow> delsub_SubnetId q = sub_SubnetId (subnet_of c) \<and> subs_SubnetId (scope_Subnet c) \<noteq> delsub_SubnetId q
       | CallDeleteNATGW q \<Rightarrow> delnat_NATGWId q = nat_NatGatewayId (nat_of c)
           \<and> ngs_NatGatewayId (natgw_spec c) \<noteq> delnat_NATGWId q
       | _ \<Rightarrow> True) cs"
proof -
  obtain r t where run: "cluster_reconcileDelete S s = (r, t)" by fastforce
  obtain q u where loop: "machines_remain S (length (om_Finalizers (uc_Meta (ucluster s))))
      (om_Finalizers (uc_Meta (ucluster s))) True s = (q, u)" by fastforce
  obtain p v where del: "delete_resources S u = (p, v)" by fastforce
  from machines_remain_frame [OF loop] obtain ls where u: "uc_Spec (ucluster u) = uc_Spec (ucluster s)"
    "uc_Status (ucluster u) = uc_Status (ucluster s)" and ls: "calls u = calls s @ ls" "list_all get_machine_call ls"
    by blast
  from delete_resources_sends [OF del] obtain cs where cs: "calls v = calls u @ cs"
    "list_all (deletes_owned (ucluster s)) cs"
    by (auto simp: deletion_sequence_parts(4) [OF u])
  have "calls t = calls u \<or> calls t = calls v"
    using run loop del by (auto simp: cluster_reconcileDelete_run split: result.splits if_splits)
  then obtain ds where "calls t = calls s @ ds"
    "list_all (\<lambda>x. get_machine_call x \<or> deletes_owned (ucluster s) x) ds"
  proof
    assume "calls t = calls u"
    with ls show ?thesis by (intro that [of ls]) (auto simp: list_all_iff)
  next
    assume "calls t = calls v"
    with ls cs show ?thesis by (intro that [of "ls @ cs"]) (auto simp: list_all_iff)
  qed
  moreover have "case x of
         CallDeleteVPC q \<Rightarrow> delvpc_VPCId q = vpc_VpcId (vpc_of c) \<and> vpcs_VpcId (vpc_spec c) \<noteq> delvpc_VPCId q
       | CallDeleteSubnet q \<Rightarrow> delsub_SubnetId q = sub_SubnetId (subnet_of c) \<and> subs_SubnetId (scope_Subnet c) \<noteq> delsub_SubnetId q
       | CallDeleteNATGW q \<Rightarrow> delnat_NATGWId q = nat_NatGatewayId (nat_of c)
           \<and> ngs_NatGatewayId (natgw_spec c) \<noteq> delnat_NATGWId q
       | _ \<Rightarrow> True" if "get_machine_call x \<or> deletes_owned c x" for x c
    using that by (cases x) (auto simp: vpc_owned_def subnet_owned_def nat_owned_def delete_vpc_req_def
        delete_subnet_req_def delete_nat_req_def)
  ultimately show ?thesis
    unfolding run Let_def prod.case by (intro exI [of _ ds]) (auto simp: list_all_iff)
qed

section \<open>The finalizer and the machines\<close>

text \<open>C24: the finalizer of a deleted cluster stays until a pass has nothing left to do: after an error,
  a panic or a wait it is still there, and the object with it.\<close>

theorem cluster_finalizer_kept:
  assumes lib: "removes_only S" and fin: "ClusterFinalizer \<in> set (om_Finalizers (uc_Meta (ucluster s)))"
  shows "let (r, t) = cluster_reconcileDelete S s in
    r = Ok no_requeue \<or> ClusterFinalizer \<in> set (om_Finalizers (uc_Meta (ucluster t)))"
proof -
  obtain r t where run: "cluster_reconcileDelete S s = (r, t)" by fastforce
  obtain q u where loop: "machines_remain S (length (om_Finalizers (uc_Meta (ucluster s))))
      (om_Finalizers (uc_Meta (ucluster s))) True s = (q, u)" by fastforce
  obtain p v where del: "delete_resources S u = (p, v)" by fastforce
  have u: "ClusterFinalizer \<in> set (om_Finalizers (uc_Meta (ucluster u)))"
    using loop lib _ fin by (rule machines_remain_keeps) (simp add: ClusterFinalizer_no_suffix)
  moreover have "uc_Meta (ucluster v) = uc_Meta (ucluster u)"
    using delete_resources_sends [OF del] but_bastion_parts(1) by blast
  ultimately show ?thesis
    using run loop del by (auto simp: cluster_reconcileDelete_run split: result.splits if_splits)
qed

theorem cluster_finalizer_kept_witness:
  "let (r, t) = cluster_reconcileDelete sample deleting in
     r = Ok no_requeue \<or> ClusterFinalizer \<in> set (om_Finalizers (uc_Meta (ucluster t)))"
proof -
  have "removes_only sample" by (rule removes_only_in_place) simp
  then show ?thesis by (rule cluster_finalizer_kept) (simp add: deleting_fields)
qed

text \<open>C13: with finalizers removed in place, as the library does it, a deletion of a cluster without double
  finalizers that ends with nothing left to do has begun with the lookups of the finalizers that the
  loop visits, and each answer, in the world
  that the calls before have led to, said that there is no such machine. The loop visits all machine
  finalizers if there are at most two, behind the others; C28 shows how it skips one of three.\<close>

theorem cluster_deletion_waits:
  assumes lib: "lib_RemoveFinalizer (lib S) = remove_in_place" and dist: "distinct (om_Finalizers (uc_Meta (ucluster s)))"
    and run: "cluster_reconcileDelete S s = (Ok no_requeue, t)"
  shows "let fs = om_Finalizers (uc_Meta (ucluster s)) in
    (\<exists>cs. calls t = calls s @ map (lookup S) (looked_up fs) @ cs) \<and> all_absent S (looked_up fs) (world s)
    \<and> (\<forall>others ms. fs = others @ ms \<and> (\<forall>f\<in>set others. \<not> HasSuffix f ''.ucloudmachine'')
        \<and> (\<forall>f\<in>set ms. HasSuffix f ''.ucloudmachine'') \<and> length ms \<le> 2 \<longrightarrow> looked_up fs = ms)"
proof -
  obtain u v where loop: "machines_remain S (length (om_Finalizers (uc_Meta (ucluster s))))
      (om_Finalizers (uc_Meta (ucluster s))) True s = (Ok False, u)"
    and del: "delete_resources S u = (Ok (), v)" and t: "t = upd_cluster_meta (remove_finalizer S ClusterFinalizer) v"
    using run by (rule cluster_deletion_parts)
  obtain cs where "calls v = calls u @ cs"
    using del by (rule delete_resources_Ok)
  then show ?thesis
    using machines_remain_looked_up [OF lib refl dist loop] looked_up_two
    by (simp add: t Let_def machine_suffix_def)
qed

theorem cluster_deletion_waits_witness:
  "\<exists>cs. calls (snd (cluster_reconcileDelete sample deleting)) = CallGetMachine ''default'' ''m1'' # cs"
proof -
  obtain t where t: "cluster_reconcileDelete sample deleting = (Ok no_requeue, t)" using deleting_run by blast
  have "lib_RemoveFinalizer (lib sample) = remove_in_place" and "distinct (om_Finalizers (uc_Meta (ucluster deleting)))"
    by (simp_all add: deleting_fields ClusterFinalizer_def)
  from cluster_deletion_waits [OF this t] show ?thesis
    by (simp add: deleting_fields deleting_lookups Let_def t)
qed

text \<open>C28: if removing a finalizer works in place, the loop skips machines: of three machine finalizers
  behind the one of the cluster the second is never looked up and the third twice, so the deletion
  goes on although the second machine may still be there.\<close>

theorem machines_remain_skips:
  assumes lib: "lib_RemoveFinalizer (lib S) = remove_in_place"
    and fins: "om_Finalizers (uc_Meta (ucluster s)) = [ClusterFinalizer, f1, f2, f3]"
    and suffixes: "HasSuffix f1 machine_suffix" "HasSuffix f3 machine_suffix" "f1 \<noteq> f2" "f3 \<noteq> f2"
    and absent: "\<And>f w. f \<in> {f1, f3} \<Longrightarrow> IsNotFound (rp_err (fst (kube_GetUCloudMachine (kube S)
        (scope_Namespace S, Split f (CHR ''.'') ! 0) w)))"
  shows "let get = (\<lambda>f. CallGetMachine (scope_Namespace S) (Split f (CHR ''.'') ! 0));
      (r, t) = machines_remain S 4 (om_Finalizers (uc_Meta (ucluster s))) True s in
    r = Ok False \<and> calls t = calls s @ [get f1, get f3, get f3]
    \<and> om_Finalizers (uc_Meta (ucluster t)) = [ClusterFinalizer, f2]"
proof -
  have diff: "ClusterFinalizer \<noteq> f1" "ClusterFinalizer \<noteq> f3"
    using suffixes ClusterFinalizer_no_suffix by auto
  have first: "remove_in_place f1 [ClusterFinalizer, f1, f2, f3]
      = ([ClusterFinalizer, f2, f3], Some [ClusterFinalizer, f2, f3, f3])"
    using diff by (simp add: remove_in_place_def)
  have second: "remove_in_place f3 [ClusterFinalizer, f2, f3]
      = ([ClusterFinalizer, f2], Some [ClusterFinalizer, f2, f3])"
    using diff suffixes by (simp add: remove_in_place_def)
  have third: "remove_in_place f3 [ClusterFinalizer, f2] = ([ClusterFinalizer, f2], Some [ClusterFinalizer, f2])"
    using diff suffixes by (simp add: remove_in_place_def Let_def)
  show ?thesis
    using absent [of f1] absent [of f3]
    by (simp add: numeral_eq_Suc fins lib Let_def prog_simps suffixes ClusterFinalizer_no_suffix first second third
        overlay_def)
qed

text \<open>The sample where the machine \<open>m2\<close> still exists.\<close>

definition in_place :: "nat Service" where
  "in_place = sample\<lparr>kube := (kube sample)\<lparr>kube_GetUCloudMachine := (\<lambda>q w. (if snd q = ''m2'' then reply_ok sample_machine
       else reply_err sample_machine (NotFoundError ''gone''), w))\<rparr>\<rparr>"

theorem machines_remain_skips_witness:
  "fst (machines_remain in_place 4
     [ClusterFinalizer, ''m1.ucloudmachine'', ''m2.ucloudmachine'', ''m3.ucloudmachine''] True
     (upd_cluster_meta (om_Finalizers_update
       (\<lambda>_. [ClusterFinalizer, ''m1.ucloudmachine'', ''m2.ucloudmachine'', ''m3.ucloudmachine''])) start)) = Ok False"
proof -
  define s where "s = upd_cluster_meta (om_Finalizers_update
       (\<lambda>_. [ClusterFinalizer, ''m1.ucloudmachine'', ''m2.ucloudmachine'', ''m3.ucloudmachine''])) start"
  have fins: "om_Finalizers (uc_Meta (ucluster s))
      = [ClusterFinalizer, ''m1.ucloudmachine'', ''m2.ucloudmachine'', ''m3.ucloudmachine'']"
    by (simp add: s_def)
  have lib: "lib_RemoveFinalizer (lib in_place) = remove_in_place" by (simp add: in_place_def)
  have absent: "IsNotFound (rp_err (fst (kube_GetUCloudMachine (kube in_place)
      (scope_Namespace in_place, Split f (CHR ''.'') ! 0) w)))"
    if "f \<in> {''m1.ucloudmachine'', ''m3.ucloudmachine''}" for f w
    using that by (auto simp: in_place_def)
  have "HasSuffix ''m1.ucloudmachine'' machine_suffix" "HasSuffix ''m3.ucloudmachine'' machine_suffix"
    by (simp_all add: HasSuffix_def machine_suffix_def)
  from machines_remain_skips [OF lib fins this _ _ absent] show ?thesis
    unfolding fins s_def [symmetric] by (auto simp: Let_def simp del: machines_remain.simps split: prod.splits)
qed

text \<open>C32: the machine a finalizer stands for is looked up under its name up to the first dot: a machine
  whose name has no dot is found again, and one with a dot is not, but another one or none.\<close>

theorem machine_looked_up_to_dot:
  "let f = machine_finalizer m; n = takeWhile (\<lambda>c. c \<noteq> CHR ''.'') (machine_Name m) in
     calls (snd (machines_remain S 1 [f] True s)) = calls s @ [CallGetMachine (scope_Namespace S) n]
     \<and> (n = machine_Name m) = (CHR ''.'' \<notin> set (machine_Name m))"
proof -
  let ?n = "takeWhile (\<lambda>c. c \<noteq> CHR ''.'') (machine_Name m)"
  have suffix: "HasSuffix (machine_finalizer m) machine_suffix"
    by (simp add: HasSuffix_def machine_finalizer_def machine_suffix_def)
  obtain v where "machine_finalizer m = ?n @ CHR ''.'' # v"
  proof (cases "CHR ''.'' \<in> set (machine_Name m)")
    case True
    then have "dropWhile (\<lambda>c. c \<noteq> CHR ''.'') (machine_Name m) \<noteq> []" by (simp add: dropWhile_eq_Nil_conv)
    then obtain w where "dropWhile (\<lambda>c. c \<noteq> CHR ''.'') (machine_Name m) = CHR ''.'' # w"
      using hd_dropWhile [of "\<lambda>c. c \<noteq> CHR ''.''" "machine_Name m"]
      by (cases "dropWhile (\<lambda>c. c \<noteq> CHR ''.'') (machine_Name m)") auto
    then have "machine_Name m = ?n @ CHR ''.'' # w" using takeWhile_dropWhile_id by metis
    then have "machine_finalizer m = ?n @ CHR ''.'' # (w @ ''.ucloudmachine'')"
      by (metis machine_finalizer_def append.assoc append_Cons)
    then show ?thesis by (rule that)
  next
    case False
    then have "?n = machine_Name m" by (auto simp: takeWhile_eq_all_conv)
    then have "machine_finalizer m = ?n @ CHR ''.'' # ''ucloudmachine''"
      by (simp only: machine_finalizer_def)
    then show ?thesis by (rule that)
  qed
  moreover have "CHR ''.'' \<notin> set ?n" by (auto dest: set_takeWhileD)
  ultimately have "Split (machine_finalizer m) (CHR ''.'') ! 0 = ?n" by (simp add: Split_append)
  then show ?thesis
    using suffix by (auto simp: Let_def prog_simps case_prod_beta takeWhile_eq_all_conv split: option.split)
qed

end
