(* ===== verification/Machine_Properties.thy ===== *)
theory Machine_Properties
  imports Sample Passes Uhost_Facts
begin

text \<open>
  The properties of the machine controller: what a pass persists first, when it creates an instance
  and when it gives a machine up, how the machine follows its instance, and how a deleted machine is
  torn down. Each property that has hypotheses is followed by a witness on the sample cloud.
\<close>

section \<open>Counting create requests\<close>

text \<open>A program that appends to the requests, with at most \<open>n\<close> create requests among them.\<close>

definition creates :: "nat \<Rightarrow> ('w st, 'a) prog \<Rightarrow> bool" where
  "creates n m \<longleftrightarrow> (\<forall>s. \<exists>cs. calls (snd (m s)) = calls s @ cs \<and> length (filter creates_instance cs) \<le> n)"

lemma createsI:
  "(\<And>s. \<exists>cs. calls (snd (m s)) = calls s @ cs \<and> length (filter creates_instance cs) \<le> n) \<Longrightarrow> creates n m"
  by (simp add: creates_def)

lemma createsE:
  assumes "creates n m" and "m s = (r, t)"
  obtains cs where "calls t = calls s @ cs" and "length (filter creates_instance cs) \<le> n"
  using assms by (metis creates_def snd_conv)

lemma creates_then:
  assumes m: "creates a m" and run: "m s = (q, u)"
    and rest: "\<exists>cs. calls t = calls u @ cs \<and> length (filter creates_instance cs) \<le> b"
  shows "\<exists>cs. calls t = calls s @ cs \<and> length (filter creates_instance cs) \<le> a + b"
proof -
  obtain cs where "calls u = calls s @ cs" "length (filter creates_instance cs) \<le> a"
    using m run by (rule createsE)
  moreover obtain ds where "calls t = calls u @ ds" "length (filter creates_instance ds) \<le> b"
    using rest by blast
  ultimately show ?thesis by (intro exI [of _ "cs @ ds"]) simp
qed

lemma creates_bind:
  assumes "creates a m" and "\<And>x. creates b (f x)"
  shows "creates (a + b) (bind m f)"
proof (rule createsI)
  fix s
  obtain q u where q: "m s = (q, u)" by fastforce
  have "\<exists>cs. calls (snd (bind m f s)) = calls u @ cs \<and> length (filter creates_instance cs) \<le> b"
    using assms(2) by (cases q) (auto simp: bind_def q creates_def)
  with assms(1) q show "\<exists>cs. calls (snd (bind m f s)) = calls s @ cs \<and> length (filter creates_instance cs) \<le> a + b"
    by (rule creates_then)
qed

lemma creates_after: "creates 0 m \<Longrightarrow> (\<And>x. creates n (f x)) \<Longrightarrow> creates n (bind m f)"
  using creates_bind [of 0 m n f] by simp

lemma creates_before: "creates n m \<Longrightarrow> (\<And>x. creates 0 (f x)) \<Longrightarrow> creates n (bind m f)"
  using creates_bind [of n m 0 f] by simp

lemma creates_try_or:
  assumes "creates a m" and "\<And>e. creates b (h e)" and "\<And>x. creates b (f x)"
  shows "creates (a + b) (try_or m h f)"
proof (rule createsI)
  fix s
  obtain q u where q: "m s = (q, u)" by fastforce
  have "\<exists>cs. calls (snd (try_or m h f s)) = calls u @ cs \<and> length (filter creates_instance cs) \<le> b"
    using assms(2,3) by (cases q) (auto simp: try_or_def q creates_def)
  with assms(1) q show "\<exists>cs. calls (snd (try_or m h f s)) = calls s @ cs \<and> length (filter creates_instance cs) \<le> a + b"
    by (rule creates_then)
qed

lemma creates_simple:
  "creates n (ret a)" "creates n (raise e)" "creates n (panic p)" "creates n (gets f)"
  "creates n (index xs i)" "creates n (deref x)" "creates n (emit_event ev)" "creates n (warn_raise ev e)"
  by (rule createsI, simp add: prog_simps index_run deref_run warn_raise_run split: option.split)+

lemma creates_invoke: "(\<not> creates_instance (tag q) \<or> 0 < n) \<Longrightarrow> creates n (invoke f tag q)"
  by (rule createsI) (auto simp: invoke_run)

lemma creates_mono: "creates a m \<Longrightarrow> a \<le> b \<Longrightarrow> creates b m"
  unfolding creates_def by (meson le_trans)

lemma creates_poll:
  assumes fail: "\<And>e. creates n (fail e)"
  shows "creates n (poll S req judge fail d tm)"
proof (rule createsI)
  fix s
  show "\<exists>cs. calls (snd (poll S req judge fail d tm s)) = calls s @ cs \<and> length (filter creates_instance cs) \<le> n"
    using fail
  proof (induction S req judge fail d tm s rule: poll.induct)
    case (1 S req judge fail d tm s)
    define a where "a = sdk_DescribeUHostInstance (uhostClient S) req (world s)"
    define u where "u = sent (CallDescribeUHostInstance req) (rp_took (fst a)) (snd a) s"
    have after: "\<exists>cs. calls v = calls s @ cs \<and> length (filter creates_instance cs) \<le> n"
      if "\<exists>cs. calls v = calls u @ cs \<and> length (filter creates_instance cs) \<le> n" for v
      using that by (auto simp: u_def)
    have failed: "\<exists>cs. calls (snd (fail e u)) = calls u @ cs \<and> length (filter creates_instance cs) \<le> n" for e
      using "1.prems" by (simp add: creates_def)
    have again: "\<exists>cs. calls (snd (poll S req judge fail d tm (u\<lparr>clock := clock u + max 1 d\<rparr>))) = calls u @ cs
        \<and> length (filter creates_instance cs) \<le> n"
      if "rp_err (fst a) = None" "judge (rp_body (fst a)) = Wait e" "\<not> ticked (clock u) tm" for e
      using "1.IH" [OF a_def u_def that "1.prems"] by simp
    show ?case
      by (rule after, subst poll.simps)
        (use failed again in \<open>auto simp: Let_def simp flip: a_def u_def split: option.split verdict.split\<close>)
  qed
qed

lemma creates_wait_running: "creates n (wait_running S req)"
  unfolding wait_running_def
  by (auto intro!: creates_after creates_poll creates_simple split: prod.split)

lemma creates_launch: "0 < n \<Longrightarrow> creates n (launch_instance S c zone req)"
  unfolding launch_instance_def
  by (rule creates_before)
    (auto intro!: creates_invoke creates_simple creates_after creates_wait_running split: option.split)

lemma creates_pick_zone: "creates n (pick_zone S c z)"
proof -
  have "creates m (rand_Intn S k)" for m k
    by (rule createsI) (simp add: rand_Intn_def split: prod.split)
  then show ?thesis
    unfolding pick_zone_def by (auto intro!: creates_simple creates_after split: option.split)
qed

lemma creates_GetBootstrapData: "creates 0 (GetBootstrapData S)"
  unfolding GetBootstrapData_def
  by (auto intro!: creates_simple creates_after creates_invoke simp: if_err_def split: option.split)

lemma creates_CreateInstance: "creates 1 (CreateInstance S)"
proof -
  have start: "creates (0 + 1) (try_or (GetBootstrapData S) (\<lambda>e. warn_raise r (g e)) f)" if "\<And>x. creates 1 (f x)" for r g f
    using creates_GetBootstrapData by (rule creates_try_or) (rule creates_simple that)+
  show ?thesis
    unfolding CreateInstance_def Let_def
    by (auto intro!: creates_after creates_simple start [unfolded add_0, simplified] creates_pick_zone creates_launch split: option.split sum.split)
qed

lemma creates_find_or_create:
  assumes "find_or_create_instance S s = (r, t)"
  obtains cs where "calls t = calls s @ cs"
    and "length (filter creates_instance cs) \<le> (if GetInstanceID S (umachine s) = None then 1 else 0)"
proof (cases "GetInstanceID S (umachine s)")
  case None
  then obtain q where "CreateInstance S s = (q, t)"
    using assms by (auto simp: find_or_create_run split: prod.splits result.splits)
  from creates_CreateInstance this show thesis by (rule createsE) (use None that in simp)
next
  case (Some iid)
  then show thesis
    using assms by (auto simp: find_or_create_run Let_def intro!: that split: option.splits list.splits)
qed

section \<open>Passes over a live machine\<close>

text \<open>Which patches a pass sends first, and when it goes on.\<close>

lemma machine_reconcile_registers:
  assumes run: "machine_reconcile S s = (r, t)"
    and live: "mst_FailureReason (um_Status (umachine s)) = None" "mst_FailureMessage (um_Status (umachine s)) = None"
  shows "let m' = marked_machine S (umachine s); c' = marked_cluster S (umachine s) (ucluster s) in
    \<exists>cs. calls t = calls s @ CallPatchMachine m' # cs
      \<and> (case rp_err (fst (kube_PatchMachine (kube S) m' (world s))) of
           Some e \<Rightarrow> r = Err e \<and> cs = []
         | None \<Rightarrow> cs = [CallPatchCluster c']
             \<or> (\<exists>ds w. cs = CallPatchCluster c' # ds \<and> rp_err (fst (kube_PatchCluster (kube S) c' w)) = None))"
proof -
  let ?m = "marked_machine S (umachine s)" and ?c = "marked_cluster S (umachine s) (ucluster s)"
  obtain q u where q: "register_finalizers S s = (q, u)" by fastforce
  obtain p v where p: "find_or_create_instance S u = (p, v)" by fastforce
  obtain cs where cs: "calls v = calls u @ cs" using p by (rule creates_find_or_create)
  have rec: "\<exists>ds. calls w = calls v @ ds" if "reconcile_instance S i v = (a, w)" for i a w
    using reconcile_instance_sends [OF that] by blast
  have goes: "(q \<noteq> Ok () \<and> t = u) \<or> (q = Ok () \<and> (\<exists>ds. calls t = calls u @ ds))"
    using run live q p cs
    by (auto simp: machine_reconcile_run dest!: rec split: result.splits option.splits if_splits)
  show ?thesis
  proof (cases "rp_err (fst (kube_PatchMachine (kube S) ?m (world s)))")
    case None
    then have "calls u = calls s @ [CallPatchMachine ?m, CallPatchCluster ?c]"
      and "q = Ok () \<longrightarrow> (\<exists>w. rp_err (fst (kube_PatchCluster (kube S) ?c w)) = None)"
      using q by (auto simp: register_finalizers_run Let_def split: option.splits)
    then show ?thesis
      using goes None by (auto simp: Let_def)
  next
    case (Some e)
    then have "r = Err e \<and> q \<noteq> Ok () \<and> calls u = calls s @ [CallPatchMachine ?m]"
      using q run live by (auto simp: machine_reconcile_run register_finalizers_run Let_def)
    then show ?thesis
      using goes Some by (auto simp: Let_def)
  qed
qed

text \<open>C19: the first requests of a pass over a machine that has not failed persist the machine with its
  own finalizer and then the cluster with the finalizer of the machine; nothing else is sent unless
  both went through. A pass over a failed machine does nothing at all.\<close>

theorem machine_finalizers_first:
  assumes adds: "\<And>f fs. f \<in> set (lib_AddFinalizer (lib S) f fs)"
  shows "let (r, t) = machine_reconcile S s; m = umachine s in
    if mst_FailureReason (um_Status m) \<noteq> None \<or> mst_FailureMessage (um_Status m) \<noteq> None
    then r = Ok no_requeue \<and> t = s
    else (\<exists>m' c' cs. calls t = calls s @ CallPatchMachine m' # cs
      \<and> MachineFinalizer \<in> set (om_Finalizers (um_Meta m')) \<and> um_Spec m' = um_Spec m \<and> um_Status m' = um_Status m
      \<and> machine_Name m @ ''.ucloudmachine'' \<in> set (om_Finalizers (uc_Meta c'))
      \<and> uc_Spec c' = uc_Spec (ucluster s) \<and> uc_Status c' = uc_Status (ucluster s)
      \<and> (case rp_err (fst (kube_PatchMachine (kube S) m' (world s))) of
           Some e \<Rightarrow> r = Err e \<and> cs = []
         | None \<Rightarrow> cs = [CallPatchCluster c']
             \<or> (\<exists>ds w. cs = CallPatchCluster c' # ds \<and> rp_err (fst (kube_PatchCluster (kube S) c' w)) = None)))"
proof -
  obtain r t where run: "machine_reconcile S s = (r, t)" by fastforce
  define m where "m = umachine s"
  show ?thesis
  proof (cases "mst_FailureReason (um_Status m) \<noteq> None \<or> mst_FailureMessage (um_Status m) \<noteq> None")
    case True
    then have "machine_reconcile S s = (Ok no_requeue, s)" by (simp add: machine_reconcile_run m_def)
    with True run show ?thesis by (simp add: m_def)
  next
    case False
    define c' where "c' = marked_cluster S m (ucluster s)"
    have "\<exists>cs. calls t = calls s @ CallPatchMachine (marked_machine S m) # cs
      \<and> (case rp_err (fst (kube_PatchMachine (kube S) (marked_machine S m) (world s))) of
           Some e \<Rightarrow> r = Err e \<and> cs = []
         | None \<Rightarrow> cs = [CallPatchCluster c']
             \<or> (\<exists>ds w. cs = CallPatchCluster c' # ds \<and> rp_err (fst (kube_PatchCluster (kube S) c' w)) = None))"
      using machine_reconcile_registers [OF run] False unfolding m_def c'_def Let_def by simp
    moreover have "MachineFinalizer \<in> set (om_Finalizers (um_Meta (marked_machine S m)))"
      "machine_Name m @ ''.ucloudmachine'' \<in> set (om_Finalizers (uc_Meta c'))"
      "uc_Spec c' = uc_Spec (ucluster s)" "uc_Status c' = uc_Status (ucluster s)"
      using adds by (simp_all add: marked_machine_def c'_def marked_cluster_def add_finalizer_def machine_finalizer_def)
    ultimately show ?thesis
      unfolding run Let_def prod.case m_def [symmetric]
      using False by (auto intro!: exI [of _ "marked_machine S m"] exI [of _ c'])
  qed
qed

theorem machine_finalizers_first_witness:
  "\<exists>m c cs. calls (snd (machine_reconcile sample start)) = CallPatchMachine m # CallPatchCluster c # cs"
proof -
  have adds: "f \<in> set (lib_AddFinalizer (lib sample) f fs)" for f fs
    by (simp add: add_once_def)
  have "mst_FailureReason (um_Status (umachine start)) = None" "mst_FailureMessage (um_Status (umachine start)) = None"
    by (simp_all add: start_def sample_machine_def zero_defs)
  with machine_finalizers_first [OF adds, where s = start] show ?thesis
    by (auto simp: start_def Let_def split: prod.splits)
qed

text \<open>C3: a pass creates at most one instance, and only for a machine without one: never when the provider
  identifier names an instance, the infrastructure of the cluster is not ready, the bootstrap data
  is missing, or the machine has failed.\<close>

theorem machine_creates_once:
  "let (r, t) = machine_reconcile S s; m = umachine s in
     \<exists>cs. calls t = calls s @ cs \<and> (filter creates_instance cs = []
       \<or> (length (filter creates_instance cs) = 1 \<and> GetInstanceID S m = None
          \<and> cl_InfrastructureReady (sv_Cluster S) \<and> ma_DataSecretName (sv_Machine S) \<noteq> None
          \<and> mst_FailureReason (um_Status m) = None \<and> mst_FailureMessage (um_Status m) = None))"
proof -
  obtain r t where run: "machine_reconcile S s = (r, t)" by fastforce
  obtain q u where q: "register_finalizers S s = (q, u)" by fastforce
  obtain us where us: "calls u = calls s @ us" "filter creates_instance us = []" and um: "umachine u = marked_machine S (umachine s)"
    using register_finalizers_sends [OF q] by auto
  obtain p v where p: "find_or_create_instance S u = (p, v)" by fastforce
  obtain vs where vs: "calls v = calls u @ vs"
    "length (filter creates_instance vs) \<le> (if GetInstanceID S (umachine s) = None then 1 else 0)"
    using creates_find_or_create [OF p] by (auto simp: um)
  have rec: "\<exists>ws. calls w = calls v @ ws \<and> filter creates_instance ws = []" if "reconcile_instance S i v = (a, w)" for i a w
    using reconcile_instance_sends [OF that] by (auto simp: list_all_iff filter_empty_conv)
  consider "t = s" | "t = u" | ws where "calls t = calls v @ ws" "filter creates_instance ws = []"
      "cl_InfrastructureReady (sv_Cluster S)" "ma_DataSecretName (sv_Machine S) \<noteq> None"
      "mst_FailureReason (um_Status (umachine s)) = None" "mst_FailureMessage (um_Status (umachine s)) = None"
    using run q p by (auto simp: machine_reconcile_run dest!: rec split: result.splits option.splits if_splits)
  then have "\<exists>cs. calls t = calls s @ cs \<and> (filter creates_instance cs = []
       \<or> (length (filter creates_instance cs) = 1 \<and> GetInstanceID S (umachine s) = None
          \<and> cl_InfrastructureReady (sv_Cluster S) \<and> ma_DataSecretName (sv_Machine S) \<noteq> None
          \<and> mst_FailureReason (um_Status (umachine s)) = None \<and> mst_FailureMessage (um_Status (umachine s)) = None))"
  proof cases
    case 3
    have "filter creates_instance vs = []
        \<or> length (filter creates_instance vs) = 1 \<and> GetInstanceID S (umachine s) = None"
      using vs(2) by (cases "filter creates_instance vs") (auto split: if_splits)
    with 3 us vs(1) show ?thesis by (intro exI [of _ "us @ vs @ ws"]) auto
  qed (use us in auto)
  then show ?thesis by (simp add: run Let_def)
qed

text \<open>C20: an instance that the cloud no longer describes is a terminal failure: the machine is marked
  failed and not ready, its owner is deleted, nothing is created, and later passes leave the
  machine alone.\<close>

theorem gone_instance_deletes_owner:
  assumes healthy: "mst_FailureReason (um_Status (umachine s)) = None" "mst_FailureMessage (um_Status (umachine s)) = None"
    and ready: "cl_InfrastructureReady (sv_Cluster S)" "ma_DataSecretName (sv_Machine S) \<noteq> None"
    and iid: "GetInstanceID S (umachine s) = Some iid"
    and patched: "\<And>m w. rp_err (fst (kube_PatchMachine (kube S) m w)) = None"
      "\<And>c w. rp_err (fst (kube_PatchCluster (kube S) c w)) = None"
    and gone: "\<And>q w. dh_UHostIds q = [iid] \<Longrightarrow> rp_err (fst (sdk_DescribeUHostInstance (uhostClient S) q w)) = None
        \<and> rp_body (fst (sdk_DescribeUHostInstance (uhostClient S) q w)) = []"
  shows "let (r, t) = machine_reconcile S s; m = umachine t; ns = ma_Namespace (sv_Machine S); n = ma_Name (sv_Machine S) in
    (\<exists>m' c' q. calls t = calls s @ [CallPatchMachine m', CallPatchCluster c', CallDescribeUHostInstance q, CallDeleteMachine ns n])
    \<and> (\<exists>w. r = (case rp_err (fst (kube_DeleteMachine (kube S) (ns, n) w)) of None \<Rightarrow> Ok no_requeue | Some e \<Rightarrow> Err e))
    \<and> mst_FailureReason (um_Status m) = Some (UpdateMachineError (lib S)) \<and> mst_FailureMessage (um_Status m) \<noteq> None
    \<and> \<not> mst_Ready (um_Status m) \<and> machine_reconcile S t = (Ok no_requeue, t)"
proof -
  obtain r t where run: "machine_reconcile S s = (r, t)" by fastforce
  obtain q u where q: "register_finalizers S s = (q, u)" by fastforce
  have "q = Ok ()"
    using q patched by (auto simp: register_finalizers_run Let_def)
  moreover have us: "umachine u = marked_machine S (umachine s)" "calls u = calls s @ [CallPatchMachine (marked_machine S (umachine s)),
          CallPatchCluster (marked_cluster S (umachine s) (ucluster s))]"
    using register_finalizers_sends [OF q] calculation by auto
  obtain p v where p: "find_or_create_instance S u = (p, v)" by fastforce
  define req where "req = describe_instance_req (ucluster u) (GetZone (umachine u)) [iid]"
  have "dh_UHostIds req = [iid]" by (simp add: req_def describe_instance_req_def)
  note no = gone [OF this]
  have "GetInstanceID S (umachine u) = Some iid" using iid us(1) by simp
  then have "umachine v = fail_machine S gone_error (umachine u) \<and> calls v = calls u @ [CallDescribeUHostInstance req,
        CallDeleteMachine (ma_Namespace (sv_Machine S)) (ma_Name (sv_Machine S))]
      \<and> (\<exists>w. p = (case rp_err (fst (kube_DeleteMachine (kube S) (ma_Namespace (sv_Machine S), ma_Name (sv_Machine S)) w))
                of None \<Rightarrow> Ok None | Some e \<Rightarrow> Err e))"
    using p no by (auto simp: find_or_create_run Let_def simp flip: req_def split: option.split)
  then obtain w where v: "umachine v = fail_machine S gone_error (umachine u)"
      "calls v = calls u @ [CallDescribeUHostInstance req,
        CallDeleteMachine (ma_Namespace (sv_Machine S)) (ma_Name (sv_Machine S))]"
    and pw: "p = (case rp_err (fst (kube_DeleteMachine (kube S) (ma_Namespace (sv_Machine S), ma_Name (sv_Machine S)) w))
                of None \<Rightarrow> Ok None | Some e \<Rightarrow> Err e)" by blast
  have "t = v \<and> r = (case rp_err (fst (kube_DeleteMachine (kube S) (ma_Namespace (sv_Machine S), ma_Name (sv_Machine S)) w))
                of None \<Rightarrow> Ok no_requeue | Some e \<Rightarrow> Err e)"
    using run q p pw healthy ready \<open>q = Ok ()\<close> by (auto simp: machine_reconcile_run split: option.splits)
  then have t: "umachine t = fail_machine S gone_error (umachine u)" "calls t = calls u @ [CallDescribeUHostInstance req,
        CallDeleteMachine (ma_Namespace (sv_Machine S)) (ma_Name (sv_Machine S))]"
      "\<exists>w. r = (case rp_err (fst (kube_DeleteMachine (kube S) (ma_Namespace (sv_Machine S), ma_Name (sv_Machine S)) w))
                of None \<Rightarrow> Ok no_requeue | Some e \<Rightarrow> Err e)"
    using v by auto
  have failed: "mst_FailureReason (um_Status (umachine t)) = Some (UpdateMachineError (lib S))"
    "mst_FailureMessage (um_Status (umachine t)) \<noteq> None" "\<not> mst_Ready (um_Status (umachine t))"
    by (simp_all add: t(1) fail_machine_def machine_setters)
  then have "machine_reconcile S t = (Ok no_requeue, t)" by (simp add: machine_reconcile_run)
  with t failed show ?thesis by (simp add: run Let_def us(2))
qed

text \<open>A machine of the sample cloud that names an instance, in a cloud without instances.\<close>

definition orphan :: "nat st" where
  "orphan = upd_machine (SetProviderID ''ucloud://org-1/cn-bj2-02/uhost-1'') start"

definition empty_cloud :: "nat Service" where
  "empty_cloud = sample\<lparr>uhostClient := sample_uhost\<lparr>sdk_DescribeUHostInstance := const_api []\<rparr>\<rparr>"

theorem gone_instance_deletes_owner_witness:
  "\<exists>m c q. calls (snd (machine_reconcile empty_cloud orphan)) =
     [CallPatchMachine m, CallPatchCluster c, CallDescribeUHostInstance q, CallDeleteMachine ''default'' ''m1'']"
proof -
  have fields: "lib empty_cloud = lib sample" "kube empty_cloud = kube sample" "sv_Machine empty_cloud = sv_Machine sample"
    "sv_Cluster empty_cloud = sv_Cluster sample" "calls orphan = []"
    by (simp_all add: empty_cloud_def orphan_def start_def)
  have "mst_FailureReason (um_Status (umachine orphan)) = None" "mst_FailureMessage (um_Status (umachine orphan)) = None"
    "GetInstanceID empty_cloud (umachine orphan) = Some ''uhost-1''"
    by (simp_all add: orphan_def start_def sample_machine_def zero_defs machine_setters GetInstanceID_def GetProviderID_def fields)
  moreover have "cl_InfrastructureReady (sv_Cluster empty_cloud)" "ma_DataSecretName (sv_Machine empty_cloud) \<noteq> None"
    "rp_err (fst (kube_PatchMachine (kube empty_cloud) m w)) = None"
    "rp_err (fst (kube_PatchCluster (kube empty_cloud) c w)) = None" for m c w
    by (simp_all add: fields)
  moreover have "rp_err (fst (sdk_DescribeUHostInstance (uhostClient empty_cloud) q w)) = None
      \<and> rp_body (fst (sdk_DescribeUHostInstance (uhostClient empty_cloud) q w)) = []" for q w
    by (simp add: empty_cloud_def const_api_def)
  ultimately show ?thesis
    using gone_instance_deletes_owner [where S = empty_cloud and s = orphan and iid = "''uhost-1''"]
    by (simp add: Let_def fields case_prod_beta)
qed

text \<open>C21: a pass over a live instance that ends well has copied the instance to the machine: its provider
  identifier, state, zone and addresses. A running instance makes the machine ready, one that is
  starting or has no state yet leaves its readiness alone, and any other state fails the machine.\<close>

theorem machine_follows_instance:
  assumes run: "reconcile_instance S i s = (Ok q, t)"
  shows "let m = umachine t; st = um_Status m; old = um_Status (umachine s) in
    ms_ProviderID (um_Spec m) = Some (''ucloud://'' @ ProjectId (ucluster s) @ ''/'' @ uh_Zone i @ ''/'' @ uh_UHostId i)
    \<and> mst_InstanceId st = uh_UHostId i \<and> mst_InstanceStatus st = uh_State i \<and> mst_Zone st = uh_Zone i
    \<and> mst_Addresses st = getAddresses S i
    \<and> (if uh_State i = StateRunning (lib S) then mst_Ready st \<and> mst_FailureReason st = mst_FailureReason old
       else if uh_State i \<in> {StateInitializing (lib S), StateStarting (lib S), ''''}
       then mst_Ready st = mst_Ready old \<and> mst_FailureReason st = mst_FailureReason old
       else \<not> mst_Ready st \<and> mst_FailureReason st = Some (UpdateMachineError (lib S)))"
proof -
  define copied where "copied = (\<lambda>s :: 'a st. (ms_ProviderID (um_Spec (umachine s)), mst_InstanceId (um_Status (umachine s)),
    mst_InstanceStatus (um_Status (umachine s)), mst_Zone (um_Status (umachine s)), mst_Addresses (um_Status (umachine s))))"
  define u where "u = upd_machine (record_instance S (ucluster s) i) s"
  have u: "copied u = (Some (provider_id (ucluster s) i), uh_UHostId i, uh_State i, uh_Zone i, getAddresses S i)"
    by (simp add: copied_def u_def record_instance_fields)
  have servers: "keeps (same copied) (AddRealServer S h)" "keeps (same copied) (DelRealServer S h)" for h
    by (rule obtaining_same [OF AddRealServer_obtaining] obtaining_same [OF DelRealServer_obtaining],
        simp add: copied_def)+
  have capu: "keeps (same copied) (CreateCAPUHost S)"
  proof (rule keepsI)
    fix s :: "'a st"
    obtain r t where st: "CreateCAPUHost S s = (r, t)" by fastforce
    then show "same copied s (snd (CreateCAPUHost S s))"
      by (rule CreateCAPUHost_cases) (auto simp: st same_def copied_def)
  qed
  have upd: "keeps (same copied) (modify (upd_machine SetReady))"
    "keeps (same copied) (modify (upd_machine (fail_machine S e)))" for e
    by (rule same.keeps_modify, simp add: same_def copied_def fail_machine_def machine_setters)+
  have act: "keeps (same copied) (act_on_state S i)"
    unfolding act_on_state_def log_instance_id_def
    by (intro same.keeps_rules servers upd)
  obtain a v where v: "act_on_state S i u = (a, v)" and rest: "t = v \<or> (\<exists>p. CreateCAPUHost S v = (p, t))"
    using run
    by (auto simp: reconcile_instance_def prog_simps bind_def try_else_def u_def [symmetric]
        split: prod.splits result.splits option.splits)
  have "copied t = copied v" using rest keepsD [OF capu] by (auto simp: same_def)
  also have "\<dots> = copied u" using keepsD [OF act v] by (simp add: same_def)
  finally have "copied t = (Some (provider_id (ucluster s) i), uh_UHostId i, uh_State i, uh_Zone i, getAddresses S i)"
    using u by simp
  moreover note reconcile_instance_Ok [OF run]
  ultimately show ?thesis
    by (auto simp: Let_def copied_def health_def provider_id_def)
qed

theorem machine_follows_instance_witness:
  "let m = umachine (snd (reconcile_instance sample (sample_host 0) start)) in
     mst_Ready (um_Status m) \<and> ms_ProviderID (um_Spec m) = Some ''ucloud://org-1/cn-bj2-02/uhost-1''"
proof -
  have host: "uh_State (sample_host 0) = ''Running''" "uh_UHostId (sample_host 0) = ''uhost-1''"
    "uh_Zone (sample_host 0) = ''cn-bj2-02''"
    by (simp_all add: sample_host_def)
  have project: "ProjectId (ucluster start) = ''org-1''"
    by (simp add: ProjectId_def start_def sample_cluster_def zero_defs)
  have "\<exists>t. reconcile_instance sample (sample_host 0) start = (Ok no_requeue, t)"
    by (simp add: reconcile_instance_def act_on_state_def log_instance_run bind_def host modify_run gets_run ret_run
        GetInstanceID_def GetProviderID_def record_instance_fields IsControlPlane_def AddRealServer_def
        CreateCAPUHost_def Let_def prog_simps try_else_def machine_setters zero_ResponseBase_def provider_id_def)
  then obtain t where t: "reconcile_instance sample (sample_host 0) start = (Ok no_requeue, t)" by blast
  from machine_follows_instance [OF this] show ?thesis
    by (simp add: t Let_def host project)
qed

section \<open>Deleting a machine\<close>

text \<open>Whatever the outcome, the calls come in this order.\<close>

lemma machine_deletion_in_order:
  assumes run: "machine_reconcileDelete S s = (r, t)"
  shows "(\<exists>look rs hs trm ev. calls t = calls s @ look @ rs @ hs @ trm @ ev
      \<and> list_all (\<lambda>x. \<exists>q. x = CallDescribeUHostInstance q) look \<and> length look \<le> 1
      \<and> list_all vserver_call rs \<and> (rs = [] \<or> IsControlPlane S)
      \<and> ((hs = [] \<and> trm = []) \<or> (IsControlPlane S = (rs \<noteq> [])
            \<and> (\<exists>now. hs = [CallDeleteCAPUHost (delete_host_req S (ucluster s) (umachine s) now)])))
      \<and> list_all (\<lambda>x. \<exists>iid zone. uhost_del_sends (ucluster s) iid zone x) trm
      \<and> list_all (\<lambda>x. \<exists>e. x = CallEvent e) ev)
    \<and> ucluster t = ucluster s
    \<and> umachine t = (case r of Ok _ \<Rightarrow> um_Meta_update (remove_finalizer S MachineFinalizer) (umachine s) | _ \<Rightarrow> umachine s)"
proof -
  obtain q u where q: "InstanceIfExists S s = (q, u)" by fastforce
  obtain look where u: "ucluster u = ucluster s" "umachine u = umachine s" "calls u = calls s @ look"
    and look: "list_all (\<lambda>x. \<exists>q. x = CallDescribeUHostInstance q) look" "length look \<le> 1"
    using q by (auto simp: InstanceIfExists_run Let_def split: option.splits)
  show ?thesis
  proof (cases "\<exists>i. q = Ok (Some i)")
    case False
    then have "(case r of Ok _ \<Rightarrow> t = upd_machine_meta (remove_finalizer S MachineFinalizer) u | _ \<Rightarrow> t = u)"
      using run q by (auto simp: machine_reconcileDelete_run split: result.splits option.splits)
    then show ?thesis
      using u look
      by (intro conjI exI [of _ look] exI [of _ "[]"]) (auto split: result.splits)
  next
    case True
    then obtain i where i: "q = Ok (Some i)" by blast
    obtain p v where p: "remove_instance S i u = (p, v)" by fastforce
    have "t = (case r of Ok _ \<Rightarrow> upd_machine_meta (remove_finalizer S MachineFinalizer) v | _ \<Rightarrow> v)"
      using run q p i by (auto simp: machine_reconcileDelete_run split: result.splits)
    then have t: "calls t = calls v" "ucluster t = ucluster v"
      "umachine t = (case r of Ok _ \<Rightarrow> um_Meta_update (remove_finalizer S MachineFinalizer) (umachine v) | _ \<Rightarrow> umachine v)"
      by (simp_all split: result.splits)
    from p show ?thesis
    proof (rule remove_instance_calls)
      fix rs hs trm ev
      assume v: "calls v = calls u @ rs @ hs @ trm @ ev" and rs: "list_all vserver_call rs" "IsControlPlane S \<longleftrightarrow> rs \<noteq> []"
        and hs: "hs = [] \<and> trm = [] \<and> ev = [] \<and> p \<noteq> Ok ()
          \<or> (\<exists>now. hs = [CallDeleteCAPUHost (delete_host_req S (ucluster u) (umachine u) now)])"
        and trm: "list_all (\<lambda>x. \<exists>iid zone. uhost_del_sends (ucluster u) iid zone x) trm"
        and ev: "list_all (\<lambda>x. \<exists>e. x = CallEvent e) ev" and same: "ucluster v = ucluster u" "umachine v = umachine u"
      show ?thesis
      proof (intro exI conjI)
        show "calls t = calls s @ look @ rs @ hs @ trm @ ev" by (simp add: t u v)
        show "(hs = [] \<and> trm = []) \<or> (IsControlPlane S = (rs \<noteq> [])
            \<and> (\<exists>now. hs = [CallDeleteCAPUHost (delete_host_req S (ucluster s) (umachine s) now)]))"
          using hs rs(2) u by auto
        show "list_all (\<lambda>x. \<exists>iid zone. uhost_del_sends (ucluster s) iid zone x) trm" using trm by (simp add: u)
        show "rs = [] \<or> IsControlPlane S" using rs(2) by blast
        show "umachine t = (case r of Ok _ \<Rightarrow> um_Meta_update (remove_finalizer S MachineFinalizer) (umachine s) | _ \<Rightarrow> umachine s)"
          unfolding t same u ..
      qed (use look rs(1) ev in \<open>simp_all add: t same u\<close>)
    qed
  qed
qed

text \<open>A pass that ends well has sent exactly the calls of \<open>machine_deletion_trace\<close>.\<close>

lemma machine_deletion_complete:
  assumes "machine_reconcileDelete S s = (Ok a, t)"
  shows "\<exists>cs. calls t = calls s @ cs \<and> machine_deletion_trace S (ucluster s) (umachine s) (world s) cs"
proof (cases "GetInstanceID S (umachine s)")
  case None
  then have "calls t = calls s"
    using assms by (auto simp: machine_reconcileDelete_run InstanceIfExists_run)
  then show ?thesis using None by (simp add: machine_deletion_trace_def)
next
  case (Some iid)
  define req where "req = describe_instance_req (ucluster s) (GetZone (umachine s)) [iid]"
  define ans where "ans = sdk_DescribeUHostInstance (uhostClient S) req (world s)"
  define u where "u = sent (CallDescribeUHostInstance req) (rp_took (fst ans)) (snd ans) s"
  have look: "InstanceIfExists S s = ((case rp_err (fst ans) of
      Some e \<Rightarrow> Err (Wrapf e ''failed to describe instance: %s'' [iid])
    | None \<Rightarrow> (case rp_body (fst ans) of [] \<Rightarrow> Ok None | h # _ \<Rightarrow> Ok (Some h))), u)"
    unfolding InstanceIfExists_run Some u_def ans_def req_def by (simp add: Let_def)
  have u: "ucluster u = ucluster s" "umachine u = umachine s"
      "calls u = calls s @ [CallDescribeUHostInstance req]" "world u = after_call S (CallDescribeUHostInstance req) (world s)"
    by (simp_all add: u_def ans_def)
  note trace = machine_deletion_trace_def Some Let_def req_def [symmetric] ans_def [symmetric]
  show ?thesis
  proof (cases "rp_body (fst ans)")
    case Nil
    then have "calls t = calls u"
      using assms by (auto simp: machine_reconcileDelete_run look split: option.splits)
    then show ?thesis by (simp add: trace Nil u)
  next
    case (Cons h hs)
    then obtain v where v: "remove_instance S h u = (Ok (), v)" and t: "calls t = calls v"
      using assms by (auto simp: machine_reconcileDelete_run look split: option.splits prod.splits result.splits)
    have found: "machine_deletion_trace S (ucluster s) (umachine s) (world s) cs \<longleftrightarrow> (\<exists>rs now trm.
        cs = CallDescribeUHostInstance req # rs
          @ CallDeleteCAPUHost (delete_host_req S (ucluster u) (umachine u) now)
          # trm @ [CallEvent ''SuccessfulTerminate'']
        \<and> (if IsControlPlane S then backend_trace S (ucluster u) (uh_UHostId h) (world u) rs else rs = [])
        \<and> (if iid = '''' then trm = [] else termination_trace S (ucluster u) iid (Zone S (umachine u))
            (after_calls S (rs @ [CallDeleteCAPUHost (delete_host_req S (ucluster u) (umachine u) now)]) (world u)) trm))" for cs
      by (simp add: trace Cons u)
    have iid: "GetInstanceID S (umachine u) = Some iid"
      using Some u by simp
    obtain rs now trm where "calls v = calls u @ rs @ CallDeleteCAPUHost (delete_host_req S (ucluster u) (umachine u) now)
          # trm @ [CallEvent ''SuccessfulTerminate'']"
      and "if IsControlPlane S then backend_trace S (ucluster u) (uh_UHostId h) (world u) rs else rs = []"
      and "if iid = '''' then trm = [] else termination_trace S (ucluster u) iid (Zone S (umachine u))
            (after_calls S (rs @ [CallDeleteCAPUHost (delete_host_req S (ucluster u) (umachine u) now)]) (world u)) trm"
      using v iid by (rule remove_instance_trace)
    moreover from this(1) have "calls t = calls s @ CallDescribeUHostInstance req # rs
          @ CallDeleteCAPUHost (delete_host_req S (ucluster u) (umachine u) now) # trm @ [CallEvent ''SuccessfulTerminate'']"
      using t u by simp
    ultimately show ?thesis
      unfolding found by blast
  qed
qed

text \<open>C18: a deletion of a machine takes it apart in order: the instance is looked up, a control plane
  machine leaves the load balancer, then the host is deregistered, and only then the instance is
  powered off and terminated. If the pass ends well, its calls are exactly those of
  \<open>machine_deletion_trace\<close>: nothing if the machine has no instance, the lookup alone if the instance
  is no longer there, and else the lookup, the backend of a control plane machine looked up in the load
  balancer's listener and released if it is in it, one request that deregisters the host, one request
  that terminates the machine's instance, sent once it has been found stopped, and the event; each
  decision is taken on the answer in the world that the calls before it lead to. (An instance whose
  recorded id is empty is not terminated: the code skips that step.) If the pass does not end well,
  what it has sent is a part of this order. The finalizer goes exactly if the pass ends well;
  otherwise neither object is touched.\<close>

theorem machine_deletion_order:
  "let (r, t) = machine_reconcileDelete S s in
    (case r of Ok _ \<Rightarrow>
       \<exists>cs. calls t = calls s @ cs \<and> machine_deletion_trace S (ucluster s) (umachine s) (world s) cs
     | _ \<Rightarrow> True)
    \<and> (\<exists>look rs hs trm ev. calls t = calls s @ look @ rs @ hs @ trm @ ev
      \<and> list_all (\<lambda>x. \<exists>q. x = CallDescribeUHostInstance q) look \<and> length look \<le> 1
      \<and> list_all vserver_call rs \<and> (rs = [] \<or> IsControlPlane S)
      \<and> ((hs = [] \<and> trm = []) \<or> (IsControlPlane S = (rs \<noteq> [])
            \<and> (\<exists>now. hs = [CallDeleteCAPUHost (delete_host_req S (ucluster s) (umachine s) now)])))
      \<and> list_all (\<lambda>x. \<exists>iid zone. uhost_del_sends (ucluster s) iid zone x) trm
      \<and> list_all (\<lambda>x. \<exists>e. x = CallEvent e) ev)
    \<and> ucluster t = ucluster s
    \<and> umachine t = (case r of Ok _ \<Rightarrow> um_Meta_update (remove_finalizer S MachineFinalizer) (umachine s) | _ \<Rightarrow> umachine s)"
proof -
  obtain r t where run: "machine_reconcileDelete S s = (r, t)" by fastforce
  have complete: "case r of Ok _ \<Rightarrow>
       \<exists>cs. calls t = calls s @ cs \<and> machine_deletion_trace S (ucluster s) (umachine s) (world s) cs
     | _ \<Rightarrow> True"
    using run by (auto dest: machine_deletion_complete split: result.split)
  have order: "\<exists>look rs hs trm ev. calls t = calls s @ look @ rs @ hs @ trm @ ev
      \<and> list_all (\<lambda>x. \<exists>q. x = CallDescribeUHostInstance q) look \<and> length look \<le> 1
      \<and> list_all vserver_call rs \<and> (rs = [] \<or> IsControlPlane S)
      \<and> ((hs = [] \<and> trm = []) \<or> (IsControlPlane S = (rs \<noteq> [])
            \<and> (\<exists>now. hs = [CallDeleteCAPUHost (delete_host_req S (ucluster s) (umachine s) now)])))
      \<and> list_all (\<lambda>x. \<exists>iid zone. uhost_del_sends (ucluster s) iid zone x) trm
      \<and> list_all (\<lambda>x. \<exists>e. x = CallEvent e) ev"
    and objects: "ucluster t = ucluster s \<and> umachine t
      = (case r of Ok _ \<Rightarrow> um_Meta_update (remove_finalizer S MachineFinalizer) (umachine s) | _ \<Rightarrow> umachine s)"
    using machine_deletion_in_order [OF run] by blast+
  show ?thesis
    unfolding run Let_def prod.case using complete order objects by blast
qed


section \<open>Sequences of passes over a machine\<close>

text \<open>C25: in every state that passes over a machine reach from a sound one, the failure reason and the
  failure message come together, a failed machine is not ready, and a ready machine has a provider
  identifier.\<close>

theorem machines_stay_sound:
  assumes "rtranclp (machine_pass S) s t" and "machine_ok (umachine s)"
  shows "let m = umachine t; st = um_Status m in
     (mst_FailureReason st = None) = (mst_FailureMessage st = None)
     \<and> (mst_FailureReason st = None \<or> mst_Ready st = False) \<and> (ms_ProviderID (um_Spec m) \<noteq> None \<or> mst_Ready st = False)"
  using reachable_machine_ok [OF assms] by (auto simp: machine_ok_def Let_def)

theorem machines_stay_sound_witness:
  "let m = umachine (snd (machine_reconcile empty_cloud orphan)) in
     (mst_FailureReason (um_Status m) = None) = (mst_FailureMessage (um_Status m) = None)"
proof -
  have "rtranclp (machine_pass empty_cloud) orphan (snd (machine_reconcile empty_cloud orphan))"
    by (rule r_into_rtranclp, rule machine_pass.live) (rule surjective_pairing)
  moreover have "machine_ok (umachine orphan)"
    by (simp add: machine_ok_def orphan_def start_def sample_machine_def zero_defs machine_setters)
  ultimately show ?thesis using machines_stay_sound [of empty_cloud orphan] by (simp add: Let_def)
qed

section \<open>The life cycle of a machine\<close>

text \<open>
  What the controller promises of a machine, without requests and clouds: a machine is new until it
  has a provider identifier, then it waits for its instance, becomes ready, and may fail; a failed
  machine stays failed, and a ready one never goes back to waiting.
\<close>

datatype life = New | Waiting | Ready | Failed

inductive lifecycle :: "life \<Rightarrow> life \<Rightarrow> bool" where
  stay: "lifecycle x x"
| identified: "lifecycle New Waiting"
| launched: "lifecycle New Ready"
| up: "lifecycle Waiting Ready"
| broken: "x = Waiting \<or> x = Ready \<Longrightarrow> lifecycle x Failed"

inductive_cases lifecycle_FailedE: "lifecycle Failed x"
inductive_cases lifecycle_ReadyE: "lifecycle Ready x"

definition life_of :: "UCloudMachine \<Rightarrow> life" where
  "life_of m =
     (if mst_FailureReason (um_Status m) \<noteq> None \<or> mst_FailureMessage (um_Status m) \<noteq> None then Failed
      else if mst_Ready (um_Status m) then Ready
      else if ms_ProviderID (um_Spec m) \<noteq> None then Waiting
      else New)"

lemma life_of_vitals: "vitals t = vitals s \<Longrightarrow> life_of (umachine t) = life_of (umachine s)"
  by (simp add: life_of_def vitals_def health_def)

lemma CreateInstance_vitals: "CreateInstance S s = (r, t) \<Longrightarrow> vitals t = vitals s"
  using keepsD [OF vitals_keeps(3)] by (simp add: same_def)

text \<open>A pass over a running instance cannot fail the machine, even if it ends in an error.\<close>

lemma running_instance_health:
  assumes "reconcile_instance S i s = (r, t)" and "uh_State i = StateRunning (lib S)"
  shows "snd (health t) = snd (health s)"
proof -
  have ready: "keeps (same (\<lambda>s. snd (health s))) (modify (upd_machine SetReady))"
    "keeps (same (\<lambda>s. snd (health s))) (modify (upd_machine (record_instance S c i)))" for c
    by (rule same.keeps_modify, simp add: same_def health_def machine_setters record_instance_fields)+
  have weaken: "keeps (same (\<lambda>s. snd (health s))) m" if "keeps (same health) m" for m :: "('a st, 'b) prog"
    using that by (simp add: keeps_def same_def)
  have "keeps (same (\<lambda>s. snd (health s))) (reconcile_instance S i)"
    unfolding reconcile_instance_def act_on_state_def assms(2) simp_thms if_True
    by (intro same.keeps_rules ready weaken [OF health_servers(1)] weaken [OF health_log])
      (auto split: option.split intro!: same.keeps_rules weaken [OF health_CreateCAPUHost])
  from keepsD [OF this assms(1)] show ?thesis by (simp add: same_def)
qed

lemma pass_lifecycle:
  assumes run: "machine_reconcile S s = (r, t)" and empty: "lib_ParseProviderID (lib S) '''' = None"
  shows "lifecycle (life_of (umachine s)) (life_of (umachine t))"
proof (cases "mst_FailureReason (um_Status (umachine s)) \<noteq> None \<or> mst_FailureMessage (um_Status (umachine s)) \<noteq> None")
  case True
  then have "t = s" using run by (simp add: machine_reconcile_run)
  then show ?thesis by (simp add: lifecycle.stay)
next
  case healthy: False
  then have life: "life_of (umachine s) = (if mst_Ready (um_Status (umachine s)) then Ready
      else if ms_ProviderID (um_Spec (umachine s)) \<noteq> None then Waiting else New)"
    by (simp add: life_of_def)
  obtain q u where q: "register_finalizers S s = (q, u)" by fastforce
  have u: "vitals u = vitals s" and iid: "GetInstanceID S (umachine u) = GetInstanceID S (umachine s)"
    using register_finalizers_sends(1) [OF q] by (simp_all add: vitals_def health_def)
  have known: "ms_ProviderID (um_Spec (umachine s)) \<noteq> None" if "GetInstanceID S (umachine s) \<noteq> None"
    using that empty by (auto simp: GetInstanceID_def GetProviderID_def split: option.splits)
  have fails: "lifecycle (life_of (umachine s)) Failed" if "GetInstanceID S (umachine s) \<noteq> None"
    using known [OF that] life by (auto intro: lifecycle.broken)
  obtain p v where p: "find_or_create_instance S u = (p, v)" by fastforce
  show ?thesis
  proof (cases "\<exists>i. q = Ok () \<and> p = Ok (Some i) \<and> reconcile_instance S i v = (r, t)")
    case False
    then have "vitals t = vitals s \<or> t = v"
      using run q p healthy u by (auto simp: machine_reconcile_run split: result.splits option.splits if_splits)
    moreover have "vitals v = vitals s \<or> GetInstanceID S (umachine s) \<noteq> None \<and> life_of (umachine v) = Failed"
    proof (cases "GetInstanceID S (umachine u)")
      case None
      then obtain a where "CreateInstance S u = (a, v)"
        using p by (auto simp: find_or_create_run split: result.splits prod.splits)
      from CreateInstance_vitals [OF this] u show ?thesis by simp
    next
      case (Some x)
      then have "vitals v = vitals u \<or> umachine v = fail_machine S gone_error (umachine u)"
        using p by (auto simp: find_or_create_run Let_def vitals_def health_def split: option.splits list.splits)
      then show ?thesis using Some u iid by (auto simp: life_of_def fail_machine_def machine_setters)
    qed
    ultimately show ?thesis
      using fails life_of_vitals [of t s] life_of_vitals [of v s] by (auto intro: lifecycle.stay)
  next
    case True
    then obtain i where i: "p = Ok (Some i)" "reconcile_instance S i v = (r, t)" by blast
    have v: "vitals v = vitals s"
    proof (cases "GetInstanceID S (umachine u)")
      case None
      then obtain a where "CreateInstance S u = (a, v)"
        using p by (auto simp: find_or_create_run split: result.splits prod.splits)
      from CreateInstance_vitals [OF this] u show ?thesis by simp
    next
      case (Some x)
      then show ?thesis
        using p i(1) u by (auto simp: find_or_create_run Let_def vitals_def health_def split: option.splits list.splits)
    qed
    then have hv: "health v = health s" by (simp add: vitals_def)
    have running: "uh_State i = StateRunning (lib S)" if "GetInstanceID S (umachine s) = None"
      using p i(1) that iid
      by (auto simp: find_or_create_run split: result.splits prod.splits elim: CreateInstance_OkE)
    have none: "snd (health s) = (None, None)" using healthy by (simp add: health_def)
    have pid: "ms_ProviderID (um_Spec (umachine t)) \<noteq> None"
      and "health t = health s \<or> health t = (True, None, None) \<or> snd (health t) \<noteq> (None, None)"
      using reconcile_instance_vitals [OF i(2)] none by (auto simp: hv)
    then consider (same) "health t = health s" | (up) "health t = (True, None, None)" | (bad) "snd (health t) \<noteq> (None, None)"
      by blast
    then show ?thesis
    proof cases
      case same
      then have "life_of (umachine t) = (if mst_Ready (um_Status (umachine s)) then Ready else Waiting)"
        using pid none by (auto simp: life_of_def health_def)
      then show ?thesis using life by (auto intro: lifecycle.intros)
    next
      case up
      then have "life_of (umachine t) = Ready" by (simp add: life_of_def health_def)
      then show ?thesis using life by (auto intro: lifecycle.intros)
    next
      case bad
      then have "life_of (umachine t) = Failed" by (auto simp: life_of_def health_def)
      moreover have "GetInstanceID S (umachine s) \<noteq> None"
        using running running_instance_health [OF i(2)] bad none hv by auto
      ultimately show ?thesis using fails by simp
    qed
  qed
qed

lemma deletion_life:
  assumes "machine_reconcileDelete S s = (r, t)"
  shows "life_of (umachine t) = life_of (umachine s)"
  by (rule life_of_vitals) (rule keepsD [OF vitals_reconcileDelete assms, unfolded same_def])

text \<open>C1: the machine controller refines the life cycle: whatever passes follow each other, whatever the
  cloud answers and wherever they fail, the machine goes through transitions of the life cycle only.
  In particular a machine that has failed stays failed.\<close>

theorem machine_refines_lifecycle:
  assumes "rtranclp (machine_pass S) s t" and "lib_ParseProviderID (lib S) '''' = None"
  shows "rtranclp lifecycle (life_of (umachine s)) (life_of (umachine t))"
  using assms(1)
proof (induction rule: rtranclp_induct)
  case (step t u)
  from step(2) have "lifecycle (life_of (umachine t)) (life_of (umachine u))"
    by cases (auto intro: lifecycle.stay pass_lifecycle assms(2) simp: deletion_life)
  with step(3) show ?case by (rule rtranclp.rtrancl_into_rtrancl)
qed simp

lemma failed_is_final: "rtranclp lifecycle Failed x \<Longrightarrow> x = Failed"
  by (induction rule: rtranclp_induct) (auto elim: lifecycle_FailedE)

theorem machine_refines_lifecycle_witness:
  "rtranclp lifecycle Waiting (life_of (umachine (snd (machine_reconcile empty_cloud orphan))))"
proof -
  have "rtranclp (machine_pass empty_cloud) orphan (snd (machine_reconcile empty_cloud orphan))"
    by (rule r_into_rtranclp, rule machine_pass.live) (rule surjective_pairing)
  moreover have "lib_ParseProviderID (lib empty_cloud) '''' = None" by (simp add: empty_cloud_def)
  moreover have "life_of (umachine orphan) = Waiting"
    by (simp add: life_of_def orphan_def start_def sample_machine_def zero_defs machine_setters)
  ultimately show ?thesis using machine_refines_lifecycle [of empty_cloud orphan] by simp
qed

end
