(* ===== verification/Entry_Properties.thy ===== *)
theory Entry_Properties
  imports Sample Passes
begin

text \<open>
  The entry points \<open>Reconcile\<close> of both controllers: what they do before a handler runs, and that the
  objects are persisted however the handler ends.
\<close>

section \<open>The requests only grow\<close>

definition grows :: "'w st \<Rightarrow> 'w st \<Rightarrow> bool" where
  "grows s t \<longleftrightarrow> (\<exists>cs. calls t = calls s @ cs)"

interpretation grows: frame grows
  by unfold_locales (auto simp: grows_def)

lemma growsI: "calls t = calls s @ cs \<Longrightarrow> grows s t"
  by (auto simp: grows_def)

lemma grows_obtaining: "(\<And>c. obtaining c (P c) m) \<Longrightarrow> keeps grows m"
  by (rule keepsI) (metis growsI obtainingD surjective_pairing)

lemma prov_frame_grows: "keeps prov_frame m \<Longrightarrow> keeps grows m"
  using prov_frameD(4) by (fastforce simp: keeps_def grows_def)

lemma grows_modify: "(\<And>s. calls (f s) = calls s) \<Longrightarrow> keeps grows (modify f)"
  by (rule grows.keeps_modify) (simp add: grows_def)

lemma grows_calls:
  "keeps grows (PatchObject S)" "keeps grows (machine_PatchObject S)" "keeps grows (invoke f tag q)"
  "keeps grows (peek g q)" "keeps grows (emit_event e)"
  by (rule keepsI, simp add: prog_simps PatchObject_run machine_PatchObject_run Let_def peek_def grows_def
      split: prod.split)+

lemma grows_updates:
  "keeps grows (modify (upd_cluster_meta h))" "keeps grows (modify (upd_machine_meta h))"
  "keeps grows (modify (upd_status k))" "keeps grows (modify set_endpoint)" "keeps grows (modify (upd_machine l))"
  by (rule grows_modify, simp)+

lemmas grows_steps = grows_calls grows_updates prov_frame_grows [OF prov_provision]
  prov_frame_grows [OF prov_CreateBastionInstance] prov_frame_grows [OF prov_steps(6)]

lemma grows_cluster_reconcile: "keeps grows (cluster_reconcile S)"
  unfolding cluster_reconcile_def reconcile_endpoint_def
  by (intro grows.keeps_rules grows_steps) (auto split: sum.split intro!: grows.keeps_rules grows_steps)

lemma grows_cluster_reconcileDelete: "keeps grows (cluster_reconcileDelete S)"
proof (rule keepsI)
  fix s :: "'a st"
  obtain q u where loop: "machines_remain S (length (om_Finalizers (uc_Meta (ucluster s))))
      (om_Finalizers (uc_Meta (ucluster s))) True s = (q, u)" by fastforce
  obtain p v where del: "delete_resources S u = (p, v)" by fastforce
  show "grows s (snd (cluster_reconcileDelete S s))"
    using machines_remain_frame [OF loop] delete_resources_sends [OF del] loop del
    by (auto simp: cluster_reconcileDelete_run grows_def split: result.split)
qed

lemma grows_machine_reconcile: "keeps grows (machine_reconcile S)"
proof -
  have capu: "keeps grows (CreateCAPUHost S)"
  proof (rule keepsI)
    fix s :: "'a st"
    obtain r t where st: "CreateCAPUHost S s = (r, t)" by fastforce
    then show "grows s (snd (CreateCAPUHost S s))"
      by (rule CreateCAPUHost_cases) (auto simp: st grows_def)
  qed
  note rules = grows.keeps_rules grows_steps capu grows_obtaining [OF obtaining_InstanceIfExists]
    grows_obtaining [OF obtaining_CreateInstance] grows_obtaining [OF AddRealServer_obtaining]
    grows_obtaining [OF DelRealServer_obtaining]
  show ?thesis
    unfolding machine_reconcile_def register_finalizers_def find_or_create_instance_def reconcile_instance_def
      act_on_state_def log_instance_id_def
    by (intro rules) (auto split: option.split intro!: rules)
qed

lemma grows_machine_reconcileDelete: "keeps grows (machine_reconcileDelete S)"
proof -
  note rules = grows.keeps_rules grows_steps grows_obtaining [OF obtaining_InstanceIfExists]
    grows_obtaining [OF DelRealServer_obtaining] grows_obtaining [OF DeleteCAPUHost_obtaining]
    grows_obtaining [OF TerminateInstance_obtaining]
  show ?thesis
    unfolding machine_reconcileDelete_def remove_instance_def
    by (intro rules) (auto split: option.split intro!: rules)
qed

section \<open>The deferred patches\<close>

lemma deferred_cluster_patch:
  assumes run: "with_defer m (Close S) s = (r, t)" and m: "m s = (q, u)"
  shows "calls t = calls u @ [CallPatchCluster (ucluster t)]" and "umachine t = umachine u"
    and "case r of Ok a \<Rightarrow> q = Ok a \<and> (\<exists>w. rp_err (fst (kube_PatchCluster (kube S) (ucluster t) w)) = None) | _ \<Rightarrow> True"
  using run m
  by (auto simp: with_defer_def Close_def PatchObject_run Let_def split: option.splits result.splits)

lemma deferred_machine_patch:
  assumes run: "with_defer m (machine_Close S) s = (r, t)" and m: "m s = (q, u)"
  shows "calls t = calls u @ [CallPatchMachine (umachine t)]" and "ucluster t = ucluster u"
    and "case r of Ok a \<Rightarrow> q = Ok a \<and> (\<exists>w. rp_err (fst (kube_PatchMachine (kube S) (umachine t) w)) = None) | _ \<Rightarrow> True"
  using run m
  by (auto simp: with_defer_def machine_Close_def machine_PatchObject_run Let_def split: option.splits result.splits)

lemma kube_NewService [simp]: "kube (NewService S sc) = kube S"
  by (simp add: NewService_def)

text \<open>A look at the world changes neither the objects nor the requests.\<close>

lemma bind_peek: "bind (peek f q) k s = k (fst (f q (world s)))
    (s\<lparr>world := snd (f q (world s)), clock := clock s + rp_took (fst (f q (world s)))\<rparr>)"
  by (simp add: bind_def peek_def split: prod.split)

text \<open>However reconciling a cluster ends, it has sent nothing at all, or its last request patches the
  cluster as the handler left it; and it reports success only if that patch went through.\<close>

theorem cluster_always_closed:
  "let (r, t) = cluster_Reconcile E S req s in
     calls t = calls s
     \<or> (\<exists>cs. calls t = calls s @ cs @ [CallPatchCluster (ucluster t)]
        \<and> (case r of Ok _ \<Rightarrow> \<exists>w. rp_err (fst (kube_PatchCluster (kube S) (ucluster t) w)) = None | _ \<Rightarrow> True))"
proof -
  obtain r t where run: "cluster_Reconcile E S req s = (r, t)" by fastforce
  show ?thesis
  proof (cases "calls t = calls s")
    case False
    then obtain S' b u where body: "with_defer (if b then cluster_reconcileDelete S' else cluster_reconcile S') (Close S') u = (r, t)"
      and S': "kube S' = kube S" and u: "calls u = calls s"
      using run
      by (auto simp: cluster_Reconcile_def bind_peek if_err_run prog_simps Let_def
          split: if_splits option.splits sum.splits)
    obtain q v where v: "(if b then cluster_reconcileDelete S' else cluster_reconcile S') u = (q, v)" by fastforce
    have "grows u v"
      using v keepsD [OF grows_cluster_reconcile] keepsD [OF grows_cluster_reconcileDelete] by (auto split: if_splits)
    then obtain cs where "calls v = calls s @ cs" by (auto simp: grows_def u)
    with deferred_cluster_patch [OF body v] show ?thesis
      by (auto simp: run S' split: result.splits)
  qed (simp add: run)
qed

text \<open>The way \<open>machine_Reconcile\<close> ends, closed under what it does before it has a scope.\<close>

definition closes :: "'w Service \<Rightarrow> 'w st \<Rightarrow> Result result \<Rightarrow> 'w st \<Rightarrow> bool" where
  "closes S s r t \<longleftrightarrow>
     calls t = calls s \<or> (calls t = calls s @ [CallPatchCluster (ucluster t)] \<and> (\<exists>e. r = Err e))
     \<or> (\<exists>cs. calls t = calls s @ cs @ [CallPatchMachine (umachine t), CallPatchCluster (ucluster t)]
        \<and> (case r of Ok _ \<Rightarrow> \<exists>v w. rp_err (fst (kube_PatchMachine (kube S) (umachine t) v)) = None
              \<and> rp_err (fst (kube_PatchCluster (kube S) (ucluster t) w)) = None | _ \<Rightarrow> True))"

definition closing :: "'w Service \<Rightarrow> ('w st, Result) prog \<Rightarrow> bool" where
  "closing S m \<longleftrightarrow> (\<forall>s. closes S s (fst (m s)) (snd (m s)))"

lemma closes_calls: "closes S u r t \<Longrightarrow> calls u = calls s \<Longrightarrow> closes S s r t"
  by (simp add: closes_def)

lemma closing_rules:
  "closing S (ret a)" "closing S (raise e)"
  "closing S k \<Longrightarrow> closing S (if_err x g k)"
  "closing S m \<Longrightarrow> closing S n \<Longrightarrow> closing S (if b then m else n)"
  by (auto simp: closing_def prog_simps if_err_run split: option.split) (auto simp: closes_def)

lemma closing_peek: "(\<And>a. closing S (f a)) \<Longrightarrow> closing S (bind (peek h q) f)"
  unfolding closing_def bind_peek by (intro allI, rule closes_calls, blast, simp)

lemma closing_deref: "(\<And>a. closing S (f a)) \<Longrightarrow> closing S (bind (deref d) f)"
  by (auto simp: closing_def bind_deref split: option.split) (auto simp: closes_def)

lemma closing_scopes:
  assumes kube: "kube S' = kube S"
  shows "closing S (bind (modify (ucluster_update f)) (\<lambda>_. with_defer (raise e) (Close S')))"
    and "closing S (bind (modify (ucluster_update f)) (\<lambda>_. with_defer (bind (modify (umachine_update g)) (\<lambda>_.
       with_defer (if b then machine_reconcileDelete S' else machine_reconcile S') (machine_Close S'))) (Close S')))"
proof -
  show "closing S (bind (modify (ucluster_update f)) (\<lambda>_. with_defer (raise e) (Close S')))"
    by (simp add: closing_def closes_def prog_simps with_defer_def Close_def PatchObject_run Let_def split: option.split)
  let ?body = "if b then machine_reconcileDelete S' else machine_reconcile S'"
  let ?inner = "bind (modify (umachine_update g)) (\<lambda>_. with_defer ?body (machine_Close S'))"
  show "closing S (bind (modify (ucluster_update f)) (\<lambda>_. with_defer ?inner (Close S')))"
    unfolding closing_def
  proof
    fix s
    obtain r t where outer: "with_defer ?inner (Close S') (ucluster_update f s) = (r, t)" by fastforce
    define u where "u = umachine_update g (ucluster_update f s)"
    obtain q v where v: "?body u = (q, v)" by fastforce
    obtain p w where w: "with_defer ?body (machine_Close S') u = (p, w)" by fastforce
    have inner: "?inner (ucluster_update f s) = (p, w)" using w by (simp add: prog_simps u_def)
    have "grows u v"
      using v keepsD [OF grows_machine_reconcile] keepsD [OF grows_machine_reconcileDelete] by (cases b) auto
    then obtain cs where "calls v = calls s @ cs" by (auto simp: grows_def u_def)
    then have "calls t = calls s @ cs @ [CallPatchMachine (umachine t), CallPatchCluster (ucluster t)]"
      using deferred_machine_patch(1) [OF w v] deferred_cluster_patch(1,2) [OF outer inner] by simp
    moreover have "case r of Ok _ \<Rightarrow> \<exists>v w. rp_err (fst (kube_PatchMachine (kube S) (umachine t) v)) = None
              \<and> rp_err (fst (kube_PatchCluster (kube S) (ucluster t) w)) = None | _ \<Rightarrow> True"
      using deferred_machine_patch(3) [OF w v] deferred_cluster_patch(2,3) [OF outer inner]
      by (auto simp: kube split: result.splits)
    ultimately have "closes S s r t" by (auto simp: closes_def)
    then show "closes S s (fst (bind (modify (ucluster_update f)) (\<lambda>_. with_defer ?inner (Close S')) s))
        (snd (bind (modify (ucluster_update f)) (\<lambda>_. with_defer ?inner (Close S')) s))"
      using outer by (simp add: prog_simps)
  qed
qed

lemma closing_machine_Reconcile: "closing S (machine_Reconcile E S req)"
  unfolding machine_Reconcile_def Let_def
  by (rule closing_rules closing_peek closing_deref closing_scopes | split option.split | split sum.split
      | intro conjI allI impI | simp)+

text \<open>C23: however reconciling a machine ends, it has sent nothing at all, or its last requests patch first
  the machine and then the cluster as the handler left them (only the cluster if the scope of the
  machine cannot be made); and it reports success only if the patches went through.\<close>

theorem machine_always_closed:
  "let (r, t) = machine_Reconcile E S req s in
     calls t = calls s \<or> (calls t = calls s @ [CallPatchCluster (ucluster t)] \<and> (\<exists>e. r = Err e))
     \<or> (\<exists>cs. calls t = calls s @ cs @ [CallPatchMachine (umachine t), CallPatchCluster (ucluster t)]
        \<and> (case r of Ok _ \<Rightarrow> \<exists>v w. rp_err (fst (kube_PatchMachine (kube S) (umachine t) v)) = None
              \<and> rp_err (fst (kube_PatchCluster (kube S) (ucluster t) w)) = None | _ \<Rightarrow> True))"
  using closing_machine_Reconcile [of S E req] by (simp add: closing_def closes_def case_prod_beta)

section \<open>Pausing\<close>

text \<open>C34: while its cluster is paused neither a cluster nor a machine is touched: nothing is sent, no object
  is written, and there is no reconciliation to come.\<close>

theorem paused_objects_untouched:
  assumes paused: "cl_Paused c" "\<And>m. lib_IsPaused (lib S) True m"
    and owners: "\<And>m w. rp_body (fst (kube_GetOwnerCluster (kube S) m w)) = Some c"
      "\<And>m w. rp_body (fst (kube_GetClusterFromMetadata (kube S) m w)) = c"
  shows "let (r, t) = cluster_Reconcile E S req s; (q, u) = machine_Reconcile E S req s in
    calls t = calls s \<and> ucluster t = ucluster s \<and> umachine t = umachine s \<and> (r = Ok no_requeue \<or> (\<exists>e. r = Err e))
    \<and> calls u = calls s \<and> ucluster u = ucluster s \<and> umachine u = umachine s \<and> (q = Ok no_requeue \<or> (\<exists>e. q = Err e))"
proof -
  have skip: "isPaused S (Some c) m" for m using paused by (simp add: isPaused_def)
  obtain r t where rt: "cluster_Reconcile E S req s = (r, t)" by fastforce
  obtain q u where qu: "machine_Reconcile E S req s = (q, u)" by fastforce
  have "calls t = calls s \<and> ucluster t = ucluster s \<and> umachine t = umachine s \<and> (r = Ok no_requeue \<or> (\<exists>e. r = Err e))"
    using rt by (auto simp: cluster_Reconcile_def bind_peek if_err_run prog_simps Let_def owners skip split: if_splits option.splits)
  moreover have "calls u = calls s \<and> ucluster u = ucluster s \<and> umachine u = umachine s \<and> (q = Ok no_requeue \<or> (\<exists>e. q = Err e))"
    using qu by (auto simp: machine_Reconcile_def bind_peek if_err_run prog_simps Let_def owners skip split: if_splits option.splits)
  ultimately show ?thesis by (simp add: rt qu)
qed

definition paused_cloud :: "nat Service" where
  "paused_cloud = sample\<lparr>kube := sample_kube\<lparr>kube_GetOwnerCluster := const_api (Some (sample_owner\<lparr>cl_Paused := True\<rparr>)),
     kube_GetClusterFromMetadata := const_api (sample_owner\<lparr>cl_Paused := True\<rparr>)\<rparr>\<rparr>"

definition sample_env :: Env where
  "sample_env = \<lparr>env_NewConfig = sv_Config sample, env_Getenv = (\<lambda>x. ''''), env_NewClusterHelper = (\<lambda>c. None),
     env_NewMachineHelper = (\<lambda>m. None)\<rparr>"

theorem paused_objects_untouched_witness:
  "calls (snd (cluster_Reconcile sample_env paused_cloud (''default'', ''c1'') start)) = []
   \<and> calls (snd (machine_Reconcile sample_env paused_cloud (''default'', ''m1'') start)) = []"
proof -
  have paused: "cl_Paused (sample_owner\<lparr>cl_Paused := True\<rparr>)" "lib_IsPaused (lib paused_cloud) True m"
    "rp_body (fst (kube_GetOwnerCluster (kube paused_cloud) m w)) = Some (sample_owner\<lparr>cl_Paused := True\<rparr>)"
    "rp_body (fst (kube_GetClusterFromMetadata (kube paused_cloud) n w)) = sample_owner\<lparr>cl_Paused := True\<rparr>" for m n w
    by (simp_all add: paused_cloud_def const_api_def)
  have "calls start = []" by (simp add: start_def)
  with paused_objects_untouched [OF paused, where E = sample_env and s = start and req = "(''default'', ''c1'')"]
    paused_objects_untouched [OF paused, where E = sample_env and s = start and req = "(''default'', ''m1'')"]
  show ?thesis by (simp add: case_prod_beta Let_def)
qed

end
