(* ===== verification/Convergence.thy ===== *)
theory Convergence
  imports Cluster_Properties Deletion_Facts
begin

text \<open>
  A pass that nothing stands in the way of finishes the job: against a cloud that serves every
  request, one pass over a well specified cluster provisions it completely, whichever identifiers the
  status has already. The one exception is a status with a load balancer but no address, which a pass
  leaves behind when it stops between recording the two: no later pass gets further.
\<close>

section \<open>A cloud that serves every request\<close>

text \<open>A call that never fails, with answers that satisfy \<open>P\<close>.\<close>

definition served :: "('q, 'r, 'w) api \<Rightarrow> ('r \<Rightarrow> bool) \<Rightarrow> bool" where
  "served f P \<longleftrightarrow> (\<forall>q w. rp_err (fst (f q w)) = None \<and> P (rp_body (fst (f q w))))"

definition answers ::
  "'w Service \<Rightarrow> ('q, 'a ResponseBase_scheme) codec_of \<Rightarrow> 'a ResponseBase_scheme
    \<Rightarrow> ('a ResponseBase_scheme \<Rightarrow> bool) \<Rightarrow> bool" where
  "answers S cd res P \<longleftrightarrow> (\<forall>q w. \<exists>h res'. buildHTTPRequest S cd q = Inr h
      \<and> http_outcome S cd res (fst (http_Send (http S) h w)) = Ok res' \<and> P res')"

lemma servedD: "served f P \<Longrightarrow> rp_err (fst (f q w)) = None" "served f P \<Longrightarrow> P (rp_body (fst (f q w)))"
  by (simp_all add: served_def)

lemma answers_doRequest:
  assumes "answers S cd res P"
  obtains res' t where "doRequest S cd tag q res s = (Ok res', t)" and "P res'" and "ucluster t = ucluster s"
proof -
  from assms obtain h res' where h: "buildHTTPRequest S cd q = Inr h"
    "http_outcome S cd res (fst (http_Send (http S) h (world s))) = Ok res'" "P res'"
    unfolding answers_def by blast
  then have "doRequest S cd tag q res s = (Ok res', sent (tag q) (rp_took (fst (http_Send (http S) h (world s))))
      (snd (http_Send (http S) h (world s))) s)"
    by (simp add: doRequest_run Let_def)
  from this h(3) show thesis by (rule that) simp
qed

text \<open>
  Every request of a pass is served, what the cloud creates and describes has a name, described
  resources are complete, and an instance that has been created is described when it is asked for by
  its identifier.
\<close>

definition cooperative :: "'w Service \<Rightarrow> bool" where
  "cooperative S \<longleftrightarrow>
     served (kube_PatchCluster (kube S)) (\<lambda>_. True)
     \<and> answers S (cd_ListBusinessGroup (http S)) zero_ListBusinessGroupResponse
         (\<lambda>r. \<forall>g\<in>set (lbg_Infos r). bg_BusinessId g \<noteq> '''')
     \<and> answers S (cd_CreateBusinessGroup (http S)) zero_CreateBusinessGroupResponse (\<lambda>r. cbgr_BusinessId r \<noteq> '''')
     \<and> answers S (cd_CreateULB (http S)) zero_CreateULBResponse (\<lambda>r. culbr_ULBId r \<noteq> '''')
     \<and> answers S (cd_CreateCAPUCluster (http S)) zero_CreateCAPUClusterResponse (\<lambda>r. ccr_ClusterId r \<noteq> '''')
     \<and> served (sdk_DescribeVPC (vpcClient S)) (\<lambda>vs. \<forall>v\<in>set vs. vi_VPCId v \<noteq> '''' \<and> vi_Network v \<noteq> [])
     \<and> served (sdk_CreateVPC (vpcClient S)) (\<lambda>i. i \<noteq> '''')
     \<and> served (sdk_DescribeSubnet (vpcClient S)) (\<lambda>vs. \<forall>v\<in>set vs. si_SubnetId v \<noteq> '''')
     \<and> served (sdk_CreateSubnet (vpcClient S)) (\<lambda>i. i \<noteq> '''')
     \<and> served (sdk_DescribeNATGW (vpcClient S)) (\<lambda>gs. \<forall>g\<in>set gs. ni_NATGWId g \<noteq> '''' \<and> ni_IPSet g \<noteq> [])
     \<and> served (sdk_CreateNATGW (vpcClient S)) (\<lambda>i. i \<noteq> '''')
     \<and> served (sdk_DescribeFirewall (unetClient S)) (\<lambda>fs. fs \<noteq> [])
     \<and> served (sdk_AllocateEIP (unetClient S))
         (\<lambda>es. es \<noteq> [] \<and> ae_EIPAddr (hd es) \<noteq> [] \<and> hd (ae_EIPAddr (hd es)) \<noteq> '''')
     \<and> served (sdk_BindEIP (unetClient S)) (\<lambda>_. True)
     \<and> served (sdk_DescribeULB (ulbClient S))
         (\<lambda>us. \<forall>u\<in>set us. ui_ULBId u \<noteq> '''' \<and> ui_VServerSet u \<noteq> [] \<and> ui_IPSet u \<noteq> [] \<and> uip_EIP (hd (ui_IPSet u)) \<noteq> '''')
     \<and> served (sdk_CreateVServer (ulbClient S)) (\<lambda>_. True)
     \<and> served (sdk_DescribeUHostInstance (uhostClient S)) (\<lambda>_. True)
     \<and> served (sdk_CreateUHostInstance (uhostClient S)) (\<lambda>_. True)
     \<and> (\<forall>q w. case sdk_CreateUHostInstance (uhostClient S) q w of (made, w') \<Rightarrow> \<forall>d.
          dh_UHostIds d = rp_body made \<longrightarrow> rp_body (fst (sdk_DescribeUHostInstance (uhostClient S) d w')) \<noteq> [])"

text \<open>
  A cluster whose specification names a known region and a subnet with a mask, and whose bastion, if it
  has one, has a password in base64 and an image in its zone, or in every zone of the region if the
  zone is left to chance.
\<close>

definition bastion_specified :: "UCloudClusterSpec \<Rightarrow> string list \<Rightarrow> bool" where
  "bastion_specified spec zones \<longleftrightarrow> bas_SSHPassword (cs_Bastion spec) = ''''
     \<or> DecodeString (bas_SSHPassword (cs_Bastion spec)) \<noteq> None
       \<and> (\<forall>z\<in>set (if bas_Zone (cs_Bastion spec) \<noteq> '''' then [bas_Zone (cs_Bastion spec)] else zones).
            region_image (cs_Region spec) z \<noteq> '''')"

definition well_specified :: "'w Service \<Rightarrow> UCloudClusterSpec \<Rightarrow> bool" where
  "well_specified S spec \<longleftrightarrow>
     CHR ''/'' \<in> set (subs_CidrBlock (nws_Subnet (cs_Network spec)))
     \<and> (\<exists>zones. map_of RegionZoneMap (cs_Region spec) = Some zones \<and> bastion_specified spec zones)
     \<and> (\<exists>cn p ps x xs. cl_ClusterNetwork (sv_Cluster S) = Some cn \<and> cn_Pods cn = Some (p # ps)
          \<and> cn_Services cn = Some (x # xs))"

lemma well_specified_endpoint: "well_specified S (spec\<lparr>cs_ControlPlaneEndpoint := e\<rparr>) = well_specified S spec"
proof -
  have "bastion_specified (spec\<lparr>cs_ControlPlaneEndpoint := e\<rparr>) zones = bastion_specified spec zones" for zones
    by (simp add: bastion_specified_def)
  then show ?thesis
    by (simp add: well_specified_def)
qed

section \<open>Each step records its identifier\<close>

lemma group_converges:
  assumes "cooperative S"
  obtains t where "ReconcileUGroup S s = (Ok (), t)" and "grp_GroupId (group_of (ucluster t)) \<noteq> ''''"
proof (cases "grp_GroupId (group_of (ucluster s)) = ''''")
  case False
  then show thesis using that [of s] by (simp add: group.done_skip)
next
  case True
  from assms have lst: "answers S (cd_ListBusinessGroup (http S)) zero_ListBusinessGroupResponse
         (\<lambda>r. \<forall>g\<in>set (lbg_Infos r). bg_BusinessId g \<noteq> '''')"
    and new: "answers S (cd_CreateBusinessGroup (http S)) zero_CreateBusinessGroupResponse (\<lambda>r. cbgr_BusinessId r \<noteq> '''')"
    by (simp_all add: cooperative_def)
  obtain res u where u: "doRequest S (cd_ListBusinessGroup (http S)) CallListBusinessGroup
      (list_group_req (ucluster s) (clock s)) zero_ListBusinessGroupResponse s = (Ok res, u)"
    "\<forall>g\<in>set (lbg_Infos res). bg_BusinessId g \<noteq> ''''" using lst by (rule answers_doRequest)
  obtain res' v where v: "doRequest S (cd_CreateBusinessGroup (http S)) CallCreateBusinessGroup
      (create_group_req S (ucluster s) (clock u)) zero_CreateBusinessGroupResponse u = (Ok res', v)"
    "cbgr_BusinessId res' \<noteq> ''''" using new by (rule answers_doRequest)
  have "\<exists>g w. lookup_group S (ucluster s) s = (Ok g, w) \<and> bg_BusinessId g \<noteq> ''''"
    using u(2) v(2)
    by (auto simp: lookup_group_def create_group_def prog_simps try_else_def u(1) v(1) find_group_def
        split: option.split dest: find_Some_in)
  then show thesis
    using that True by (auto simp: ReconcileUGroup_run bind_def record_group_def modify_run group_of_def)
qed

lemma vpc_converges:
  assumes "cooperative S"
  obtains t where "ReconcileVPC S s = (Ok (), t)" and "vpc_VpcId (vpc_of (ucluster t)) \<noteq> ''''"
proof (cases "vpc_VpcId (vpc_of (ucluster s)) = ''''")
  case False
  then show thesis using that [of s] by (simp add: vpc.done_skip)
next
  case True
  from assms have lst: "served (sdk_DescribeVPC (vpcClient S)) (\<lambda>vs. \<forall>v\<in>set vs. vi_VPCId v \<noteq> '''' \<and> vi_Network v \<noteq> [])"
    and new: "served (sdk_CreateVPC (vpcClient S)) (\<lambda>i. i \<noteq> '''')"
    by (simp_all add: cooperative_def)
  note ok = servedD [OF lst] servedD [OF new]
  have "\<exists>t. ReconcileVPC S s = (Ok (), t) \<and> vpc_VpcId (vpc_of (ucluster t)) \<noteq> ''''"
    using True ok(2) ok(4)
    by (auto simp: ReconcileVPC_run ok(1) ok(3) find_vpc_def vpc_of_def network_def bind_index
        split: option.split list.split dest!: find_Some_in)
  then show thesis using that by blast
qed

lemma Split_slash: "c \<in> set s \<Longrightarrow> 1 < length (Split s c)"
  by (simp add: length_Split count_list_0_iff gr0_conv_Suc [symmetric] neq0_conv [symmetric] del: neq0_conv)

lemma subnet_converges:
  assumes "cooperative S" and vpc: "vpc_VpcId (vpc_of (ucluster s)) \<noteq> ''''"
    and cidr: "CHR ''/'' \<in> set (subs_CidrBlock (scope_Subnet (ucluster s)))"
  obtains t where "ReconcileSubnet S s = (Ok (), t)" and "sub_SubnetId (subnet_of (ucluster t)) \<noteq> ''''"
proof (cases "sub_SubnetId (subnet_of (ucluster s)) = ''''")
  case False
  then show thesis using that [of s] by (simp add: subnet.done_skip)
next
  case True
  from assms(1) have lst: "served (sdk_DescribeSubnet (vpcClient S)) (\<lambda>vs. \<forall>v\<in>set vs. si_SubnetId v \<noteq> '''')"
    and new: "served (sdk_CreateSubnet (vpcClient S)) (\<lambda>i. i \<noteq> '''')"
    by (simp_all add: cooperative_def)
  note ok = servedD [OF lst] servedD [OF new]
  have "\<exists>t. ReconcileSubnet S s = (Ok (), t) \<and> sub_SubnetId (subnet_of (ucluster t)) \<noteq> ''''"
    using True vpc Split_slash [OF cidr] ok(2) ok(4)
    by (auto simp: ReconcileSubnet_run ok(1) ok(3) find_subnet_def subnet_of_def network_def
        split: option.split dest!: find_Some_in)
  then show thesis using that by blast
qed

text \<open>Allocating an address and looking up the firewall.\<close>

lemma eip_converges:
  assumes "cooperative S"
  obtains eip t where "createEIP S spec s = (Ok eip, t)" and "eip_EIPAddr eip \<noteq> ''''" and "ucluster t = ucluster s"
proof -
  from assms have eip: "served (sdk_AllocateEIP (unetClient S))
         (\<lambda>es. es \<noteq> [] \<and> ae_EIPAddr (hd es) \<noteq> [] \<and> hd (ae_EIPAddr (hd es)) \<noteq> '''')"
    by (simp add: cooperative_def)
  define a where "a = sdk_AllocateEIP (unetClient S) (allocate_eip_req (ucluster s) spec) (world s)"
  have a: "rp_err (fst a) = None" "rp_body (fst a) \<noteq> []" "ae_EIPAddr (hd (rp_body (fst a))) \<noteq> []"
      "hd (ae_EIPAddr (hd (rp_body (fst a)))) \<noteq> ''''"
    using servedD [OF eip] by (simp_all add: a_def)
  obtain x xs where x: "rp_body (fst a) = x # xs" using a(2) by (cases "rp_body (fst a)") auto
  obtain y ys where y: "ae_EIPAddr x = y # ys" using a(3) x by (cases "ae_EIPAddr x") auto
  have "\<exists>eip t. createEIP S spec s = (Ok eip, t) \<and> eip_EIPAddr eip \<noteq> '''' \<and> ucluster t = ucluster s"
    using a(1,4) x y by (simp add: createEIP_outcome Let_def allocated_def flip: a_def)
  then show thesis using that by blast
qed

lemma firewall_converges:
  assumes "cooperative S"
  obtains fw t where "getFirewall S fid s = (Ok fw, t)" and "ucluster t = ucluster s"
proof -
  from assms have fw: "served (sdk_DescribeFirewall (unetClient S)) (\<lambda>fs. fs \<noteq> [])"
    by (simp add: cooperative_def)
  define a where "a = sdk_DescribeFirewall (unetClient S) (describe_firewall_req (ucluster s) fid) (world s)"
  have a: "rp_err (fst a) = None" "rp_body (fst a) \<noteq> []"
    using servedD [OF fw] by (simp_all add: a_def)
  then obtain x xs where "rp_body (fst a) = x # xs" by (cases "rp_body (fst a)") auto
  with a(1) have "\<exists>fw t. getFirewall S fid s = (Ok fw, t) \<and> ucluster t = ucluster s"
    by (simp add: getFirewall_outcome Let_def flip: a_def)
  then show thesis using that by blast
qed

lemma nat_converges:
  assumes "cooperative S" and vpc: "vpc_VpcId (vpc_of (ucluster s)) \<noteq> ''''"
    and subnet: "sub_SubnetId (subnet_of (ucluster s)) \<noteq> ''''"
  obtains t where "ReconcileNat S s = (Ok (), t)" and "nat_NatGatewayId (nat_of (ucluster t)) \<noteq> ''''"
proof (cases "nat_NatGatewayId (nat_of (ucluster s)) = ''''")
  case False
  then show thesis using that [of s] by (simp add: nat.done_skip)
next
  case True
  from assms(1) have lst: "served (sdk_DescribeNATGW (vpcClient S)) (\<lambda>gs. \<forall>g\<in>set gs. ni_NATGWId g \<noteq> '''' \<and> ni_IPSet g \<noteq> [])"
    and new: "served (sdk_CreateNATGW (vpcClient S)) (\<lambda>i. i \<noteq> '''')"
    by (simp_all add: cooperative_def)
  note ok = servedD [OF lst] servedD [OF new]
  have created: "\<exists>g w. create_nat S (ucluster s) u = (Ok g, w) \<and> ni_NATGWId g \<noteq> '''' \<and> ni_IPSet g \<noteq> []" for u :: "'a st"
  proof -
    obtain fw v where fw: "getFirewall S (fws_FirewallId (nws_Firewall (cs_Network (uc_Spec (ucluster s))))) u = (Ok fw, v)"
      using assms(1) by (rule firewall_converges)
    obtain eip w where eip: "createEIP S (nats_EIP (nat_spec (ucluster s))) v = (Ok eip, w)"
      using assms(1) by (rule eip_converges)
    show ?thesis
      using subnet ok(4) by (simp add: create_nat_def Let_def bind_def fw eip invoke_run if_err_run ok(3) ret_run)
  qed
  have "\<exists>g w. lookup_nat S (ucluster s) s = (Ok g, w) \<and> ni_NATGWId g \<noteq> '''' \<and> ni_IPSet g \<noteq> []"
    using ok(2) created by (auto simp: lookup_nat_def prog_simps if_err_run ok(1) find_nat_def
        split: option.split dest!: find_Some_in)
  then show thesis
    using that True vpc by (auto simp: ReconcileNat_run bind_def record_nat_def modify_run index_run nat_of_def network_def)
qed

lemma ulb_converges:
  assumes "cooperative S" and vpc: "vpc_VpcId (vpc_of (ucluster s)) \<noteq> ''''"
  obtains t where "ReconcileULB S s = (Ok (), t)" and "ulb_LoadBalancerId (ulb_of (ucluster t)) \<noteq> ''''"
    and "if ulb_LoadBalancerId (ulb_of (ucluster s)) \<noteq> '''' then ulb_of (ucluster t) = ulb_of (ucluster s)
      else eip_EIPAddr (ulb_EIP (ulb_of (ucluster t))) \<noteq> ''''"
proof (cases "ulb_LoadBalancerId (ulb_of (ucluster s)) = ''''")
  case False
  then show thesis using that [of s] by (simp add: ulb.done_skip)
next
  case True
  let ?good = "\<lambda>u. ui_ULBId u \<noteq> '''' \<and> ui_VServerSet u \<noteq> [] \<and> ui_IPSet u \<noteq> [] \<and> uip_EIP (hd (ui_IPSet u)) \<noteq> ''''"
  from assms(1) have lst: "served (sdk_DescribeULB (ulbClient S)) (\<lambda>us. \<forall>u\<in>set us. ?good u)"
    and new: "answers S (cd_CreateULB (http S)) zero_CreateULBResponse (\<lambda>r. culbr_ULBId r \<noteq> '''')"
    and bnd: "served (sdk_BindEIP (unetClient S)) (\<lambda>_. True)"
    and vsv: "served (sdk_CreateVServer (ulbClient S)) (\<lambda>_. True)"
    by (simp_all add: cooperative_def)
  note ok = servedD [OF lst] servedD(1) [OF bnd] servedD(1) [OF vsv]
  have created: "\<exists>g w. create_ulb S (ucluster s) u = (Ok g, w) \<and> ?good g" for u :: "'a st"
  proof -
    obtain res v where res: "doRequest S (cd_CreateULB (http S)) CallCreateULB (create_ulb_req (clock u) (ucluster s))
        zero_CreateULBResponse u = (Ok res, v)" "culbr_ULBId res \<noteq> ''''"
      using new by (rule answers_doRequest)
    obtain eip w where eip: "createEIP S (ulbs_EIP (ulb_spec (ucluster s))) v = (Ok eip, w)" "eip_EIPAddr eip \<noteq> ''''"
      using assms(1) by (rule eip_converges)
    show ?thesis
      using res(2) eip(2)
      by (simp add: create_ulb_def Let_def bind_def gets_run try_else_def res(1) eip(1) bindEIP_outcome invoke_run
          if_err_run ok ret_run)
  qed
  have "\<exists>g w. lookup_ulb S (ucluster s) s = (Ok g, w) \<and> ?good g"
    using ok(2) created by (auto simp: lookup_ulb_def prog_simps if_err_run ok(1) find_ulb_def
        split: option.split dest!: find_Some_in)
  then show thesis
    using that True vpc
    by (auto simp: ReconcileULB_run bind_def record_ulb_def modify_run index_run ulb_of_def network_def hd_conv_nth)
qed

lemma capu_converges:
  assumes "cooperative S" and "well_specified S spec"
  obtains t where "CreateCAPUCluster S s = (Ok (), t)" and "cst_ClusterId (uc_Status (ucluster t)) \<noteq> ''''"
proof (cases "cst_ClusterId (uc_Status (ucluster s)) = ''''")
  case False
  then show thesis using that [of s] by (simp add: capu.done_skip)
next
  case True
  from assms(1) have new: "answers S (cd_CreateCAPUCluster (http S)) zero_CreateCAPUClusterResponse (\<lambda>r. ccr_ClusterId r \<noteq> '''')"
    by (simp add: cooperative_def)
  from assms(2) obtain cn p ps x xs where cn: "cl_ClusterNetwork (sv_Cluster S) = Some cn" "cn_Pods cn = Some (p # ps)"
    "cn_Services cn = Some (x # xs)" unfolding well_specified_def by blast
  obtain res v where res: "doRequest S (cd_CreateCAPUCluster (http S)) CallCreateCAPUCluster
      (create_capu_req S (ucluster s) (clock s) p x) zero_CreateCAPUClusterResponse s = (Ok res, v)" "ccr_ClusterId res \<noteq> ''''"
    using new by (rule answers_doRequest)
  have "create_capu S (ucluster s) s = (Ok (ccr_ClusterId res), v)"
    by (simp add: create_capu_def first_cidr_def bind_def gets_run deref_run index_run cn try_else_def res(1) ret_run)
  then show thesis
    using that True res(2) by (simp add: CreateCAPUCluster_run bind_def record_capu_def modify_run)
qed

text \<open>
  The bastion is made unless none is wanted, one is recorded, or the cloud lists an instance of its name
  (which the code does not record).
\<close>

definition bastion_done :: "UCloudCluster \<Rightarrow> bool" where
  "bastion_done c \<longleftrightarrow> bas_SSHPassword (cs_Bastion (uc_Spec c)) = '''' \<or> cst_Bastion (uc_Status c) \<noteq> None"

definition bastion_listed :: "'w Service \<Rightarrow> 'w st \<Rightarrow> bool" where
  "bastion_listed S s \<longleftrightarrow> bastionName (ucluster s) \<in> set (map uh_Name (rp_body (fst
     (sdk_DescribeUHostInstance (uhostClient S) (check_bastion_req (ucluster s)) (world s)))))"

lemma bastion_zone_picked:
  assumes "well_specified S (uc_Spec c)" and "bas_SSHPassword (cs_Bastion (uc_Spec c)) \<noteq> ''''"
  obtains z t where "pick_zone S c (bas_Zone (cs_Bastion (uc_Spec c))) s = (Ok z, t)"
    and "region_image (Region c) z \<noteq> ''''"
proof -
  obtain zones where zones: "map_of RegionZoneMap (cs_Region (uc_Spec c)) = Some zones"
    and image: "\<forall>z\<in>set (if bas_Zone (cs_Bastion (uc_Spec c)) \<noteq> '''' then [bas_Zone (cs_Bastion (uc_Spec c))] else zones).
      region_image (cs_Region (uc_Spec c)) z \<noteq> ''''"
    using assms unfolding well_specified_def bastion_specified_def by blast
  show thesis
  proof (cases "bas_Zone (cs_Bastion (uc_Spec c)) = ''''")
    case False
    then show thesis
      using image by (intro that [of "bas_Zone (cs_Bastion (uc_Spec c))" s]) (simp_all add: pick_zone_def ret_run Region_def)
  next
    case True
    obtain k w where k: "lib_Random (lib S) (world s) = (k, w)"
      by fastforce
    have "zones \<noteq> []"
      using zones by (rule region_zones)
    then have "pick_zone S c (bas_Zone (cs_Bastion (uc_Spec c))) s = (Ok (zones ! (k mod length zones)), s\<lparr>world := w\<rparr>)"
      and "zones ! (k mod length zones) \<in> set zones"
      by (simp_all add: pick_zone_def True Region_def zones bind_def rand_Intn_def k index_run)
    then show thesis
      using image True by (intro that) (auto simp: Region_def)
  qed
qed

lemma bastion_converges:
  assumes coop: "cooperative S" and spec: "well_specified S (uc_Spec (ucluster s))"
  obtains t where "CreateBastionInstance S s = (Ok (), t)" and "bastion_done (ucluster t) \<or> bastion_listed S s"
proof (cases "bastion_done (ucluster s)")
  case True
  then show thesis
    using that [of s] by (simp add: CreateBastionInstance_def bastion_done_def prog_simps)
next
  case False
  from coop have dsc: "served (sdk_DescribeUHostInstance (uhostClient S)) (\<lambda>_. True)"
    and new: "served (sdk_CreateUHostInstance (uhostClient S)) (\<lambda>_. True)"
    and seen: "\<forall>q w. case sdk_CreateUHostInstance (uhostClient S) q w of (made, w') \<Rightarrow> \<forall>d.
          dh_UHostIds d = rp_body made \<longrightarrow> rp_body (fst (sdk_DescribeUHostInstance (uhostClient S) d w')) \<noteq> []"
    by (simp_all add: cooperative_def)
  define c where "c = ucluster s"
  have pass: "bas_SSHPassword (cs_Bastion (uc_Spec c)) \<noteq> ''''" "cst_Bastion (uc_Status c) = None"
    using False by (simp_all add: bastion_done_def c_def)
  define a where "a = sdk_DescribeUHostInstance (uhostClient S) (check_bastion_req c) (world s)"
  define u where "u = sent (CallDescribeUHostInstance (check_bastion_req c)) (rp_took (fst a)) (snd a) s"
  have run: "CreateBastionInstance S s = (if bastion_listed S s then ret () else bind (create_bastion S c) (record_bastion c)) u"
    using pass servedD(1) [OF dsc, of "check_bastion_req c" "world s"]
    by (simp add: CreateBastionInstance_def bind_gets bind_invoke if_err_run bastion_listed_def c_def [symmetric]
        a_def [symmetric] u_def [symmetric])
  show thesis
  proof (cases "bastion_listed S s")
    case True
    then show thesis
      using run by (intro that [of u]) (simp_all add: ret_run)
  next
    case False
    obtain z v where z: "pick_zone S c (bas_Zone (cs_Bastion (uc_Spec c))) u = (Ok z, v)" "region_image (Region c) z \<noteq> ''''"
      using bastion_zone_picked [OF _ pass(1)] spec unfolding c_def by metis
    obtain pw where pw: "DecodeString (bas_SSHPassword (cs_Bastion (uc_Spec c))) = Some pw"
      using spec pass(1) by (auto simp: well_specified_def bastion_specified_def c_def)
    define q where "q = create_bastion_req c z (region_image (Region c) z) pw"
    obtain made w' where made: "sdk_CreateUHostInstance (uhostClient S) q (world v) = (made, w')"
      by fastforce
    then have made_ok: "rp_err made = None"
      using servedD(1) [OF new, of q "world v"] by simp
    have "rp_body (fst (sdk_DescribeUHostInstance (uhostClient S) (describe_instance_req c z (rp_body made)) w')) \<noteq> []"
      using seen [rule_format, of q "world v"] by (simp add: made describe_instance_req_def)
    then obtain h hs where h: "rp_body (fst (sdk_DescribeUHostInstance (uhostClient S) (describe_instance_req c z (rp_body made)) w'))
        = h # hs"
      by (auto simp: neq_Nil_conv)
    have "\<exists>t. create_bastion S c u = (Ok h, t)"
      using z(2) pass(1) made_ok h servedD(1) [OF dsc]
      by (simp add: create_bastion_def bind_Ok [where m = "pick_zone S c (bas_Zone (cs_Bastion (uc_Spec c)))", OF z(1)] Let_def pw bind_invoke made index_run flip: q_def)
    then obtain t where t: "create_bastion S c u = (Ok h, t)"
      by blast
    obtain t' where "record_bastion c h t = (Ok (), t')" and "cst_Bastion (uc_Status (ucluster t')) \<noteq> None"
      by (simp add: record_bastion_def bind_modify emit_run)
    then show thesis
      using run False t by (intro that [of t']) (simp_all add: bind_Ok [where m = "create_bastion S c", OF t] bastion_done_def)
  qed
qed

section \<open>A whole pass\<close>

lemma stable_recorded:
  assumes "keeps stable m" and "m s = (r, t)"
  shows "grp_GroupId (group_of (ucluster s)) \<noteq> '''' \<Longrightarrow> grp_GroupId (group_of (ucluster t)) \<noteq> ''''"
    and "vpc_VpcId (vpc_of (ucluster s)) \<noteq> '''' \<Longrightarrow> vpc_VpcId (vpc_of (ucluster t)) \<noteq> ''''"
    and "sub_SubnetId (subnet_of (ucluster s)) \<noteq> '''' \<Longrightarrow> sub_SubnetId (subnet_of (ucluster t)) \<noteq> ''''"
    and "nat_NatGatewayId (nat_of (ucluster s)) \<noteq> '''' \<Longrightarrow> nat_NatGatewayId (nat_of (ucluster t)) \<noteq> ''''"
    and "ulb_LoadBalancerId (ulb_of (ucluster s)) \<noteq> '''' \<Longrightarrow> ulb_LoadBalancerId (ulb_of (ucluster t)) \<noteq> ''''"
  using keepsD [OF assms] by (auto simp: stable_def ids_stable_def ids_def)

text \<open>The steps before the load balancer leave its part of the status alone.\<close>

lemma ulb_of_but:
  "ulb_of (but_group c) = ulb_of c" "ulb_of (but_vpc c) = ulb_of c" "ulb_of (but_subnet c) = ulb_of c"
  "ulb_of (but_nat c) = ulb_of c"
  by (simp_all add: but_group_def but_vpc_def but_subnet_def but_nat_def status_parts)

lemma ulb_kept:
  "ReconcileUGroup S s = (r, t) \<Longrightarrow> ulb_of (ucluster t) = ulb_of (ucluster s)"
  "ReconcileVPC S s = (r, t) \<Longrightarrow> ulb_of (ucluster t) = ulb_of (ucluster s)"
  "ReconcileSubnet S s = (r, t) \<Longrightarrow> ulb_of (ucluster t) = ulb_of (ucluster s)"
  "ReconcileNat S s = (r, t) \<Longrightarrow> ulb_of (ucluster t) = ulb_of (ucluster s)"
  using group_only vpc_only subnet_only nat_only ulb_of_but by metis+

lemma provision_converges:
  assumes coop: "cooperative S" and spec: "well_specified S (uc_Spec (ucluster s))"
  obtains t where "provision S s = (Ok (), t)" and "phase_of (ucluster t) \<ge> AtCAPU"
    and "if ulb_LoadBalancerId (ulb_of (ucluster s)) \<noteq> '''' then ulb_of (ucluster t) = ulb_of (ucluster s)
      else eip_EIPAddr (ulb_EIP (ulb_of (ucluster t))) \<noteq> ''''"
    and "uc_Spec (ucluster t) = uc_Spec (ucluster s)"
proof -
  obtain s1 where s1: "ReconcileUGroup S s = (Ok (), s1)" "grp_GroupId (group_of (ucluster s1)) \<noteq> ''''"
    using coop by (rule group_converges)
  obtain s2 where s2: "ReconcileVPC S s1 = (Ok (), s2)" "vpc_VpcId (vpc_of (ucluster s2)) \<noteq> ''''"
    using coop by (rule vpc_converges)
  have specs: "uc_Spec (ucluster s1) = uc_Spec (ucluster s)" "uc_Spec (ucluster s2) = uc_Spec (ucluster s1)"
    using group.keeps_objects [OF s1(1)] vpc.keeps_objects [OF s2(1)] by blast+
  have "CHR ''/'' \<in> set (subs_CidrBlock (scope_Subnet (ucluster s2)))"
    using spec by (simp add: specs scope_Subnet_def well_specified_def)
  then obtain s3 where s3: "ReconcileSubnet S s2 = (Ok (), s3)" "sub_SubnetId (subnet_of (ucluster s3)) \<noteq> ''''"
    using subnet_converges [OF coop s2(2)] by blast
  note keep = stable_recorded [OF stable_steps(2) s2(1)] stable_recorded [OF stable_steps(3) s3(1)]
  have vpc3: "vpc_VpcId (vpc_of (ucluster s3)) \<noteq> ''''" using s2(2) keep by blast
  obtain s4 where s4: "ReconcileNat S s3 = (Ok (), s4)" "nat_NatGatewayId (nat_of (ucluster s4)) \<noteq> ''''"
    using coop vpc3 s3(2) by (rule nat_converges)
  note keep4 = stable_recorded [OF stable_steps(4) s4(1)]
  have same: "ulb_of (ucluster s4) = ulb_of (ucluster s)"
    using ulb_kept s1(1) s2(1) s3(1) s4(1) by metis
  obtain t where t: "ReconcileULB S s4 = (Ok (), t)" "ulb_LoadBalancerId (ulb_of (ucluster t)) \<noteq> ''''"
      "if ulb_LoadBalancerId (ulb_of (ucluster s4)) \<noteq> '''' then ulb_of (ucluster t) = ulb_of (ucluster s4)
       else eip_EIPAddr (ulb_EIP (ulb_of (ucluster t))) \<noteq> ''''"
    using coop keep4(2) [OF vpc3] by (rule ulb_converges)
  note keep5 = stable_recorded [OF stable_steps(5) t(1)]
  show thesis
  proof (rule that)
    show "provision S s = (Ok (), t)"
      by (simp add: provision_def prog_simps try_else_def s1(1) s2(1) s3(1) s4(1) t(1))
    show "phase_of (ucluster t) \<ge> AtCAPU"
      using s1(2) s2(2) s3(2) s4(2) t(2) vpc3 keep keep4 keep5
      by (simp add: phase_of_def less_eq_phase_def)
    show "uc_Spec (ucluster t) = uc_Spec (ucluster s)"
      using specs subnet.keeps_objects [OF s3(1)] nat.keeps_objects [OF s4(1)] ulb.keeps_objects [OF t(1)] by simp
  qed (rule t(3) [unfolded same])
qed

lemma bastion_request_kept:
  assumes "uc_Meta c = uc_Meta d" and "Region c = Region d" and "ProjectId c = ProjectId d" and "group_of c = group_of d"
    and "network c = network d"
  shows "check_bastion_req c = check_bastion_req d" and "bastionName c = bastionName d"
  using assms by (simp_all add: check_bastion_req_def bastionName_def GroupName_def group_of_def subnet_of_def)

lemma bastion_listed_made_ready: "bastion_listed S (made_ready zones u) = bastion_listed S u"
proof -
  have "check_bastion_req (ucluster (made_ready zones u)) = check_bastion_req (ucluster u)"
    and "bastionName (ucluster (made_ready zones u)) = bastionName (ucluster u)"
    by (rule bastion_request_kept; simp add: made_ready_def set_endpoint_def Region_def ProjectId_def group_of_def network_def)+
  then show ?thesis
    by (simp add: bastion_listed_def made_ready_def)
qed

text \<open>With the network complete, the rest of the pass goes through.\<close>

lemma endpoint_converges:
  assumes coop: "cooperative S" and spec: "well_specified S (uc_Spec (ucluster u))"
    and phase: "phase_of (ucluster u) \<ge> AtCAPU" and addr: "eip_EIPAddr (ulb_EIP (ulb_of (ucluster u))) \<noteq> ''''"
  obtains t where "reconcile_endpoint S u = (Ok no_requeue, t)" and "phase_of (ucluster t) = Provisioned"
    and "cst_Ready (uc_Status (ucluster t))" and "bastion_done (ucluster t) \<or> bastion_listed S u"
    and "bastion_done (ucluster t) \<Longrightarrow> \<exists>c. calls (snd (cluster_reconcile S t)) = calls t @ [CallPatchCluster c]"
proof -
  obtain zones where zones: "GetZones (ucluster u) = Inr zones"
    using spec by (auto simp: GetZones_def Region_def well_specified_def split: option.split)
  define v where "v = made_ready zones u"
  have specv: "well_specified S (uc_Spec (ucluster v))"
    using spec by (simp add: v_def made_ready_def set_endpoint_def well_specified_endpoint)
  obtain w where w: "CreateBastionInstance S v = (Ok (), w)" "bastion_done (ucluster w) \<or> bastion_listed S u"
    using bastion_converges [OF coop specv] by (metis v_def bastion_listed_made_ready)
  have cw: "but_bastion (ucluster w) = but_bastion (ucluster v)"
    using w(1) by (rule bastion_only)
  note wparts = but_bastion_parts [OF cw] but_ids(7) [OF cw]
  obtain t where t: "CreateCAPUCluster S w = (Ok (), t)" "cst_ClusterId (uc_Status (ucluster t)) \<noteq> ''''"
    using coop specv by (rule capu_converges)
  have ct: "but_capu (ucluster t) = but_capu (ucluster w)"
    using t(1) by (rule capu_only)
  have tparts: "network (ucluster t) = network (ucluster w)" "cst_Ready (uc_Status (ucluster t)) = cst_Ready (uc_Status (ucluster w))"
      "cst_Bastion (uc_Status (ucluster t)) = cst_Bastion (uc_Status (ucluster w))"
    using arg_cong [OF ct, of network] arg_cong [OF ct, of "\<lambda>c. cst_Ready (uc_Status c)"]
      arg_cong [OF ct, of "\<lambda>c. cst_Bastion (uc_Status c)"]
    by (simp_all add: but_capu_def network_def)
  have spect: "uc_Spec (ucluster t) = uc_Spec (ucluster v)"
    using capu.keeps_objects [OF t(1)] wparts(2) by simp
  have bastion: "bastion_done (ucluster t) = bastion_done (ucluster w)"
    using tparts(3) spect wparts(2) by (simp add: bastion_done_def)
  have ready: "cst_Ready (uc_Status (ucluster t))"
    using arg_cong [OF cw, of "\<lambda>c. cst_Ready (uc_Status c)"] tparts(2) by (simp add: but_bastion_def v_def made_ready_def)
  have "ids (ucluster v) = ids (ucluster u)"
    by (simp add: v_def made_ready_def ids_def status_parts)
  moreover have "take 5 (ids (ucluster t)) = take 5 (ids (ucluster w))"
    using ct by (rule but_ids(6))
  ultimately have provisioned: "phase_of (ucluster t) = Provisioned"
    using phase t(2) wparts by (auto simp: phase_of_def ids_def less_eq_phase_def split: if_splits)
  have "network (ucluster t) = network (ucluster u)"
    using tparts(1) wparts(3) made_ready_keeps(1) [of zones u] by (simp add: v_def)
  then have host: "eip_EIPAddr (ulb_EIP (ulb_of (ucluster t))) \<noteq> ''''"
    using addr by (simp add: ulb_of_def)
  have region: "map_of RegionZoneMap (Region (ucluster t)) = Some zones"
    using zones by (auto simp: GetZones_def Region_def spect v_def made_ready_def set_endpoint_def split: option.splits)
  have served: "served (kube_PatchCluster (kube S)) (\<lambda>_. True)"
    using coop by (simp add: cooperative_def)
  show thesis
  proof (rule that)
    show "reconcile_endpoint S u = (Ok no_requeue, t)"
      using w(1) t(1) by (simp add: reconcile_endpoint_run zones flip: v_def)
    show "\<exists>c. calls (snd (cluster_reconcile S t)) = calls t @ [CallPatchCluster c]" if "bastion_done (ucluster t)"
      using settled_pass [OF provisioned host region that [unfolded bastion_done_def] servedD(1) [OF served]]
      by (auto simp: made_ready_keeps(4))
  qed (use provisioned ready w(2) bastion in simp_all)
qed

text \<open>C6: against a cloud that serves every request and describes its resources in full, one pass over a
  well specified cluster provisions it completely and makes it ready, whichever identifiers its status
  has already; its bastion, if it is to
  have one, is recorded too, unless the cloud lists an instance of that name; and with the bastion
  recorded, or none to be made, the next pass sends nothing but the patch. The exception is a status
  that has a load balancer without its address: then the pass only waits for the address, which stays
  empty, so that no later pass gets further.\<close>

theorem one_pass_provisions:
  assumes coop: "cooperative S" and spec: "well_specified S (uc_Spec (ucluster s))"
  shows "let (r, t) = cluster_reconcile S s in
    if ulb_LoadBalancerId (ulb_of (ucluster s)) \<noteq> '''' \<and> eip_EIPAddr (ulb_EIP (ulb_of (ucluster s))) = ''''
    then r = Ok (requeue_seconds 15) \<and> ulb_of (ucluster t) = ulb_of (ucluster s)
      \<and> uc_Spec (ucluster t) = uc_Spec (ucluster s)
    else r = Ok no_requeue \<and> phase_of (ucluster t) = Provisioned \<and> cst_Ready (uc_Status (ucluster t))
      \<and> (bastion_done (ucluster t) \<or> bastion_listed S (snd (provision S (after_patch S s))))
      \<and> (bastion_done (ucluster t) \<longrightarrow> (\<exists>c. calls (snd (cluster_reconcile S t)) = calls t @ [CallPatchCluster c]))"
proof -
  have served: "served (kube_PatchCluster (kube S)) (\<lambda>_. True)" using coop by (simp add: cooperative_def)
  then have patched: "patch_error S s = None" by (simp add: patch_error_def servedD(1))
  define s0 where "s0 = after_patch S s"
  have s0: "uc_Spec (ucluster s0) = uc_Spec (ucluster s)" "ulb_of (ucluster s0) = ulb_of (ucluster s)"
    by (simp_all add: s0_def status_parts)
  obtain u where u: "provision S s0 = (Ok (), u)" "phase_of (ucluster u) \<ge> AtCAPU"
      "if ulb_LoadBalancerId (ulb_of (ucluster s0)) \<noteq> '''' then ulb_of (ucluster u) = ulb_of (ucluster s0)
       else eip_EIPAddr (ulb_EIP (ulb_of (ucluster u))) \<noteq> ''''" and specu: "uc_Spec (ucluster u) = uc_Spec (ucluster s0)"
    by (rule provision_converges [OF coop, of s0]) (use spec s0 in auto)
  show ?thesis
  proof (cases "ulb_LoadBalancerId (ulb_of (ucluster s)) \<noteq> '''' \<and> eip_EIPAddr (ulb_EIP (ulb_of (ucluster s))) = ''''")
    case True
    then show ?thesis
      using u specu s0 by (simp add: cluster_reconcile_run patched flip: s0_def)
  next
    case False
    then have addr: "eip_EIPAddr (ulb_EIP (ulb_of (ucluster u))) \<noteq> ''''"
      using u(3) s0 by (auto split: if_splits)
    obtain t where t: "reconcile_endpoint S u = (Ok no_requeue, t)" "phase_of (ucluster t) = Provisioned"
        "cst_Ready (uc_Status (ucluster t))" "bastion_done (ucluster t) \<or> bastion_listed S u"
      and settled: "bastion_done (ucluster t) \<Longrightarrow> \<exists>c. calls (snd (cluster_reconcile S t)) = calls t @ [CallPatchCluster c]"
      using endpoint_converges [OF coop _ u(2) addr] spec specu s0 by metis
    have "cluster_reconcile S s = (Ok no_requeue, t)"
      using u(1) addr t(1) by (simp add: cluster_reconcile_run patched flip: s0_def)
    with t settled show ?thesis
      unfolding if_not_P [OF False] Let_def s0_def [symmetric] u(1) by (simp add: if_not_P [OF False])
  qed
qed

lemma sample_cooperative: "cooperative sample"
proof -
  have "\<exists>h. buildHTTPRequest sample \<lparr>cd_ToQueryMap = to_query, cd_Unmarshal = f\<rparr> q = Inr h" for f and q
    by simp
  then show ?thesis
    by (simp add: cooperative_def served_def describe_host_def answers_def http_outcome_def zero_ListBusinessGroupResponse_def
        zero_CreateBusinessGroupResponse_def zero_CreateULBResponse_def zero_CreateCAPUClusterResponse_def)
qed

text \<open>The sample cluster, with a bastion to be made.\<close>

definition guarded_start :: "nat st" where
  "guarded_start = start\<lparr>ucluster := (ucluster start)\<lparr>uc_Spec := (uc_Spec (ucluster start))\<lparr>cs_Bastion :=
     (cs_Bastion (uc_Spec (ucluster start)))\<lparr>bas_SSHPassword := ''cGFzc3dvcmQ='', bas_Zone := ''cn-bj2-02''\<rparr>\<rparr>\<rparr>\<rparr>"

theorem one_pass_provisions_witness:
  "let t = snd (cluster_reconcile sample guarded_start) in
     phase_of (ucluster t) = Provisioned \<and> bastion_done (ucluster t)"
proof -
  have "DecodeString ''cGFzc3dvcmQ='' = Some ''password''" by code_simp
  moreover have "region_image ''cn-bj2'' ''cn-bj2-02'' = ''uimage-kdwczn''"
    by (simp add: region_image_def region_image_bj2 map_index_def)
  ultimately have spec: "well_specified sample (uc_Spec (ucluster guarded_start))"
    by (simp add: well_specified_def bastion_specified_def guarded_start_def start_def sample_cluster_def zero_defs region_zones_bj2 sample_owner_def)
  have "ulb_LoadBalancerId (ulb_of (ucluster guarded_start)) = ''''"
    by (simp add: guarded_start_def start_def sample_cluster_def zero_defs status_parts)
  moreover have "\<not> bastion_listed sample s" for s
    by (simp add: bastion_listed_def check_bastion_req_def describe_host_def)
  ultimately show ?thesis
    using one_pass_provisions [OF sample_cooperative spec] by (simp add: case_prod_beta Let_def)
qed

end
