(* ===== verification/Manager.thy ===== *)
theory Manager
  imports Prelude
begin

text \<open>
  \<open>main.go\<close>: the flags of the manager with their defaults, and the order in which \<open>main\<close> sets the
  manager up. What the actions do belongs to the controller runtime: a parameter \<open>attempt\<close> says
  whether an action fails, given the actions before it.
\<close>

section \<open>Flags\<close>

text \<open>The variables of \<open>main\<close> that \<open>flag.Parse\<close> fills; durations in milliseconds.\<close>

record Flags =
  metricsAddr :: string
  enableLeaderElection :: bool
  leaderElectionNamespace :: string
  watchNamespace :: string
  profilerAddress :: string
  ucloudClusterConcurrency :: int
  ucloudMachineConcurrency :: int
  syncPeriod :: nat
  webhookPort :: int
  healthAddr :: string

definition default_flags :: Flags where
  "default_flags = \<lparr>metricsAddr = '':8080'', enableLeaderElection = False, leaderElectionNamespace = '''',
     watchNamespace = '''', profilerAddress = '''', ucloudClusterConcurrency = 10, ucloudMachineConcurrency = 10,
     syncPeriod = 10 * 60 * 1000, webhookPort = 0, healthAddr = '':9440''\<rparr>"

record Options =
  opt_MetricsBindAddress :: string
  opt_LeaderElection :: bool
  opt_LeaderElectionID :: string
  opt_LeaderElectionNamespace :: string
  opt_SyncPeriod :: nat
  opt_Namespace :: string
  opt_Port :: int
  opt_HealthProbeBindAddress :: string

definition manager_options :: "Flags \<Rightarrow> Options" where
  "manager_options f = \<lparr>opt_MetricsBindAddress = metricsAddr f, opt_LeaderElection = enableLeaderElection f,
     opt_LeaderElectionID = ''controller-leader-election-capg'', opt_LeaderElectionNamespace = leaderElectionNamespace f,
     opt_SyncPeriod = syncPeriod f, opt_Namespace = watchNamespace f, opt_Port = webhookPort f,
     opt_HealthProbeBindAddress = healthAddr f\<rparr>"

section \<open>Setting up\<close>

datatype action =
    ServeProfiler string
  | GetConfigOrDie
  | NewManager Options
  | InitFromRecorder string
  | SetupMachineReconciler int
  | SetupClusterReconciler int
  | SetupMachineTemplateWebhook
  | SetupMachineWebhook
  | AddReadyzCheck string
  | AddHealthzCheck string
  | StartManager

text \<open>The state is the list of actions so far. An action whose failure nobody looks at:\<close>

definition perform :: "action \<Rightarrow> (action list, unit) prog" where
  "perform a = modify (\<lambda>sofar. sofar @ [a])"

text \<open>An action whose failure is logged with a message before \<open>os.Exit(1)\<close>: the program ends there.\<close>

definition must :: "(action list \<Rightarrow> action \<Rightarrow> error option) \<Rightarrow> action \<Rightarrow> string \<Rightarrow> (action list, unit) prog" where
  "must attempt a msg =
     bind (gets (\<lambda>sofar. attempt sofar a)) (\<lambda>err.
     bind (perform a) (\<lambda>_.
     if_err err (\<lambda>e. Wrapf e msg []) (ret ())))"

text \<open>\<open>GetConfigOrDie\<close>, an argument of \<open>NewManager\<close>, logs its error and exits by itself.\<close>

definition main :: "(action list \<Rightarrow> action \<Rightarrow> error option) \<Rightarrow> Flags \<Rightarrow> (action list, unit) prog" where
  "main attempt f =
     bind (if profilerAddress f \<noteq> '''' then perform (ServeProfiler (profilerAddress f)) else ret ()) (\<lambda>_.
     bind (must attempt GetConfigOrDie ''unable to get config'') (\<lambda>_.
     bind (must attempt (NewManager (manager_options f)) ''unable to start manager'') (\<lambda>_.
     bind (perform (InitFromRecorder ''ucloud-controller'')) (\<lambda>_.
     bind (if webhookPort f = 0 then
             bind (must attempt (SetupMachineReconciler (ucloudMachineConcurrency f)) ''unable to create controller'') (\<lambda>_.
             must attempt (SetupClusterReconciler (ucloudClusterConcurrency f)) ''unable to create controller'')
           else
             bind (must attempt SetupMachineTemplateWebhook ''unable to create webhook'') (\<lambda>_.
             must attempt SetupMachineWebhook ''unable to create webhook'')) (\<lambda>_.
     bind (must attempt (AddReadyzCheck ''ping'') ''unable to create ready check'') (\<lambda>_.
     bind (must attempt (AddHealthzCheck ''ping'') ''unable to create health check'') (\<lambda>_.
     must attempt StartManager ''problem running manager'')))))))"

section \<open>The order of the set-up\<close>

definition setup_plan :: "Flags \<Rightarrow> action list" where
  "setup_plan f = (if profilerAddress f \<noteq> '''' then [ServeProfiler (profilerAddress f)] else [])
     @ [GetConfigOrDie, NewManager (manager_options f), InitFromRecorder ''ucloud-controller'']
     @ (if webhookPort f = 0
        then [SetupMachineReconciler (ucloudMachineConcurrency f), SetupClusterReconciler (ucloudClusterConcurrency f)]
        else [SetupMachineTemplateWebhook, SetupMachineWebhook])
     @ [AddReadyzCheck ''ping'', AddHealthzCheck ''ping'', StartManager]"

text \<open>The actions whose failure ends the program.\<close>

fun checked :: "action \<Rightarrow> bool" where
  "checked (ServeProfiler a) = False"
| "checked (InitFromRecorder a) = False"
| "checked _ = True"

text \<open>Following a plan: each action in turn, up to the first checked one that fails.\<close>

fun follow :: "(action list \<Rightarrow> action \<Rightarrow> error option) \<Rightarrow> action list \<Rightarrow> action list \<Rightarrow> action list \<times> bool" where
  "follow attempt sofar [] = (sofar, True)"
| "follow attempt sofar (a # as) =
     (if checked a \<and> attempt sofar a \<noteq> None then (sofar @ [a], False) else follow attempt (sofar @ [a]) as)"

lemma follow_append: "follow attempt sofar (as @ bs) =
    (case follow attempt sofar as of (xs, ok) \<Rightarrow> if ok then follow attempt xs bs else (xs, False))"
  by (induction as arbitrary: sofar) auto

text \<open>The action at place \<open>k\<close> of a plan went through.\<close>

definition passes :: "(action list \<Rightarrow> action \<Rightarrow> error option) \<Rightarrow> action list \<Rightarrow> action list \<Rightarrow> nat \<Rightarrow> bool" where
  "passes attempt sofar as k \<longleftrightarrow> \<not> checked (as ! k) \<or> attempt (sofar @ take k as) (as ! k) = None"

lemma passes_Cons [simp]:
  "passes attempt sofar (a # as) 0 = (\<not> checked a \<or> attempt sofar a = None)"
  "passes attempt sofar (a # as) (Suc k) = passes attempt (sofar @ [a]) as k"
  by (simp_all add: passes_def)

lemma follow_stops:
  "follow attempt sofar as = (xs, ok) \<Longrightarrow>
     \<exists>n \<le> length as. xs = sofar @ take n as \<and> (\<forall>k. Suc k < n \<longrightarrow> passes attempt sofar as k)
       \<and> (if ok then n = length as \<and> (\<forall>k < n. passes attempt sofar as k)
          else 0 < n \<and> \<not> passes attempt sofar as (n - 1))"
proof (induction as arbitrary: sofar)
  case (Cons a as)
  show ?case
  proof (cases "checked a \<and> attempt sofar a \<noteq> None")
    case True
    with Cons.prems show ?thesis by (intro exI [of _ 1]) auto
  next
    case False
    then have "follow attempt (sofar @ [a]) as = (xs, ok)" using Cons.prems by auto
    from Cons.IH [OF this] obtain n where n: "n \<le> length as" "xs = (sofar @ [a]) @ take n as"
      "\<forall>k. Suc k < n \<longrightarrow> passes attempt (sofar @ [a]) as k"
      "if ok then n = length as \<and> (\<forall>k < n. passes attempt (sofar @ [a]) as k)
          else 0 < n \<and> \<not> passes attempt (sofar @ [a]) as (n - 1)" by blast
    have first: "passes attempt sofar (a # as) 0" using False by simp
    have "passes attempt sofar (a # as) k" if "Suc k < Suc n" for k
      using that first n(3) by (cases k) auto
    moreover have "passes attempt sofar (a # as) k" if "k < Suc n" ok for k
      using that first n(4) by (cases k) auto
    moreover have "\<not> passes attempt sofar (a # as) n" if "\<not> ok"
      using that n(4) by (cases n) auto
    moreover have "ok \<Longrightarrow> n = length as" using n(4) by simp
    ultimately show ?thesis using n(1,2) by (intro exI [of _ "Suc n"]) auto
  qed
qed simp

text \<open>A program that follows a plan.\<close>

definition runs :: "(action list \<Rightarrow> action \<Rightarrow> error option) \<Rightarrow> (action list, unit) prog \<Rightarrow> action list \<Rightarrow> bool" where
  "runs attempt m as \<longleftrightarrow> (\<forall>sofar. follow attempt sofar as = (snd (m sofar), fst (m sofar) = Ok ()))"

lemma runs_must: "checked a \<Longrightarrow> runs attempt (must attempt a msg) [a]"
  by (auto simp: runs_def must_def perform_def prog_simps if_err_run split: option.split)

lemma runs_perform: "\<not> checked a \<Longrightarrow> runs attempt (perform a) [a]"
  by (simp add: runs_def perform_def prog_simps)

lemma runs_ret: "runs attempt (ret ()) []"
  by (simp add: runs_def prog_simps)

lemma runs_bind: "runs attempt m as \<Longrightarrow> runs attempt n bs \<Longrightarrow> runs attempt (bind m (\<lambda>_. n)) (as @ bs)"
  by (auto simp: runs_def follow_append bind_def split: prod.split result.split)

lemma runs_if: "runs attempt m as \<Longrightarrow> runs attempt n bs \<Longrightarrow> runs attempt (if b then m else n) (if b then as else bs)"
  by simp

lemma main_follows: "runs attempt (main attempt f) (setup_plan f)"
proof -
  have "runs attempt (main attempt f) ((if profilerAddress f \<noteq> '''' then [ServeProfiler (profilerAddress f)] else [])
     @ [GetConfigOrDie] @ [NewManager (manager_options f)] @ [InitFromRecorder ''ucloud-controller'']
     @ (if webhookPort f = 0
        then [SetupMachineReconciler (ucloudMachineConcurrency f)] @ [SetupClusterReconciler (ucloudClusterConcurrency f)]
        else [SetupMachineTemplateWebhook] @ [SetupMachineWebhook])
     @ [AddReadyzCheck ''ping''] @ [AddHealthzCheck ''ping''] @ [StartManager])"
    unfolding main_def by (intro runs_bind runs_if runs_must runs_perform runs_ret) simp_all
  then show ?thesis
    by (cases "webhookPort f = 0"; cases "profilerAddress f = ''''") (simp_all add: setup_plan_def)
qed

section \<open>The order of the set-up as a property\<close>

text \<open>C33: \<open>main\<close> goes through its plan in order and stops at the first action that fails: what it has done
  is a prefix of the plan, everything but the last action went through, and it returns exactly if the
  whole plan did. So nothing is reconciled before both controllers and the checks are in place, and a
  manager with a webhook port installs no reconciler.\<close>

theorem main_stops_at_failure:
  "let (r, xs) = main attempt f []; plan = setup_plan f in
     \<exists>n. n \<le> length plan \<and> xs = take n plan
       \<and> list_all (passes attempt [] plan) [0..<n - 1]
       \<and> (r = Ok ()) = (n = length plan \<and> attempt (take (n - 1) plan) StartManager = None)
       \<and> (SetupMachineReconciler (ucloudMachineConcurrency f) \<in> set plan) = (webhookPort f = 0)
       \<and> (SetupMachineWebhook \<in> set plan) = (webhookPort f \<noteq> 0)"
proof -
  obtain r xs where run: "main attempt f [] = (r, xs)" by fastforce
  have "follow attempt [] (setup_plan f) = (xs, r = Ok ())"
    using main_follows [of attempt f] run by (simp add: runs_def)
  from follow_stops [OF this] obtain n where n: "n \<le> length (setup_plan f)" "xs = take n (setup_plan f)"
    "\<forall>k. Suc k < n \<longrightarrow> passes attempt [] (setup_plan f) k"
    "if r = Ok () then n = length (setup_plan f) \<and> (\<forall>k < n. passes attempt [] (setup_plan f) k)
       else 0 < n \<and> \<not> passes attempt [] (setup_plan f) (n - 1)" by auto
  have last: "setup_plan f ! (length (setup_plan f) - 1) = StartManager" "length (setup_plan f) > 0"
    by (simp_all add: setup_plan_def nth_append)
  have "(r = Ok ()) = (n = length (setup_plan f) \<and> attempt (take (n - 1) (setup_plan f)) StartManager = None)"
  proof (cases "r = Ok ()")
    case True
    then have "passes attempt [] (setup_plan f) (length (setup_plan f) - 1)" "n = length (setup_plan f)"
      using n(4) last by auto
    with True last show ?thesis by (simp add: passes_def)
  next
    case False
    with n(4) last show ?thesis by (auto simp: passes_def)
  qed
  moreover have "list_all (passes attempt [] (setup_plan f)) [0..<n - 1]"
    using n(3) by (auto simp: list_all_iff)
  moreover have "(SetupMachineReconciler (ucloudMachineConcurrency f) \<in> set (setup_plan f)) = (webhookPort f = 0)"
    "(SetupMachineWebhook \<in> set (setup_plan f)) = (webhookPort f \<noteq> 0)"
    by (simp_all add: setup_plan_def)
  ultimately show ?thesis using n(1,2) by (simp only: run Let_def prod.case) blast
qed

end
