(* ===== verification/Watches.thy ===== *)
theory Watches
  imports Cluster_Controller Machine_Controller
begin

text \<open>
  \<open>SetupWithManager\<close> of both controllers: which events of which objects lead to which reconcile
  requests. Turning an event into requests is the work of the controller runtime's handlers:
  \<open>for_object\<close> and the \<open>mapped\<close> functions are parameters, as is the mapping of machines to their
  infrastructure objects.
\<close>

section \<open>The cluster controller\<close>

text \<open>Events of its own objects pass the filter of the builder, those of owner clusters the watch's own.\<close>

datatype cluster_watch = OwnCluster "ObjectMeta event" | OwnerOfCluster "Cluster event"

definition cluster_requests ::
  "(ObjectMeta event \<Rightarrow> NamespacedName list)
    \<Rightarrow> ((Cluster \<Rightarrow> NamespacedName list) \<Rightarrow> Cluster event \<Rightarrow> NamespacedName list)
    \<Rightarrow> 'w Service \<Rightarrow> cluster_watch \<Rightarrow> NamespacedName list" where
  "cluster_requests for_object mapped S w = (case w of
      OwnCluster e \<Rightarrow> if pausePredicates S e then for_object e else []
    | OwnerOfCluster e \<Rightarrow>
        if cluster_predicate e then mapped (\<lambda>c. requeueUCloudClusterForUnpausedCluster (Some c)) e else [])"

section \<open>The machine controller\<close>

text \<open>
  Machines and infrastructure clusters are watched through the builder, so its filter looks at their
  own metadata.
\<close>

datatype machine_watch =
    OwnMachine "ObjectMeta event"
  | OwnerMachine "(ObjectMeta \<times> Machine) event"
  | InfraCluster "UCloudCluster event"
  | OwnerOfMachines "Cluster event"

fun map_event :: "('a \<Rightarrow> 'b) \<Rightarrow> 'a event \<Rightarrow> 'b event" where
  "map_event f (CreateEvent x) = CreateEvent (f x)"
| "map_event f (UpdateEvent x y) = UpdateEvent (f x) (f y)"
| "map_event f (DeleteEvent x) = DeleteEvent (f x)"
| "map_event f (GenericEvent x) = GenericEvent (f x)"

definition machine_requests ::
  "(ObjectMeta event \<Rightarrow> NamespacedName list) \<Rightarrow> ((ObjectMeta \<times> Machine) event \<Rightarrow> NamespacedName list)
    \<Rightarrow> ((UCloudCluster \<Rightarrow> ('w st, NamespacedName list) prog) \<Rightarrow> UCloudCluster event \<Rightarrow> ('w st, NamespacedName list) prog)
    \<Rightarrow> ((Cluster \<Rightarrow> ('w st, NamespacedName list) prog) \<Rightarrow> Cluster event \<Rightarrow> ('w st, NamespacedName list) prog)
    \<Rightarrow> 'w Service \<Rightarrow> machine_watch \<Rightarrow> ('w st, NamespacedName list) prog" where
  "machine_requests for_object infrastructure_of mapped_infra mapped_owner S w = (case w of
      OwnMachine e \<Rightarrow> ret (if pausePredicates S e then for_object e else [])
    | OwnerMachine e \<Rightarrow> ret (if pausePredicates S (map_event fst e) then infrastructure_of e else [])
    | InfraCluster e \<Rightarrow>
        if pausePredicates S (map_event uc_Meta e) then mapped_infra (\<lambda>c. UCloudClusterToUCloudMachines S (Some c)) e
        else ret []
    | OwnerOfMachines e \<Rightarrow>
        if cluster_predicate e then mapped_owner (\<lambda>c. requeueUCloudMachinesForUnpausedCluster S (Some c)) e
        else ret [])"

section \<open>Which events matter\<close>

text \<open>Deleting an owner cluster, or updating it without ending a pause, leads to nothing.\<close>

lemma owner_events_ignored:
  "cluster_requests f g S (OwnerOfCluster (DeleteEvent c)) = []"
  "\<not> cl_Paused old \<or> cl_Paused new \<Longrightarrow> cluster_requests f g S (OwnerOfCluster (UpdateEvent old new)) = []"
  "\<not> cl_Paused old \<or> cl_Paused new \<Longrightarrow>
     machine_requests f h i g' S (OwnerOfMachines (UpdateEvent old new)) s = (Ok [], s)"
  by (auto simp: cluster_requests_def machine_requests_def prog_simps)

text \<open>With the documented handler, ending the pause of a cluster reconciles its infrastructure object.\<close>

lemma unpausing_requests:
  assumes "\<And>f old new. set (g f (UpdateEvent old new)) = set (f old) \<union> set (f new)"
    and "cl_Paused old" and "\<not> cl_Paused new" and "cl_DeletionTimestamp new = None" and "cl_InfrastructureRef new = Some ref"
  shows "(cl_Namespace new, ref) \<in> set (cluster_requests f g S (OwnerOfCluster (UpdateEvent old new)))"
  using assms by (simp add: cluster_requests_def requeueUCloudClusterForUnpausedCluster_def)

end
