(* ===== verification/Go_Heap.thy ===== *)
theory Go_Heap
  imports Prelude "HOL-Library.AList"
begin

text \<open>
  Go's memory, for the code whose point is what it shares: the deep copies. A heap is a list of
  cells, the address of a cell is its position, and allocation appends, so that \<open>h @ hs\<close> is \<open>h\<close>
  after some allocations. A cell holds one Go variable; \<open>mk\<close> and \<open>prj\<close> of a \<open>kind\<close> put a value of
  one static type into a cell and take it out again. A pointer is an \<open>addr option\<close> with \<open>None\<close> for
  nil, a slice refers to a part of an array cell, and a map is a pointer to a cell with its entries.
  Reading through a pointer that leads nowhere, or to a cell of another type, panics.

  A \<open>view\<close> of a struct in a heap is the value it denotes, all pointers followed, together with the
  addresses followed; it is \<open>None\<close> if a pointer does not lead to a cell of its type. The locale
  \<open>viewer\<close> says that a view depends on these addresses only; \<open>copier\<close> adds the contract of a deep
  copy. The lemmas \<open>copier_\<dots>\<close> build copiers of structs from copiers of their parts.
\<close>

section \<open>Cells, pointers and slices\<close>

type_synonym addr = nat

type_synonym 'c heap = "'c list"

record slice =
  sl_array :: addr
  sl_off :: nat
  sl_len :: nat

definition cell_at :: "'c heap \<Rightarrow> addr \<Rightarrow> 'c option" where
  "cell_at h a = (if a < length h then Some (h ! a) else None)"

definition read :: "('c \<Rightarrow> 'a option) \<Rightarrow> 'c heap \<Rightarrow> addr \<Rightarrow> 'a option" where
  "read prj h a = Option.bind (cell_at h a) prj"

definition read_slice :: "('c \<Rightarrow> 'a list option) \<Rightarrow> 'c heap \<Rightarrow> slice \<Rightarrow> 'a list option" where
  "read_slice prj h s = (case read prj h (sl_array s) of
      Some xs \<Rightarrow> (if sl_off s + sl_len s \<le> length xs then Some (take (sl_len s) (drop (sl_off s) xs)) else None)
    | None \<Rightarrow> None)"

definition alloc :: "'c \<Rightarrow> ('c heap, addr) prog" where
  "alloc c h = (Ok (length h), h @ [c])"

definition load :: "('c \<Rightarrow> 'a option) \<Rightarrow> addr \<Rightarrow> ('c heap, 'a) prog" where
  "load prj a h = (case read prj h a of Some v \<Rightarrow> (Ok v, h) | None \<Rightarrow> (Panic ''invalid memory address'', h))"

definition load_slice :: "('c \<Rightarrow> 'a list option) \<Rightarrow> slice \<Rightarrow> ('c heap, 'a list) prog" where
  "load_slice prj s h = (case read_slice prj h s of
      Some xs \<Rightarrow> (Ok xs, h) | None \<Rightarrow> (Panic ''invalid memory address'', h))"

definition store :: "addr \<Rightarrow> 'c \<Rightarrow> ('c heap, unit) prog" where
  "store a c h = (if a < length h then (Ok (), h[a := c]) else (Panic ''invalid memory address'', h))"

section \<open>The statements of a deep copy\<close>

text \<open>
  \<open>*out = new(T); (*in).DeepCopyInto(*out)\<close> on a pointer field that is not nil, and the body of
  \<open>DeepCopy\<close>; \<open>z\<close> is the zero value of \<open>T\<close>.
\<close>

definition copy_new :: "('c \<Rightarrow> 'a option) \<Rightarrow> ('a \<Rightarrow> 'c) \<Rightarrow> 'a \<Rightarrow> ('a \<Rightarrow> ('c heap, 'a) prog)
    \<Rightarrow> addr option \<Rightarrow> ('c heap, addr option) prog" where
  "copy_new prj mk z into p = (case p of
      None \<Rightarrow> ret None
    | Some a \<Rightarrow>
        bind (alloc (mk z)) (\<lambda>b.
        bind (load prj a) (\<lambda>x.
        bind (into x) (\<lambda>y.
        bind (store b (mk y)) (\<lambda>_.
        ret (Some b))))))"

text \<open>\<open>*out = new(T); **out = **in\<close>.\<close>

definition copy_ptr :: "('c \<Rightarrow> 'a option) \<Rightarrow> ('a \<Rightarrow> 'c) \<Rightarrow> 'a \<Rightarrow> addr option \<Rightarrow> ('c heap, addr option) prog" where
  "copy_ptr prj mk z = copy_new prj mk z ret"

text \<open>
  The loop over a slice or a map that builds another in the cell \<open>b\<close>: \<open>(*out)[k] = f(v)\<close> for each
  index or key \<open>k\<close> and element \<open>v\<close>.
\<close>

primrec for_range :: "('c \<Rightarrow> 'd option) \<Rightarrow> ('d \<Rightarrow> 'c) \<Rightarrow> ('k \<Rightarrow> 'a \<Rightarrow> 'd \<Rightarrow> 'd) \<Rightarrow> ('a \<Rightarrow> ('c heap, 'a) prog)
    \<Rightarrow> addr \<Rightarrow> ('k \<times> 'a) list \<Rightarrow> ('c heap, unit) prog" where
  "for_range prj mk upd f b [] = ret ()"
| "for_range prj mk upd f b (kx # kxs) =
     bind (f (snd kx)) (\<lambda>y.
     bind (load prj b) (\<lambda>d.
     bind (store b (mk (upd (fst kx) y d))) (\<lambda>_.
     for_range prj mk upd f b kxs)))"

text \<open>\<open>*out = make([]T, len(*in))\<close>, then \<open>for i := range *in\<close> with \<open>f\<close> copying the elements.\<close>

definition copy_elems :: "('c \<Rightarrow> 'a list option) \<Rightarrow> ('a list \<Rightarrow> 'c) \<Rightarrow> 'a \<Rightarrow> ('a \<Rightarrow> ('c heap, 'a) prog)
    \<Rightarrow> slice option \<Rightarrow> ('c heap, slice option) prog" where
  "copy_elems prj mk z f s = (case s of
      None \<Rightarrow> ret None
    | Some s \<Rightarrow>
        bind (alloc (mk (replicate (sl_len s) z))) (\<lambda>b.
        bind (load_slice prj s) (\<lambda>xs.
        bind (for_range prj mk (\<lambda>i y ys. ys[i := y]) f b (enumerate 0 xs)) (\<lambda>_.
        ret (Some \<lparr>sl_array = b, sl_off = 0, sl_len = sl_len s\<rparr>)))))"

text \<open>\<open>*out = make([]T, len(*in)); copy(*out, *in)\<close>.\<close>

definition copy_slice :: "('c \<Rightarrow> 'a list option) \<Rightarrow> ('a list \<Rightarrow> 'c) \<Rightarrow> 'a \<Rightarrow> slice option
    \<Rightarrow> ('c heap, slice option) prog" where
  "copy_slice prj mk z s = (case s of
      None \<Rightarrow> ret None
    | Some s \<Rightarrow>
        bind (alloc (mk (replicate (sl_len s) z))) (\<lambda>b.
        bind (load_slice prj s) (\<lambda>xs.
        bind (store b (mk xs)) (\<lambda>_.
        ret (Some \<lparr>sl_array = b, sl_off = 0, sl_len = sl_len s\<rparr>)))))"

text \<open>
  \<open>*out = make(map[K]V, len(*in)); for key, val := range *in { (*out)[key] = f(val) }\<close>; a map cell
  holds its entries in the order in which the loop meets them.
\<close>

definition copy_map :: "('c \<Rightarrow> ('k \<times> 'a) list option) \<Rightarrow> (('k \<times> 'a) list \<Rightarrow> 'c) \<Rightarrow> ('a \<Rightarrow> ('c heap, 'a) prog)
    \<Rightarrow> addr option \<Rightarrow> ('c heap, addr option) prog" where
  "copy_map prj mk f p = (case p of
      None \<Rightarrow> ret None
    | Some a \<Rightarrow>
        bind (alloc (mk [])) (\<lambda>b.
        bind (load prj a) (\<lambda>kvs.
        bind (for_range prj mk AList.update f b kvs) (\<lambda>_.
        ret (Some b)))))"

section \<open>What a struct denotes\<close>

type_synonym ('c, 'h, 'v) view = "'h \<Rightarrow> 'c heap \<Rightarrow> ('v \<times> addr list) option"

definition plain_view :: "('c, 'h, 'h) view" where
  "plain_view x h = Some (x, [])"

definition new_view :: "('c \<Rightarrow> 'h option) \<Rightarrow> ('c, 'h, 'v) view \<Rightarrow> ('c, addr option, 'v option) view" where
  "new_view prj vw p h = (case p of
      None \<Rightarrow> Some (None, [])
    | Some a \<Rightarrow> (case read prj h a of
          None \<Rightarrow> None
        | Some x \<Rightarrow> map_option (\<lambda>(v, as). (Some v, a # as)) (vw x h)))"

primrec list_view :: "('c, 'h, 'v) view \<Rightarrow> ('c, 'h list, 'v list) view" where
  "list_view vw [] h = Some ([], [])"
| "list_view vw (x # xs) h = (case (vw x h, list_view vw xs h) of
      (Some (v, as), Some (vs, bs)) \<Rightarrow> Some (v # vs, as @ bs)
    | _ \<Rightarrow> None)"

definition elems_view :: "('c \<Rightarrow> 'h list option) \<Rightarrow> ('c, 'h, 'v) view \<Rightarrow> ('c, slice option, 'v list option) view" where
  "elems_view prj vw s h = (case s of
      None \<Rightarrow> Some (None, [])
    | Some s \<Rightarrow> (case read_slice prj h s of
          None \<Rightarrow> None
        | Some xs \<Rightarrow> map_option (\<lambda>(vs, as). (Some vs, sl_array s # as)) (list_view vw xs h)))"

definition map_view :: "('c \<Rightarrow> ('k \<times> 'h) list option) \<Rightarrow> ('c, 'h, 'v) view
    \<Rightarrow> ('c, addr option, ('k \<rightharpoonup> 'v) option) view" where
  "map_view prj vw p h = (case p of
      None \<Rightarrow> Some (None, [])
    | Some a \<Rightarrow> (case read prj h a of
          None \<Rightarrow> None
        | Some kvs \<Rightarrow> (if distinct (map fst kvs)
            then map_option (\<lambda>(vs, as). (Some (map_of (zip (map fst kvs) vs)), a # as)) (list_view vw (map snd kvs) h)
            else None)))"

definition pair_view :: "('c, 'h, 'v) view \<Rightarrow> ('c, 'k, 'w) view \<Rightarrow> ('c, 'h \<times> 'k, 'v \<times> 'w) view" where
  "pair_view vw ww x h = (case (vw (fst x) h, ww (snd x) h) of
      (Some (v, as), Some (w, bs)) \<Rightarrow> Some ((v, w), as @ bs)
    | _ \<Rightarrow> None)"

definition field_view :: "('h \<Rightarrow> 'k) \<Rightarrow> ('h \<Rightarrow> 'w \<Rightarrow> 'v) \<Rightarrow> ('c, 'k, 'w) view \<Rightarrow> ('c, 'h, 'v) view" where
  "field_view get mkv vw x h = map_option (\<lambda>(w, as). (mkv x w, as)) (vw (get x) h)"

definition pair_into :: "('h \<Rightarrow> ('s, 'h) prog) \<Rightarrow> ('k \<Rightarrow> ('s, 'k) prog) \<Rightarrow> 'h \<times> 'k \<Rightarrow> ('s, 'h \<times> 'k) prog" where
  "pair_into f g x = bind (f (fst x)) (\<lambda>y. bind (g (snd x)) (\<lambda>z. ret (y, z)))"

definition field_into :: "('h \<Rightarrow> 'k) \<Rightarrow> ('k \<Rightarrow> 'h \<Rightarrow> 'h) \<Rightarrow> ('k \<Rightarrow> ('s, 'k) prog) \<Rightarrow> 'h \<Rightarrow> ('s, 'h) prog" where
  "field_into get put f x = bind (f (get x)) (\<lambda>y. ret (put y x))"

section \<open>Reading after allocations and writes\<close>

named_theorems heap_simps \<open>what is read from a heap after an allocation or a write\<close>

lemma cell_at_append [heap_simps]: "a < length h \<Longrightarrow> cell_at (h @ hs) a = cell_at h a"
  and cell_at_update_other [heap_simps]: "a \<noteq> b \<Longrightarrow> cell_at (h[b := c]) a = cell_at h a"
  and cell_at_update [heap_simps]: "b < length h \<Longrightarrow> cell_at (h[b := c]) b = Some c"
  and cell_at_new [heap_simps]: "cell_at (h @ c # hs) (length h) = Some c"
  by (simp_all add: cell_at_def nth_append)

lemma cell_at_beside: "a \<noteq> length h \<Longrightarrow> cell_at (h @ d # hs) a = cell_at (h @ c # hs) a"
  by (simp add: cell_at_def nth_append nth_Cons split: nat.split)

lemma cell_at_after: "length h \<le> a \<Longrightarrow> a < length (h @ hs) \<Longrightarrow> length k = length h
    \<Longrightarrow> cell_at (k @ hs @ gs) a = cell_at (h @ hs) a"
  by (simp add: cell_at_def nth_append less_diff_conv2)

lemma read_within: "read prj h a = Some v \<Longrightarrow> a < length h"
  by (simp add: read_def cell_at_def split: if_splits)

lemma read_cong: "cell_at h' a = cell_at h a \<Longrightarrow> read prj h' a = read prj h a"
  by (simp add: read_def)

lemma read_slice_cong: "cell_at h' (sl_array s) = cell_at h (sl_array s) \<Longrightarrow> read_slice prj h' s = read_slice prj h s"
  by (simp add: read_slice_def read_def)

lemma read_slice_within: "read_slice prj h s = Some xs \<Longrightarrow> sl_array s < length h"
  by (auto simp: read_slice_def split: option.splits dest: read_within)

lemma read_slice_length: "read_slice prj h s = Some xs \<Longrightarrow> length xs = sl_len s"
  by (auto simp: read_slice_def split: option.splits if_splits)

lemma update_new: "(h @ c # hs)[length h := d] = h @ d # hs"
  by (simp add: list_update_append)

lemma update_old: "b < length h \<Longrightarrow> (h @ hs)[b := d] = h[b := d] @ hs"
  by (simp add: list_update_append)

lemma read_old: "read prj h a = Some v \<Longrightarrow> read prj (h @ hs) a = Some v"
  using read_within [of prj h a v] by (simp add: read_def cell_at_append)

lemma read_slice_old: "read_slice prj h s = Some xs \<Longrightarrow> read_slice prj (h @ hs) s = Some xs"
  using read_slice_within [of prj h s xs] read_slice_cong [of "h @ hs" s h prj] by (simp add: cell_at_append)

lemma load_run: "read prj h a = Some v \<Longrightarrow> load prj a h = (Ok v, h)"
  by (simp add: load_def)

lemma bind_alloc [heap_simps]: "bind (alloc c) k h = k (length h) (h @ [c])"
  by (simp add: bind_def alloc_def)

lemma bind_load [heap_simps]: "read prj h a = Some v \<Longrightarrow> bind (load prj a) k h = k v h"
  by (simp add: bind_def load_def)

lemma bind_load_slice [heap_simps]: "read_slice prj h s = Some xs \<Longrightarrow> bind (load_slice prj s) k h = k xs h"
  by (simp add: bind_def load_slice_def)

lemma bind_store [heap_simps]: "a < length h \<Longrightarrow> bind (store a c) k h = k () (h[a := c])"
  by (simp add: bind_def store_def)

section \<open>The contract of a deep copy\<close>

text \<open>A kind of cell: \<open>prj\<close> reads just the cells that \<open>mk\<close> makes.\<close>

locale kind =
  fixes prj :: "'c \<Rightarrow> 'a option" and mk :: "'a \<Rightarrow> 'c"
  assumes prj_iff: "prj c = Some v \<longleftrightarrow> c = mk v"
begin

lemma prj_mk: "prj (mk v) = Some v"
  by (simp add: prj_iff)

lemma read_Some: "read prj h a = Some v \<Longrightarrow> h[a := mk v] = h"
  by (auto simp: read_def cell_at_def prj_iff list_update_same_conv split: if_splits)

lemma read_new: "read prj (h @ mk v # hs) (length h) = Some v"
  by (simp add: read_def heap_simps prj_mk)

lemma read_update: "b < length h \<Longrightarrow> read prj (h[b := mk v]) b = Some v"
  by (simp add: read_def heap_simps prj_mk)

end

text \<open>A view follows addresses of the heap only, and depends on nothing but the cells there.\<close>

locale viewer =
  fixes vw :: "('c, 'h, 'v) view"
  assumes within: "vw x h = Some (v, as) \<Longrightarrow> a \<in> set as \<Longrightarrow> a < length h"
    and frame: "vw x h = Some (v, as) \<Longrightarrow> (\<And>a. a \<in> set as \<Longrightarrow> cell_at h' a = cell_at h a) \<Longrightarrow> vw x h' = Some (v, as)"
begin

lemma old:
  assumes "vw x h = Some (v, as)" shows "vw x (h @ hs) = Some (v, as)"
  using assms by (rule frame) (auto intro: cell_at_append within [OF assms])

lemma beside:
  assumes "vw x (h @ c # hs) = Some (v, as)" and "length h \<notin> set as"
  shows "vw x (h @ d # hs) = Some (v, as)"
  using assms(1) by (rule frame) (use assms(2) in \<open>auto intro!: cell_at_beside\<close>)

lemma update:
  assumes "vw x h = Some (v, as)" and "b \<notin> set as"
  shows "vw x (h[b := c]) = Some (v, as)"
  using assms(1) by (rule frame) (use assms(2) in \<open>auto intro!: cell_at_update_other\<close>)

lemma list_within: "list_view vw xs h = Some (vs, as) \<Longrightarrow> a \<in> set as \<Longrightarrow> a < length h"
  by (induction xs arbitrary: vs as) (fastforce split: option.splits dest: within)+

lemma list_frame: "list_view vw xs h = Some (vs, as) \<Longrightarrow> (\<And>a. a \<in> set as \<Longrightarrow> cell_at h' a = cell_at h a)
    \<Longrightarrow> list_view vw xs h' = Some (vs, as)"
proof (induction xs arbitrary: vs as)
  case (Cons x xs)
  then obtain v cs ws ds where parts: "vw x h = Some (v, cs)" "list_view vw xs h = Some (ws, ds)"
    and "vs = v # ws" "as = cs @ ds"
    by (auto split: option.splits)
  with Cons.prems(2) show ?case
    by (simp add: frame [OF parts(1)] Cons.IH [OF parts(2)])
qed simp

end

text \<open>
  A deep copy of something that can be read does not panic, changes no cell that was there, and
  makes a copy that denotes the same and shares no address with anything older.
\<close>

locale copier = viewer vw for vw :: "('c, 'h, 'v) view" +
  fixes into :: "'h \<Rightarrow> ('c heap, 'h) prog"
  assumes copies: "vw x h = Some (v, as) \<Longrightarrow> \<exists>y hs bs. into x h = (Ok y, h @ hs)
      \<and> vw y (h @ hs) = Some (v, bs) \<and> (\<forall>b\<in>set bs. length h \<le> b)"
begin

lemma copiesE:
  assumes "vw x h = Some (v, as)"
  obtains y hs bs where "into x h = (Ok y, h @ hs)" and "vw y (h @ hs) = Some (v, bs)"
    and "\<And>b. b \<in> set bs \<Longrightarrow> length h \<le> b"
  using copies [OF assms] by blast

end

section \<open>Deep copies of parts make deep copies of the whole\<close>

lemmas copier_viewer = copier.axioms(1)

lemma copier_plain: "copier plain_view ret"
  by unfold_locales (auto simp: plain_view_def ret_def intro: exI [of _ "[]"])

lemma new_view_Some:
  "new_view prj vw (Some a) h = Some (v, as) \<longleftrightarrow>
     (\<exists>x w cs. read prj h a = Some x \<and> vw x h = Some (w, cs) \<and> v = Some w \<and> as = a # cs)"
  by (auto simp: new_view_def split: option.splits)

lemma new_view_None: "new_view prj vw None h = Some (None, [])"
  by (simp add: new_view_def)

lemma viewer_new:
  fixes vw :: "('c, 'h, 'v) view"
  assumes "viewer vw" shows "viewer (new_view prj vw)"
proof
  fix p h v as a
  assume "new_view prj vw p h = Some (v, as)" "a \<in> set as"
  then show "a < length h"
    by (cases p) (auto simp: new_view_Some new_view_None dest: read_within viewer.within [OF assms])
next
  fix p h v as and h' :: "'c heap"
  assume view: "new_view prj vw p h = Some (v, as)" and same: "\<And>a. a \<in> set as \<Longrightarrow> cell_at h' a = cell_at h a"
  show "new_view prj vw p h' = Some (v, as)"
  proof (cases p)
    case (Some b)
    then obtain x w cs where x: "read prj h b = Some x" "vw x h = Some (w, cs)" and v: "v = Some w" "as = b # cs"
      using view by (auto simp: new_view_Some)
    have "vw x h' = Some (w, cs)"
      using x(2) by (rule viewer.frame [OF assms]) (simp add: same v)
    moreover have "read prj h' b = Some x"
      using x(1) same [of b] by (simp add: read_def v)
    ultimately show ?thesis
      by (simp add: Some new_view_Some v)
  qed (use view in \<open>simp add: new_view_None\<close>)
qed

lemma copier_new:
  assumes k: "kind prj mk" and c: "copier vw into"
  shows "copier (new_view prj vw) (copy_new prj mk z into)"
proof (rule copier.intro [OF viewer_new [OF copier_viewer [OF c]]], unfold_locales)
  note old = viewer.old [OF copier_viewer [OF c]] and beside = viewer.beside [OF copier_viewer [OF c]]
  fix p h v as
  assume view: "new_view prj vw p h = Some (v, as)"
  show "\<exists>y hs bs. copy_new prj mk z into p h = (Ok y, h @ hs)
      \<and> new_view prj vw y (h @ hs) = Some (v, bs) \<and> (\<forall>b\<in>set bs. length h \<le> b)"
  proof (cases p)
    case None
    then show ?thesis
      using view by (auto simp: copy_new_def ret_def new_view_None intro: exI [of _ "[]"])
  next
    case (Some a)
    then obtain x w cs where x: "read prj h a = Some x" "vw x h = Some (w, cs)" and v: "v = Some w"
      using view by (auto simp: new_view_Some)
    obtain y hs bs where y: "into x (h @ [mk z]) = (Ok y, (h @ [mk z]) @ hs)"
        "vw y ((h @ [mk z]) @ hs) = Some (w, bs)" "\<And>b. b \<in> set bs \<Longrightarrow> length (h @ [mk z]) \<le> b"
      using copier.copiesE [OF c old [OF x(2)]] by blast
    have "copy_new prj mk z into p h = (Ok (Some (length h)), h @ mk y # hs)"
      using Some y(1) read_old [OF x(1)]
      by (simp add: copy_new_def heap_simps bind_Ok update_new ret_def)
    moreover have "vw y (h @ mk y # hs) = Some (w, bs)"
      using beside [of y h "mk z" hs w bs "mk y"] y(2) y(3) [of "length h"] by auto
    then have "new_view prj vw (Some (length h)) (h @ mk y # hs) = Some (v, length h # bs)"
      by (simp add: new_view_Some kind.read_new [OF k] v)
    moreover have "\<forall>b\<in>set (length h # bs). length h \<le> b"
      using y(3) by force
    ultimately show ?thesis
      by (intro exI conjI)
  qed
qed

lemma copier_ptr: "kind prj mk \<Longrightarrow> copier (new_view prj plain_view) (copy_ptr prj mk z)"
  unfolding copy_ptr_def by (rule copier_new [OF _ copier_plain])

lemma elems_view_Some:
  "elems_view prj vw (Some s) h = Some (v, as) \<longleftrightarrow>
     (\<exists>xs vs cs. read_slice prj h s = Some xs \<and> list_view vw xs h = Some (vs, cs) \<and> v = Some vs \<and> as = sl_array s # cs)"
  by (auto simp: elems_view_def split: option.splits)

lemma elems_view_None: "elems_view prj vw None h = Some (None, [])"
  by (simp add: elems_view_def)

lemma viewer_elems:
  fixes vw :: "('c, 'h, 'v) view"
  assumes "viewer vw" shows "viewer (elems_view prj vw)"
proof
  fix s h v as a
  assume "elems_view prj vw s h = Some (v, as)" "a \<in> set as"
  then show "a < length h"
    by (cases s) (auto simp: elems_view_Some elems_view_None dest: read_slice_within viewer.list_within [OF assms])
next
  fix s h v as and h' :: "'c heap"
  assume view: "elems_view prj vw s h = Some (v, as)" and same: "\<And>a. a \<in> set as \<Longrightarrow> cell_at h' a = cell_at h a"
  show "elems_view prj vw s h' = Some (v, as)"
  proof (cases s)
    case (Some t)
    then obtain xs vs cs where x: "read_slice prj h t = Some xs" "list_view vw xs h = Some (vs, cs)"
        and v: "v = Some vs" "as = sl_array t # cs"
      using view by (auto simp: elems_view_Some)
    have "list_view vw xs h' = Some (vs, cs)"
      using x(2) by (rule viewer.list_frame [OF assms]) (simp add: same v)
    moreover have "read_slice prj h' t = Some xs"
      using x(1) same [of "sl_array t"] by (simp add: read_slice_def read_def v)
    ultimately show ?thesis
      by (simp add: Some elems_view_Some v)
  qed (use view in \<open>simp add: elems_view_None\<close>)
qed

text \<open>The loop leaves the copies in the new cell and allocates what they need.\<close>

lemma for_range_run:
  assumes k: "kind prj mk" and c: "copier vw f"
  shows "list_view vw (map snd kxs) h = Some (vs, as) \<Longrightarrow> b < length h \<Longrightarrow> b \<notin> set as \<Longrightarrow> read prj h b = Some d
    \<Longrightarrow> \<exists>zs hs bs e. length zs = length kxs \<and> e = mk (fold (\<lambda>(k, y). upd k y) (zip (map fst kxs) zs) d)
      \<and> for_range prj mk upd f b kxs h = (Ok (), h[b := e] @ hs)
      \<and> list_view vw zs (h[b := e] @ hs) = Some (vs, bs) \<and> (\<forall>b\<in>set bs. length h \<le> b)"
proof (induction kxs arbitrary: h d vs as)
  case Nil
  then show ?case
    using kind.read_Some [OF k, of h b d] by (intro exI [of _ "[]"]) (auto simp: ret_def)
next
  case (Cons kx kxs)
  note frame = viewer.frame [OF copier_viewer [OF c]] and list_frame = viewer.list_frame [OF copier_viewer [OF c]]
    and within = viewer.within [OF copier_viewer [OF c]] and list_within = viewer.list_within [OF copier_viewer [OF c]]
  from Cons.prems(1) obtain w cs ws ds where x: "vw (snd kx) h = Some (w, cs)"
      and xs: "list_view vw (map snd kxs) h = Some (ws, ds)" and v: "vs = w # ws" "as = cs @ ds"
    by (auto split: option.splits)
  from copier.copiesE [OF c x] obtain y hs bs where y: "f (snd kx) h = (Ok y, h @ hs)" "vw y (h @ hs) = Some (w, bs)"
      "\<And>b. b \<in> set bs \<Longrightarrow> length h \<le> b" by metis
  define k where "k = h[b := mk (upd (fst kx) y d)] @ hs"
  have "list_view vw (map snd kxs) k = Some (ws, ds)"
    using xs by (rule list_frame) (use list_within [OF xs] Cons.prems(3) in
      \<open>auto simp: k_def cell_at_append v intro!: cell_at_update_other\<close>)
  moreover have "b < length k" "b \<notin> set ds"
    using Cons.prems(2,3) by (simp_all add: k_def v)
  moreover have "read prj k b = Some (upd (fst kx) y d)"
    using Cons.prems(2) kind.read_update [OF k, of b h] by (simp add: k_def read_old)
  ultimately obtain zs gs es e where zs: "length zs = length kxs"
      "e = mk (fold (\<lambda>(k, y). upd k y) (zip (map fst kxs) zs) (upd (fst kx) y d))"
      "for_range prj mk upd f b kxs k = (Ok (), k[b := e] @ gs)"
      "list_view vw zs (k[b := e] @ gs) = Some (ws, es)" "\<forall>b\<in>set es. length k \<le> b"
    using Cons.IH by blast
  have e: "k[b := e] @ gs = h[b := e] @ hs @ gs"
    using Cons.prems(2) by (simp add: k_def update_old)
  have "vw y (h[b := e] @ hs @ gs) = Some (w, bs)"
    using y(2) by (rule frame) (rule cell_at_after [OF y(3) within [OF y(2)]], simp_all)
  moreover have "for_range prj mk upd f b (kx # kxs) h = (Ok (), h[b := e] @ hs @ gs)"
    using y(1) zs(3) Cons.prems(2) read_old [OF Cons.prems(4), of hs]
    by (simp add: bind_Ok bind_load bind_store update_old flip: e k_def)
  moreover have "\<forall>b\<in>set (bs @ es). length h \<le> b"
    using y(3) zs(5) by (auto simp: k_def)
  ultimately show ?case
    using zs(1,2,4) unfolding e
    by (intro exI [of _ "y # zs"] exI [of _ "hs @ gs"] exI [of _ "bs @ es"] exI [of _ e]) (simp add: v)
qed

lemma fold_enumerate_update:
  "length zs = length xs \<Longrightarrow> length ys = length xs
    \<Longrightarrow> fold (\<lambda>(i, y) ys. ys[i := y]) (zip [length us..<length us + length xs] zs) (us @ ys) = us @ zs"
proof (induction zs arbitrary: us xs ys)
  case (Cons z zs)
  then obtain x xs' y ys' where "xs = x # xs'" "ys = y # ys'"
    by (metis length_Suc_conv)
  with Cons.prems Cons.IH [of xs' ys' "us @ [z]"] show ?case
    by (simp add: upt_rec)
qed simp

lemma read_slice_all:
  "kind prj mk \<Longrightarrow> length zs = n \<Longrightarrow>
     read_slice prj (h @ mk zs # hs) \<lparr>sl_array = length h, sl_off = 0, sl_len = n\<rparr> = Some zs"
  by (simp add: read_slice_def kind.read_new)

lemma copier_elems:
  assumes k: "kind prj mk" and c: "copier vw f"
  shows "copier (elems_view prj vw) (copy_elems prj mk z f)"
proof (rule copier.intro [OF viewer_elems [OF copier_viewer [OF c]]], unfold_locales)
  fix s h v as
  assume view: "elems_view prj vw s h = Some (v, as)"
  show "\<exists>y hs bs. copy_elems prj mk z f s h = (Ok y, h @ hs)
      \<and> elems_view prj vw y (h @ hs) = Some (v, bs) \<and> (\<forall>b\<in>set bs. length h \<le> b)"
  proof (cases s)
    case None
    then show ?thesis
      using view by (auto simp: copy_elems_def ret_def elems_view_None intro: exI [of _ "[]"])
  next
    case (Some t)
    then obtain xs vs cs where xs: "read_slice prj h t = Some xs" "list_view vw xs h = Some (vs, cs)" and v: "v = Some vs"
      using view by (auto simp: elems_view_Some)
    define new where "new = mk (replicate (sl_len t) z)"
    have len: "length xs = sl_len t"
      using xs(1) by (rule read_slice_length)
    have within: "a < length h" if "a \<in> set cs" for a
      using xs(2) that by (rule viewer.list_within [OF copier_viewer [OF c]])
    have "list_view vw xs (h @ [new]) = Some (vs, cs)"
      using xs(2) by (rule viewer.list_frame [OF copier_viewer [OF c]]) (intro cell_at_append within)
    then have "list_view vw (map snd (enumerate 0 xs)) (h @ [new]) = Some (vs, cs)"
      by simp
    moreover have "length h < length (h @ [new])" "length h \<notin> set cs"
      using within [of "length h"] by auto
    moreover have "read prj (h @ [new]) (length h) = Some (replicate (sl_len t) z)"
      unfolding new_def by (rule kind.read_new [OF k])
    ultimately obtain zs hs bs e where zs: "length zs = length (enumerate 0 xs)"
        "e = mk (fold (\<lambda>(i, y) ys. ys[i := y]) (zip (map fst (enumerate 0 xs)) zs) (replicate (sl_len t) z))"
        "for_range prj mk (\<lambda>i y ys. ys[i := y]) f (length h) (enumerate 0 xs) (h @ [new])
           = (Ok (), (h @ [new])[length h := e] @ hs)"
        "list_view vw zs ((h @ [new])[length h := e] @ hs) = Some (vs, bs)"
        "\<forall>b\<in>set bs. length (h @ [new]) \<le> b"
      using for_range_run [OF k c] by blast
    have e: "e = mk zs"
      using fold_enumerate_update [of zs xs "replicate (sl_len t) z" "[]"] zs(1,2) by (simp add: len)
    have "copy_elems prj mk z f s h = (Ok (Some \<lparr>sl_array = length h, sl_off = 0, sl_len = sl_len t\<rparr>), h @ mk zs # hs)"
      using zs(3) read_slice_old [OF xs(1), of "[new]"]
      by (simp add: copy_elems_def Some e heap_simps bind_Ok ret_def flip: new_def)
    moreover have "elems_view prj vw (Some \<lparr>sl_array = length h, sl_off = 0, sl_len = sl_len t\<rparr>) (h @ mk zs # hs)
        = Some (v, length h # bs)"
      using zs(1,4) by (simp add: e elems_view_Some read_slice_all [OF k] v len)
    moreover have "\<forall>b\<in>set (length h # bs). length h \<le> b"
      using zs(5) by force
    ultimately show ?thesis
      by (intro exI conjI)
  qed
qed

lemma list_view_plain: "list_view plain_view xs h = Some (xs, [])"
  by (induction xs) (simp_all add: plain_view_def)

lemma copier_slice:
  assumes k: "kind prj mk"
  shows "copier (elems_view prj plain_view) (copy_slice prj mk z)"
proof (rule copier.intro [OF viewer_elems [OF copier_viewer [OF copier_plain]]], unfold_locales)
  fix s h v as
  assume view: "elems_view prj plain_view s h = Some (v, as)"
  show "\<exists>y hs bs. copy_slice prj mk z s h = (Ok y, h @ hs)
      \<and> elems_view prj plain_view y (h @ hs) = Some (v, bs) \<and> (\<forall>b\<in>set bs. length h \<le> b)"
  proof (cases s)
    case None
    then show ?thesis
      using view by (auto simp: copy_slice_def ret_def elems_view_None intro: exI [of _ "[]"])
  next
    case (Some t)
    then obtain xs where xs: "read_slice prj h t = Some xs" and v: "v = Some xs"
      using view by (auto simp: elems_view_Some list_view_plain)
    have "copy_slice prj mk z s h = (Ok (Some \<lparr>sl_array = length h, sl_off = 0, sl_len = sl_len t\<rparr>), h @ [mk xs])"
      using read_slice_old [OF xs, of "[mk (replicate (sl_len t) z)]"]
      by (simp add: copy_slice_def Some heap_simps ret_def)
    moreover have "elems_view prj plain_view (Some \<lparr>sl_array = length h, sl_off = 0, sl_len = sl_len t\<rparr>) (h @ [mk xs])
        = Some (v, [length h])"
      using read_slice_length [OF xs] by (simp add: elems_view_Some read_slice_all [OF k] list_view_plain v)
    moreover have "\<forall>b\<in>set [length h]. length h \<le> b"
      by simp
    ultimately show ?thesis
      by (intro exI conjI)
  qed
qed

lemma map_view_Some:
  "map_view prj vw (Some a) h = Some (v, as) \<longleftrightarrow>
     (\<exists>kvs vs cs. read prj h a = Some kvs \<and> distinct (map fst kvs) \<and> list_view vw (map snd kvs) h = Some (vs, cs)
        \<and> v = Some (map_of (zip (map fst kvs) vs)) \<and> as = a # cs)"
  by (auto simp: map_view_def split: option.splits)

lemma map_view_None: "map_view prj vw None h = Some (None, [])"
  by (simp add: map_view_def)

lemma viewer_map:
  fixes vw :: "('c, 'h, 'v) view"
  assumes "viewer vw" shows "viewer (map_view prj vw)"
proof
  fix p h v as a
  assume "map_view prj vw p h = Some (v, as)" "a \<in> set as"
  then show "a < length h"
    by (cases p) (auto simp: map_view_Some map_view_None dest: read_within viewer.list_within [OF assms])
next
  fix p h v as and h' :: "'c heap"
  assume view: "map_view prj vw p h = Some (v, as)" and same: "\<And>a. a \<in> set as \<Longrightarrow> cell_at h' a = cell_at h a"
  show "map_view prj vw p h' = Some (v, as)"
  proof (cases p)
    case (Some b)
    then obtain kvs vs cs where x: "read prj h b = Some kvs" "list_view vw (map snd kvs) h = Some (vs, cs)"
        and v: "distinct (map fst kvs)" "v = Some (map_of (zip (map fst kvs) vs))" "as = b # cs"
      using view by (auto simp: map_view_Some)
    have "list_view vw (map snd kvs) h' = Some (vs, cs)"
      using x(2) by (rule viewer.list_frame [OF assms]) (simp add: same v)
    moreover have "read prj h' b = Some kvs"
      using x(1) same [of b] by (simp add: read_def v)
    ultimately show ?thesis
      by (simp add: Some map_view_Some v)
  qed (use view in \<open>simp add: map_view_None\<close>)
qed

lemma update_absent: "k \<notin> fst ` set m \<Longrightarrow> AList.update k w m = m @ [(k, w)]"
  by (induction m) auto

lemma fold_update_absent:
  "distinct (map fst m @ ks) \<Longrightarrow> length ws = length ks
    \<Longrightarrow> fold (\<lambda>(k, w). AList.update k w) (zip ks ws) m = m @ zip ks ws"
proof (induction ks arbitrary: m ws)
  case (Cons k ks)
  then obtain w ws' where ws: "ws = w # ws'"
    by (cases ws) auto
  have "AList.update k w m = m @ [(k, w)]"
    using Cons.prems(1) by (intro update_absent) auto
  with Cons.prems Cons.IH [of "m @ [(k, w)]" ws'] show ?case
    by (auto simp: ws)
qed simp

lemma copier_map:
  assumes k: "kind prj mk" and c: "copier vw f"
  shows "copier (map_view prj vw) (copy_map prj mk f)"
proof (rule copier.intro [OF viewer_map [OF copier_viewer [OF c]]], unfold_locales)
  fix p h v as
  assume view: "map_view prj vw p h = Some (v, as)"
  show "\<exists>y hs bs. copy_map prj mk f p h = (Ok y, h @ hs)
      \<and> map_view prj vw y (h @ hs) = Some (v, bs) \<and> (\<forall>b\<in>set bs. length h \<le> b)"
  proof (cases p)
    case None
    then show ?thesis
      using view by (auto simp: copy_map_def ret_def map_view_None intro: exI [of _ "[]"])
  next
    case (Some a)
    then obtain kvs vs cs where kvs: "read prj h a = Some kvs" "distinct (map fst kvs)"
        "list_view vw (map snd kvs) h = Some (vs, cs)" and v: "v = Some (map_of (zip (map fst kvs) vs))"
      using view by (auto simp: map_view_Some)
    have within: "a < length h" if "a \<in> set cs" for a
      using kvs(3) that by (rule viewer.list_within [OF copier_viewer [OF c]])
    have "list_view vw (map snd kvs) (h @ [mk []]) = Some (vs, cs)"
      using kvs(3) by (rule viewer.list_frame [OF copier_viewer [OF c]]) (intro cell_at_append within)
    moreover have "length h < length (h @ [mk []])" "length h \<notin> set cs"
      using within [of "length h"] by auto
    moreover have "read prj (h @ [mk []]) (length h) = Some []"
      by (rule kind.read_new [OF k])
    ultimately obtain zs hs bs e where zs: "length zs = length kvs"
        "e = mk (fold (\<lambda>(k, y). AList.update k y) (zip (map fst kvs) zs) [])"
        "for_range prj mk AList.update f (length h) kvs (h @ [mk []]) = (Ok (), (h @ [mk []])[length h := e] @ hs)"
        "list_view vw zs ((h @ [mk []])[length h := e] @ hs) = Some (vs, bs)"
        "\<forall>b\<in>set bs. length (h @ [mk []]) \<le> b"
      using for_range_run [OF k c] by blast
    have e: "e = mk (zip (map fst kvs) zs)"
      using fold_update_absent [of "[]" "map fst kvs" zs] kvs(2) zs(1,2) by simp
    have "copy_map prj mk f p h = (Ok (Some (length h)), h @ e # hs)"
      using zs(3) read_old [OF kvs(1), of "[mk []]"]
      by (simp add: copy_map_def Some heap_simps bind_Ok ret_def)
    moreover have "map_view prj vw (Some (length h)) (h @ e # hs) = Some (v, length h # bs)"
      using zs(1,4) kvs(2) by (simp add: e map_view_Some kind.read_new [OF k] v)
    moreover have "\<forall>b\<in>set (length h # bs). length h \<le> b"
      using zs(5) by force
    ultimately show ?thesis
      by (intro exI conjI)
  qed
qed

lemma pair_view_Some:
  "pair_view vw ww (x, y) h = Some (v, as) \<longleftrightarrow>
     (\<exists>w u bs cs. vw x h = Some (w, bs) \<and> ww y h = Some (u, cs) \<and> v = (w, u) \<and> as = bs @ cs)"
  by (auto simp: pair_view_def split: option.splits)

lemma copier_pair:
  fixes vw :: "('c, 'h, 'v) view" and ww :: "('c, 'k, 'w) view"
  assumes f: "copier vw f" and g: "copier ww g"
  shows "copier (pair_view vw ww) (pair_into f g)"
proof
  fix x h v as a
  assume "pair_view vw ww x h = Some (v, as)" "a \<in> set as"
  then show "a < length h"
    by (cases x) (auto simp: pair_view_Some dest: viewer.within [OF copier_viewer [OF f]] viewer.within [OF copier_viewer [OF g]])
next
  fix x h v as and h' :: "'c heap"
  assume view: "pair_view vw ww x h = Some (v, as)" and same: "\<And>a. a \<in> set as \<Longrightarrow> cell_at h' a = cell_at h a"
  then obtain w u bs cs where parts: "vw (fst x) h = Some (w, bs)" "ww (snd x) h = Some (u, cs)" "v = (w, u)" "as = bs @ cs"
    by (cases x) (auto simp: pair_view_Some)
  have "vw (fst x) h' = Some (w, bs)"
    using parts(1) by (rule viewer.frame [OF copier_viewer [OF f]]) (simp add: same parts)
  moreover have "ww (snd x) h' = Some (u, cs)"
    using parts(2) by (rule viewer.frame [OF copier_viewer [OF g]]) (simp add: same parts)
  ultimately show "pair_view vw ww x h' = Some (v, as)"
    by (simp add: pair_view_def parts)
next
  fix x h v as
  assume "pair_view vw ww x h = Some (v, as)"
  then obtain w u bs cs where parts: "vw (fst x) h = Some (w, bs)" "ww (snd x) h = Some (u, cs)" "v = (w, u)"
    by (cases x) (auto simp: pair_view_Some)
  obtain y hs ds where y: "f (fst x) h = (Ok y, h @ hs)" "vw y (h @ hs) = Some (w, ds)" "\<And>b. b \<in> set ds \<Longrightarrow> length h \<le> b"
    using copier.copiesE [OF f parts(1)] by metis
  obtain z gs es where z: "g (snd x) (h @ hs) = (Ok z, (h @ hs) @ gs)" "ww z ((h @ hs) @ gs) = Some (u, es)"
      "\<And>b. b \<in> set es \<Longrightarrow> length (h @ hs) \<le> b"
    using copier.copiesE [OF g viewer.old [OF copier_viewer [OF g] parts(2)]] by metis
  have "pair_into f g x h = (Ok (y, z), h @ hs @ gs)"
    using y(1) z(1) by (simp add: pair_into_def bind_Ok ret_def)
  moreover have "pair_view vw ww (y, z) (h @ hs @ gs) = Some (v, ds @ es)"
    using viewer.old [OF copier_viewer [OF f] y(2), of gs] z(2) by (simp add: pair_view_def parts)
  moreover have "\<forall>b\<in>set (ds @ es). length h \<le> b"
    using y(3) z(3) by force
  ultimately show "\<exists>y hs bs. pair_into f g x h = (Ok y, h @ hs)
      \<and> pair_view vw ww y (h @ hs) = Some (v, bs) \<and> (\<forall>b\<in>set bs. length h \<le> b)"
    by (intro exI conjI)
qed

text \<open>
  A struct whose pointers are those of the part \<open>get x\<close>: \<open>put y x\<close> is \<open>x\<close> with this part replaced,
  and the value \<open>mkv x w\<close> of \<open>x\<close> is made of the value \<open>w\<close> of the part and of the other fields.
\<close>

lemma copier_field:
  fixes vw :: "('c, 'k, 'w) view"
  assumes c: "copier vw f" and get: "\<And>x y. get (put y x) = y" and mkv: "\<And>x y. mkv (put y x) = mkv x"
  shows "copier (field_view get mkv vw) (field_into get put f)"
proof
  fix x h v as a
  assume "field_view get mkv vw x h = Some (v, as)" "a \<in> set as"
  then show "a < length h"
    by (auto simp: field_view_def dest: viewer.within [OF copier_viewer [OF c]])
next
  fix x h v as and h' :: "'c heap"
  assume view: "field_view get mkv vw x h = Some (v, as)" and same: "\<And>a. a \<in> set as \<Longrightarrow> cell_at h' a = cell_at h a"
  then obtain w where w: "vw (get x) h = Some (w, as)" "v = mkv x w"
    by (auto simp: field_view_def)
  have "vw (get x) h' = Some (w, as)"
    using w(1) by (rule viewer.frame [OF copier_viewer [OF c]]) (rule same)
  then show "field_view get mkv vw x h' = Some (v, as)"
    by (simp add: field_view_def w)
next
  fix x h v as
  assume "field_view get mkv vw x h = Some (v, as)"
  then obtain w where w: "vw (get x) h = Some (w, as)" "v = mkv x w"
    by (auto simp: field_view_def)
  obtain y hs bs where y: "f (get x) h = (Ok y, h @ hs)" "vw y (h @ hs) = Some (w, bs)" "\<And>b. b \<in> set bs \<Longrightarrow> length h \<le> b"
    using copier.copiesE [OF c w(1)] by metis
  have "field_into get put f x h = (Ok (put y x), h @ hs)"
    using y(1) by (simp add: field_into_def bind_Ok ret_def)
  moreover have "field_view get mkv vw (put y x) (h @ hs) = Some (v, bs)"
    using y(2) by (simp add: field_view_def get mkv w)
  ultimately show "\<exists>y hs bs. field_into get put f x h = (Ok y, h @ hs)
      \<and> field_view get mkv vw y (h @ hs) = Some (v, bs) \<and> (\<forall>b\<in>set bs. length h \<le> b)"
    using y(3) by blast
qed

end
