(* ===== verification/Memory_Types.thy ===== *)
theory Memory_Types
  imports Go_Heap Api_Types
begin

text \<open>
  The structs of \<open>api/v1alpha3\<close> as they lie in memory. A struct \<open>T\<close> that holds a pointer, a slice or
  a map, itself or in a field, is a record \<open>T_h\<close> whose fields have the names of those of \<open>T\<close> in
  \<open>Api_Types\<close> with an \<open>h\<close> before; the other structs are what they are there. A \<open>cell\<close> is a Go variable
  that a pointer, a slice or a map of these structs can refer to, with one constructor for each static
  type; \<open>the_C\<close> reads a cell of constructor \<open>CC\<close>. \<open>T_view\<close> is the value that a \<open>T_h\<close> denotes.
  \<open>Message\<close> cells hold the error whose text the code stores, as \<open>Api_Types\<close> does.
\<close>

section \<open>Kubernetes and Cluster API types\<close>

record TypeMeta =
  tm_Kind :: string
  tm_APIVersion :: string

record ListMeta_h =
  hlm_SelfLink :: string
  hlm_ResourceVersion :: string
  hlm_Continue :: string
  hlm_RemainingItemCount :: "addr option"

record ObjectMeta_h =
  hom_Name :: string
  hom_Namespace :: string
  hom_ClusterName :: string
  hom_Finalizers :: "slice option"
  hom_DeletionTimestamp :: "addr option"
  hom_Annotations :: "addr option"

record FailureDomainSpec_h =
  hfd_ControlPlane :: bool
  hfd_Attributes :: "addr option"

definition zero_TypeMeta :: TypeMeta where
  "zero_TypeMeta = \<lparr>
    tm_Kind = '''', tm_APIVersion = ''''\<rparr>"

definition zero_ListMeta_h :: ListMeta_h where
  "zero_ListMeta_h = \<lparr>
    hlm_SelfLink = '''', hlm_ResourceVersion = '''', hlm_Continue = '''',
    hlm_RemainingItemCount = None\<rparr>"

definition zero_ObjectMeta_h :: ObjectMeta_h where
  "zero_ObjectMeta_h = \<lparr>
    hom_Name = '''', hom_Namespace = '''', hom_ClusterName = '''', hom_Finalizers = None,
    hom_DeletionTimestamp = None, hom_Annotations = None\<rparr>"

definition zero_FailureDomainSpec_h :: FailureDomainSpec_h where
  "zero_FailureDomainSpec_h = \<lparr>
    hfd_ControlPlane = False, hfd_Attributes = None\<rparr>"

section \<open>Structs with pointers\<close>

record Filter_h =
  hfi_Name :: string
  hfi_Values :: "slice option"

definition zero_Filter_h :: Filter_h where
  "zero_Filter_h = \<lparr>
    hfi_Name = '''', hfi_Values = None\<rparr>"

record FirewallSpec_h =
  hfws_FirewallId :: string
  hfws_FirewallName :: string
  hfws_Rules :: "slice option"
  hfws_Description :: string

definition zero_FirewallSpec_h :: FirewallSpec_h where
  "zero_FirewallSpec_h = \<lparr>
    hfws_FirewallId = '''', hfws_FirewallName = '''', hfws_Rules = None,
    hfws_Description = ''''\<rparr>"

record NetworkSpec_h =
  hnws_VPC :: VPCSpec
  hnws_Subnet :: SubnetSpec
  hnws_Nat :: NatSpec
  hnws_ULB :: ULBSpec
  hnws_Firewall :: FirewallSpec_h

definition zero_NetworkSpec_h :: NetworkSpec_h where
  "zero_NetworkSpec_h = \<lparr>
    hnws_VPC = zero_VPCSpec, hnws_Subnet = zero_SubnetSpec, hnws_Nat = zero_NatSpec,
    hnws_ULB = zero_ULBSpec, hnws_Firewall = zero_FirewallSpec_h\<rparr>"

record SnatTableIds_h =
  hsnat_SnatTableId :: "slice option"

definition zero_SnatTableIds_h :: SnatTableIds_h where
  "zero_SnatTableIds_h = \<lparr>
    hsnat_SnatTableId = None\<rparr>"

record Nat_h =
  hnat_EIP :: EIP
  hnat_SnatEntryId :: string
  hnat_Firewall :: Firewall
  hnat_NatGatewayId :: string
  hnat_Name :: string
  hnat_Description :: string
  hnat_VpcId :: string
  hnat_CreationTime :: string
  hnat_Status :: string
  hnat_SnatTableIds :: SnatTableIds_h

definition zero_Nat_h :: Nat_h where
  "zero_Nat_h = \<lparr>
    hnat_EIP = zero_EIP, hnat_SnatEntryId = '''', hnat_Firewall = zero_Firewall,
    hnat_NatGatewayId = '''', hnat_Name = '''', hnat_Description = '''', hnat_VpcId = '''',
    hnat_CreationTime = '''', hnat_Status = '''',
    hnat_SnatTableIds = zero_SnatTableIds_h\<rparr>"

record Network_h =
  hnw_VPC :: VPC
  hnw_Subnet :: Subnet
  hnw_ULB :: ULB
  hnw_Nat :: Nat_h
  hnw_Firewall :: Firewall

definition zero_Network_h :: Network_h where
  "zero_Network_h = \<lparr>
    hnw_VPC = zero_VPC, hnw_Subnet = zero_Subnet, hnw_ULB = zero_ULB, hnw_Nat = zero_Nat_h,
    hnw_Firewall = zero_Firewall\<rparr>"

record UCloudClusterSpec_h =
  hcs_ProjectId :: string
  hcs_Region :: string
  hcs_Version :: string
  hcs_ControlPlaneEndpoint :: APIEndpoint
  hcs_Network :: NetworkSpec_h
  hcs_Bastion :: BastionSpec

definition zero_UCloudClusterSpec_h :: UCloudClusterSpec_h where
  "zero_UCloudClusterSpec_h = \<lparr>
    hcs_ProjectId = '''', hcs_Region = '''', hcs_Version = '''',
    hcs_ControlPlaneEndpoint = zero_APIEndpoint, hcs_Network = zero_NetworkSpec_h,
    hcs_Bastion = zero_BastionSpec\<rparr>"

record UCloudClusterStatus_h =
  hcst_FailureDomains :: "addr option"
  hcst_Network :: Network_h
  hcst_ClusterId :: string
  hcst_Bastion :: "addr option"
  hcst_Group :: Group
  hcst_Ready :: bool

definition zero_UCloudClusterStatus_h :: UCloudClusterStatus_h where
  "zero_UCloudClusterStatus_h = \<lparr>
    hcst_FailureDomains = None, hcst_Network = zero_Network_h, hcst_ClusterId = '''',
    hcst_Bastion = None, hcst_Group = zero_Group, hcst_Ready = False\<rparr>"

record UCloudCluster_h =
  huc_TypeMeta :: TypeMeta
  huc_ObjectMeta :: ObjectMeta_h
  huc_Spec :: UCloudClusterSpec_h
  huc_Status :: UCloudClusterStatus_h

definition zero_UCloudCluster_h :: UCloudCluster_h where
  "zero_UCloudCluster_h = \<lparr>
    huc_TypeMeta = zero_TypeMeta, huc_ObjectMeta = zero_ObjectMeta_h,
    huc_Spec = zero_UCloudClusterSpec_h, huc_Status = zero_UCloudClusterStatus_h\<rparr>"

record UCloudClusterList_h =
  hucl_TypeMeta :: TypeMeta
  hucl_ListMeta :: ListMeta_h
  hucl_Items :: "slice option"

definition zero_UCloudClusterList_h :: UCloudClusterList_h where
  "zero_UCloudClusterList_h = \<lparr>
    hucl_TypeMeta = zero_TypeMeta, hucl_ListMeta = zero_ListMeta_h, hucl_Items = None\<rparr>"

record UCloudMachineSpec_h =
  hms_InstanceType :: string
  hms_CPU :: int
  hms_Memory :: int
  hms_RootDiskSize :: int
  hms_DataDiskSize :: int
  hms_SSHPassword :: string
  hms_ProviderID :: "addr option"
  hms_ImageId :: "addr option"
  hms_PublicIP :: "addr option"
  hms_AdditionalNetworkTags :: "slice option"

definition zero_UCloudMachineSpec_h :: UCloudMachineSpec_h where
  "zero_UCloudMachineSpec_h = \<lparr>
    hms_InstanceType = '''', hms_CPU = 0, hms_Memory = 0, hms_RootDiskSize = 0,
    hms_DataDiskSize = 0, hms_SSHPassword = '''', hms_ProviderID = None, hms_ImageId = None,
    hms_PublicIP = None, hms_AdditionalNetworkTags = None\<rparr>"

record UCloudMachineStatus_h =
  hmst_Ready :: bool
  hmst_Zone :: string
  hmst_InstanceId :: string
  hmst_ClusterId :: string
  hmst_Addresses :: "slice option"
  hmst_InstanceStatus :: string
  hmst_FailureReason :: "addr option"
  hmst_FailureMessage :: "addr option"

definition zero_UCloudMachineStatus_h :: UCloudMachineStatus_h where
  "zero_UCloudMachineStatus_h = \<lparr>
    hmst_Ready = False, hmst_Zone = '''', hmst_InstanceId = '''', hmst_ClusterId = '''',
    hmst_Addresses = None, hmst_InstanceStatus = '''', hmst_FailureReason = None,
    hmst_FailureMessage = None\<rparr>"

record UCloudMachine_h =
  hum_TypeMeta :: TypeMeta
  hum_ObjectMeta :: ObjectMeta_h
  hum_Spec :: UCloudMachineSpec_h
  hum_Status :: UCloudMachineStatus_h

definition zero_UCloudMachine_h :: UCloudMachine_h where
  "zero_UCloudMachine_h = \<lparr>
    hum_TypeMeta = zero_TypeMeta, hum_ObjectMeta = zero_ObjectMeta_h,
    hum_Spec = zero_UCloudMachineSpec_h, hum_Status = zero_UCloudMachineStatus_h\<rparr>"

record UCloudMachineList_h =
  huml_TypeMeta :: TypeMeta
  huml_ListMeta :: ListMeta_h
  huml_Items :: "slice option"

definition zero_UCloudMachineList_h :: UCloudMachineList_h where
  "zero_UCloudMachineList_h = \<lparr>
    huml_TypeMeta = zero_TypeMeta, huml_ListMeta = zero_ListMeta_h, huml_Items = None\<rparr>"

record UCloudMachineTemplateResource_h =
  htr_Spec :: UCloudMachineSpec_h

definition zero_UCloudMachineTemplateResource_h :: UCloudMachineTemplateResource_h where
  "zero_UCloudMachineTemplateResource_h = \<lparr>
    htr_Spec = zero_UCloudMachineSpec_h\<rparr>"

record UCloudMachineTemplateSpec_h =
  hts_Template :: UCloudMachineTemplateResource_h

definition zero_UCloudMachineTemplateSpec_h :: UCloudMachineTemplateSpec_h where
  "zero_UCloudMachineTemplateSpec_h = \<lparr>
    hts_Template = zero_UCloudMachineTemplateResource_h\<rparr>"

record UCloudMachineTemplate_h =
  htpl_TypeMeta :: TypeMeta
  htpl_ObjectMeta :: ObjectMeta_h
  htpl_Spec :: UCloudMachineTemplateSpec_h

definition zero_UCloudMachineTemplate_h :: UCloudMachineTemplate_h where
  "zero_UCloudMachineTemplate_h = \<lparr>
    htpl_TypeMeta = zero_TypeMeta, htpl_ObjectMeta = zero_ObjectMeta_h,
    htpl_Spec = zero_UCloudMachineTemplateSpec_h\<rparr>"

record UCloudMachineTemplateList_h =
  htpll_TypeMeta :: TypeMeta
  htpll_ListMeta :: ListMeta_h
  htpll_Items :: "slice option"

definition zero_UCloudMachineTemplateList_h :: UCloudMachineTemplateList_h where
  "zero_UCloudMachineTemplateList_h = \<lparr>
    htpll_TypeMeta = zero_TypeMeta, htpll_ListMeta = zero_ListMeta_h,
    htpll_Items = None\<rparr>"

section \<open>Cells\<close>

datatype (plugins only: code size) cell =
    StringC string
  | BoolC bool
  | ReasonC string
  | MessageC error
  | Int64C int
  | TimeC string
  | StringsC "string list"
  | AddressesC "MachineAddress list"
  | RulesC "addr option list"
  | ClustersC "UCloudCluster_h list"
  | MachinesC "UCloudMachine_h list"
  | TemplatesC "UCloudMachineTemplate_h list"
  | StringMapC "(string \<times> string) list"
  | DomainsC "(string \<times> FailureDomainSpec_h) list"
  | BastionSpecC BastionSpec
  | EIPC EIP
  | EIPSpecC EIPSpec
  | FirewallC Firewall
  | FirewallRuleSpecC FirewallRuleSpec
  | GroupC Group
  | InstanceC Instance
  | NatGatewaySpecC NatGatewaySpec
  | SubnetC Subnet
  | SubnetSpecC SubnetSpec
  | VPCC VPC
  | VPCSpecC VPCSpec
  | NatSpecC NatSpec
  | ULBC ULB
  | ULBSpecC ULBSpec
  | FilterC Filter_h
  | FirewallSpecC FirewallSpec_h
  | NetworkSpecC NetworkSpec_h
  | SnatTableIdsC SnatTableIds_h
  | NatC Nat_h
  | NetworkC Network_h
  | UCloudClusterSpecC UCloudClusterSpec_h
  | UCloudClusterStatusC UCloudClusterStatus_h
  | UCloudClusterC UCloudCluster_h
  | UCloudClusterListC UCloudClusterList_h
  | UCloudMachineSpecC UCloudMachineSpec_h
  | UCloudMachineStatusC UCloudMachineStatus_h
  | UCloudMachineC UCloudMachine_h
  | UCloudMachineListC UCloudMachineList_h
  | UCloudMachineTemplateResourceC UCloudMachineTemplateResource_h
  | UCloudMachineTemplateSpecC UCloudMachineTemplateSpec_h
  | UCloudMachineTemplateC UCloudMachineTemplate_h
  | UCloudMachineTemplateListC UCloudMachineTemplateList_h

type_synonym mem = "cell heap"

definition the_String :: "cell \<Rightarrow> string option" where
  "the_String c = (case c of StringC x \<Rightarrow> Some x | _ \<Rightarrow> None)"

definition the_Bool :: "cell \<Rightarrow> bool option" where
  "the_Bool c = (case c of BoolC x \<Rightarrow> Some x | _ \<Rightarrow> None)"

definition the_Reason :: "cell \<Rightarrow> string option" where
  "the_Reason c = (case c of ReasonC x \<Rightarrow> Some x | _ \<Rightarrow> None)"

definition the_Message :: "cell \<Rightarrow> error option" where
  "the_Message c = (case c of MessageC x \<Rightarrow> Some x | _ \<Rightarrow> None)"

definition the_Int64 :: "cell \<Rightarrow> int option" where
  "the_Int64 c = (case c of Int64C x \<Rightarrow> Some x | _ \<Rightarrow> None)"

definition the_Time :: "cell \<Rightarrow> string option" where
  "the_Time c = (case c of TimeC x \<Rightarrow> Some x | _ \<Rightarrow> None)"

definition the_Strings :: "cell \<Rightarrow> (string list) option" where
  "the_Strings c = (case c of StringsC x \<Rightarrow> Some x | _ \<Rightarrow> None)"

definition the_Addresses :: "cell \<Rightarrow> (MachineAddress list) option" where
  "the_Addresses c = (case c of AddressesC x \<Rightarrow> Some x | _ \<Rightarrow> None)"

definition the_Rules :: "cell \<Rightarrow> (addr option list) option" where
  "the_Rules c = (case c of RulesC x \<Rightarrow> Some x | _ \<Rightarrow> None)"

definition the_Clusters :: "cell \<Rightarrow> (UCloudCluster_h list) option" where
  "the_Clusters c = (case c of ClustersC x \<Rightarrow> Some x | _ \<Rightarrow> None)"

definition the_Machines :: "cell \<Rightarrow> (UCloudMachine_h list) option" where
  "the_Machines c = (case c of MachinesC x \<Rightarrow> Some x | _ \<Rightarrow> None)"

definition the_Templates :: "cell \<Rightarrow> (UCloudMachineTemplate_h list) option" where
  "the_Templates c = (case c of TemplatesC x \<Rightarrow> Some x | _ \<Rightarrow> None)"

definition the_StringMap :: "cell \<Rightarrow> ((string \<times> string) list) option" where
  "the_StringMap c = (case c of StringMapC x \<Rightarrow> Some x | _ \<Rightarrow> None)"

definition the_Domains :: "cell \<Rightarrow> ((string \<times> FailureDomainSpec_h) list) option" where
  "the_Domains c = (case c of DomainsC x \<Rightarrow> Some x | _ \<Rightarrow> None)"

definition the_BastionSpec :: "cell \<Rightarrow> BastionSpec option" where
  "the_BastionSpec c = (case c of BastionSpecC x \<Rightarrow> Some x | _ \<Rightarrow> None)"

definition the_EIP :: "cell \<Rightarrow> EIP option" where
  "the_EIP c = (case c of EIPC x \<Rightarrow> Some x | _ \<Rightarrow> None)"

definition the_EIPSpec :: "cell \<Rightarrow> EIPSpec option" where
  "the_EIPSpec c = (case c of EIPSpecC x \<Rightarrow> Some x | _ \<Rightarrow> None)"

definition the_Firewall :: "cell \<Rightarrow> Firewall option" where
  "the_Firewall c = (case c of FirewallC x \<Rightarrow> Some x | _ \<Rightarrow> None)"

definition the_FirewallRuleSpec :: "cell \<Rightarrow> FirewallRuleSpec option" where
  "the_FirewallRuleSpec c = (case c of FirewallRuleSpecC x \<Rightarrow> Some x | _ \<Rightarrow> None)"

definition the_Group :: "cell \<Rightarrow> Group option" where
  "the_Group c = (case c of GroupC x \<Rightarrow> Some x | _ \<Rightarrow> None)"

definition the_Instance :: "cell \<Rightarrow> Instance option" where
  "the_Instance c = (case c of InstanceC x \<Rightarrow> Some x | _ \<Rightarrow> None)"

definition the_NatGatewaySpec :: "cell \<Rightarrow> NatGatewaySpec option" where
  "the_NatGatewaySpec c = (case c of NatGatewaySpecC x \<Rightarrow> Some x | _ \<Rightarrow> None)"

definition the_Subnet :: "cell \<Rightarrow> Subnet option" where
  "the_Subnet c = (case c of SubnetC x \<Rightarrow> Some x | _ \<Rightarrow> None)"

definition the_SubnetSpec :: "cell \<Rightarrow> SubnetSpec option" where
  "the_SubnetSpec c = (case c of SubnetSpecC x \<Rightarrow> Some x | _ \<Rightarrow> None)"

definition the_VPC :: "cell \<Rightarrow> VPC option" where
  "the_VPC c = (case c of VPCC x \<Rightarrow> Some x | _ \<Rightarrow> None)"

definition the_VPCSpec :: "cell \<Rightarrow> VPCSpec option" where
  "the_VPCSpec c = (case c of VPCSpecC x \<Rightarrow> Some x | _ \<Rightarrow> None)"

definition the_NatSpec :: "cell \<Rightarrow> NatSpec option" where
  "the_NatSpec c = (case c of NatSpecC x \<Rightarrow> Some x | _ \<Rightarrow> None)"

definition the_ULB :: "cell \<Rightarrow> ULB option" where
  "the_ULB c = (case c of ULBC x \<Rightarrow> Some x | _ \<Rightarrow> None)"

definition the_ULBSpec :: "cell \<Rightarrow> ULBSpec option" where
  "the_ULBSpec c = (case c of ULBSpecC x \<Rightarrow> Some x | _ \<Rightarrow> None)"

definition the_Filter :: "cell \<Rightarrow> Filter_h option" where
  "the_Filter c = (case c of FilterC x \<Rightarrow> Some x | _ \<Rightarrow> None)"

definition the_FirewallSpec :: "cell \<Rightarrow> FirewallSpec_h option" where
  "the_FirewallSpec c = (case c of FirewallSpecC x \<Rightarrow> Some x | _ \<Rightarrow> None)"

definition the_NetworkSpec :: "cell \<Rightarrow> NetworkSpec_h option" where
  "the_NetworkSpec c = (case c of NetworkSpecC x \<Rightarrow> Some x | _ \<Rightarrow> None)"

definition the_SnatTableIds :: "cell \<Rightarrow> SnatTableIds_h option" where
  "the_SnatTableIds c = (case c of SnatTableIdsC x \<Rightarrow> Some x | _ \<Rightarrow> None)"

definition the_Nat :: "cell \<Rightarrow> Nat_h option" where
  "the_Nat c = (case c of NatC x \<Rightarrow> Some x | _ \<Rightarrow> None)"

definition the_Network :: "cell \<Rightarrow> Network_h option" where
  "the_Network c = (case c of NetworkC x \<Rightarrow> Some x | _ \<Rightarrow> None)"

definition the_UCloudClusterSpec :: "cell \<Rightarrow> UCloudClusterSpec_h option" where
  "the_UCloudClusterSpec c = (case c of UCloudClusterSpecC x \<Rightarrow> Some x | _ \<Rightarrow> None)"

definition the_UCloudClusterStatus :: "cell \<Rightarrow> UCloudClusterStatus_h option" where
  "the_UCloudClusterStatus c = (case c of UCloudClusterStatusC x \<Rightarrow> Some x | _ \<Rightarrow> None)"

definition the_UCloudCluster :: "cell \<Rightarrow> UCloudCluster_h option" where
  "the_UCloudCluster c = (case c of UCloudClusterC x \<Rightarrow> Some x | _ \<Rightarrow> None)"

definition the_UCloudClusterList :: "cell \<Rightarrow> UCloudClusterList_h option" where
  "the_UCloudClusterList c = (case c of UCloudClusterListC x \<Rightarrow> Some x | _ \<Rightarrow> None)"

definition the_UCloudMachineSpec :: "cell \<Rightarrow> UCloudMachineSpec_h option" where
  "the_UCloudMachineSpec c = (case c of UCloudMachineSpecC x \<Rightarrow> Some x | _ \<Rightarrow> None)"

definition the_UCloudMachineStatus :: "cell \<Rightarrow> UCloudMachineStatus_h option" where
  "the_UCloudMachineStatus c = (case c of UCloudMachineStatusC x \<Rightarrow> Some x | _ \<Rightarrow> None)"

definition the_UCloudMachine :: "cell \<Rightarrow> UCloudMachine_h option" where
  "the_UCloudMachine c = (case c of UCloudMachineC x \<Rightarrow> Some x | _ \<Rightarrow> None)"

definition the_UCloudMachineList :: "cell \<Rightarrow> UCloudMachineList_h option" where
  "the_UCloudMachineList c = (case c of UCloudMachineListC x \<Rightarrow> Some x | _ \<Rightarrow> None)"

definition the_UCloudMachineTemplateResource :: "cell \<Rightarrow> UCloudMachineTemplateResource_h option" where
  "the_UCloudMachineTemplateResource c = (case c of UCloudMachineTemplateResourceC x \<Rightarrow> Some x | _ \<Rightarrow> None)"

definition the_UCloudMachineTemplateSpec :: "cell \<Rightarrow> UCloudMachineTemplateSpec_h option" where
  "the_UCloudMachineTemplateSpec c = (case c of UCloudMachineTemplateSpecC x \<Rightarrow> Some x | _ \<Rightarrow> None)"

definition the_UCloudMachineTemplate :: "cell \<Rightarrow> UCloudMachineTemplate_h option" where
  "the_UCloudMachineTemplate c = (case c of UCloudMachineTemplateC x \<Rightarrow> Some x | _ \<Rightarrow> None)"

definition the_UCloudMachineTemplateList :: "cell \<Rightarrow> UCloudMachineTemplateList_h option" where
  "the_UCloudMachineTemplateList c = (case c of UCloudMachineTemplateListC x \<Rightarrow> Some x | _ \<Rightarrow> None)"

section \<open>Every cell belongs to one kind\<close>

interpretation String_kind: kind the_String StringC
  by unfold_locales (auto simp: the_String_def split: cell.splits)

interpretation Bool_kind: kind the_Bool BoolC
  by unfold_locales (auto simp: the_Bool_def split: cell.splits)

interpretation Reason_kind: kind the_Reason ReasonC
  by unfold_locales (auto simp: the_Reason_def split: cell.splits)

interpretation Message_kind: kind the_Message MessageC
  by unfold_locales (auto simp: the_Message_def split: cell.splits)

interpretation Int64_kind: kind the_Int64 Int64C
  by unfold_locales (auto simp: the_Int64_def split: cell.splits)

interpretation Time_kind: kind the_Time TimeC
  by unfold_locales (auto simp: the_Time_def split: cell.splits)

interpretation Strings_kind: kind the_Strings StringsC
  by unfold_locales (auto simp: the_Strings_def split: cell.splits)

interpretation Addresses_kind: kind the_Addresses AddressesC
  by unfold_locales (auto simp: the_Addresses_def split: cell.splits)

interpretation Rules_kind: kind the_Rules RulesC
  by unfold_locales (auto simp: the_Rules_def split: cell.splits)

interpretation Clusters_kind: kind the_Clusters ClustersC
  by unfold_locales (auto simp: the_Clusters_def split: cell.splits)

interpretation Machines_kind: kind the_Machines MachinesC
  by unfold_locales (auto simp: the_Machines_def split: cell.splits)

interpretation Templates_kind: kind the_Templates TemplatesC
  by unfold_locales (auto simp: the_Templates_def split: cell.splits)

interpretation StringMap_kind: kind the_StringMap StringMapC
  by unfold_locales (auto simp: the_StringMap_def split: cell.splits)

interpretation Domains_kind: kind the_Domains DomainsC
  by unfold_locales (auto simp: the_Domains_def split: cell.splits)

interpretation BastionSpec_kind: kind the_BastionSpec BastionSpecC
  by unfold_locales (auto simp: the_BastionSpec_def split: cell.splits)

interpretation EIP_kind: kind the_EIP EIPC
  by unfold_locales (auto simp: the_EIP_def split: cell.splits)

interpretation EIPSpec_kind: kind the_EIPSpec EIPSpecC
  by unfold_locales (auto simp: the_EIPSpec_def split: cell.splits)

interpretation Firewall_kind: kind the_Firewall FirewallC
  by unfold_locales (auto simp: the_Firewall_def split: cell.splits)

interpretation FirewallRuleSpec_kind: kind the_FirewallRuleSpec FirewallRuleSpecC
  by unfold_locales (auto simp: the_FirewallRuleSpec_def split: cell.splits)

interpretation Group_kind: kind the_Group GroupC
  by unfold_locales (auto simp: the_Group_def split: cell.splits)

interpretation Instance_kind: kind the_Instance InstanceC
  by unfold_locales (auto simp: the_Instance_def split: cell.splits)

interpretation NatGatewaySpec_kind: kind the_NatGatewaySpec NatGatewaySpecC
  by unfold_locales (auto simp: the_NatGatewaySpec_def split: cell.splits)

interpretation Subnet_kind: kind the_Subnet SubnetC
  by unfold_locales (auto simp: the_Subnet_def split: cell.splits)

interpretation SubnetSpec_kind: kind the_SubnetSpec SubnetSpecC
  by unfold_locales (auto simp: the_SubnetSpec_def split: cell.splits)

interpretation VPC_kind: kind the_VPC VPCC
  by unfold_locales (auto simp: the_VPC_def split: cell.splits)

interpretation VPCSpec_kind: kind the_VPCSpec VPCSpecC
  by unfold_locales (auto simp: the_VPCSpec_def split: cell.splits)

interpretation NatSpec_kind: kind the_NatSpec NatSpecC
  by unfold_locales (auto simp: the_NatSpec_def split: cell.splits)

interpretation ULB_kind: kind the_ULB ULBC
  by unfold_locales (auto simp: the_ULB_def split: cell.splits)

interpretation ULBSpec_kind: kind the_ULBSpec ULBSpecC
  by unfold_locales (auto simp: the_ULBSpec_def split: cell.splits)

interpretation Filter_kind: kind the_Filter FilterC
  by unfold_locales (auto simp: the_Filter_def split: cell.splits)

interpretation FirewallSpec_kind: kind the_FirewallSpec FirewallSpecC
  by unfold_locales (auto simp: the_FirewallSpec_def split: cell.splits)

interpretation NetworkSpec_kind: kind the_NetworkSpec NetworkSpecC
  by unfold_locales (auto simp: the_NetworkSpec_def split: cell.splits)

interpretation SnatTableIds_kind: kind the_SnatTableIds SnatTableIdsC
  by unfold_locales (auto simp: the_SnatTableIds_def split: cell.splits)

interpretation Nat_kind: kind the_Nat NatC
  by unfold_locales (auto simp: the_Nat_def split: cell.splits)

interpretation Network_kind: kind the_Network NetworkC
  by unfold_locales (auto simp: the_Network_def split: cell.splits)

interpretation UCloudClusterSpec_kind: kind the_UCloudClusterSpec UCloudClusterSpecC
  by unfold_locales (auto simp: the_UCloudClusterSpec_def split: cell.splits)

interpretation UCloudClusterStatus_kind: kind the_UCloudClusterStatus UCloudClusterStatusC
  by unfold_locales (auto simp: the_UCloudClusterStatus_def split: cell.splits)

interpretation UCloudCluster_kind: kind the_UCloudCluster UCloudClusterC
  by unfold_locales (auto simp: the_UCloudCluster_def split: cell.splits)

interpretation UCloudClusterList_kind: kind the_UCloudClusterList UCloudClusterListC
  by unfold_locales (auto simp: the_UCloudClusterList_def split: cell.splits)

interpretation UCloudMachineSpec_kind: kind the_UCloudMachineSpec UCloudMachineSpecC
  by unfold_locales (auto simp: the_UCloudMachineSpec_def split: cell.splits)

interpretation UCloudMachineStatus_kind: kind the_UCloudMachineStatus UCloudMachineStatusC
  by unfold_locales (auto simp: the_UCloudMachineStatus_def split: cell.splits)

interpretation UCloudMachine_kind: kind the_UCloudMachine UCloudMachineC
  by unfold_locales (auto simp: the_UCloudMachine_def split: cell.splits)

interpretation UCloudMachineList_kind: kind the_UCloudMachineList UCloudMachineListC
  by unfold_locales (auto simp: the_UCloudMachineList_def split: cell.splits)

interpretation UCloudMachineTemplateResource_kind: kind the_UCloudMachineTemplateResource UCloudMachineTemplateResourceC
  by unfold_locales (auto simp: the_UCloudMachineTemplateResource_def split: cell.splits)

interpretation UCloudMachineTemplateSpec_kind: kind the_UCloudMachineTemplateSpec UCloudMachineTemplateSpecC
  by unfold_locales (auto simp: the_UCloudMachineTemplateSpec_def split: cell.splits)

interpretation UCloudMachineTemplate_kind: kind the_UCloudMachineTemplate UCloudMachineTemplateC
  by unfold_locales (auto simp: the_UCloudMachineTemplate_def split: cell.splits)

interpretation UCloudMachineTemplateList_kind: kind the_UCloudMachineTemplateList UCloudMachineTemplateListC
  by unfold_locales (auto simp: the_UCloudMachineTemplateList_def split: cell.splits)

section \<open>The values structs denote\<close>

text \<open>A nil slice where \<open>Api_Types\<close> does not tell it from an empty one, and a nil map likewise.\<close>

definition nil_list :: "'a list option \<Rightarrow> 'a list" where
  "nil_list xs = (case xs of None \<Rightarrow> [] | Some ys \<Rightarrow> ys)"

definition nil_map :: "('k \<rightharpoonup> 'a) option \<Rightarrow> ('k \<rightharpoonup> 'a)" where
  "nil_map m = (case m of None \<Rightarrow> Map.empty | Some n \<Rightarrow> n)"

definition ListMeta_view :: "(cell, ListMeta_h, ListMeta_h \<times> int option) view" where
  "ListMeta_view = field_view hlm_RemainingItemCount (\<lambda>x n. (x\<lparr>hlm_RemainingItemCount := None\<rparr>, n))
     (new_view the_Int64 plain_view)"

definition ObjectMeta_view :: "(cell, ObjectMeta_h, ObjectMeta) view" where
  "ObjectMeta_view = field_view (\<lambda>x. (hom_Finalizers x, hom_DeletionTimestamp x, hom_Annotations x))
     (\<lambda>x (f, d, a).
      \<lparr>om_Name = hom_Name x, om_Namespace = hom_Namespace x, om_ClusterName = hom_ClusterName x,
       om_Finalizers = nil_list f, om_DeletionTimestamp = d, om_Annotations = a\<rparr>)
     (pair_view (elems_view the_Strings plain_view)
     (pair_view (new_view the_Time plain_view) (map_view the_StringMap plain_view)))"

definition FailureDomainSpec_view :: "(cell, FailureDomainSpec_h, FailureDomainSpec) view" where
  "FailureDomainSpec_view = field_view hfd_Attributes
     (\<lambda>x m. \<lparr>fd_ControlPlane = hfd_ControlPlane x, fd_Attributes = m\<rparr>) (map_view the_StringMap plain_view)"

definition Filter_view :: "(cell, Filter_h, Filter_h \<times> string list option) view" where
  "Filter_view = field_view hfi_Values (\<lambda>x vs. (x\<lparr>hfi_Values := None\<rparr>, vs)) (elems_view the_Strings plain_view)"

definition FirewallSpec_view :: "(cell, FirewallSpec_h, FirewallSpec) view" where
  "FirewallSpec_view = field_view hfws_Rules
     (\<lambda>x rs.
      \<lparr>fws_FirewallId = hfws_FirewallId x, fws_FirewallName = hfws_FirewallName x,
       fws_Rules = nil_list rs, fws_Description = hfws_Description x\<rparr>)
     (elems_view the_Rules (new_view the_FirewallRuleSpec plain_view))"

definition NetworkSpec_view :: "(cell, NetworkSpec_h, NetworkSpec) view" where
  "NetworkSpec_view = field_view hnws_Firewall
     (\<lambda>x f.
      \<lparr>nws_VPC = hnws_VPC x, nws_Subnet = hnws_Subnet x, nws_Nat = hnws_Nat x, nws_ULB = hnws_ULB x,
       nws_Firewall = f\<rparr>)
     FirewallSpec_view"

definition SnatTableIds_view :: "(cell, SnatTableIds_h, SnatTableIds) view" where
  "SnatTableIds_view = field_view hsnat_SnatTableId
     (\<lambda>x xs.
      \<lparr>snat_SnatTableId = nil_list xs\<rparr>)
     (elems_view the_Strings plain_view)"

definition Nat_view :: "(cell, Nat_h, Nat) view" where
  "Nat_view = field_view hnat_SnatTableIds
     (\<lambda>x s.
      \<lparr>nat_EIP = hnat_EIP x, nat_SnatEntryId = hnat_SnatEntryId x, nat_Firewall = hnat_Firewall x,
       nat_NatGatewayId = hnat_NatGatewayId x, nat_Name = hnat_Name x,
       nat_Description = hnat_Description x, nat_VpcId = hnat_VpcId x,
       nat_CreationTime = hnat_CreationTime x, nat_Status = hnat_Status x, nat_SnatTableIds = s\<rparr>)
     SnatTableIds_view"

definition Network_view :: "(cell, Network_h, Network) view" where
  "Network_view = field_view hnw_Nat
     (\<lambda>x n.
      \<lparr>nw_VPC = hnw_VPC x, nw_Subnet = hnw_Subnet x, nw_ULB = hnw_ULB x, nw_Nat = n,
       nw_Firewall = hnw_Firewall x\<rparr>)
     Nat_view"

definition UCloudClusterSpec_view :: "(cell, UCloudClusterSpec_h, UCloudClusterSpec) view" where
  "UCloudClusterSpec_view = field_view hcs_Network
     (\<lambda>x n.
      \<lparr>cs_ProjectId = hcs_ProjectId x, cs_Region = hcs_Region x, cs_Version = hcs_Version x,
       cs_ControlPlaneEndpoint = hcs_ControlPlaneEndpoint x, cs_Network = n,
       cs_Bastion = hcs_Bastion x\<rparr>)
     NetworkSpec_view"

definition UCloudClusterStatus_view :: "(cell, UCloudClusterStatus_h, UCloudClusterStatus) view" where
  "UCloudClusterStatus_view = field_view (\<lambda>x. (hcst_FailureDomains x, hcst_Network x, hcst_Bastion x))
     (\<lambda>x (d, n, b).
      \<lparr>cst_FailureDomains = nil_map d, cst_Network = n, cst_ClusterId = hcst_ClusterId x,
       cst_Bastion = b, cst_Group = hcst_Group x, cst_Ready = hcst_Ready x\<rparr>)
     (pair_view (map_view the_Domains FailureDomainSpec_view) (pair_view Network_view (new_view the_Instance plain_view)))"

definition UCloudCluster_view :: "(cell, UCloudCluster_h, TypeMeta \<times> UCloudCluster) view" where
  "UCloudCluster_view = field_view (\<lambda>x. (huc_ObjectMeta x, huc_Spec x, huc_Status x))
     (\<lambda>x (m, s, t).
      (huc_TypeMeta x, \<lparr>uc_Meta = m, uc_Spec = s, uc_Status = t\<rparr>))
     (pair_view ObjectMeta_view (pair_view UCloudClusterSpec_view UCloudClusterStatus_view))"

definition UCloudMachineSpec_view :: "(cell, UCloudMachineSpec_h, UCloudMachineSpec) view" where
  "UCloudMachineSpec_view = field_view (\<lambda>x. (hms_ProviderID x, hms_ImageId x, hms_PublicIP x, hms_AdditionalNetworkTags x))
     (\<lambda>x (p, i, b, t).
      \<lparr>ms_InstanceType = hms_InstanceType x, ms_CPU = hms_CPU x, ms_Memory = hms_Memory x,
       ms_RootDiskSize = hms_RootDiskSize x, ms_DataDiskSize = hms_DataDiskSize x,
       ms_SSHPassword = hms_SSHPassword x, ms_ProviderID = p, ms_ImageId = i, ms_PublicIP = b,
       ms_AdditionalNetworkTags = t\<rparr>)
     (pair_view (new_view the_String plain_view) (pair_view (new_view the_String plain_view)
     (pair_view (new_view the_Bool plain_view) (elems_view the_Strings plain_view))))"

definition UCloudMachineStatus_view :: "(cell, UCloudMachineStatus_h, UCloudMachineStatus) view" where
  "UCloudMachineStatus_view = field_view (\<lambda>x. (hmst_Addresses x, hmst_FailureReason x, hmst_FailureMessage x))
     (\<lambda>x (a, r, e).
      \<lparr>mst_Ready = hmst_Ready x, mst_Zone = hmst_Zone x, mst_InstanceId = hmst_InstanceId x,
       mst_ClusterId = hmst_ClusterId x, mst_Addresses = nil_list a,
       mst_InstanceStatus = hmst_InstanceStatus x, mst_FailureReason = r, mst_FailureMessage = e\<rparr>)
     (pair_view (elems_view the_Addresses plain_view)
     (pair_view (new_view the_Reason plain_view) (new_view the_Message plain_view)))"

definition UCloudMachine_view :: "(cell, UCloudMachine_h, TypeMeta \<times> UCloudMachine) view" where
  "UCloudMachine_view = field_view (\<lambda>x. (hum_ObjectMeta x, hum_Spec x, hum_Status x))
     (\<lambda>x (m, s, t).
      (hum_TypeMeta x, \<lparr>um_Meta = m, um_Spec = s, um_Status = t\<rparr>))
     (pair_view ObjectMeta_view (pair_view UCloudMachineSpec_view UCloudMachineStatus_view))"

definition UCloudMachineTemplateResource_view :: "(cell, UCloudMachineTemplateResource_h, UCloudMachineTemplateResource) view" where
  "UCloudMachineTemplateResource_view = field_view htr_Spec
     (\<lambda>x s.
      \<lparr>tr_Spec = s\<rparr>)
     UCloudMachineSpec_view"

definition UCloudMachineTemplateSpec_view :: "(cell, UCloudMachineTemplateSpec_h, UCloudMachineTemplateSpec) view" where
  "UCloudMachineTemplateSpec_view = field_view hts_Template
     (\<lambda>x t.
      \<lparr>ts_Template = t\<rparr>)
     UCloudMachineTemplateResource_view"

definition UCloudMachineTemplate_view :: "(cell, UCloudMachineTemplate_h, TypeMeta \<times> UCloudMachineTemplate) view" where
  "UCloudMachineTemplate_view = field_view (\<lambda>x. (htpl_ObjectMeta x, htpl_Spec x))
     (\<lambda>x (m, s).
      (htpl_TypeMeta x, \<lparr>tpl_Meta = m, tpl_Spec = s\<rparr>))
     (pair_view ObjectMeta_view UCloudMachineTemplateSpec_view)"

definition UCloudClusterList_view :: "(cell, UCloudClusterList_h, TypeMeta \<times> (ListMeta_h \<times> int option) \<times> (TypeMeta \<times> UCloudCluster) list option) view" where
  "UCloudClusterList_view = field_view (\<lambda>x. (hucl_ListMeta x, hucl_Items x)) (\<lambda>x (m, xs). (hucl_TypeMeta x, m, xs))
     (pair_view ListMeta_view (elems_view the_Clusters UCloudCluster_view))"

definition UCloudMachineList_view :: "(cell, UCloudMachineList_h, TypeMeta \<times> (ListMeta_h \<times> int option) \<times> (TypeMeta \<times> UCloudMachine) list option) view" where
  "UCloudMachineList_view = field_view (\<lambda>x. (huml_ListMeta x, huml_Items x)) (\<lambda>x (m, xs). (huml_TypeMeta x, m, xs))
     (pair_view ListMeta_view (elems_view the_Machines UCloudMachine_view))"

definition UCloudMachineTemplateList_view :: "(cell, UCloudMachineTemplateList_h, TypeMeta \<times> (ListMeta_h \<times> int option) \<times> (TypeMeta \<times> UCloudMachineTemplate) list option) view" where
  "UCloudMachineTemplateList_view = field_view (\<lambda>x. (htpll_ListMeta x, htpll_Items x)) (\<lambda>x (m, xs). (htpll_TypeMeta x, m, xs))
     (pair_view ListMeta_view (elems_view the_Templates UCloudMachineTemplate_view))"

end
