(* ===== verification/Deep_Copy.thy ===== *)
theory Deep_Copy
  imports Memory_Types
begin

text \<open>
  The deep copies of \<open>api/v1alpha3/zz_generated.deepcopy.go\<close>. \<open>T_DeepCopyInto x\<close> is
  \<open>in.DeepCopyInto(out)\<close> with \<open>x\<close> the struct \<open>*in\<close> and the struct left in \<open>*out\<close> as its result:
  every one begins with \<open>*out = *in\<close>, so what was in \<open>*out\<close> before is of no account. \<open>T_DeepCopy p\<close> is
  \<open>in.DeepCopy()\<close> on a pointer that may be nil. The metadata of Kubernetes and \<open>FailureDomainSpec\<close>
  bring their own deep copies, which are library code and parameters (\<open>copy_lib\<close>); \<open>lib_copies\<close> is
  their documented contract. Each struct is then shown to meet the contract \<open>copier\<close>.
\<close>

record copy_lib =
  lib_ObjectMeta :: "ObjectMeta_h \<Rightarrow> (mem, ObjectMeta_h) prog"
  lib_ListMeta :: "ListMeta_h \<Rightarrow> (mem, ListMeta_h) prog"
  lib_FailureDomainSpec :: "FailureDomainSpec_h \<Rightarrow> (mem, FailureDomainSpec_h) prog"

definition lib_copies :: "copy_lib \<Rightarrow> bool" where
  "lib_copies L \<longleftrightarrow> copier ObjectMeta_view (lib_ObjectMeta L) \<and> copier ListMeta_view (lib_ListMeta L)
     \<and> copier FailureDomainSpec_view (lib_FailureDomainSpec L)"

section \<open>Structs without pointers\<close>

definition BastionSpec_DeepCopyInto :: "BastionSpec \<Rightarrow> (mem, BastionSpec) prog" where
  "BastionSpec_DeepCopyInto x = (let out = x in ret out)"

definition BastionSpec_DeepCopy :: "addr option \<Rightarrow> (mem, addr option) prog" where
  "BastionSpec_DeepCopy = copy_new the_BastionSpec BastionSpecC zero_BastionSpec BastionSpec_DeepCopyInto"

definition EIP_DeepCopyInto :: "EIP \<Rightarrow> (mem, EIP) prog" where
  "EIP_DeepCopyInto x = (let out = x in ret out)"

definition EIP_DeepCopy :: "addr option \<Rightarrow> (mem, addr option) prog" where
  "EIP_DeepCopy = copy_new the_EIP EIPC zero_EIP EIP_DeepCopyInto"

definition EIPSpec_DeepCopyInto :: "EIPSpec \<Rightarrow> (mem, EIPSpec) prog" where
  "EIPSpec_DeepCopyInto x = (let out = x in ret out)"

definition EIPSpec_DeepCopy :: "addr option \<Rightarrow> (mem, addr option) prog" where
  "EIPSpec_DeepCopy = copy_new the_EIPSpec EIPSpecC zero_EIPSpec EIPSpec_DeepCopyInto"

definition Firewall_DeepCopyInto :: "Firewall \<Rightarrow> (mem, Firewall) prog" where
  "Firewall_DeepCopyInto x = (let out = x in ret out)"

definition Firewall_DeepCopy :: "addr option \<Rightarrow> (mem, addr option) prog" where
  "Firewall_DeepCopy = copy_new the_Firewall FirewallC zero_Firewall Firewall_DeepCopyInto"

definition FirewallRuleSpec_DeepCopyInto :: "FirewallRuleSpec \<Rightarrow> (mem, FirewallRuleSpec) prog" where
  "FirewallRuleSpec_DeepCopyInto x = (let out = x in ret out)"

definition FirewallRuleSpec_DeepCopy :: "addr option \<Rightarrow> (mem, addr option) prog" where
  "FirewallRuleSpec_DeepCopy = copy_new the_FirewallRuleSpec FirewallRuleSpecC zero_FirewallRuleSpec FirewallRuleSpec_DeepCopyInto"

definition Group_DeepCopyInto :: "Group \<Rightarrow> (mem, Group) prog" where
  "Group_DeepCopyInto x = (let out = x in ret out)"

definition Group_DeepCopy :: "addr option \<Rightarrow> (mem, addr option) prog" where
  "Group_DeepCopy = copy_new the_Group GroupC zero_Group Group_DeepCopyInto"

definition Instance_DeepCopyInto :: "Instance \<Rightarrow> (mem, Instance) prog" where
  "Instance_DeepCopyInto x = (let out = x in ret out)"

definition Instance_DeepCopy :: "addr option \<Rightarrow> (mem, addr option) prog" where
  "Instance_DeepCopy = copy_new the_Instance InstanceC zero_Instance Instance_DeepCopyInto"

definition NatGatewaySpec_DeepCopyInto :: "NatGatewaySpec \<Rightarrow> (mem, NatGatewaySpec) prog" where
  "NatGatewaySpec_DeepCopyInto x = (let out = x in ret out)"

definition NatGatewaySpec_DeepCopy :: "addr option \<Rightarrow> (mem, addr option) prog" where
  "NatGatewaySpec_DeepCopy = copy_new the_NatGatewaySpec NatGatewaySpecC zero_NatGatewaySpec NatGatewaySpec_DeepCopyInto"

definition Subnet_DeepCopyInto :: "Subnet \<Rightarrow> (mem, Subnet) prog" where
  "Subnet_DeepCopyInto x = (let out = x in ret out)"

definition Subnet_DeepCopy :: "addr option \<Rightarrow> (mem, addr option) prog" where
  "Subnet_DeepCopy = copy_new the_Subnet SubnetC zero_Subnet Subnet_DeepCopyInto"

definition SubnetSpec_DeepCopyInto :: "SubnetSpec \<Rightarrow> (mem, SubnetSpec) prog" where
  "SubnetSpec_DeepCopyInto x = (let out = x in ret out)"

definition SubnetSpec_DeepCopy :: "addr option \<Rightarrow> (mem, addr option) prog" where
  "SubnetSpec_DeepCopy = copy_new the_SubnetSpec SubnetSpecC zero_SubnetSpec SubnetSpec_DeepCopyInto"

definition VPC_DeepCopyInto :: "VPC \<Rightarrow> (mem, VPC) prog" where
  "VPC_DeepCopyInto x = (let out = x in ret out)"

definition VPC_DeepCopy :: "addr option \<Rightarrow> (mem, addr option) prog" where
  "VPC_DeepCopy = copy_new the_VPC VPCC zero_VPC VPC_DeepCopyInto"

definition VPCSpec_DeepCopyInto :: "VPCSpec \<Rightarrow> (mem, VPCSpec) prog" where
  "VPCSpec_DeepCopyInto x = (let out = x in ret out)"

definition VPCSpec_DeepCopy :: "addr option \<Rightarrow> (mem, addr option) prog" where
  "VPCSpec_DeepCopy = copy_new the_VPCSpec VPCSpecC zero_VPCSpec VPCSpec_DeepCopyInto"

definition NatSpec_DeepCopyInto :: "NatSpec \<Rightarrow> (mem, NatSpec) prog" where
  "NatSpec_DeepCopyInto x = (
     let out = x in
     let out = out\<lparr>nats_NatGateway := nats_NatGateway x\<rparr> in
     let out = out\<lparr>nats_EIP := nats_EIP x\<rparr> in
     ret out)"

definition NatSpec_DeepCopy :: "addr option \<Rightarrow> (mem, addr option) prog" where
  "NatSpec_DeepCopy = copy_new the_NatSpec NatSpecC zero_NatSpec NatSpec_DeepCopyInto"

definition ULB_DeepCopyInto :: "ULB \<Rightarrow> (mem, ULB) prog" where
  "ULB_DeepCopyInto x = (
     let out = x in
     let out = out\<lparr>ulb_EIP := ulb_EIP x\<rparr> in
     ret out)"

definition ULB_DeepCopy :: "addr option \<Rightarrow> (mem, addr option) prog" where
  "ULB_DeepCopy = copy_new the_ULB ULBC zero_ULB ULB_DeepCopyInto"

definition ULBSpec_DeepCopyInto :: "ULBSpec \<Rightarrow> (mem, ULBSpec) prog" where
  "ULBSpec_DeepCopyInto x = (
     let out = x in
     let out = out\<lparr>ulbs_EIP := ulbs_EIP x\<rparr> in
     ret out)"

definition ULBSpec_DeepCopy :: "addr option \<Rightarrow> (mem, addr option) prog" where
  "ULBSpec_DeepCopy = copy_new the_ULBSpec ULBSpecC zero_ULBSpec ULBSpec_DeepCopyInto"

section \<open>Structs with pointers\<close>

definition Filter_DeepCopyInto :: "Filter_h \<Rightarrow> (mem, Filter_h) prog" where
  "Filter_DeepCopyInto x = (
     let out = x in
     bind (copy_slice the_Strings StringsC '''' (hfi_Values x)) (\<lambda>y.
     let out = out\<lparr>hfi_Values := y\<rparr> in
     ret out))"

definition Filter_DeepCopy :: "addr option \<Rightarrow> (mem, addr option) prog" where
  "Filter_DeepCopy = copy_new the_Filter FilterC zero_Filter_h Filter_DeepCopyInto"

definition FirewallSpec_DeepCopyInto :: "FirewallSpec_h \<Rightarrow> (mem, FirewallSpec_h) prog" where
  "FirewallSpec_DeepCopyInto x = (
     let out = x in
     bind (copy_elems the_Rules RulesC None
         (copy_ptr the_FirewallRuleSpec FirewallRuleSpecC zero_FirewallRuleSpec) (hfws_Rules x)) (\<lambda>y.
     let out = out\<lparr>hfws_Rules := y\<rparr> in
     ret out))"

definition FirewallSpec_DeepCopy :: "addr option \<Rightarrow> (mem, addr option) prog" where
  "FirewallSpec_DeepCopy = copy_new the_FirewallSpec FirewallSpecC zero_FirewallSpec_h FirewallSpec_DeepCopyInto"

definition NetworkSpec_DeepCopyInto :: "NetworkSpec_h \<Rightarrow> (mem, NetworkSpec_h) prog" where
  "NetworkSpec_DeepCopyInto x = (
     let out = x in
     let out = out\<lparr>hnws_VPC := hnws_VPC x\<rparr> in
     let out = out\<lparr>hnws_Subnet := hnws_Subnet x\<rparr> in
     let out = out\<lparr>hnws_Nat := hnws_Nat x\<rparr> in
     let out = out\<lparr>hnws_ULB := hnws_ULB x\<rparr> in
     bind (FirewallSpec_DeepCopyInto (hnws_Firewall x)) (\<lambda>y.
     let out = out\<lparr>hnws_Firewall := y\<rparr> in
     ret out))"

definition NetworkSpec_DeepCopy :: "addr option \<Rightarrow> (mem, addr option) prog" where
  "NetworkSpec_DeepCopy = copy_new the_NetworkSpec NetworkSpecC zero_NetworkSpec_h NetworkSpec_DeepCopyInto"

definition SnatTableIds_DeepCopyInto :: "SnatTableIds_h \<Rightarrow> (mem, SnatTableIds_h) prog" where
  "SnatTableIds_DeepCopyInto x = (
     let out = x in
     bind (copy_slice the_Strings StringsC '''' (hsnat_SnatTableId x)) (\<lambda>y.
     let out = out\<lparr>hsnat_SnatTableId := y\<rparr> in
     ret out))"

definition SnatTableIds_DeepCopy :: "addr option \<Rightarrow> (mem, addr option) prog" where
  "SnatTableIds_DeepCopy = copy_new the_SnatTableIds SnatTableIdsC zero_SnatTableIds_h SnatTableIds_DeepCopyInto"

definition Nat_DeepCopyInto :: "Nat_h \<Rightarrow> (mem, Nat_h) prog" where
  "Nat_DeepCopyInto x = (
     let out = x in
     let out = out\<lparr>hnat_EIP := hnat_EIP x\<rparr> in
     let out = out\<lparr>hnat_Firewall := hnat_Firewall x\<rparr> in
     bind (SnatTableIds_DeepCopyInto (hnat_SnatTableIds x)) (\<lambda>y.
     let out = out\<lparr>hnat_SnatTableIds := y\<rparr> in
     ret out))"

definition Nat_DeepCopy :: "addr option \<Rightarrow> (mem, addr option) prog" where
  "Nat_DeepCopy = copy_new the_Nat NatC zero_Nat_h Nat_DeepCopyInto"

definition Network_DeepCopyInto :: "Network_h \<Rightarrow> (mem, Network_h) prog" where
  "Network_DeepCopyInto x = (
     let out = x in
     let out = out\<lparr>hnw_VPC := hnw_VPC x\<rparr> in
     let out = out\<lparr>hnw_Subnet := hnw_Subnet x\<rparr> in
     let out = out\<lparr>hnw_ULB := hnw_ULB x\<rparr> in
     bind (Nat_DeepCopyInto (hnw_Nat x)) (\<lambda>y.
     let out = out\<lparr>hnw_Nat := y\<rparr> in
     let out = out\<lparr>hnw_Firewall := hnw_Firewall x\<rparr> in
     ret out))"

definition Network_DeepCopy :: "addr option \<Rightarrow> (mem, addr option) prog" where
  "Network_DeepCopy = copy_new the_Network NetworkC zero_Network_h Network_DeepCopyInto"

definition UCloudClusterSpec_DeepCopyInto :: "UCloudClusterSpec_h \<Rightarrow> (mem, UCloudClusterSpec_h) prog" where
  "UCloudClusterSpec_DeepCopyInto x = (
     let out = x in
     let out = out\<lparr>hcs_ControlPlaneEndpoint := hcs_ControlPlaneEndpoint x\<rparr> in
     bind (NetworkSpec_DeepCopyInto (hcs_Network x)) (\<lambda>y.
     let out = out\<lparr>hcs_Network := y\<rparr> in
     let out = out\<lparr>hcs_Bastion := hcs_Bastion x\<rparr> in
     ret out))"

definition UCloudClusterSpec_DeepCopy :: "addr option \<Rightarrow> (mem, addr option) prog" where
  "UCloudClusterSpec_DeepCopy = copy_new the_UCloudClusterSpec UCloudClusterSpecC zero_UCloudClusterSpec_h UCloudClusterSpec_DeepCopyInto"

definition UCloudClusterStatus_DeepCopyInto :: "copy_lib \<Rightarrow> UCloudClusterStatus_h \<Rightarrow> (mem, UCloudClusterStatus_h) prog" where
  "UCloudClusterStatus_DeepCopyInto L x = (
     let out = x in
     bind (copy_map the_Domains DomainsC (lib_FailureDomainSpec L) (hcst_FailureDomains x)) (\<lambda>y.
     let out = out\<lparr>hcst_FailureDomains := y\<rparr> in
     bind (Network_DeepCopyInto (hcst_Network x)) (\<lambda>y.
     let out = out\<lparr>hcst_Network := y\<rparr> in
     bind (copy_ptr the_Instance InstanceC zero_Instance (hcst_Bastion x)) (\<lambda>y.
     let out = out\<lparr>hcst_Bastion := y\<rparr> in
     let out = out\<lparr>hcst_Group := hcst_Group x\<rparr> in
     ret out))))"

definition UCloudClusterStatus_DeepCopy :: "copy_lib \<Rightarrow> addr option \<Rightarrow> (mem, addr option) prog" where
  "UCloudClusterStatus_DeepCopy L = copy_new the_UCloudClusterStatus UCloudClusterStatusC zero_UCloudClusterStatus_h (UCloudClusterStatus_DeepCopyInto L)"

definition UCloudCluster_DeepCopyInto :: "copy_lib \<Rightarrow> UCloudCluster_h \<Rightarrow> (mem, UCloudCluster_h) prog" where
  "UCloudCluster_DeepCopyInto L x = (
     let out = x in
     let out = out\<lparr>huc_TypeMeta := huc_TypeMeta x\<rparr> in
     bind (lib_ObjectMeta L (huc_ObjectMeta x)) (\<lambda>y.
     let out = out\<lparr>huc_ObjectMeta := y\<rparr> in
     bind (UCloudClusterSpec_DeepCopyInto (huc_Spec x)) (\<lambda>y.
     let out = out\<lparr>huc_Spec := y\<rparr> in
     bind (UCloudClusterStatus_DeepCopyInto L (huc_Status x)) (\<lambda>y.
     let out = out\<lparr>huc_Status := y\<rparr> in
     ret out))))"

definition UCloudCluster_DeepCopy :: "copy_lib \<Rightarrow> addr option \<Rightarrow> (mem, addr option) prog" where
  "UCloudCluster_DeepCopy L = copy_new the_UCloudCluster UCloudClusterC zero_UCloudCluster_h (UCloudCluster_DeepCopyInto L)"

definition UCloudClusterList_DeepCopyInto :: "copy_lib \<Rightarrow> UCloudClusterList_h \<Rightarrow> (mem, UCloudClusterList_h) prog" where
  "UCloudClusterList_DeepCopyInto L x = (
     let out = x in
     let out = out\<lparr>hucl_TypeMeta := hucl_TypeMeta x\<rparr> in
     bind (lib_ListMeta L (hucl_ListMeta x)) (\<lambda>y.
     let out = out\<lparr>hucl_ListMeta := y\<rparr> in
     bind (copy_elems the_Clusters ClustersC zero_UCloudCluster_h (UCloudCluster_DeepCopyInto L) (hucl_Items x)) (\<lambda>y.
     let out = out\<lparr>hucl_Items := y\<rparr> in
     ret out)))"

definition UCloudClusterList_DeepCopy :: "copy_lib \<Rightarrow> addr option \<Rightarrow> (mem, addr option) prog" where
  "UCloudClusterList_DeepCopy L = copy_new the_UCloudClusterList UCloudClusterListC zero_UCloudClusterList_h (UCloudClusterList_DeepCopyInto L)"

definition UCloudMachineSpec_DeepCopyInto :: "UCloudMachineSpec_h \<Rightarrow> (mem, UCloudMachineSpec_h) prog" where
  "UCloudMachineSpec_DeepCopyInto x = (
     let out = x in
     bind (copy_ptr the_String StringC '''' (hms_ProviderID x)) (\<lambda>y.
     let out = out\<lparr>hms_ProviderID := y\<rparr> in
     bind (copy_ptr the_String StringC '''' (hms_ImageId x)) (\<lambda>y.
     let out = out\<lparr>hms_ImageId := y\<rparr> in
     bind (copy_ptr the_Bool BoolC False (hms_PublicIP x)) (\<lambda>y.
     let out = out\<lparr>hms_PublicIP := y\<rparr> in
     bind (copy_slice the_Strings StringsC '''' (hms_AdditionalNetworkTags x)) (\<lambda>y.
     let out = out\<lparr>hms_AdditionalNetworkTags := y\<rparr> in
     ret out)))))"

definition UCloudMachineSpec_DeepCopy :: "addr option \<Rightarrow> (mem, addr option) prog" where
  "UCloudMachineSpec_DeepCopy = copy_new the_UCloudMachineSpec UCloudMachineSpecC zero_UCloudMachineSpec_h UCloudMachineSpec_DeepCopyInto"

definition UCloudMachineStatus_DeepCopyInto :: "UCloudMachineStatus_h \<Rightarrow> (mem, UCloudMachineStatus_h) prog" where
  "UCloudMachineStatus_DeepCopyInto x = (
     let out = x in
     bind (copy_slice the_Addresses AddressesC zero_MachineAddress (hmst_Addresses x)) (\<lambda>y.
     let out = out\<lparr>hmst_Addresses := y\<rparr> in
     bind (copy_ptr the_Reason ReasonC '''' (hmst_FailureReason x)) (\<lambda>y.
     let out = out\<lparr>hmst_FailureReason := y\<rparr> in
     bind (copy_ptr the_Message MessageC (Errorf '''' []) (hmst_FailureMessage x)) (\<lambda>y.
     let out = out\<lparr>hmst_FailureMessage := y\<rparr> in
     ret out))))"

definition UCloudMachineStatus_DeepCopy :: "addr option \<Rightarrow> (mem, addr option) prog" where
  "UCloudMachineStatus_DeepCopy = copy_new the_UCloudMachineStatus UCloudMachineStatusC zero_UCloudMachineStatus_h UCloudMachineStatus_DeepCopyInto"

definition UCloudMachine_DeepCopyInto :: "copy_lib \<Rightarrow> UCloudMachine_h \<Rightarrow> (mem, UCloudMachine_h) prog" where
  "UCloudMachine_DeepCopyInto L x = (
     let out = x in
     let out = out\<lparr>hum_TypeMeta := hum_TypeMeta x\<rparr> in
     bind (lib_ObjectMeta L (hum_ObjectMeta x)) (\<lambda>y.
     let out = out\<lparr>hum_ObjectMeta := y\<rparr> in
     bind (UCloudMachineSpec_DeepCopyInto (hum_Spec x)) (\<lambda>y.
     let out = out\<lparr>hum_Spec := y\<rparr> in
     bind (UCloudMachineStatus_DeepCopyInto (hum_Status x)) (\<lambda>y.
     let out = out\<lparr>hum_Status := y\<rparr> in
     ret out))))"

definition UCloudMachine_DeepCopy :: "copy_lib \<Rightarrow> addr option \<Rightarrow> (mem, addr option) prog" where
  "UCloudMachine_DeepCopy L = copy_new the_UCloudMachine UCloudMachineC zero_UCloudMachine_h (UCloudMachine_DeepCopyInto L)"

definition UCloudMachineList_DeepCopyInto :: "copy_lib \<Rightarrow> UCloudMachineList_h \<Rightarrow> (mem, UCloudMachineList_h) prog" where
  "UCloudMachineList_DeepCopyInto L x = (
     let out = x in
     let out = out\<lparr>huml_TypeMeta := huml_TypeMeta x\<rparr> in
     bind (lib_ListMeta L (huml_ListMeta x)) (\<lambda>y.
     let out = out\<lparr>huml_ListMeta := y\<rparr> in
     bind (copy_elems the_Machines MachinesC zero_UCloudMachine_h (UCloudMachine_DeepCopyInto L) (huml_Items x)) (\<lambda>y.
     let out = out\<lparr>huml_Items := y\<rparr> in
     ret out)))"

definition UCloudMachineList_DeepCopy :: "copy_lib \<Rightarrow> addr option \<Rightarrow> (mem, addr option) prog" where
  "UCloudMachineList_DeepCopy L = copy_new the_UCloudMachineList UCloudMachineListC zero_UCloudMachineList_h (UCloudMachineList_DeepCopyInto L)"

definition UCloudMachineTemplateResource_DeepCopyInto :: "UCloudMachineTemplateResource_h \<Rightarrow> (mem, UCloudMachineTemplateResource_h) prog" where
  "UCloudMachineTemplateResource_DeepCopyInto x = (
     let out = x in
     bind (UCloudMachineSpec_DeepCopyInto (htr_Spec x)) (\<lambda>y.
     let out = out\<lparr>htr_Spec := y\<rparr> in
     ret out))"

definition UCloudMachineTemplateResource_DeepCopy :: "addr option \<Rightarrow> (mem, addr option) prog" where
  "UCloudMachineTemplateResource_DeepCopy = copy_new the_UCloudMachineTemplateResource UCloudMachineTemplateResourceC zero_UCloudMachineTemplateResource_h UCloudMachineTemplateResource_DeepCopyInto"

definition UCloudMachineTemplateSpec_DeepCopyInto :: "UCloudMachineTemplateSpec_h \<Rightarrow> (mem, UCloudMachineTemplateSpec_h) prog" where
  "UCloudMachineTemplateSpec_DeepCopyInto x = (
     let out = x in
     bind (UCloudMachineTemplateResource_DeepCopyInto (hts_Template x)) (\<lambda>y.
     let out = out\<lparr>hts_Template := y\<rparr> in
     ret out))"

definition UCloudMachineTemplateSpec_DeepCopy :: "addr option \<Rightarrow> (mem, addr option) prog" where
  "UCloudMachineTemplateSpec_DeepCopy = copy_new the_UCloudMachineTemplateSpec UCloudMachineTemplateSpecC zero_UCloudMachineTemplateSpec_h UCloudMachineTemplateSpec_DeepCopyInto"

definition UCloudMachineTemplate_DeepCopyInto :: "copy_lib \<Rightarrow> UCloudMachineTemplate_h \<Rightarrow> (mem, UCloudMachineTemplate_h) prog" where
  "UCloudMachineTemplate_DeepCopyInto L x = (
     let out = x in
     let out = out\<lparr>htpl_TypeMeta := htpl_TypeMeta x\<rparr> in
     bind (lib_ObjectMeta L (htpl_ObjectMeta x)) (\<lambda>y.
     let out = out\<lparr>htpl_ObjectMeta := y\<rparr> in
     bind (UCloudMachineTemplateSpec_DeepCopyInto (htpl_Spec x)) (\<lambda>y.
     let out = out\<lparr>htpl_Spec := y\<rparr> in
     ret out)))"

definition UCloudMachineTemplate_DeepCopy :: "copy_lib \<Rightarrow> addr option \<Rightarrow> (mem, addr option) prog" where
  "UCloudMachineTemplate_DeepCopy L = copy_new the_UCloudMachineTemplate UCloudMachineTemplateC zero_UCloudMachineTemplate_h (UCloudMachineTemplate_DeepCopyInto L)"

definition UCloudMachineTemplateList_DeepCopyInto :: "copy_lib \<Rightarrow> UCloudMachineTemplateList_h \<Rightarrow> (mem, UCloudMachineTemplateList_h) prog" where
  "UCloudMachineTemplateList_DeepCopyInto L x = (
     let out = x in
     let out = out\<lparr>htpll_TypeMeta := htpll_TypeMeta x\<rparr> in
     bind (lib_ListMeta L (htpll_ListMeta x)) (\<lambda>y.
     let out = out\<lparr>htpll_ListMeta := y\<rparr> in
     bind (copy_elems the_Templates TemplatesC zero_UCloudMachineTemplate_h (UCloudMachineTemplate_DeepCopyInto L) (htpll_Items x)) (\<lambda>y.
     let out = out\<lparr>htpll_Items := y\<rparr> in
     ret out)))"

definition UCloudMachineTemplateList_DeepCopy :: "copy_lib \<Rightarrow> addr option \<Rightarrow> (mem, addr option) prog" where
  "UCloudMachineTemplateList_DeepCopy L = copy_new the_UCloudMachineTemplateList UCloudMachineTemplateListC zero_UCloudMachineTemplateList_h (UCloudMachineTemplateList_DeepCopyInto L)"

section \<open>runtime.Object\<close>

text \<open>
  An interface value: nil, or a pointer with its dynamic type. A nil pointer in an interface is not a
  nil interface, which is why \<open>DeepCopyObject\<close> tests the pointer.
\<close>

datatype object = NilObject
  | UCloudClusterObject "addr option"
  | UCloudClusterListObject "addr option"
  | UCloudMachineObject "addr option"
  | UCloudMachineListObject "addr option"
  | UCloudMachineTemplateObject "addr option"
  | UCloudMachineTemplateListObject "addr option"

definition UCloudCluster_DeepCopyObject :: "copy_lib \<Rightarrow> addr option \<Rightarrow> (mem, object) prog" where
  "UCloudCluster_DeepCopyObject L p = bind (UCloudCluster_DeepCopy L p) (\<lambda>c.
     if c \<noteq> None then ret (UCloudClusterObject c) else ret NilObject)"

definition UCloudClusterList_DeepCopyObject :: "copy_lib \<Rightarrow> addr option \<Rightarrow> (mem, object) prog" where
  "UCloudClusterList_DeepCopyObject L p = bind (UCloudClusterList_DeepCopy L p) (\<lambda>c.
     if c \<noteq> None then ret (UCloudClusterListObject c) else ret NilObject)"

definition UCloudMachine_DeepCopyObject :: "copy_lib \<Rightarrow> addr option \<Rightarrow> (mem, object) prog" where
  "UCloudMachine_DeepCopyObject L p = bind (UCloudMachine_DeepCopy L p) (\<lambda>c.
     if c \<noteq> None then ret (UCloudMachineObject c) else ret NilObject)"

definition UCloudMachineList_DeepCopyObject :: "copy_lib \<Rightarrow> addr option \<Rightarrow> (mem, object) prog" where
  "UCloudMachineList_DeepCopyObject L p = bind (UCloudMachineList_DeepCopy L p) (\<lambda>c.
     if c \<noteq> None then ret (UCloudMachineListObject c) else ret NilObject)"

definition UCloudMachineTemplate_DeepCopyObject :: "copy_lib \<Rightarrow> addr option \<Rightarrow> (mem, object) prog" where
  "UCloudMachineTemplate_DeepCopyObject L p = bind (UCloudMachineTemplate_DeepCopy L p) (\<lambda>c.
     if c \<noteq> None then ret (UCloudMachineTemplateObject c) else ret NilObject)"

definition UCloudMachineTemplateList_DeepCopyObject :: "copy_lib \<Rightarrow> addr option \<Rightarrow> (mem, object) prog" where
  "UCloudMachineTemplateList_DeepCopyObject L p = bind (UCloudMachineTemplateList_DeepCopy L p) (\<lambda>c.
     if c \<noteq> None then ret (UCloudMachineTemplateListObject c) else ret NilObject)"

section \<open>Every copy meets the contract\<close>

lemmas plain_copies =
  BastionSpec_DeepCopyInto_def EIP_DeepCopyInto_def EIPSpec_DeepCopyInto_def Firewall_DeepCopyInto_def
  FirewallRuleSpec_DeepCopyInto_def Group_DeepCopyInto_def Instance_DeepCopyInto_def
  NatGatewaySpec_DeepCopyInto_def Subnet_DeepCopyInto_def SubnetSpec_DeepCopyInto_def VPC_DeepCopyInto_def
  VPCSpec_DeepCopyInto_def NatSpec_DeepCopyInto_def ULB_DeepCopyInto_def ULBSpec_DeepCopyInto_def

text \<open>A struct without pointers is copied by assignment.\<close>

lemma plain_copy:
  "BastionSpec_DeepCopyInto = ret" "EIP_DeepCopyInto = ret" "EIPSpec_DeepCopyInto = ret" "Firewall_DeepCopyInto = ret"
  "FirewallRuleSpec_DeepCopyInto = ret" "Group_DeepCopyInto = ret" "Instance_DeepCopyInto = ret"
  "NatGatewaySpec_DeepCopyInto = ret" "Subnet_DeepCopyInto = ret" "SubnetSpec_DeepCopyInto = ret" "VPC_DeepCopyInto = ret"
  "VPCSpec_DeepCopyInto = ret" "NatSpec_DeepCopyInto = ret" "ULB_DeepCopyInto = ret" "ULBSpec_DeepCopyInto = ret"
  by (simp_all add: fun_eq_iff plain_copies Let_def)

lemmas leaf_copiers =
  copier_slice [OF Strings_kind.kind_axioms] copier_slice [OF Addresses_kind.kind_axioms]
  copier_ptr [OF String_kind.kind_axioms] copier_ptr [OF Bool_kind.kind_axioms] copier_ptr [OF Reason_kind.kind_axioms]
  copier_ptr [OF Message_kind.kind_axioms] copier_ptr [OF Instance_kind.kind_axioms]
  copier_ptr [OF FirewallRuleSpec_kind.kind_axioms]

lemma bind_ret_eq: "bind (ret a) f = f a"
  by (rule ext) (rule bind_ret)

text \<open>
  A struct with one part that needs copying, and one with several: \<open>as_field\<close> and \<open>pair_into\<close> put the
  generated code into the form of \<open>copier_field\<close>.
\<close>

lemmas as_field = fun_eq_iff field_into_def pair_into_def Let_def bind_assoc bind_ret_eq

lemma Filter_field: "Filter_DeepCopyInto = field_into hfi_Values
     (\<lambda>y x. x\<lparr>hfi_Values := y\<rparr>)
     (copy_slice the_Strings StringsC '''')"
  by (simp add: as_field Filter_DeepCopyInto_def)

interpretation Filter_copy: copier Filter_view Filter_DeepCopyInto
  unfolding Filter_view_def Filter_field by (rule copier_field) (intro leaf_copiers | auto simp: split_def)+

lemma FirewallSpec_field: "FirewallSpec_DeepCopyInto = field_into hfws_Rules
     (\<lambda>y x. x\<lparr>hfws_Rules := y\<rparr>)
     (copy_elems the_Rules RulesC None (copy_ptr the_FirewallRuleSpec FirewallRuleSpecC zero_FirewallRuleSpec))"
  by (simp add: as_field FirewallSpec_DeepCopyInto_def)

interpretation FirewallSpec_copy: copier FirewallSpec_view FirewallSpec_DeepCopyInto
  unfolding FirewallSpec_view_def FirewallSpec_field by (rule copier_field) (intro copier_elems [OF Rules_kind.kind_axioms] leaf_copiers | auto simp: split_def)+

lemma NetworkSpec_field: "NetworkSpec_DeepCopyInto = field_into hnws_Firewall
     (\<lambda>y x. x\<lparr>hnws_Firewall := y\<rparr>)
     FirewallSpec_DeepCopyInto"
  by (simp add: as_field NetworkSpec_DeepCopyInto_def)

interpretation NetworkSpec_copy: copier NetworkSpec_view NetworkSpec_DeepCopyInto
  unfolding NetworkSpec_view_def NetworkSpec_field by (rule copier_field) (intro FirewallSpec_copy.copier_axioms | auto simp: split_def)+

lemma SnatTableIds_field: "SnatTableIds_DeepCopyInto = field_into hsnat_SnatTableId
     (\<lambda>y x. x\<lparr>hsnat_SnatTableId := y\<rparr>)
     (copy_slice the_Strings StringsC '''')"
  by (simp add: as_field SnatTableIds_DeepCopyInto_def)

interpretation SnatTableIds_copy: copier SnatTableIds_view SnatTableIds_DeepCopyInto
  unfolding SnatTableIds_view_def SnatTableIds_field by (rule copier_field) (intro leaf_copiers | auto simp: split_def)+

lemma Nat_field: "Nat_DeepCopyInto = field_into hnat_SnatTableIds
     (\<lambda>y x. x\<lparr>hnat_SnatTableIds := y\<rparr>)
     SnatTableIds_DeepCopyInto"
  by (simp add: as_field Nat_DeepCopyInto_def)

interpretation Nat_copy: copier Nat_view Nat_DeepCopyInto
  unfolding Nat_view_def Nat_field by (rule copier_field) (intro SnatTableIds_copy.copier_axioms | auto simp: split_def)+

lemma Network_field: "Network_DeepCopyInto = field_into hnw_Nat
     (\<lambda>y x. x\<lparr>hnw_Nat := y\<rparr>)
     Nat_DeepCopyInto"
  by (simp add: as_field Network_DeepCopyInto_def)

interpretation Network_copy: copier Network_view Network_DeepCopyInto
  unfolding Network_view_def Network_field by (rule copier_field) (intro Nat_copy.copier_axioms | auto simp: split_def)+

lemma UCloudClusterSpec_field: "UCloudClusterSpec_DeepCopyInto = field_into hcs_Network
     (\<lambda>y x. x\<lparr>hcs_Network := y\<rparr>)
     NetworkSpec_DeepCopyInto"
  by (simp add: as_field UCloudClusterSpec_DeepCopyInto_def)

interpretation UCloudClusterSpec_copy: copier UCloudClusterSpec_view UCloudClusterSpec_DeepCopyInto
  unfolding UCloudClusterSpec_view_def UCloudClusterSpec_field by (rule copier_field) (intro NetworkSpec_copy.copier_axioms | auto simp: split_def)+

lemma UCloudMachineSpec_field: "UCloudMachineSpec_DeepCopyInto = field_into (\<lambda>x. (hms_ProviderID x, hms_ImageId x, hms_PublicIP x, hms_AdditionalNetworkTags x))
     (\<lambda>(a, b, c, d) x. x\<lparr>hms_ProviderID := a, hms_ImageId := b, hms_PublicIP := c, hms_AdditionalNetworkTags := d\<rparr>)
     (pair_into (copy_ptr the_String StringC '''')
     (pair_into (copy_ptr the_String StringC '''')
     (pair_into (copy_ptr the_Bool BoolC False)
     (copy_slice the_Strings StringsC ''''))))"
  by (simp add: as_field UCloudMachineSpec_DeepCopyInto_def)

interpretation UCloudMachineSpec_copy: copier UCloudMachineSpec_view UCloudMachineSpec_DeepCopyInto
  unfolding UCloudMachineSpec_view_def UCloudMachineSpec_field by (rule copier_field) (intro copier_pair leaf_copiers | auto simp: split_def)+

lemma UCloudMachineStatus_field: "UCloudMachineStatus_DeepCopyInto = field_into (\<lambda>x. (hmst_Addresses x, hmst_FailureReason x, hmst_FailureMessage x))
     (\<lambda>(a, b, c) x. x\<lparr>hmst_Addresses := a, hmst_FailureReason := b, hmst_FailureMessage := c\<rparr>)
     (pair_into (copy_slice the_Addresses AddressesC zero_MachineAddress)
     (pair_into (copy_ptr the_Reason ReasonC '''')
     (copy_ptr the_Message MessageC (Errorf '''' []))))"
  by (simp add: as_field UCloudMachineStatus_DeepCopyInto_def)

interpretation UCloudMachineStatus_copy: copier UCloudMachineStatus_view UCloudMachineStatus_DeepCopyInto
  unfolding UCloudMachineStatus_view_def UCloudMachineStatus_field by (rule copier_field) (intro copier_pair leaf_copiers | auto simp: split_def)+

lemma UCloudMachineTemplateResource_field: "UCloudMachineTemplateResource_DeepCopyInto = field_into htr_Spec
     (\<lambda>y x. x\<lparr>htr_Spec := y\<rparr>)
     UCloudMachineSpec_DeepCopyInto"
  by (simp add: as_field UCloudMachineTemplateResource_DeepCopyInto_def)

interpretation UCloudMachineTemplateResource_copy: copier UCloudMachineTemplateResource_view UCloudMachineTemplateResource_DeepCopyInto
  unfolding UCloudMachineTemplateResource_view_def UCloudMachineTemplateResource_field by (rule copier_field) (intro UCloudMachineSpec_copy.copier_axioms | auto simp: split_def)+

lemma UCloudMachineTemplateSpec_field: "UCloudMachineTemplateSpec_DeepCopyInto = field_into hts_Template
     (\<lambda>y x. x\<lparr>hts_Template := y\<rparr>)
     UCloudMachineTemplateResource_DeepCopyInto"
  by (simp add: as_field UCloudMachineTemplateSpec_DeepCopyInto_def)

interpretation UCloudMachineTemplateSpec_copy: copier UCloudMachineTemplateSpec_view UCloudMachineTemplateSpec_DeepCopyInto
  unfolding UCloudMachineTemplateSpec_view_def UCloudMachineTemplateSpec_field by (rule copier_field) (intro UCloudMachineTemplateResource_copy.copier_axioms | auto simp: split_def)+

lemma UCloudClusterStatus_field: "UCloudClusterStatus_DeepCopyInto L = field_into (\<lambda>x. (hcst_FailureDomains x, hcst_Network x, hcst_Bastion x))
     (\<lambda>(a, b, c) x. x\<lparr>hcst_FailureDomains := a, hcst_Network := b, hcst_Bastion := c\<rparr>)
     (pair_into (copy_map the_Domains DomainsC (lib_FailureDomainSpec L))
     (pair_into Network_DeepCopyInto
     (copy_ptr the_Instance InstanceC zero_Instance)))"
  by (simp add: as_field UCloudClusterStatus_DeepCopyInto_def)

lemma UCloudClusterStatus_copier: "lib_copies L \<Longrightarrow> copier UCloudClusterStatus_view (UCloudClusterStatus_DeepCopyInto L)"
  unfolding UCloudClusterStatus_view_def UCloudClusterStatus_field by (rule copier_field) (intro copier_pair copier_map [OF Domains_kind.kind_axioms] Network_copy.copier_axioms leaf_copiers | auto simp: split_def lib_copies_def)+

lemma UCloudCluster_field: "UCloudCluster_DeepCopyInto L = field_into (\<lambda>x. (huc_ObjectMeta x, huc_Spec x, huc_Status x))
     (\<lambda>(a, b, c) x. x\<lparr>huc_ObjectMeta := a, huc_Spec := b, huc_Status := c\<rparr>)
     (pair_into (lib_ObjectMeta L)
     (pair_into UCloudClusterSpec_DeepCopyInto
     (UCloudClusterStatus_DeepCopyInto L)))"
  by (simp add: as_field UCloudCluster_DeepCopyInto_def)

lemma UCloudCluster_copier: "lib_copies L \<Longrightarrow> copier UCloudCluster_view (UCloudCluster_DeepCopyInto L)"
  unfolding UCloudCluster_view_def UCloudCluster_field by (rule copier_field) (intro copier_pair UCloudClusterSpec_copy.copier_axioms UCloudClusterStatus_copier | auto simp: split_def lib_copies_def)+

lemma UCloudMachine_field: "UCloudMachine_DeepCopyInto L = field_into (\<lambda>x. (hum_ObjectMeta x, hum_Spec x, hum_Status x))
     (\<lambda>(a, b, c) x. x\<lparr>hum_ObjectMeta := a, hum_Spec := b, hum_Status := c\<rparr>)
     (pair_into (lib_ObjectMeta L)
     (pair_into UCloudMachineSpec_DeepCopyInto
     UCloudMachineStatus_DeepCopyInto))"
  by (simp add: as_field UCloudMachine_DeepCopyInto_def)

lemma UCloudMachine_copier: "lib_copies L \<Longrightarrow> copier UCloudMachine_view (UCloudMachine_DeepCopyInto L)"
  unfolding UCloudMachine_view_def UCloudMachine_field by (rule copier_field) (intro copier_pair UCloudMachineSpec_copy.copier_axioms UCloudMachineStatus_copy.copier_axioms | auto simp: split_def lib_copies_def)+

lemma UCloudMachineTemplate_field: "UCloudMachineTemplate_DeepCopyInto L = field_into (\<lambda>x. (htpl_ObjectMeta x, htpl_Spec x))
     (\<lambda>(a, b) x. x\<lparr>htpl_ObjectMeta := a, htpl_Spec := b\<rparr>)
     (pair_into (lib_ObjectMeta L)
     UCloudMachineTemplateSpec_DeepCopyInto)"
  by (simp add: as_field UCloudMachineTemplate_DeepCopyInto_def)

lemma UCloudMachineTemplate_copier: "lib_copies L \<Longrightarrow> copier UCloudMachineTemplate_view (UCloudMachineTemplate_DeepCopyInto L)"
  unfolding UCloudMachineTemplate_view_def UCloudMachineTemplate_field by (rule copier_field) (intro copier_pair UCloudMachineTemplateSpec_copy.copier_axioms | auto simp: split_def lib_copies_def)+

lemma UCloudClusterList_field: "UCloudClusterList_DeepCopyInto L = field_into (\<lambda>x. (hucl_ListMeta x, hucl_Items x))
     (\<lambda>(a, b) x. x\<lparr>hucl_ListMeta := a, hucl_Items := b\<rparr>)
     (pair_into (lib_ListMeta L)
     (copy_elems the_Clusters ClustersC zero_UCloudCluster_h (UCloudCluster_DeepCopyInto L)))"
  by (simp add: as_field UCloudClusterList_DeepCopyInto_def)

lemma UCloudClusterList_copier: "lib_copies L \<Longrightarrow> copier UCloudClusterList_view (UCloudClusterList_DeepCopyInto L)"
  unfolding UCloudClusterList_view_def UCloudClusterList_field by (rule copier_field) (intro copier_pair copier_elems [OF Clusters_kind.kind_axioms] UCloudCluster_copier | auto simp: split_def lib_copies_def)+

lemma UCloudMachineList_field: "UCloudMachineList_DeepCopyInto L = field_into (\<lambda>x. (huml_ListMeta x, huml_Items x))
     (\<lambda>(a, b) x. x\<lparr>huml_ListMeta := a, huml_Items := b\<rparr>)
     (pair_into (lib_ListMeta L)
     (copy_elems the_Machines MachinesC zero_UCloudMachine_h (UCloudMachine_DeepCopyInto L)))"
  by (simp add: as_field UCloudMachineList_DeepCopyInto_def)

lemma UCloudMachineList_copier: "lib_copies L \<Longrightarrow> copier UCloudMachineList_view (UCloudMachineList_DeepCopyInto L)"
  unfolding UCloudMachineList_view_def UCloudMachineList_field by (rule copier_field) (intro copier_pair copier_elems [OF Machines_kind.kind_axioms] UCloudMachine_copier | auto simp: split_def lib_copies_def)+

lemma UCloudMachineTemplateList_field: "UCloudMachineTemplateList_DeepCopyInto L = field_into (\<lambda>x. (htpll_ListMeta x, htpll_Items x))
     (\<lambda>(a, b) x. x\<lparr>htpll_ListMeta := a, htpll_Items := b\<rparr>)
     (pair_into (lib_ListMeta L)
     (copy_elems the_Templates TemplatesC zero_UCloudMachineTemplate_h (UCloudMachineTemplate_DeepCopyInto L)))"
  by (simp add: as_field UCloudMachineTemplateList_DeepCopyInto_def)

lemma UCloudMachineTemplateList_copier: "lib_copies L \<Longrightarrow> copier UCloudMachineTemplateList_view (UCloudMachineTemplateList_DeepCopyInto L)"
  unfolding UCloudMachineTemplateList_view_def UCloudMachineTemplateList_field by (rule copier_field) (intro copier_pair copier_elems [OF Templates_kind.kind_axioms] UCloudMachineTemplate_copier | auto simp: split_def lib_copies_def)+

end
