(* ===== verification/Deep_Copy_Properties.thy ===== *)
theory Deep_Copy_Properties
  imports Deep_Copy
begin

text \<open>
  What the deep copies of the API objects guarantee, through the interface \<open>runtime.Object\<close> by which
  the caches and patch helpers of the controller runtime use them: a copy denotes the same object, and
  no write to the one is seen in the other.
\<close>

section \<open>Objects behind the interface\<close>

datatype object_value =
    NoValue
  | ClusterValue "TypeMeta \<times> UCloudCluster"
  | ClustersValue "TypeMeta \<times> (ListMeta_h \<times> int option) \<times> (TypeMeta \<times> UCloudCluster) list option"
  | MachineValue "TypeMeta \<times> UCloudMachine"
  | MachinesValue "TypeMeta \<times> (ListMeta_h \<times> int option) \<times> (TypeMeta \<times> UCloudMachine) list option"
  | TemplateValue "TypeMeta \<times> UCloudMachineTemplate"
  | TemplatesValue "TypeMeta \<times> (ListMeta_h \<times> int option) \<times> (TypeMeta \<times> UCloudMachineTemplate) list option"

definition pointed :: "('v \<Rightarrow> object_value) \<Rightarrow> ('v option \<times> addr list) option \<Rightarrow> (object_value \<times> addr list) option" where
  "pointed f r = map_option (\<lambda>(v, as). (case v of None \<Rightarrow> NoValue | Some w \<Rightarrow> f w, as)) r"

definition object_view :: "(cell, object, object_value) view" where
  "object_view ob h = (case ob of
      NilObject \<Rightarrow> Some (NoValue, [])
    | UCloudClusterObject p \<Rightarrow> pointed ClusterValue (new_view the_UCloudCluster UCloudCluster_view p h)
    | UCloudClusterListObject p \<Rightarrow> pointed ClustersValue (new_view the_UCloudClusterList UCloudClusterList_view p h)
    | UCloudMachineObject p \<Rightarrow> pointed MachineValue (new_view the_UCloudMachine UCloudMachine_view p h)
    | UCloudMachineListObject p \<Rightarrow> pointed MachinesValue (new_view the_UCloudMachineList UCloudMachineList_view p h)
    | UCloudMachineTemplateObject p \<Rightarrow> pointed TemplateValue (new_view the_UCloudMachineTemplate UCloudMachineTemplate_view p h)
    | UCloudMachineTemplateListObject p \<Rightarrow>
        pointed TemplatesValue (new_view the_UCloudMachineTemplateList UCloudMachineTemplateList_view p h))"

text \<open>The method call \<open>obj.DeepCopyObject()\<close>: dispatch on the dynamic type, a panic on a nil interface.\<close>

definition DeepCopyObject :: "copy_lib \<Rightarrow> object \<Rightarrow> (mem, object) prog" where
  "DeepCopyObject L ob = (case ob of
      NilObject \<Rightarrow> panic ''nil pointer dereference''
    | UCloudClusterObject p \<Rightarrow> UCloudCluster_DeepCopyObject L p
    | UCloudClusterListObject p \<Rightarrow> UCloudClusterList_DeepCopyObject L p
    | UCloudMachineObject p \<Rightarrow> UCloudMachine_DeepCopyObject L p
    | UCloudMachineListObject p \<Rightarrow> UCloudMachineList_DeepCopyObject L p
    | UCloudMachineTemplateObject p \<Rightarrow> UCloudMachineTemplate_DeepCopyObject L p
    | UCloudMachineTemplateListObject p \<Rightarrow> UCloudMachineTemplateList_DeepCopyObject L p)"

definition dynamic_type :: "object \<Rightarrow> string" where
  "dynamic_type ob = (case ob of
      NilObject \<Rightarrow> ''nil''
    | UCloudClusterObject p \<Rightarrow> ''*UCloudCluster''
    | UCloudClusterListObject p \<Rightarrow> ''*UCloudClusterList''
    | UCloudMachineObject p \<Rightarrow> ''*UCloudMachine''
    | UCloudMachineListObject p \<Rightarrow> ''*UCloudMachineList''
    | UCloudMachineTemplateObject p \<Rightarrow> ''*UCloudMachineTemplate''
    | UCloudMachineTemplateListObject p \<Rightarrow> ''*UCloudMachineTemplateList'')"

text \<open>Some writes to cells, as a later program may do them.\<close>

definition writes :: "(addr \<times> 'c) list \<Rightarrow> 'c heap \<Rightarrow> 'c heap" where
  "writes ws h = fold (\<lambda>(a, c) h. h[a := c]) ws h"

lemma cell_at_writes: "a \<notin> fst ` set ws \<Longrightarrow> cell_at (writes ws h) a = cell_at h a"
  unfolding writes_def by (induction ws arbitrary: h) (auto simp: cell_at_update_other)

context viewer
begin

lemma writes_elsewhere:
  assumes "vw x h = Some (v, as)" and "fst ` set ws \<inter> set as = {}"
  shows "vw x (writes ws h) = Some (v, as)"
  using assms(1) by (rule frame) (use assms(2) in \<open>auto intro!: cell_at_writes\<close>)

end

text \<open>One lemma for the six methods: \<open>DeepCopyObject\<close> on a pointer of type \<open>*T\<close>.\<close>

definition copied :: "copy_lib \<Rightarrow> object \<Rightarrow> mem \<Rightarrow> object_value \<Rightarrow> bool" where
  "copied L ob h v \<longleftrightarrow> (\<exists>c hs bs. DeepCopyObject L ob h = (Ok c, h @ hs) \<and> object_view c (h @ hs) = Some (v, bs)
     \<and> (c = NilObject \<or> dynamic_type c = dynamic_type ob) \<and> (\<forall>b\<in>set bs. length h \<le> b))"

lemma pointed_Some: "pointed f r = Some (w, as) \<longleftrightarrow>
    (\<exists>v. r = Some (v, as) \<and> w = (case v of None \<Rightarrow> NoValue | Some u \<Rightarrow> f u))"
  by (auto simp: pointed_def)

lemma new_copy_cases:
  assumes "copier vw into" and "kind prj mk" and "new_view prj vw p h = Some (v, as)"
  obtains (nil) "p = None" "v = None" "copy_new prj mk z into p h = (Ok None, h)"
    | (new) q hs bs where "copy_new prj mk z into p h = (Ok (Some q), h @ hs)" "new_view prj vw (Some q) (h @ hs) = Some (v, bs)"
        "v \<noteq> None" "\<forall>b\<in>set bs. length h \<le> b"
proof (cases p)
  case None
  with assms(3) show thesis
    by (intro nil) (auto simp: copy_new_def new_view_None ret_def)
next
  case (Some a)
  obtain y hs bs where y: "copy_new prj mk z into p h = (Ok y, h @ hs)" "new_view prj vw y (h @ hs) = Some (v, bs)"
      "\<forall>b\<in>set bs. length h \<le> b"
    using copier.copiesE [OF copier_new [OF assms(2,1)] assms(3)] by metis
  have "v \<noteq> None"
    using assms(3) Some by (auto simp: new_view_Some)
  with y show thesis
    by (cases y) (auto simp: new_view_None intro: new)
qed

lemma object_copied:
  assumes "copier vw into" and "kind prj mk" and view: "pointed F (new_view prj vw p h) = Some (v, as)"
    and obj: "\<And>c k. object_view (K c) k = pointed F (new_view prj vw c k)" and ty: "\<And>c. dynamic_type (K c) = dynamic_type (K p)"
  shows "\<exists>c hs bs. bind (copy_new prj mk z into p) (\<lambda>c. if c \<noteq> None then ret (K c) else ret NilObject) h = (Ok c, h @ hs)
      \<and> object_view c (h @ hs) = Some (v, bs) \<and> (c = NilObject \<or> dynamic_type c = dynamic_type (K p))
      \<and> (\<forall>b\<in>set bs. length h \<le> b)"
proof -
  obtain w where w: "new_view prj vw p h = Some (w, as)" "v = (case w of None \<Rightarrow> NoValue | Some u \<Rightarrow> F u)"
    using view by (auto simp: pointed_Some)
  from assms(1,2) w(1) show ?thesis
  proof (cases rule: new_copy_cases [where z = z])
    case nil
    then show ?thesis
      by (intro exI [of _ NilObject] exI [of _ "[]"]) (simp add: bind_Ok ret_def w object_view_def)
  next
    case (new q hs bs)
    have "bind (copy_new prj mk z into p) (\<lambda>c. if c \<noteq> None then ret (K c) else ret NilObject) h = (Ok (K (Some q)), h @ hs)"
      using new(1) by (simp add: bind_Ok ret_def)
    moreover have "object_view (K (Some q)) (h @ hs) = Some (v, bs)"
      using new(2) by (simp add: obj pointed_Some w)
    moreover have "K (Some q) = NilObject \<or> dynamic_type (K (Some q)) = dynamic_type (K p)"
      using ty by simp
    ultimately show ?thesis
      using new(4) by (intro exI conjI)
  qed
qed

lemma object_views:
  "object_view (UCloudClusterObject p) h = pointed ClusterValue (new_view the_UCloudCluster UCloudCluster_view p h)"
  "object_view (UCloudClusterListObject p) h = pointed ClustersValue (new_view the_UCloudClusterList UCloudClusterList_view p h)"
  "object_view (UCloudMachineObject p) h = pointed MachineValue (new_view the_UCloudMachine UCloudMachine_view p h)"
  "object_view (UCloudMachineListObject p) h = pointed MachinesValue (new_view the_UCloudMachineList UCloudMachineList_view p h)"
  "object_view (UCloudMachineTemplateObject p) h = pointed TemplateValue (new_view the_UCloudMachineTemplate UCloudMachineTemplate_view p h)"
  "object_view (UCloudMachineTemplateListObject p) h = pointed TemplatesValue (new_view the_UCloudMachineTemplateList UCloudMachineTemplateList_view p h)"
  by (simp_all add: object_view_def)

lemmas deep_copy_defs =
  UCloudCluster_DeepCopyObject_def UCloudCluster_DeepCopy_def UCloudClusterList_DeepCopyObject_def UCloudClusterList_DeepCopy_def
  UCloudMachine_DeepCopyObject_def UCloudMachine_DeepCopy_def UCloudMachineList_DeepCopyObject_def UCloudMachineList_DeepCopy_def
  UCloudMachineTemplate_DeepCopyObject_def UCloudMachineTemplate_DeepCopy_def UCloudMachineTemplateList_DeepCopyObject_def
  UCloudMachineTemplateList_DeepCopy_def

lemma copiedI:
  assumes L: "lib_copies L" and view: "object_view ob h = Some (v, as)" and ob: "ob \<noteq> NilObject"
  shows "copied L ob h v"
proof (cases ob)
  case (UCloudClusterObject p)
  show ?thesis
    unfolding copied_def UCloudClusterObject DeepCopyObject_def object.case deep_copy_defs
    by (rule object_copied [OF UCloudCluster_copier [OF L] UCloudCluster_kind.kind_axioms _ object_views(1)])
      (use view in \<open>simp_all only: UCloudClusterObject object_views dynamic_type_def object.case\<close>)
next
  case (UCloudClusterListObject p)
  show ?thesis
    unfolding copied_def UCloudClusterListObject DeepCopyObject_def object.case deep_copy_defs
    by (rule object_copied [OF UCloudClusterList_copier [OF L] UCloudClusterList_kind.kind_axioms _ object_views(2)])
      (use view in \<open>simp_all only: UCloudClusterListObject object_views dynamic_type_def object.case\<close>)
next
  case (UCloudMachineObject p)
  show ?thesis
    unfolding copied_def UCloudMachineObject DeepCopyObject_def object.case deep_copy_defs
    by (rule object_copied [OF UCloudMachine_copier [OF L] UCloudMachine_kind.kind_axioms _ object_views(3)])
      (use view in \<open>simp_all only: UCloudMachineObject object_views dynamic_type_def object.case\<close>)
next
  case (UCloudMachineListObject p)
  show ?thesis
    unfolding copied_def UCloudMachineListObject DeepCopyObject_def object.case deep_copy_defs
    by (rule object_copied [OF UCloudMachineList_copier [OF L] UCloudMachineList_kind.kind_axioms _ object_views(4)])
      (use view in \<open>simp_all only: UCloudMachineListObject object_views dynamic_type_def object.case\<close>)
next
  case (UCloudMachineTemplateObject p)
  show ?thesis
    unfolding copied_def UCloudMachineTemplateObject DeepCopyObject_def object.case deep_copy_defs
    by (rule object_copied [OF UCloudMachineTemplate_copier [OF L] UCloudMachineTemplate_kind.kind_axioms _ object_views(5)])
      (use view in \<open>simp_all only: UCloudMachineTemplateObject object_views dynamic_type_def object.case\<close>)
next
  case (UCloudMachineTemplateListObject p)
  show ?thesis
    unfolding copied_def UCloudMachineTemplateListObject DeepCopyObject_def object.case deep_copy_defs
    by (rule object_copied [OF UCloudMachineTemplateList_copier [OF L] UCloudMachineTemplateList_kind.kind_axioms _ object_views(6)])
      (use view in \<open>simp_all only: UCloudMachineTemplateListObject object_views dynamic_type_def object.case\<close>)
qed (use ob in simp)

lemma viewer_object:
  assumes L: "lib_copies L"
  shows "viewer object_view"
proof -
  note vs = UCloudCluster_copier [OF L] UCloudClusterList_copier [OF L] UCloudMachine_copier [OF L]
    UCloudMachineList_copier [OF L] UCloudMachineTemplate_copier [OF L] UCloudMachineTemplateList_copier [OF L]
  note within = vs [THEN copier_viewer, THEN viewer_new, THEN viewer.within]
    and frame = vs [THEN copier_viewer, THEN viewer_new, THEN viewer.frame]
  show ?thesis
  proof
    fix ob h v as a
    assume "object_view ob h = Some (v, as)" "a \<in> set as"
    then show "a < length h"
      by (cases ob) (auto simp: object_views pointed_Some object_view_def [of NilObject] dest: within)
  next
    fix ob h v as and h' :: mem
    assume "object_view ob h = Some (v, as)" "\<And>a. a \<in> set as \<Longrightarrow> cell_at h' a = cell_at h a"
    then show "object_view ob h' = Some (v, as)"
      by (cases ob) (simp_all add: object_views pointed_Some object_view_def [of NilObject], (metis frame)+)
  qed
qed

section \<open>A library that keeps its contract\<close>

text \<open>The deep copies of the metadata, written as the library documents them, for the witnesses.\<close>

definition sample_copy_lib :: copy_lib where
  "sample_copy_lib = \<lparr>
     lib_ObjectMeta = field_into (\<lambda>x. (hom_Finalizers x, hom_DeletionTimestamp x, hom_Annotations x))
       (\<lambda>(f, d, a) x. x\<lparr>hom_Finalizers := f, hom_DeletionTimestamp := d, hom_Annotations := a\<rparr>)
       (pair_into (copy_slice the_Strings StringsC '''')
       (pair_into (copy_ptr the_Time TimeC '''') (copy_map the_StringMap StringMapC ret))),
     lib_ListMeta = field_into hlm_RemainingItemCount (\<lambda>y x. x\<lparr>hlm_RemainingItemCount := y\<rparr>) (copy_ptr the_Int64 Int64C 0),
     lib_FailureDomainSpec = field_into hfd_Attributes (\<lambda>y x. x\<lparr>hfd_Attributes := y\<rparr>) (copy_map the_StringMap StringMapC ret)\<rparr>"

lemma sample_copy_lib_copies: "lib_copies sample_copy_lib"
  unfolding lib_copies_def sample_copy_lib_def copy_lib.simps ObjectMeta_view_def ListMeta_view_def FailureDomainSpec_view_def
  by (intro conjI copier_field copier_pair leaf_copiers copier_plain copier_map [OF StringMap_kind.kind_axioms]
      copier_ptr [OF Time_kind.kind_axioms] copier_ptr [OF Int64_kind.kind_axioms]) (auto simp: split_def)

section \<open>A machine in memory, for the witnesses\<close>

definition sample_mem :: mem where
  "sample_mem = [
     UCloudMachineC \<lparr>hum_TypeMeta = \<lparr>tm_Kind = ''UCloudMachine'', tm_APIVersion = ''v1alpha3''\<rparr>,
       hum_ObjectMeta = \<lparr>hom_Name = ''m1'', hom_Namespace = ''default'', hom_ClusterName = '''',
         hom_Finalizers = Some \<lparr>sl_array = 1, sl_off = 1, sl_len = 1\<rparr>, hom_DeletionTimestamp = None, hom_Annotations = Some 2\<rparr>,
       hum_Spec = zero_UCloudMachineSpec_h\<lparr>hms_ProviderID := Some 3,
         hms_AdditionalNetworkTags := Some \<lparr>sl_array = 4, sl_off = 0, sl_len = 2\<rparr>\<rparr>,
       hum_Status = zero_UCloudMachineStatus_h\<lparr>hmst_Addresses := Some \<lparr>sl_array = 5, sl_off = 0, sl_len = 1\<rparr>\<rparr>\<rparr>,
     StringsC [''other'', MachineFinalizer],
     StringMapC [(''a'', ''1'')],
     StringC ''ucloud:///cn-bj2-02/uhost-1'',
     StringsC [''blue'', ''green''],
     AddressesC [\<lparr>adr_Type = ''InternalIP'', adr_Address = ''10.0.0.2''\<rparr>]]"

definition sample_object :: object where
  "sample_object = UCloudMachineObject (Some 0)"

lemma sample_object_view:
  "object_view sample_object sample_mem = Some (MachineValue (\<lparr>tm_Kind = ''UCloudMachine'', tm_APIVersion = ''v1alpha3''\<rparr>,
     \<lparr>um_Meta = \<lparr>om_Name = ''m1'', om_Namespace = ''default'', om_ClusterName = '''', om_Finalizers = [MachineFinalizer],
        om_DeletionTimestamp = None, om_Annotations = Some (map_of [(''a'', ''1'')])\<rparr>,
      um_Spec = zero_UCloudMachineSpec\<lparr>ms_ProviderID := Some ''ucloud:///cn-bj2-02/uhost-1'',
        ms_AdditionalNetworkTags := Some [''blue'', ''green'']\<rparr>,
      um_Status = zero_UCloudMachineStatus\<lparr>mst_Addresses := [\<lparr>adr_Type = ''InternalIP'', adr_Address = ''10.0.0.2''\<rparr>]\<rparr>\<rparr>),
     [0, 1, 2, 3, 4, 5])"
  by (simp add: sample_object_def object_views pointed_Some new_view_def read_def cell_at_def sample_mem_def
      the_UCloudMachine_def UCloudMachine_view_def ObjectMeta_view_def UCloudMachineSpec_view_def UCloudMachineStatus_view_def
      field_view_def pair_view_def elems_view_def read_slice_def list_view_plain map_view_def plain_view_def
      the_Strings_def the_StringMap_def the_String_def the_Addresses_def nil_list_def
      zero_UCloudMachineSpec_h_def zero_UCloudMachineStatus_h_def zero_UCloudMachineSpec_def zero_UCloudMachineStatus_def)

lemma sample_object_copy:
  obtains c k where "DeepCopyObject sample_copy_lib sample_object sample_mem = (Ok c, k)"
  using copiedI [OF sample_copy_lib_copies sample_object_view] by (auto simp: copied_def sample_object_def)

section \<open>The properties\<close>

text \<open>C10: The deep copy of an API object that is not nil returns an object that denotes the same
  Kubernetes object, however deep its pointers, slices and maps go. It changes no variable that was
  there, and all the copy refers to is newly allocated.\<close>

theorem deep_copy_same_object:
  assumes "lib_copies L" and "object_view ob h = Some (v, as)" and "ob \<noteq> NilObject"
  shows "\<exists>c hs bs. DeepCopyObject L ob h = (Ok c, h @ hs) \<and> object_view c (h @ hs) = Some (v, bs)
    \<and> (\<forall>b\<in>set bs. length h \<le> b)"
  using copiedI [OF assms] unfolding copied_def by blast

theorem deep_copy_same_object_witness:
  "\<exists>v as. object_view sample_object sample_mem = Some (v, as)
    \<and> (\<exists>c hs bs. DeepCopyObject sample_copy_lib sample_object sample_mem = (Ok c, sample_mem @ hs)
         \<and> object_view c (sample_mem @ hs) = Some (v, bs) \<and> (\<forall>b\<in>set bs. length sample_mem \<le> b))"
  by (rule exI, rule exI, rule conjI, rule sample_object_view, rule deep_copy_same_object [OF sample_copy_lib_copies sample_object_view])
    (simp add: sample_object_def)

text \<open>C9: After a deep copy neither object sees what is written to the other: writes to the variables
  that the copy refers to leave the original as it was, and writes to any older variable leave the
  copy as it was.\<close>

theorem deep_copy_isolated:
  assumes "lib_copies L" and "object_view ob h = Some (v, as)" and "DeepCopyObject L ob h = (Ok c, k)"
  shows "\<exists>bs. object_view c k = Some (v, bs)
    \<and> (\<forall>ws. fst ` set ws \<subseteq> set bs \<longrightarrow> object_view ob (writes ws k) = Some (v, as))
    \<and> (\<forall>ws. fst ` set ws \<subseteq> {..<length h} \<longrightarrow> object_view c (writes ws k) = Some (v, bs))"
proof -
  note viewer = viewer_object [OF assms(1)]
  have "ob \<noteq> NilObject"
    using assms(3) by (auto simp: DeepCopyObject_def panic_def)
  then obtain hs bs where k: "k = h @ hs" and c: "object_view c k = Some (v, bs)" and fresh: "\<forall>b\<in>set bs. length h \<le> b"
    using copiedI [OF assms(1,2)] assms(3) by (auto simp: copied_def)
  have "object_view ob k = Some (v, as)"
    unfolding k by (rule viewer.old [OF viewer assms(2)])
  moreover have "fst ` set ws \<inter> set as = {}" if "fst ` set ws \<subseteq> set bs" for ws :: "(addr \<times> cell) list"
    using that fresh viewer.within [OF viewer assms(2)] by fastforce
  moreover have "fst ` set ws \<inter> set bs = {}" if "fst ` set ws \<subseteq> {..<length h}" for ws :: "(addr \<times> cell) list"
    using that fresh by fastforce
  ultimately show ?thesis
    using c viewer.writes_elsewhere [OF viewer] by metis
qed

text \<open>A program that empties the tags of the original later does not change the tags of the copy.\<close>

theorem deep_copy_isolated_witness:
  "\<exists>c k v bs. DeepCopyObject sample_copy_lib sample_object sample_mem = (Ok c, k)
    \<and> object_view c (writes [(4, StringsC ['''', ''''])] k) = Some (MachineValue v, bs)
    \<and> ms_AdditionalNetworkTags (um_Spec (snd v)) = Some [''blue'', ''green'']"
proof -
  obtain c k where ck: "DeepCopyObject sample_copy_lib sample_object sample_mem = (Ok c, k)"
    by (rule sample_object_copy)
  have "fst ` set [(4, StringsC ['''', ''''])] \<subseteq> {..<length sample_mem}"
    by (simp add: sample_mem_def)
  with deep_copy_isolated [OF sample_copy_lib_copies sample_object_view ck] obtain v bs where
      "object_view c (writes [(4, StringsC ['''', ''''])] k) = Some (MachineValue v, bs)"
      "ms_AdditionalNetworkTags (um_Spec (snd v)) = Some [''blue'', ''green'']"
    by fastforce
  with ck show ?thesis
    by blast
qed

text \<open>C30: Deep copies are type safe: on an object all of whose pointers lead to variables of their
  static types, the method returns, never panics, unless the interface is nil; the copy is well typed
  again, has the dynamic type of the original or is nil, and every object that was well typed still
  is, with the same value.\<close>

theorem deep_copy_well_typed:
  assumes "lib_copies L" and "object_view ob h \<noteq> None"
  shows "case DeepCopyObject L ob h of
      (Ok c, k) \<Rightarrow> object_view c k \<noteq> None \<and> dynamic_type c \<in> {''nil'', dynamic_type ob}
        \<and> (\<forall>x. object_view x h \<noteq> None \<longrightarrow> object_view x k = object_view x h)
    | (Err e, k) \<Rightarrow> False
    | (Panic m, k) \<Rightarrow> ob = NilObject"
proof (cases "ob = NilObject")
  case True
  then show ?thesis
    by (simp add: DeepCopyObject_def panic_def)
next
  case False
  obtain v as where "object_view ob h = Some (v, as)"
    using assms(2) by auto
  from copiedI [OF assms(1) this False] obtain c hs bs where c: "DeepCopyObject L ob h = (Ok c, h @ hs)"
      "object_view c (h @ hs) = Some (v, bs)" "c = NilObject \<or> dynamic_type c = dynamic_type ob"
    by (auto simp: copied_def)
  moreover have "object_view x (h @ hs) = object_view x h" if "object_view x h \<noteq> None" for x
    using that viewer.old [OF viewer_object [OF assms(1)], of x h] by auto
  ultimately show ?thesis
    by (auto simp: dynamic_type_def)
qed

theorem deep_copy_well_typed_witness:
  "\<exists>c k. DeepCopyObject sample_copy_lib sample_object sample_mem = (Ok c, k) \<and> object_view c k \<noteq> None
    \<and> object_view sample_object k = object_view sample_object sample_mem"
proof -
  obtain c k where "DeepCopyObject sample_copy_lib sample_object sample_mem = (Ok c, k)"
    by (rule sample_object_copy)
  moreover have "object_view sample_object sample_mem \<noteq> None"
    by (simp add: sample_object_view)
  ultimately show ?thesis
    using deep_copy_well_typed [OF sample_copy_lib_copies, of sample_object sample_mem] by auto
qed

end
