(* ===== verification/Persistence.thy ===== *)
theory Persistence
  imports Uhost_Facts Uk8s_Service
begin

text \<open>
  What of an object survives being written to the Kubernetes API and read back. The structs of
  \<open>api/v1alpha3/types.go\<close> carry a JSON name in the tag of each field. \<open>marshal\<close> and \<open>unmarshal\<close> follow
  the rules of \<open>encoding/json\<close> on structs of strings with \<open>omitempty\<close> tags: an empty field is left out,
  and fields of one struct that have the same name in their tags are all dropped, silently.
\<close>

section \<open>Structs of strings as JSON objects\<close>

definition marshal :: "string list \<Rightarrow> string list \<Rightarrow> (string \<times> string) list" where
  "marshal tags vals = filter (\<lambda>(t, v). count_list tags t = 1 \<and> v \<noteq> '''') (zip tags vals)"

definition unmarshal :: "string list \<Rightarrow> (string \<times> string) list \<Rightarrow> string list" where
  "unmarshal tags obj = map (\<lambda>t. if count_list tags t = 1
     then (case map_of obj t of Some v \<Rightarrow> v | None \<Rightarrow> '''') else '''') tags"

definition stored :: "string list \<Rightarrow> string list \<Rightarrow> string list" where
  "stored tags vals = unmarshal tags (marshal tags vals)"

text \<open>Only a field whose tag is its own survives.\<close>

lemma map_of_unique:
  "count_list (map fst ps) t = 1 \<Longrightarrow> Q t \<Longrightarrow> (t, v) \<in> set ps
    \<Longrightarrow> map_of (filter (\<lambda>(t, v). Q t \<and> v \<noteq> '''') ps) t = (if v = '''' then None else Some v)"
proof (induction ps)
  case (Cons p ps)
  show ?case
  proof (cases "fst p = t")
    case True
    then have absent: "t \<notin> fst ` set ps"
      using Cons.prems(1) by (simp add: count_list_0_iff)
    then have "p = (t, v)"
      using True Cons.prems(3) by (cases p) (auto simp: image_iff)
    moreover have "map_of (filter (\<lambda>(t, v). Q t \<and> v \<noteq> '''') ps) t = None"
      using absent by (force simp: map_of_eq_None_iff)
    ultimately show ?thesis
      using Cons.prems(2) by simp
  next
    case False
    then show ?thesis
      using Cons by (cases p) auto
  qed
qed simp

lemma stored_fields:
  assumes "length vals = length tags"
  shows "stored tags vals = map2 (\<lambda>t v. if count_list tags t = 1 then v else '''') tags vals"
proof (rule nth_equalityI)
  show "length (stored tags vals) = length (map2 (\<lambda>t v. if count_list tags t = 1 then v else '''') tags vals)"
    using assms by (simp add: stored_def unmarshal_def)
next
  fix i assume "i < length (stored tags vals)"
  then have i: "i < length tags"
    by (simp add: stored_def unmarshal_def)
  then have "(tags ! i, vals ! i) \<in> set (zip tags vals)"
    using assms by (force simp: set_zip)
  then have "map_of (marshal tags vals) (tags ! i) = (if vals ! i = '''' then None else Some (vals ! i))"
    if "count_list tags (tags ! i) = 1"
    unfolding marshal_def using that assms map_of_unique [of "zip tags vals" "tags ! i" "\<lambda>t. count_list tags t = 1" "vals ! i"]
    by simp
  then show "stored tags vals ! i = map2 (\<lambda>t v. if count_list tags t = 1 then v else '''') tags vals ! i"
    using i assms by (simp add: stored_def unmarshal_def)
qed

lemma distinct_count: "distinct xs \<Longrightarrow> x \<in> set xs \<Longrightarrow> count_list xs x = 1"
  by (induction xs) auto

lemma stored_distinct:
  assumes "distinct tags" and "length vals = length tags"
  shows "stored tags vals = vals"
proof (rule nth_equalityI)
  fix i assume "i < length (stored tags vals)"
  then have "i < length tags" "count_list tags (tags ! i) = 1"
    using assms by (simp_all add: stored_fields distinct_count)
  then show "stored tags vals ! i = vals ! i"
    using assms(2) by (simp add: stored_fields)
qed (use assms(2) in \<open>simp add: stored_fields\<close>)

section \<open>The structs of strings\<close>

definition Instance_tags :: "string list" where
  "Instance_tags = [''instanceId'', ''privateIP'', ''publicIP'', ''instanceType'', ''zone'', ''zone'']"

definition Instance_fields :: "Instance \<Rightarrow> string list" where
  "Instance_fields i = [inst_InstanceId i, inst_PrivateIP i, inst_PublicIP i, inst_InstanceType i, inst_Zone i, inst_Name i]"

definition Instance_of :: "string list \<Rightarrow> Instance" where
  "Instance_of vs = \<lparr>inst_InstanceId = vs ! 0, inst_PrivateIP = vs ! 1, inst_PublicIP = vs ! 2,
     inst_InstanceType = vs ! 3, inst_Zone = vs ! 4, inst_Name = vs ! 5\<rparr>"

definition Group_tags :: "string list" where
  "Group_tags = [''groupName'', ''groupId'']"

definition Group_fields :: "Group \<Rightarrow> string list" where
  "Group_fields g = [grp_GroupName g, grp_GroupId g]"

definition Group_of :: "string list \<Rightarrow> Group" where
  "Group_of vs = \<lparr>grp_GroupName = vs ! 0, grp_GroupId = vs ! 1\<rparr>"

definition Firewall_tags :: "string list" where
  "Firewall_tags = [''firewallId'', ''description'', ''firewallName'', ''vpcId'', ''creationTime'', ''firewallType'']"

definition Firewall_fields :: "Firewall \<Rightarrow> string list" where
  "Firewall_fields f = [fw_FirewallId f, fw_Description f, fw_FirewallName f, fw_VpcId f, fw_CreationTime f, fw_FirewallType f]"

definition Firewall_of :: "string list \<Rightarrow> Firewall" where
  "Firewall_of vs = \<lparr>fw_FirewallId = vs ! 0, fw_Description = vs ! 1, fw_FirewallName = vs ! 2,
     fw_VpcId = vs ! 3, fw_CreationTime = vs ! 4, fw_FirewallType = vs ! 5\<rparr>"

text \<open>Written to the API and read back.\<close>

definition persist_Instance :: "Instance \<Rightarrow> Instance" where
  "persist_Instance i = Instance_of (stored Instance_tags (Instance_fields i))"

definition persist_Group :: "Group \<Rightarrow> Group" where
  "persist_Group g = Group_of (stored Group_tags (Group_fields g))"

definition persist_Firewall :: "Firewall \<Rightarrow> Firewall" where
  "persist_Firewall f = Firewall_of (stored Firewall_tags (Firewall_fields f))"

lemma persist_Group: "persist_Group g = g"
  by (simp add: persist_Group_def stored_distinct Group_tags_def Group_fields_def Group_of_def)

lemma persist_Firewall: "persist_Firewall f = f"
  by (simp add: persist_Firewall_def stored_distinct Firewall_tags_def Firewall_fields_def Firewall_of_def)

lemma persist_Instance: "persist_Instance i = i\<lparr>inst_Zone := '''', inst_Name := ''''\<rparr>"
  by (simp add: persist_Instance_def stored_fields Instance_tags_def Instance_fields_def Instance_of_def)

section \<open>A later pass works on what was stored\<close>

definition reloaded :: "'w st \<Rightarrow> 'w st" where
  "reloaded s = upd_status (\<lambda>x. x\<lparr>cst_Bastion := map_option persist_Instance (cst_Bastion x),
     cst_Group := persist_Group (cst_Group x)\<rparr>) s"

text \<open>C31: The group and the firewall of a cluster survive being stored and read back; the bastion loses
  its zone and its name, whose fields have the same JSON name. A later pass therefore registers the
  cluster with an empty bastion zone, and terminates the bastion with requests for an empty zone.\<close>

theorem bastion_zone_not_stored:
  "persist_Group g = g \<and> persist_Firewall f = f \<and> persist_Instance i = i\<lparr>inst_Zone := '''', inst_Name := ''''\<rparr>
   \<and> cc_BastionZone (create_capu_req S (ucluster (reloaded s)) now p q) \<in> {None, Some ''''}
   \<and> (\<exists>cs. calls (snd (TerminateBastion S (reloaded s))) = calls s @ cs
        \<and> list_all (\<lambda>x. \<exists>iid. uhost_del_sends (ucluster s) iid '''' x) cs)"
proof (intro conjI persist_Group persist_Firewall persist_Instance)
  show "cc_BastionZone (create_capu_req S (ucluster (reloaded s)) now p q) \<in> {None, Some ''''}"
    by (cases "cst_Bastion (uc_Status (ucluster s))") (simp_all add: create_capu_req_def reloaded_def persist_Instance)
next
  have same: "uhost_del_sends (ucluster (reloaded s)) = uhost_del_sends (ucluster s)" "calls (reloaded s) = calls s"
    by (simp_all add: fun_eq_iff uhost_del_sends_def reloaded_def persist_Group describe_instance_req_def poweroff_req_def
        terminate_req_def Region_def ProjectId_def GroupName_def)
  show "\<exists>cs. calls (snd (TerminateBastion S (reloaded s))) = calls s @ cs
      \<and> list_all (\<lambda>x. \<exists>iid. uhost_del_sends (ucluster s) iid '''' x) cs"
  proof (cases "cst_Bastion (uc_Status (ucluster s))")
    case None
    then show ?thesis
      by (simp add: TerminateBastion_def prog_simps reloaded_def)
  next
    case (Some b)
    have bastion: "cst_Bastion (uc_Status (ucluster (reloaded s))) = Some (b\<lparr>inst_Zone := '''', inst_Name := ''''\<rparr>)"
      using Some by (simp add: reloaded_def persist_Instance)
    obtain r t where t: "terminateUHost S (inst_InstanceId b) '''' (reloaded s) = (r, t)"
      by fastforce
    from obtainingD [OF obtaining_terminateUHost t] obtain cs where "calls t = calls s @ cs"
      "list_all (uhost_del_sends (ucluster s) (inst_InstanceId b) '''') cs"
      by (auto simp: same)
    then show ?thesis
      using bastion t unfolding TerminateBastion_def bind_gets
      by (auto simp: bind_def modify_run ret_run same split: result.split elim: list.pred_mono_strong)
  qed
qed

end
