(* ===== verification/Teardown.thy ===== *)
theory Teardown
  imports Convergence Deletion_Properties
begin

text \<open>
  Deleting a cluster to the end: against a cloud that carries out the deletions, or answers that
  there is nothing to delete, one pass sends every deletion there is to send and removes the
  finalizer. The business group is the exception: its second deletion is an error.
\<close>

section \<open>A cloud that deletes\<close>

text \<open>The answer is a success, or the one error code that the code takes for "does not exist".\<close>

definition tolerated :: "('q, 'r, 'w) api \<Rightarrow> int \<Rightarrow> bool" where
  "tolerated f code \<longleftrightarrow> (\<forall>q w. rp_err (fst (f q w)) = None \<or> rp_code (fst (f q w)) = code)"

lemma toleratedD: "tolerated f code \<Longrightarrow> rp_err (fst (f q w)) = None \<or> rp_code (fst (f q w)) = code"
  by (simp add: tolerated_def)

text \<open>
  Instances do what they are told: \<open>stage w i\<close> says how far the instance \<open>i\<close> is in the world \<open>w\<close>.
  Powering off brings it down, at once or after up to 20 further descriptions; terminating removes it.
  A description takes at most a second, lists the instance until it is gone, and shows it stopped when
  it is down.
\<close>

datatype power_state = Up | Stopping nat | Down | Gone

fun next_stage :: "power_state \<Rightarrow> power_state" where
  "next_stage (Stopping 0) = Down"
| "next_stage (Stopping (Suc k)) = Stopping k"
| "next_stage x = x"

definition going_down :: "nat \<Rightarrow> power_state \<Rightarrow> bool" where
  "going_down n x \<longleftrightarrow> x = Down \<or> (\<exists>k\<le>n. x = Stopping k)"

definition obedient :: "'w Service \<Rightarrow> ('w \<Rightarrow> string \<Rightarrow> power_state) \<Rightarrow> bool" where
  "obedient S stage \<longleftrightarrow> (\<forall>c i zone w.
     (let a = sdk_DescribeUHostInstance (uhostClient S) (describe_instance_req c zone [i]) w in
       rp_err (fst a) = None \<and> rp_took (fst a) \<le> 1000 \<and> stage (snd a) i = next_stage (stage w i)
       \<and> (rp_body (fst a) = []) = (stage w i = Gone)
       \<and> (stage w i = Down \<longrightarrow> uh_State (hd (rp_body (fst a))) = StateStopped (lib S)))
     \<and> (let b = sdk_PoweroffUHostInstance (uhostClient S) (poweroff_req c i zone) w in
       rp_err (fst b) = None \<and> (stage w i \<noteq> Gone \<longrightarrow> going_down 20 (stage (snd b) i)))
     \<and> (let d = sdk_TerminateUHostInstance (uhostClient S) (terminate_req c i zone) w in
       rp_err (fst d) = None \<and> stage (snd d) i = Gone))"

text \<open>
  All machines are gone, finalizers are removed in place, instances are obedient, the requests about
  the group and the UK8S cluster succeed, and the other deletions succeed or say that there is nothing
  to delete.
\<close>

definition cooperative_teardown :: "'w Service \<Rightarrow> ('w \<Rightarrow> string \<Rightarrow> power_state) \<Rightarrow> bool" where
  "cooperative_teardown S stage \<longleftrightarrow>
     (\<forall>q w. IsNotFound (rp_err (fst (kube_GetUCloudMachine (kube S) q w))))
     \<and> lib_RemoveFinalizer (lib S) = remove_in_place
     \<and> obedient S stage
     \<and> tolerated (sdk_DeleteULB (ulbClient S)) 63059 \<and> tolerated (sdk_DeleteNATGW (vpcClient S)) 54002
     \<and> tolerated (sdk_DeleteSubnet (vpcClient S)) 8039 \<and> tolerated (sdk_DeleteVPC (vpcClient S)) 58103
     \<and> (\<forall>r. rs_RetCode r = 0 \<longrightarrow> answers S (cd_SearchBusinessGroupResource (http S)) r (\<lambda>_. True))
     \<and> answers S (cd_DeleteBusinessGroup (http S)) zero_ResponseBase (\<lambda>_. True)
     \<and> answers S (cd_DeleteCAPUCluster (http S)) zero_ResponseBase (\<lambda>_. True)"

section \<open>Each deletion succeeds\<close>

lemma obedientD:
  assumes "obedient S stage"
  shows "rp_err (fst (sdk_DescribeUHostInstance (uhostClient S) (describe_instance_req c zone [i]) w)) = None"
    and "rp_took (fst (sdk_DescribeUHostInstance (uhostClient S) (describe_instance_req c zone [i]) w)) \<le> 1000"
    and "stage (snd (sdk_DescribeUHostInstance (uhostClient S) (describe_instance_req c zone [i]) w)) i = next_stage (stage w i)"
    and "(rp_body (fst (sdk_DescribeUHostInstance (uhostClient S) (describe_instance_req c zone [i]) w)) = [])
      = (stage w i = Gone)"
    and "stage w i = Down \<Longrightarrow> uh_State (hd (rp_body (fst (sdk_DescribeUHostInstance (uhostClient S)
      (describe_instance_req c zone [i]) w)))) = StateStopped (lib S)"
    and "rp_err (fst (sdk_PoweroffUHostInstance (uhostClient S) (poweroff_req c i zone) w)) = None"
    and "stage w i \<noteq> Gone \<Longrightarrow> going_down 20 (stage (snd (sdk_PoweroffUHostInstance (uhostClient S) (poweroff_req c i zone) w)) i)"
    and "rp_err (fst (sdk_TerminateUHostInstance (uhostClient S) (terminate_req c i zone) w)) = None"
    and "stage (snd (sdk_TerminateUHostInstance (uhostClient S) (terminate_req c i zone) w)) i = Gone"
  using assms unfolding obedient_def Let_def by blast+

lemma wait_round:
  assumes ob: "obedient S stage" and down: "going_down n (stage (world s) i)" and tm: "\<not> tick tm" "clock s + 1000 < fires_at tm"
    and again: "\<And>u. stage (world s) i \<noteq> Down \<Longrightarrow> stage (world u) i = next_stage (stage (world s) i)
      \<Longrightarrow> clock u \<le> clock s + 11000
      \<Longrightarrow> \<exists>left v. poll S (describe_instance_req c zone [i]) (judge_stopped S i) raise 10000 tm u = (Ok ((), left), v)"
  shows "\<exists>left u. poll S (describe_instance_req c zone [i]) (judge_stopped S i) raise 10000 tm s = (Ok ((), left), u)"
proof -
  define req where "req = describe_instance_req c zone [i]"
  define a where "a = sdk_DescribeUHostInstance (uhostClient S) req (world s)"
  define u where "u = sent (CallDescribeUHostInstance req) (rp_took (fst a)) (snd a) s"
  note cloud = obedientD [OF ob, where i = i and zone = zone and c = c and w = "world s", folded req_def, folded a_def]
  have "rp_body (fst a) \<noteq> []"
    using down cloud(4) by (auto simp: going_down_def)
  then obtain h hs where h: "rp_body (fst a) = h # hs"
    by (cases "rp_body (fst a)") auto
  show ?thesis
  proof (cases "uh_State h = StateStopped (lib S)")
    case True
    then show ?thesis
      using h cloud(1) by (subst poll.simps) (simp add: Let_def judge_stopped_def flip: req_def a_def)
  next
    case False
    then have "stage (world s) i \<noteq> Down"
      using cloud(5) h by auto
    moreover have "stage (world (u\<lparr>clock := clock u + 10000\<rparr>)) i = next_stage (stage (world s) i)"
      "clock (u\<lparr>clock := clock u + 10000\<rparr>) \<le> clock s + 11000"
      using cloud(2,3) by (simp_all add: u_def)
    ultimately obtain left v where "poll S req (judge_stopped S i) raise 10000 tm (u\<lparr>clock := clock u + 10000\<rparr>) = (Ok ((), left), v)"
      using again unfolding req_def by blast
    moreover have "\<not> ticked (clock u) tm"
      using tm cloud(2) by (simp add: ticked_def u_def)
    ultimately show ?thesis
      using False h cloud(1) by (subst poll.simps) (simp add: Let_def judge_stopped_def flip: req_def a_def u_def)
  qed
qed

text \<open>The wait for the power to be off ends in time: a round takes at most 11 s, and there are at most 22.\<close>

lemma wait_stopped_succeeds:
  assumes ob: "obedient S stage" and "going_down n (stage (world s) i)" and "\<not> tick tm"
    and "clock s + n * 11000 + 12000 < fires_at tm"
  shows "\<exists>left u. poll S (describe_instance_req c zone [i]) (judge_stopped S i) raise 10000 tm s = (Ok ((), left), u)"
  using assms(2,4)
proof (induction n arbitrary: s)
  case 0
  have down: "\<exists>left v. poll S (describe_instance_req c zone [i]) (judge_stopped S i) raise 10000 tm u = (Ok ((), left), v)"
    if "stage (world u) i = Down" "clock u + 1000 < fires_at tm" for u
    by (rule wait_round [OF ob _ assms(3) that(2), where n = 0]) (use that(1) in \<open>simp_all add: going_down_def\<close>)
  show ?case
    by (rule wait_round [OF ob "0.prems"(1) assms(3)]) (use "0.prems" in \<open>auto simp: going_down_def intro!: down\<close>)
next
  case (Suc n)
  have "going_down n (next_stage (stage (world s) i))"
    using Suc.prems(1) by (cases "stage (world s) i" rule: next_stage.cases) (auto simp: going_down_def)
  then show ?case
    by (intro wait_round [OF ob Suc.prems(1) assms(3)]) (use Suc.prems(2) in \<open>auto intro!: Suc.IH\<close>)
qed

lemma termination_succeeds:
  assumes ob: "obedient S stage" obtains t where "terminateUHost S i zone s = (Ok (), t)"
proof -
  define req where "req = describe_instance_req (ucluster s) zone [i]"
  define see where "see w = sdk_DescribeUHostInstance (uhostClient S) req w" for w
  note cloud = obedientD [OF ob, where i = i and zone = zone and c = "ucluster s", folded req_def see_def]
  have gone: "\<exists>left u. poll S req (judge_deleted i) raise 10000 tm v = (Ok ((), left), u)"
    if "stage (world v) i = Gone" for v tm
    using that cloud(1,4) [of "world v"] by (subst poll.simps) (simp add: Let_def judge_deleted_def flip: see_def)
  define s1 where "s1 = sent (CallDescribeUHostInstance req) (rp_took (fst (see (world s)))) (snd (see (world s))) s"
  define b where "b = sdk_PoweroffUHostInstance (uhostClient S) (poweroff_req (ucluster s) i zone) (world s1)"
  define s2 where "s2 = sent (CallPoweroffUHostInstance (poweroff_req (ucluster s) i zone)) (rp_took (fst b)) (snd b) s1"
  have "\<exists>t. terminateUHost S i zone s = (Ok (), t)"
  proof (cases "stage (world s) i = Gone")
    case True
    then show ?thesis
      using cloud(1,4) [of "world s"] by (simp add: terminateUHost_run Let_def flip: req_def see_def)
  next
    case False
    then have "next_stage (stage (world s) i) \<noteq> Gone"
      by (cases "stage (world s) i" rule: next_stage.cases) simp_all
    then have "going_down 20 (stage (world s2) i)"
      using cloud(3) [of "world s"] cloud(7) by (simp add: s2_def b_def s1_def)
    then obtain left s3 where s3: "poll S req (judge_stopped S i) raise 10000 (NewTimer (clock s2) five_minutes) s2
        = (Ok ((), left), s3)"
      using wait_stopped_succeeds [OF ob, of 20 s2 i "NewTimer (clock s2) five_minutes" "ucluster s" zone]
      by (auto simp: NewTimer_def five_minutes_def req_def)
    define d where "d = sdk_TerminateUHostInstance (uhostClient S) (terminate_req (ucluster s) i zone) (world s3)"
    define s4 where "s4 = sent (CallTerminateUHostInstance (terminate_req (ucluster s) i zone)) (rp_took (fst d)) (snd d) s3"
    have "stage (world s4) i = Gone"
      using cloud(9) by (simp add: s4_def d_def)
    then obtain left' s5 where "poll S req (judge_deleted i) raise 10000 (Reset (clock s4) five_minutes left) s4
        = (Ok ((), left'), s5)"
      using gone by blast
    moreover have "rp_err (fst b) = None" "rp_err (fst d) = None"
      using cloud(6,8) by (simp_all add: b_def d_def)
    moreover have "rp_body (fst (see (world s))) \<noteq> []"
      using False cloud(4) by simp
    ultimately show ?thesis
      using cloud(1) [of "world s"] s3
      by (simp add: terminateUHost_run Let_def flip: req_def see_def s1_def b_def s2_def d_def s4_def)
  qed
  then show thesis
    using that by blast
qed

lemma bastion_succeeds:
  assumes "obedient S stage" obtains t where "TerminateBastion S s = (Ok (), t)"
proof (cases "cst_Bastion (uc_Status (ucluster s))")
  case None
  then show thesis
    using that by (simp add: TerminateBastion_def prog_simps)
next
  case (Some b)
  obtain u where "terminateUHost S (inst_InstanceId b) (inst_Zone b) s = (Ok (), u)"
    using assms by (rule termination_succeeds)
  with Some show thesis
    using that by (cases "inst_InstanceId b = ''''") (simp_all add: TerminateBastion_def prog_simps bind_def)
qed

lemma deleteULB_succeeds:
  assumes "cooperative_teardown S stage" obtains t where "deleteULB S uid s = (Ok (), t)"
proof -
  have "tolerated (sdk_DeleteULB (ulbClient S)) 63059"
    using assms by (simp add: cooperative_teardown_def)
  from toleratedD [OF this] have "\<exists>t. deleteULB S uid s = (Ok (), t)"
    by (auto simp: deleteULB_run Let_def split: option.split)
  then show thesis
    using that by blast
qed

lemma deletions_succeed:
  assumes "cooperative_teardown S stage"
  shows "\<exists>t. DeleteULB S s = (Ok (), t)" and "\<exists>t. DeleteNat S s = (Ok (), t)"
    and "\<exists>t. DeleteSubnet S s = (Ok (), t)" and "\<exists>t. DeleteVPC S s = (Ok (), t)"
    and "\<exists>t. DeleteGroup S s = (Ok (), t)" and "\<exists>t. DeleteCAPUCluster S s = (Ok (), t)"
proof -
  have nat: "tolerated (sdk_DeleteNATGW (vpcClient S)) 54002" and subnet: "tolerated (sdk_DeleteSubnet (vpcClient S)) 8039"
    and vpc: "tolerated (sdk_DeleteVPC (vpcClient S)) 58103"
    and group: "answers S (cd_DeleteBusinessGroup (http S)) zero_ResponseBase (\<lambda>_. True)"
    and capu: "answers S (cd_DeleteCAPUCluster (http S)) zero_ResponseBase (\<lambda>_. True)"
    using assms by (simp_all add: cooperative_teardown_def)
  show "\<exists>t. DeleteULB S s = (Ok (), t)"
    by (rule deleteULB_succeeds [OF assms, of "ulb_LoadBalancerId (ulb_of (ucluster s))" s])
      (simp add: DeleteULB_def prog_simps Let_def bind_Ok)
  show "\<exists>t. DeleteNat S s = (Ok (), t)"
    using toleratedD [OF nat, of "delete_nat_req (ucluster s)" "world s"] by (auto simp: DeleteNat_run split: option.split)
  show "\<exists>t. DeleteSubnet S s = (Ok (), t)"
    using toleratedD [OF subnet, of "delete_subnet_req (ucluster s)" "world s"] by (auto simp: DeleteSubnet_run)
  show "\<exists>t. DeleteVPC S s = (Ok (), t)"
    using toleratedD [OF vpc, of "delete_vpc_req (ucluster s)" "world s"] by (auto simp: DeleteVPC_run)
  obtain res t where "doRequest S (cd_DeleteBusinessGroup (http S)) CallDeleteBusinessGroup
      (delete_group_req (ucluster s) (clock s)) zero_ResponseBase s = (Ok res, t)"
    using group by (rule answers_doRequest)
  then show "\<exists>t. DeleteGroup S s = (Ok (), t)"
    by (simp add: DeleteGroup_def prog_simps try_else_def)
  obtain res t where "doRequest S (cd_DeleteCAPUCluster (http S)) CallDeleteCAPUCluster
      (delete_capu_req (ucluster s) (clock s)) zero_ResponseBase s = (Ok res, t)"
    using capu by (rule answers_doRequest)
  then show "\<exists>t. DeleteCAPUCluster S s = (Ok (), t)"
    by (simp add: DeleteCAPUCluster_def prog_simps try_else_def)
qed

lemma cleaning_succeeds:
  assumes coop: "cooperative_teardown S stage" shows "\<exists>t. CleanResourceInGroup S s = (Ok (), t)"
proof (cases "grp_GroupId (group_of (ucluster s)) = ''''")
  case True
  then show ?thesis
    by (simp add: CleanResourceInGroup_def prog_simps)
next
  case False
  define cd where "cd = cd_SearchBusinessGroupResource (http S)"
  have search: "\<exists>r' u. doRequest S cd CallSearchBusinessGroupResource q r v = (Ok r', u) \<and> rs_RetCode r' = 0"
    if "rs_RetCode r = 0" for q r v
  proof -
    have "answers S cd r (\<lambda>_. True)"
      using coop that by (simp add: cooperative_teardown_def cd_def)
    then obtain r' u where "doRequest S cd CallSearchBusinessGroupResource q r v = (Ok r', u)"
      by (rule answers_doRequest)
    then show ?thesis
      using doRequest_OkE(1) [of S cd CallSearchBusinessGroupResource q r v r' u] by blast
  qed
  have "\<exists>infos u. search_group S (ucluster s) s = (Ok infos, u)"
  proof -
    have "rs_RetCode zero_SearchBusinessGroupResourceResponse = 0"
      by (simp add: zero_SearchBusinessGroupResourceResponse_def)
    then obtain r u where r: "doRequest S cd CallSearchBusinessGroupResource (search_group_req (ucluster s) (clock s) None)
        zero_SearchBusinessGroupResourceResponse s = (Ok r, u)" "rs_RetCode r = 0"
      using search by blast
    obtain r' v where "doRequest S cd CallSearchBusinessGroupResource
        (search_group_req (ucluster s) (clock s) (Some (Itoa (sbgr_TotalCount r)))) r u = (Ok r', v)"
      using search [OF r(2)] by blast
    with r(1) show ?thesis
      by (simp add: search_group_def prog_simps try_else_def flip: cd_def)
  qed
  then obtain infos u where u: "search_group S (ucluster s) s = (Ok infos, u)"
    by blast
  have "\<exists>t. for_each is (clean_resource S) v = (Ok (), t)" for "is" v
  proof (induction "is" arbitrary: v)
    case (Cons i "is")
    have ob: "obedient S stage"
      using coop by (simp add: cooperative_teardown_def)
    obtain x where x: "deleteULB S (ri_Id i) v = (Ok (), x)"
      using coop by (rule deleteULB_succeeds)
    obtain y where y: "terminateUHost S (ri_Id i) (ri_ZoneId i) v = (Ok (), y)"
      using ob by (rule termination_succeeds)
    have "\<exists>w. clean_resource S i v = (Ok (), w)"
      by (simp add: clean_resource_def try_else_def ret_run x y)
    then show ?case
      using Cons.IH by (auto simp: bind_Ok)
  qed (simp add: ret_run)
  then show ?thesis
    using False u by (simp add: CleanResourceInGroup_def prog_simps bind_Ok)
qed

section \<open>A whole pass\<close>

lemma machines_gone:
  assumes "cooperative_teardown S stage" obtains t where "machines_remain S k view aliased s = (Ok False, t)"
proof -
  have gone: "IsNotFound (rp_err (fst (kube_GetUCloudMachine (kube S) q w)))" for q w
    using assms unfolding cooperative_teardown_def by blast
  have "\<exists>t. machines_remain S k view aliased s = (Ok False, t)"
  proof (induction k arbitrary: view aliased s)
    case (Suc k)
    show ?case
      by (auto simp: Let_def prog_simps gone case_prod_beta split: option.split intro: Suc.IH)
  qed (simp add: prog_simps)
  then show thesis
    using that by blast
qed

lemma machines_remain_distinct:
  assumes "machines_remain S k view aliased s = (r, t)" and "lib_RemoveFinalizer (lib S) = remove_in_place"
    and "distinct (om_Finalizers (uc_Meta (ucluster s)))"
  shows "distinct (om_Finalizers (uc_Meta (ucluster t)))"
  using assms(1,3)
proof (induction k arbitrary: view aliased s)
  case (Suc k)
  then show ?case
    by (auto simp: Let_def prog_simps assms(2) remove_in_place_def split: if_splits intro: Suc.IH)
qed (simp add: prog_simps)

text \<open>C8: a deletion comes to an end. When all machines are gone, instances are described, go down when they
  are powered off (within 20 descriptions) and are removed when they are terminated, the requests about
  the group and the UK8S cluster succeed, and the other deletions succeed or are answered with the
  code for "does not exist" that the code tolerates, then one pass over a cluster without double
  finalizers requeues nothing, removes the finalizer of the cluster, and sends every deletion there is
  to send: those of C2, of the recorded bastion, load balancer, gateway, subnet, VPC, group and UK8S
  cluster as far as the cluster owns them, and of the load balancers and hosts listed in the group.
  Finalizers are removed in place, as the library does it.\<close>

theorem one_pass_deletes:
  assumes coop: "cooperative_teardown S stage" and dist: "distinct (om_Finalizers (uc_Meta (ucluster s)))"
  shows "\<exists>t cs. cluster_reconcileDelete S s = (Ok no_requeue, t)
    \<and> ClusterFinalizer \<notin> set (om_Finalizers (uc_Meta (ucluster t)))
    \<and> (let lookups = map (lookup S) (looked_up (om_Finalizers (uc_Meta (ucluster s)))) in
        calls t = calls s @ lookups @ cs \<and> deletion_trace S (ucluster s) (after_calls S lookups (world s)) cs)"
proof -
  have lib: "lib_RemoveFinalizer (lib S) = remove_in_place" and ob: "obedient S stage"
    using coop by (simp_all add: cooperative_teardown_def)
  obtain u where u: "machines_remain S (length (om_Finalizers (uc_Meta (ucluster s))))
      (om_Finalizers (uc_Meta (ucluster s))) True s = (Ok False, u)"
    using coop by (rule machines_gone)
  obtain u0 where u0: "TerminateBastion S u = (Ok (), u0)"
    using ob by (rule bastion_succeeds)
  moreover obtain u1 where "DeleteULB S u0 = (Ok (), u1)" using deletions_succeed(1) [OF coop] by blast
  moreover obtain u2 where "DeleteNat S u1 = (Ok (), u2)" using deletions_succeed(2) [OF coop] by blast
  moreover obtain u3 where "CleanResourceInGroup S u2 = (Ok (), u3)" using cleaning_succeeds [OF coop] by blast
  moreover obtain u4 where "DeleteSubnet S u3 = (Ok (), u4)" using deletions_succeed(3) [OF coop] by blast
  moreover obtain u5 where "DeleteVPC S u4 = (Ok (), u5)" using deletions_succeed(4) [OF coop] by blast
  moreover obtain u6 where "DeleteGroup S u5 = (Ok (), u6)" using deletions_succeed(5) [OF coop] by blast
  moreover obtain v where "DeleteCAPUCluster S u6 = (Ok (), v)" using deletions_succeed(6) [OF coop] by blast
  ultimately have v: "delete_resources S u = (Ok (), v)"
    by (simp add: delete_resources_def prog_simps try_else_def)
  define t where "t = upd_cluster_meta (remove_finalizer S ClusterFinalizer) v"
  have run: "cluster_reconcileDelete S s = (Ok no_requeue, t)"
    by (simp add: cluster_reconcileDelete_run u v t_def)
  have "distinct (om_Finalizers (uc_Meta (ucluster u)))"
    using u lib dist by (rule machines_remain_distinct)
  moreover have "uc_Meta (ucluster v) = uc_Meta (ucluster u)"
    using delete_resources_sends [OF v] but_bastion_parts(1) by blast
  ultimately have "ClusterFinalizer \<notin> set (om_Finalizers (uc_Meta (ucluster t)))"
    by (simp add: t_def remove_finalizer_def lib remove_in_place_def Let_def set_remove1_eq)
  then show ?thesis
    using run deletion_pass_trace [OF lib dist run] unfolding Let_def by blast
qed

section \<open>The group is deleted once\<close>

text \<open>
  The group \<open>gid\<close> does not exist in the worlds \<open>gone\<close>: there every request to delete this group is
  answered with an error, and no call leads out of these worlds (a new group gets a new identifier).
\<close>

definition group_missing :: "'w Service \<Rightarrow> string \<Rightarrow> ('w \<Rightarrow> bool) \<Rightarrow> bool" where
  "group_missing S gid gone \<longleftrightarrow>
     (\<forall>q w. gone w \<longrightarrow> dbg_BusinessId q = Some gid
        \<longrightarrow> http_answer S (cd_DeleteBusinessGroup (http S)) zero_ResponseBase q w = None)
     \<and> (\<forall>x w. gone w \<longrightarrow> gone (after_call S x w))"

lemma gone_stays:
  assumes "group_missing S gid gone" and "replayed S s t" and "gone (world s)"
  shows "gone (world t)"
proof -
  have "gone w \<Longrightarrow> gone (after_calls S cs w)" for cs w
    using assms(1) by (induction cs arbitrary: w) (auto simp: group_missing_def)
  then show ?thesis
    using assms(2,3) by (auto simp: replayed_def)
qed

lemma DeleteGroup_missing:
  assumes "group_missing S (grp_GroupId (group_of (ucluster s))) gone" and "gone (world s)"
    and "grp_GroupId (group_of (ucluster s)) \<noteq> ''''"
  shows "DeleteGroup S s \<noteq> (Ok a, t)"
proof
  assume "DeleteGroup S s = (Ok a, t)"
  then obtain r u where "doRequest S (cd_DeleteBusinessGroup (http S)) CallDeleteBusinessGroup
      (delete_group_req (ucluster s) (clock s)) zero_ResponseBase s = (Ok r, u)"
    using assms(3) by (auto simp: DeleteGroup_def prog_simps elim!: try_else_OkE)
  from doRequest_answer(1) [OF this] show False
    using assms(1,2) unfolding group_missing_def by (simp add: delete_group_req_def)
qed

text \<open>
  \<open>early\<close>: a program that sends nothing of the last rank, leaves the group as it is and does not leave
  the worlds without it. \<open>blocked\<close>: one that moreover does not succeed while the group \<open>g\<close> is recorded
  and gone.
\<close>

definition early :: "('w \<Rightarrow> bool) \<Rightarrow> ('w st, 'a) prog \<Rightarrow> bool" where
  "early gone m \<longleftrightarrow> (\<forall>s r t. m s = (r, t) \<longrightarrow> group_of (ucluster t) = group_of (ucluster s)
     \<and> (gone (world s) \<longrightarrow> gone (world t))
     \<and> (\<exists>cs. calls t = calls s @ cs \<and> list_all (\<lambda>x. deletion_rank x \<noteq> 4) cs))"

definition blocked :: "('w \<Rightarrow> bool) \<Rightarrow> Group \<Rightarrow> ('w st, 'a) prog \<Rightarrow> bool" where
  "blocked gone g m \<longleftrightarrow> (\<forall>s r t. m s = (r, t) \<longrightarrow> group_of (ucluster s) = g \<longrightarrow> gone (world s)
     \<longrightarrow> (\<forall>a. r \<noteq> Ok a) \<and> group_of (ucluster t) = g \<and> gone (world t)
       \<and> (\<exists>cs. calls t = calls s @ cs \<and> list_all (\<lambda>x. deletion_rank x \<noteq> 4) cs))"

lemma earlyI:
  assumes "group_missing S gid gone" and "staged lo hi m" and "hi < 4" and "keeps (replayed S) m"
    and "\<And>s r t. m s = (r, t) \<Longrightarrow> group_of (ucluster t) = group_of (ucluster s)"
  shows "early gone m"
  unfolding early_def
proof (intro allI impI conjI)
  fix s r t
  assume run: "m s = (r, t)"
  then show "group_of (ucluster t) = group_of (ucluster s)"
    by (rule assms(5))
  show "gone (world t)" if "gone (world s)"
    using assms(1) keepsD [OF assms(4) run] that by (rule gone_stays)
  obtain cs where "calls t = calls s @ cs" "list_all (\<lambda>x. lo \<le> deletion_rank x \<and> deletion_rank x \<le> hi) cs"
    using assms(2) run by (rule stagedD)
  then show "\<exists>cs. calls t = calls s @ cs \<and> list_all (\<lambda>x. deletion_rank x \<noteq> 4) cs"
    using assms(3) by (fastforce simp: list_all_iff)
qed

lemma blocked_after:
  assumes "early gone m" and "\<And>a. blocked gone g (k a)" shows "blocked gone g (try_else m f k)"
  unfolding blocked_def
proof (intro allI impI)
  fix s r t
  assume run: "try_else m f k s = (r, t)" and group: "group_of (ucluster s) = g" and gone: "gone (world s)"
  obtain q u where q: "m s = (q, u)"
    by fastforce
  then obtain cs where u: "group_of (ucluster u) = g" "gone (world u)" "calls u = calls s @ cs"
      "list_all (\<lambda>x. deletion_rank x \<noteq> 4) cs"
    using assms(1) group gone unfolding early_def by metis
  show "(\<forall>a. r \<noteq> Ok a) \<and> group_of (ucluster t) = g \<and> gone (world t)
      \<and> (\<exists>cs. calls t = calls s @ cs \<and> list_all (\<lambda>x. deletion_rank x \<noteq> 4) cs)"
  proof (cases q)
    case (Ok a)
    with run q have "k a u = (r, t)"
      by (simp add: try_else_def)
    with assms(2) [of a] u(1,2) obtain ds where "\<forall>a. r \<noteq> Ok a" "group_of (ucluster t) = g" "gone (world t)"
        "calls t = calls u @ ds" "list_all (\<lambda>x. deletion_rank x \<noteq> 4) ds"
      unfolding blocked_def by metis
    then show ?thesis
      using u by simp
  qed (use run q u in \<open>auto simp: try_else_def\<close>)
qed

lemma blocked_missing:
  assumes "early gone m" and "\<And>s t a. group_of (ucluster s) = g \<Longrightarrow> gone (world s) \<Longrightarrow> m s \<noteq> (Ok a, t)"
  shows "blocked gone g (try_else m f k)"
  using assms unfolding blocked_def early_def
  by (auto simp: try_else_def split: prod.splits result.splits)

lemma early_steps:
  assumes "group_missing S gid gone"
  shows "early gone (TerminateBastion S)" "early gone (DeleteULB S)" "early gone (DeleteNat S)"
    "early gone (CleanResourceInGroup S)" "early gone (DeleteSubnet S)" "early gone (DeleteVPC S)"
    "early gone (DeleteGroup S)"
proof -
  note I = earlyI [OF assms]
  show "early gone (TerminateBastion S)"
    by (rule I [OF staged_TerminateBastion _ replayed_TerminateBastion])
      (auto dest: TerminateBastion_frame(4) simp: group_of_def)
  show "early gone (DeleteULB S)"
    by (rule I [OF ulb_del.staged_step [of 0] _ replayed_deletions(1)]) (auto dest: ulb_del.keeps_cluster)
  show "early gone (DeleteNat S)"
    by (rule I [OF nat_del.staged_step [of 0] _ replayed_deletions(2)]) (auto dest: nat_del.keeps_cluster)
  show "early gone (CleanResourceInGroup S)"
    by (rule I [OF staged_CleanResourceInGroup _ replayed_CleanResourceInGroup])
      (auto dest: obtainingD [OF obtaining_CleanResourceInGroup _ refl])
  show "early gone (DeleteSubnet S)"
    by (rule I [OF subnet_del.staged_step [of 1] _ replayed_deletions(3)]) (auto dest: subnet_del.keeps_cluster)
  show "early gone (DeleteVPC S)"
    by (rule I [OF vpc_del.staged_step [of 2] _ replayed_deletions(4)]) (auto dest: vpc_del.keeps_cluster)
  show "early gone (DeleteGroup S)"
    by (rule I [OF group_del.staged_step [of 3] _ replayed_deletions(5)]) (auto dest: group_del.keeps_cluster)
qed

lemma blocked_resources:
  assumes missing: "group_missing S (grp_GroupId (group_of (ucluster s))) gone" and "gone (world s)"
    and run: "delete_resources S s = (r, t)" and group: "grp_GroupId (group_of (ucluster s)) \<noteq> ''''"
  shows "(\<forall>a. r \<noteq> Ok a) \<and> group_of (ucluster t) = group_of (ucluster s) \<and> gone (world t)
    \<and> (\<exists>cs. calls t = calls s @ cs \<and> list_all (\<lambda>x. deletion_rank x \<noteq> 4) cs)"
proof -
  define g where "g = group_of (ucluster s)"
  have "DeleteGroup S u \<noteq> (Ok a, v)" if "group_of (ucluster u) = g" "gone (world u)" for u v a
    using DeleteGroup_missing [of S u gone a v] missing group that by (simp add: g_def)
  note last = blocked_missing [OF early_steps(7) [OF missing] this]
  note blocks = early_steps(1-6) [OF missing, THEN blocked_after]
  have "blocked gone g (
     try_else (TerminateBastion S) (step_failed ''error deleting bastion for UCloudCluster %s/%s'' c) (\<lambda>_.
     try_else (DeleteULB S) (step_failed ''error deleting load balancer for UCloudCluster %s/%s'' c) (\<lambda>_.
     try_else (DeleteNat S) (step_failed ''error deleting nat gateway for UCloudCluster %s/%s'' c) (\<lambda>_.
     try_else (CleanResourceInGroup S)
       (step_failed ''error cleaning resource in business group for UCloudCluster %s/%s'' c) (\<lambda>_.
     try_else (DeleteSubnet S) (step_failed ''error deleting vpc subnet for UCloudCluster %s/%s'' c) (\<lambda>_.
     try_else (DeleteVPC S) (step_failed ''error deleting vpc for UCloudCluster %s/%s'' c) (\<lambda>_.
     try_else (DeleteGroup S) (step_failed ''error deleting group for UCloudCluster %s/%s'' c) k)))))))" for c k
    by (intro blocks last)
  then show ?thesis
    using run [unfolded delete_resources_def bind_gets] assms(2) g_def unfolding blocked_def by metis
qed

text \<open>C29: Deleting the group is not repeatable. Let the recorded group not exist any more, because the pass
  that deleted it failed to delete the UK8S cluster: every request to delete it is then answered with an
  error. However a deletion pass ends, it does not succeed, it keeps the identifier of the group, and it
  does not ask for the UK8S cluster to be deleted; and since the group stays gone, the same holds of
  every later pass.\<close>

theorem missing_group_blocks_deletion:
  assumes missing: "group_missing S (grp_GroupId (group_of (ucluster s))) gone" and "gone (world s)"
    and "grp_GroupId (group_of (ucluster s)) \<noteq> ''''" and "cluster_reconcileDelete S s = (r, t)"
  shows "r \<noteq> Ok no_requeue \<and> group_of (ucluster t) = group_of (ucluster s) \<and> gone (world t)
    \<and> (\<exists>cs. calls t = calls s @ cs \<and> list_all (\<lambda>x. deletion_rank x \<noteq> 4) cs)"
proof -
  obtain q u where q: "machines_remain S (length (om_Finalizers (uc_Meta (ucluster s))))
      (om_Finalizers (uc_Meta (ucluster s))) True s = (q, u)"
    by fastforce
  obtain cs b where u: "group_of (ucluster u) = group_of (ucluster s)" "calls u = calls s @ cs"
      "list_all get_machine_call cs" "q = Ok b"
    using machines_remain_frame [OF q] by (auto simp: group_of_def)
  have gone: "gone (world u)"
    using missing keepsD [OF replayed_machines_remain q] assms(2) by (rule gone_stays)
  have cs: "list_all (\<lambda>x. deletion_rank x \<noteq> 4) cs"
    using u(3) by (auto elim!: list.pred_mono_strong elim: get_machine_call.elims)
  obtain p v where v: "delete_resources S u = (p, v)"
    by fastforce
  with blocked_resources [where gone = gone and s = u, OF _ gone v] assms(1,3) u(1) obtain ds where "\<forall>a. p \<noteq> Ok a" "gone (world v)"
      "group_of (ucluster v) = group_of (ucluster u)" "calls v = calls u @ ds" "list_all (\<lambda>x. deletion_rank x \<noteq> 4) ds"
    by auto
  then show ?thesis
    using assms(4) q v u cs gone
    by (auto simp: cluster_reconcileDelete_run no_requeue_def requeue_seconds_def split: if_splits result.splits)
qed

section \<open>Witnesses\<close>

text \<open>In the sample a world is the state of the one instance.\<close>

definition sample_power :: "nat \<Rightarrow> string \<Rightarrow> power_state" where
  "sample_power w i = (if w = 0 then Up else if w = 1 then Down else Gone)"

lemma sample_cooperative_teardown: "cooperative_teardown sample sample_power"
proof -
  have "obedient sample sample_power"
    by (auto simp: obedient_def going_down_def Let_def sample_power_def describe_host_def describe_instance_req_def sample_host_def)
  then show ?thesis
    by (simp add: cooperative_teardown_def tolerated_def answers_def http_outcome_def zero_ResponseBase_def)
qed

text \<open>A deleted cluster with a group and a running bastion.\<close>

definition guarded :: "nat st" where
  "guarded = (upd_status (\<lambda>x. x\<lparr>cst_Group := \<lparr>grp_GroupName = ''capu'', grp_GroupId = ''group-1''\<rparr>,
     cst_Bastion := Some \<lparr>inst_InstanceId = ''uhost-1'', inst_PrivateIP = '''', inst_PublicIP = '''',
       inst_InstanceType = ''uhost'', inst_Zone = '''', inst_Name = ''''\<rparr>\<rparr>) deleting)\<lparr>world := 0\<rparr>"

lemma guarded_fields:
  "om_Finalizers (uc_Meta (ucluster guarded)) = [ClusterFinalizer, ''m1.ucloudmachine'']" "world guarded = 0"
  "calls guarded = []" "grp_GroupId (group_of (ucluster guarded)) = ''group-1''"
  by (simp_all add: guarded_def deleting_fields group_of_def)

theorem one_pass_deletes_witness:
  "\<exists>t. cluster_reconcileDelete sample guarded = (Ok no_requeue, t) \<and> ClusterFinalizer \<notin> set (om_Finalizers (uc_Meta (ucluster t)))
     \<and> (\<exists>cs. calls t = CallGetMachine ''default'' ''m1'' # cs \<and> deletion_trace sample (ucluster guarded) 0 cs)"
proof -
  have "distinct (om_Finalizers (uc_Meta (ucluster guarded)))"
    by (simp add: guarded_fields ClusterFinalizer_def)
  from one_pass_deletes [OF sample_cooperative_teardown this] show ?thesis
    by (simp add: guarded_fields deleting_lookups Let_def)
qed

text \<open>
  A cloud whose only group is \<open>group-1\<close>: it is there in the world 0, and deleting it leads to the world
  1, where deleting it is answered with an error code.
\<close>

definition one_group :: "nat Service" where
  "one_group = sample\<lparr>uhostClient := sample_uhost\<lparr>sdk_CreateUHostInstance := const_api [],
       sdk_PoweroffUHostInstance := const_api (), sdk_TerminateUHostInstance := const_api ()\<rparr>,
     http := sample_http\<lparr>
       http_BuildCredentialedQuery := (\<lambda>c q. concat (map snd q)),
       http_Send := (\<lambda>h w. (reply_ok (Some \<lparr>hres_StatusCode = 200,
          hres_Body = (if hr_QueryString h = ''group-1'' \<and> w = 1 then ''missing'' else ''{}'')\<rparr>),
          if hr_QueryString h = ''group-1'' then 1 else w)),
       cd_DeleteBusinessGroup := \<lparr>cd_ToQueryMap = (\<lambda>q. Inr [(''BusinessId'', the (dbg_BusinessId q))]),
         cd_Unmarshal = (\<lambda>b r. Inr (if b = ''missing'' then r\<lparr>rs_RetCode := 54001\<rparr> else r))\<rparr>\<rparr>\<rparr>"

lemma one_group_missing: "group_missing one_group ''group-1'' (\<lambda>w. w = 1)"
proof -
  have "after_call one_group x 1 = 1" for x
    by (cases x) (simp_all add: one_group_def sample_defs const_api_def describe_host_def after_http_def split: sum.split)
  then show ?thesis
    by (simp add: group_missing_def http_answer_def buildHTTPRequest_def one_group_def sample_defs http_outcome_def
        zero_ResponseBase_def)
qed

theorem missing_group_blocks_deletion_witness:
  "fst (cluster_reconcileDelete one_group (guarded\<lparr>world := 1\<rparr>)) \<noteq> Ok no_requeue
     \<and> http_answer one_group (cd_DeleteBusinessGroup (http one_group)) zero_ResponseBase
         (delete_group_req (ucluster guarded) 0) 0 \<noteq> None"
proof -
  obtain r t where run: "cluster_reconcileDelete one_group (guarded\<lparr>world := 1\<rparr>) = (r, t)"
    by fastforce
  have gid: "grp_GroupId (group_of (ucluster (guarded\<lparr>world := 1\<rparr>))) = ''group-1''"
    by (simp add: guarded_fields)
  have "r \<noteq> Ok no_requeue"
    by (rule conjunct1 [OF missing_group_blocks_deletion [where gone = "\<lambda>w. w = 1", OF _ _ _ run]])
      (use one_group_missing gid in simp_all)
  moreover have "http_answer one_group (cd_DeleteBusinessGroup (http one_group)) zero_ResponseBase
      (delete_group_req (ucluster guarded) 0) 0 \<noteq> None"
    by (simp add: http_answer_def buildHTTPRequest_def one_group_def sample_defs http_outcome_def zero_ResponseBase_def)
  ultimately show ?thesis
    unfolding run fst_conv by (rule conjI)
qed

end
