(* ===== verification/Startup.thy ===== *)
theory Startup
  imports Convergence Machine_Properties
begin

text \<open>
  Starting a machine to the end: against a cloud that serves the requests of a machine and whose
  instances run, one pass over a machine that has all it needs leaves it ready, registered and with a
  provider identifier, whether its instance exists already or not, and the next pass creates nothing.
  Reading the identifier back is library code: \<open>noderefutil.NewProviderID\<close> accepts \<open>scheme://...\<close> on
  one line and takes what is behind the last slash, if there is something.
\<close>

section \<open>A cloud whose instances run\<close>

text \<open>No line breaks; and for the name of an instance, something, without slashes.\<close>

definition one_line :: "string \<Rightarrow> bool" where
  "one_line x \<longleftrightarrow> CHR 0x0A \<notin> set x"

definition plain_name :: "string \<Rightarrow> bool" where
  "plain_name x \<longleftrightarrow> x \<noteq> '''' \<and> CHR ''/'' \<notin> set x \<and> one_line x"

definition reads_provider_ids :: "'w Service \<Rightarrow> bool" where
  "reads_provider_ids S \<longleftrightarrow> (\<forall>c i. one_line (ProjectId c) \<and> one_line (uh_Zone i) \<and> plain_name (uh_UHostId i)
     \<longrightarrow> lib_ParseProviderID (lib S) (provider_id c i) = Some (uh_UHostId i))"

definition running_host :: "'w Service \<Rightarrow> UHostInstanceSet \<Rightarrow> bool" where
  "running_host S h \<longleftrightarrow> uh_State h = StateRunning (lib S) \<and> one_line (uh_Zone h) \<and> plain_name (uh_UHostId h)"

definition cooperative_hosts :: "'w Service \<Rightarrow> bool" where
  "cooperative_hosts S \<longleftrightarrow>
     served (kube_PatchMachine (kube S)) (\<lambda>_. True) \<and> served (kube_PatchCluster (kube S)) (\<lambda>_. True)
     \<and> served (kube_GetSecret (kube S)) (\<lambda>d. map_of d ''value'' \<noteq> None)
     \<and> served (sdk_CreateUHostInstance (uhostClient S)) (\<lambda>ids. ids \<noteq> [])
     \<and> served (sdk_DescribeUHostInstance (uhostClient S)) (\<lambda>hs. hs \<noteq> [] \<and> running_host S (hd hs))
     \<and> served (sdk_DescribeVServer (ulbClient S)) (\<lambda>vs. vs \<noteq> [])
     \<and> served (sdk_AllocateBackend (ulbClient S)) (\<lambda>_. True)
     \<and> answers S (cd_CreateCAPUHost (http S)) zero_ResponseBase (\<lambda>_. True)
     \<and> reads_provider_ids S"

text \<open>
  What a machine needs: no recorded failure, a ready infrastructure, bootstrap data, a version and a
  zone, an image for the zone, a password in base64, and a credential; and a project whose identifier
  is one line.
\<close>

definition startable :: "'w Service \<Rightarrow> UCloudCluster \<Rightarrow> UCloudMachine \<Rightarrow> bool" where
  "startable S c m \<longleftrightarrow>
     mst_FailureReason (um_Status m) = None \<and> mst_FailureMessage (um_Status m) = None
     \<and> cl_InfrastructureReady (sv_Cluster S) \<and> ma_DataSecretName (sv_Machine S) \<noteq> None
     \<and> ma_Version (sv_Machine S) \<noteq> None \<and> Zone S m \<noteq> '''' \<and> getImageId c m (Zone S m) \<noteq> ''''
     \<and> ms_SSHPassword (um_Spec m) \<noteq> '''' \<and> DecodeString (ms_SSHPassword (um_Spec m)) \<noteq> None
     \<and> (\<exists>cr d. sv_Credential S = Some cr \<and> lib_MarshalCredential (lib S) cr = Inr d) \<and> one_line (ProjectId c)"

section \<open>Each step succeeds\<close>

lemma registration_succeeds:
  assumes "cooperative_hosts S"
  obtains t where "register_finalizers S s = (Ok (), t)"
    and "umachine t = marked_machine S (umachine s)" and "ucluster t = marked_cluster S (umachine s) (ucluster s)"
proof -
  have "served (kube_PatchMachine (kube S)) (\<lambda>_. True)" "served (kube_PatchCluster (kube S)) (\<lambda>_. True)"
    using assms by (simp_all add: cooperative_hosts_def)
  then have "\<exists>t. register_finalizers S s = (Ok (), t) \<and> umachine t = marked_machine S (umachine s)
      \<and> ucluster t = marked_cluster S (umachine s) (ucluster s)"
    by (simp add: register_finalizers_run Let_def servedD(1) marked_machine_def marked_cluster_def)
  then show thesis
    using that by blast
qed

lemma described_host:
  assumes "cooperative_hosts S"
  obtains h hs where "rp_err (fst (sdk_DescribeUHostInstance (uhostClient S) q w)) = None"
    and "rp_body (fst (sdk_DescribeUHostInstance (uhostClient S) q w)) = h # hs" and "running_host S h"
proof -
  have "served (sdk_DescribeUHostInstance (uhostClient S)) (\<lambda>hs. hs \<noteq> [] \<and> running_host S (hd hs))"
    using assms by (simp add: cooperative_hosts_def)
  from servedD [OF this, of q w] show thesis
    by (cases "rp_body (fst (sdk_DescribeUHostInstance (uhostClient S) q w))") (auto intro: that)
qed

lemma wait_running_succeeds:
  assumes "cooperative_hosts S"
  obtains h t where "wait_running S req s = (Ok h, t)" and "running_host S h"
    and "ucluster t = ucluster s" and "umachine t = umachine s"
proof -
  obtain h hs where "rp_err (fst (sdk_DescribeUHostInstance (uhostClient S) req (world s))) = None"
    "rp_body (fst (sdk_DescribeUHostInstance (uhostClient S) req (world s))) = h # hs" "running_host S h"
    using assms by (rule described_host)
  then have "\<exists>h t. wait_running S req s = (Ok h, t) \<and> running_host S h
      \<and> ucluster t = ucluster s \<and> umachine t = umachine s"
    by (simp add: wait_running_def prog_simps bind_def poll.simps [of S req] Let_def judge_running_def running_host_def)
  then show thesis
    using that by blast
qed

lemma launch_succeeds:
  assumes "cooperative_hosts S"
  obtains h t where "launch_instance S c zone req s = (Ok h, t)" and "running_host S h"
    and "ucluster t = ucluster s" and "umachine t = umachine s"
proof -
  define a where "a = sdk_CreateUHostInstance (uhostClient S) req (world s)"
  have created: "served (sdk_CreateUHostInstance (uhostClient S)) (\<lambda>ids. ids \<noteq> [])"
    using assms by (simp add: cooperative_hosts_def)
  have a: "rp_err (fst a) = None" "rp_body (fst a) \<noteq> []"
    using servedD [OF created] by (simp_all add: a_def)
  define v where "v = sent (CallCreateUHostInstance req) (rp_took (fst a)) (snd a) s"
  obtain h u where u: "wait_running S (describe_instance_req c zone (rp_body (fst a))) v = (Ok h, u)"
      "running_host S h" "ucluster u = ucluster v" "umachine u = umachine v"
    using assms by (rule wait_running_succeeds)
  have "\<exists>t. launch_instance S c zone req s = (Ok h, t) \<and> ucluster t = ucluster v \<and> umachine t = umachine v"
    using a u by (simp add: launch_instance_def bind_invoke bind_index bind_emit ret_run bind_Ok flip: a_def v_def)
  then have "\<exists>t. launch_instance S c zone req s = (Ok h, t) \<and> ucluster t = ucluster s \<and> umachine t = umachine s"
    by (simp add: v_def)
  then show thesis
    using that u(2) by blast
qed

lemma creation_succeeds:
  assumes coop: "cooperative_hosts S" and start: "startable S (ucluster s) (umachine s)"
  obtains h t where "CreateInstance S s = (Ok h, t)" and "running_host S h"
    and "ucluster t = ucluster s" and "umachine t = umachine s"
proof -
  define c m where "c = ucluster s" and "m = umachine s"
  obtain secret version pass cr d where env: "ma_DataSecretName (sv_Machine S) = Some secret"
      "ma_Version (sv_Machine S) = Some version" "DecodeString (ms_SSHPassword (um_Spec m)) = Some pass"
      "sv_Credential S = Some cr" "lib_MarshalCredential (lib S) cr = Inr d"
      "Zone S m \<noteq> ''''" "getImageId c m (Zone S m) \<noteq> ''''" "ms_SSHPassword (um_Spec m) \<noteq> ''''"
    using start by (auto simp: startable_def c_def m_def)
  have secrets: "served (kube_GetSecret (kube S)) (\<lambda>d. map_of d ''value'' \<noteq> None)"
    using coop by (simp add: cooperative_hosts_def)
  have "\<exists>data u. GetBootstrapData S s = (Ok data, u) \<and> ucluster u = c \<and> umachine u = m"
    using servedD [OF secrets]
    by (auto simp: GetBootstrapData_def env(1) prog_simps if_err_run c_def m_def split: option.split)
  then obtain data u where u: "GetBootstrapData S s = (Ok data, u)" "ucluster u = c" "umachine u = m"
    by blast
  obtain h t where t: "launch_instance S c (Zone S m) (create_instance_req S c m (Zone S m)
      (getImageId c m (Zone S m)) pass (user_data data d version)) u = (Ok h, t)" "running_host S h"
      "ucluster t = ucluster u" "umachine t = umachine u"
    using coop by (rule launch_succeeds)
  have "CreateInstance S s = (Ok h, t)"
    by (simp add: CreateInstance_def bind_gets try_or_def u(1) pick_zone_def bind_ret bind_deref env Let_def t(1)
        flip: c_def m_def)
  with t u that show thesis
    by (simp add: c_def m_def)
qed

lemma startable_marked:
  "startable S (marked_cluster S n c) (marked_machine S m) \<longleftrightarrow> startable S c m"
proof -
  have "Zone S (marked_machine S m) = Zone S m"
    by (simp add: Zone_def split: option.split)
  moreover have "getImageId (marked_cluster S n c) (marked_machine S m) z = getImageId c m z" for z
    by (simp add: getImageId_def Region_def marked_cluster_def split: option.split)
  moreover have "ProjectId (marked_cluster S n c) = ProjectId c"
    by (simp add: ProjectId_def marked_cluster_def)
  ultimately show ?thesis
    by (simp add: startable_def)
qed

lemma instance_found:
  assumes coop: "cooperative_hosts S" and start: "startable S (ucluster s) (umachine s)"
  obtains h t where "find_or_create_instance S s = (Ok (Some h), t)" and "running_host S h"
    and "ucluster t = ucluster s" and "umachine t = umachine s"
proof (cases "GetInstanceID S (umachine s)")
  case None
  obtain h t where "CreateInstance S s = (Ok h, t)" "running_host S h"
      "ucluster t = ucluster s" "umachine t = umachine s"
    using coop start by (rule creation_succeeds)
  with None that show thesis
    by (simp add: find_or_create_run)
next
  case (Some iid)
  define req where "req = describe_instance_req (ucluster s) (GetZone (umachine s)) [iid]"
  obtain h hs where "rp_err (fst (sdk_DescribeUHostInstance (uhostClient S) req (world s))) = None"
      "rp_body (fst (sdk_DescribeUHostInstance (uhostClient S) req (world s))) = h # hs" "running_host S h"
    using coop by (rule described_host)
  then have "\<exists>t. find_or_create_instance S s = (Ok (Some h), t) \<and> ucluster t = ucluster s \<and> umachine t = umachine s"
    by (simp add: find_or_create_run Some Let_def flip: req_def)
  then show thesis
    using that \<open>running_host S h\<close> by blast
qed

lemma AddRealServer_succeeds:
  assumes "cooperative_hosts S" obtains t where "AddRealServer S h s = (Ok (), t)"
    and "ucluster t = ucluster s" and "umachine t = umachine s"
proof -
  have vs: "served (sdk_DescribeVServer (ulbClient S)) (\<lambda>vs. vs \<noteq> [])" and ab: "served (sdk_AllocateBackend (ulbClient S)) (\<lambda>_. True)"
    using assms by (simp_all add: cooperative_hosts_def)
  have "\<exists>t. AddRealServer S h s = (Ok (), t) \<and> ucluster t = ucluster s \<and> umachine t = umachine s"
    using servedD(2) [OF vs]
    by (simp add: AddRealServer_def prog_simps if_err_run servedD(1) [OF vs] servedD(1) [OF ab] Let_def split: list.split)
  then show thesis
    using that by blast
qed

lemma CreateCAPUHost_succeeds:
  assumes "cooperative_hosts S" obtains t where "CreateCAPUHost S s = (Ok (), t)"
    and "um_Spec (umachine t) = um_Spec (umachine s)" and "ucluster t = ucluster s"
    and "um_Status (umachine t) = (if mst_ClusterId (um_Status (umachine s)) \<noteq> '''' then um_Status (umachine s)
       else (um_Status (umachine s))\<lparr>mst_ClusterId := cst_ClusterId (uc_Status (ucluster s))\<rparr>)"
proof (cases "mst_ClusterId (um_Status (umachine s)) = ''''")
  case False
  then show thesis
    using that [of s] by (simp add: CreateCAPUHost_def prog_simps)
next
  case True
  have "answers S (cd_CreateCAPUHost (http S)) zero_ResponseBase (\<lambda>_. True)"
    using assms by (simp add: cooperative_hosts_def)
  then obtain res u where "doRequest S (cd_CreateCAPUHost (http S)) CallCreateCAPUHost
      (create_host_req S (ucluster s) (umachine s) (clock s)) zero_ResponseBase s = (Ok res, u)" "ucluster u = ucluster s"
    by (rule answers_doRequest)
  moreover from this(1) have "umachine u = umachine s"
    using doRequest_sent by fastforce
  ultimately show thesis
    using that True by (simp add: CreateCAPUHost_def prog_simps try_else_def)
qed

lemma provider_id_read:
  assumes "cooperative_hosts S" and "running_host S i" and "one_line (ProjectId c)"
  shows "lib_ParseProviderID (lib S) (provider_id c i) = Some (uh_UHostId i)"
  using assms by (simp add: cooperative_hosts_def reads_provider_ids_def running_host_def)

lemma reconcile_instance_succeeds:
  assumes coop: "cooperative_hosts S" and i: "running_host S i" and project: "one_line (ProjectId (ucluster s))"
  obtains t where "reconcile_instance S i s = (Ok no_requeue, t)"
    and "mst_Ready (um_Status (umachine t))" and "mst_InstanceStatus (um_Status (umachine t)) = StateRunning (lib S)"
    and "um_Spec (umachine t) = (um_Spec (umachine s))\<lparr>ms_ProviderID := Some (provider_id (ucluster s) i)\<rparr>"
    and "mst_ClusterId (um_Status (umachine t)) = (if mst_ClusterId (um_Status (umachine s)) \<noteq> ''''
       then mst_ClusterId (um_Status (umachine s)) else cst_ClusterId (uc_Status (ucluster s)))"
    and "mst_FailureReason (um_Status (umachine t)) = mst_FailureReason (um_Status (umachine s))"
    and "mst_FailureMessage (um_Status (umachine t)) = mst_FailureMessage (um_Status (umachine s))"
    and "ucluster t = ucluster s"
proof -
  define u where "u = upd_machine (record_instance S (ucluster s) i) s"
  define v where "v = upd_machine SetReady u"
  have run: "uh_State i = StateRunning (lib S)"
    using i by (simp add: running_host_def)
  have parse: "lib_ParseProviderID (lib S) (provider_id (ucluster s) i) = Some (uh_UHostId i)"
    using coop i project by (rule provider_id_read)
  have logs: "log_instance_id S u = (Ok (), u)"
    using parse by (auto simp: log_instance_run u_def GetInstanceID_def GetProviderID_def record_instance_fields split: option.split)
  obtain w where w: "act_on_state S i u = (Ok None, w)" "ucluster w = ucluster v" "umachine w = umachine v"
  proof (cases "IsControlPlane S")
    case True
    obtain w where "AddRealServer S (uh_UHostId i) v = (Ok (), w)" "ucluster w = ucluster v" "umachine w = umachine v"
      using coop by (rule AddRealServer_succeeds)
    then show thesis
      using True by (intro that [of w]) (simp_all add: act_on_state_def run bind_Ok logs modify_run ret_run flip: v_def)
  next
    case False
    then show thesis
      by (intro that [of v]) (simp_all add: act_on_state_def run bind_Ok logs modify_run ret_run flip: v_def)
  qed
  obtain t where t: "CreateCAPUHost S w = (Ok (), t)" "um_Spec (umachine t) = um_Spec (umachine w)" "ucluster t = ucluster w"
      "um_Status (umachine t) = (if mst_ClusterId (um_Status (umachine w)) \<noteq> '''' then um_Status (umachine w)
       else (um_Status (umachine w))\<lparr>mst_ClusterId := cst_ClusterId (uc_Status (ucluster w))\<rparr>)"
    using coop by (rule CreateCAPUHost_succeeds)
  have "reconcile_instance S i s = (Ok no_requeue, t)"
    using w(1) t(1) by (simp add: reconcile_instance_def bind_gets bind_modify bind_Ok try_else_def ret_run flip: u_def)
  moreover have "um_Spec (umachine v) = (um_Spec (umachine s))\<lparr>ms_ProviderID := Some (provider_id (ucluster s) i)\<rparr>"
    "mst_Ready (um_Status (umachine v))" "mst_InstanceStatus (um_Status (umachine v)) = uh_State i"
    "mst_ClusterId (um_Status (umachine v)) = mst_ClusterId (um_Status (umachine s))"
    "mst_FailureReason (um_Status (umachine v)) = mst_FailureReason (um_Status (umachine s))"
    "mst_FailureMessage (um_Status (umachine v)) = mst_FailureMessage (um_Status (umachine s))" "ucluster v = ucluster s"
    by (simp_all add: v_def u_def record_instance_def machine_setters)
  ultimately show thesis
    using t(2-4) w(2,3) by (intro that [of t]) (simp_all add: run)
qed

section \<open>A whole pass\<close>

lemma machine_pass_succeeds:
  assumes coop: "cooperative_hosts S" and start: "startable S (ucluster s) (umachine s)"
  obtains t i where "machine_reconcile S s = (Ok no_requeue, t)"
    and "mst_Ready (um_Status (umachine t))" and "mst_InstanceStatus (um_Status (umachine t)) = StateRunning (lib S)"
    and "ms_ProviderID (um_Spec (umachine t)) = Some (provider_id (ucluster s) i)" and "running_host S i"
    and "GetInstanceID S (umachine t) = Some (uh_UHostId i)"
    and "cst_ClusterId (uc_Status (ucluster s)) \<noteq> '''' \<Longrightarrow> mst_ClusterId (um_Status (umachine t)) \<noteq> ''''"
proof -
  obtain u where u: "register_finalizers S s = (Ok (), u)" "umachine u = marked_machine S (umachine s)"
      "ucluster u = marked_cluster S (umachine s) (ucluster s)"
    using coop by (rule registration_succeeds)
  have "startable S (ucluster u) (umachine u)"
    using start by (simp add: u startable_marked)
  then obtain h v where v: "find_or_create_instance S u = (Ok (Some h), v)" "running_host S h"
      "ucluster v = ucluster u" "umachine v = umachine u"
    using instance_found [OF coop] by metis
  have project: "one_line (ProjectId (ucluster v))"
    using start v(3) u(3) by (simp add: startable_def ProjectId_def marked_cluster_def)
  obtain t where t: "reconcile_instance S h v = (Ok no_requeue, t)"
    "mst_Ready (um_Status (umachine t))" "mst_InstanceStatus (um_Status (umachine t)) = StateRunning (lib S)"
    "um_Spec (umachine t) = (um_Spec (umachine v))\<lparr>ms_ProviderID := Some (provider_id (ucluster v) h)\<rparr>"
    "mst_ClusterId (um_Status (umachine t)) = (if mst_ClusterId (um_Status (umachine v)) \<noteq> ''''
       then mst_ClusterId (um_Status (umachine v)) else cst_ClusterId (uc_Status (ucluster v)))"
    "mst_FailureReason (um_Status (umachine t)) = mst_FailureReason (um_Status (umachine v))"
    "mst_FailureMessage (um_Status (umachine t)) = mst_FailureMessage (um_Status (umachine v))"
    by (rule reconcile_instance_succeeds [OF coop v(2)]) (use start project in blast)+
  have provider: "provider_id (ucluster v) h = provider_id (ucluster s) h"
    by (simp add: provider_id_def ProjectId_def v(3) u(3) marked_cluster_def)
  show thesis
  proof (rule that [of t h])
    show "machine_reconcile S s = (Ok no_requeue, t)"
      using start u(1) v(1) t(1) by (auto simp: machine_reconcile_run startable_def)
    show pid: "ms_ProviderID (um_Spec (umachine t)) = Some (provider_id (ucluster s) h)"
      by (simp add: t(4) provider)
    show "GetInstanceID S (umachine t) = Some (uh_UHostId h)"
      using provider_id_read [OF coop v(2)] start by (simp add: GetInstanceID_def GetProviderID_def pid startable_def)
    show "mst_ClusterId (um_Status (umachine t)) \<noteq> ''''" if "cst_ClusterId (uc_Status (ucluster s)) \<noteq> ''''"
      using that by (simp add: t(5) v(3,4) u(2,3) marked_cluster_def)
  qed (rule t(2), rule t(3), rule v(2))
qed

lemma owner_creates_nothing:
  assumes "GetInstanceID S (umachine s) \<noteq> None"
  shows "\<exists>cs. calls (snd (machine_reconcile S s)) = calls s @ cs \<and> filter creates_instance cs = []"
proof -
  obtain q u where q: "register_finalizers S s = (q, u)" by fastforce
  obtain us where us: "calls u = calls s @ us" "filter creates_instance us = []" and um: "umachine u = marked_machine S (umachine s)"
    using register_finalizers_sends [OF q] by auto
  obtain p v where p: "find_or_create_instance S u = (p, v)" by fastforce
  obtain vs where vs: "calls v = calls u @ vs" "filter creates_instance vs = []"
    using creates_find_or_create [OF p] assms by (auto simp: um)
  have rec: "\<exists>ws. calls w = calls v @ ws \<and> filter creates_instance ws = []" if "reconcile_instance S i v = (a, w)" for i a w
    using reconcile_instance_sends [OF that] by (auto simp: list_all_iff filter_empty_conv)
  obtain r t where run: "machine_reconcile S s = (r, t)" by fastforce
  have "t = s \<or> t = u \<or> (\<exists>ws. calls t = calls v @ ws \<and> filter creates_instance ws = [])"
    using run q p by (auto simp: machine_reconcile_run dest!: rec split: result.splits option.splits if_splits)
  then show ?thesis
    using us vs by (auto simp: run)
qed

text \<open>C7: a machine that has all it needs comes up: against a cloud that serves its requests and whose
  instances run, one pass leaves the machine ready, with the provider identifier of a running
  instance, from which the instance's own identifier can be read back, and registered with the UK8S
  cluster, whether it had an instance before or not; and the next pass creates no instance. A provider
  identifier is only taken to be readable if its parts are on one line and the instance's identifier
  is not empty and has no slash, as the library requires.\<close>

theorem one_pass_starts_machine:
  assumes coop: "cooperative_hosts S" and start: "startable S (ucluster s) (umachine s)"
  shows "\<exists>t i. machine_reconcile S s = (Ok no_requeue, t)
    \<and> mst_Ready (um_Status (umachine t)) \<and> mst_InstanceStatus (um_Status (umachine t)) = StateRunning (lib S)
    \<and> running_host S i \<and> ms_ProviderID (um_Spec (umachine t)) = Some (provider_id (ucluster s) i)
    \<and> GetInstanceID S (umachine t) = Some (uh_UHostId i)
    \<and> (cst_ClusterId (uc_Status (ucluster s)) \<noteq> '''' \<longrightarrow> mst_ClusterId (um_Status (umachine t)) \<noteq> '''')
    \<and> (\<exists>cs. calls (snd (machine_reconcile S t)) = calls t @ cs \<and> filter creates_instance cs = [])"
proof -
  obtain t i where t: "machine_reconcile S s = (Ok no_requeue, t)"
    "mst_Ready (um_Status (umachine t))" "mst_InstanceStatus (um_Status (umachine t)) = StateRunning (lib S)"
    "ms_ProviderID (um_Spec (umachine t)) = Some (provider_id (ucluster s) i)" "running_host S i"
    "GetInstanceID S (umachine t) = Some (uh_UHostId i)"
    "cst_ClusterId (uc_Status (ucluster s)) \<noteq> '''' \<Longrightarrow> mst_ClusterId (um_Status (umachine t)) \<noteq> ''''"
    using assms by (rule machine_pass_succeeds) blast
  have "GetInstanceID S (umachine t) \<noteq> None"
    using t(6) by simp
  with t owner_creates_nothing [of S t] show ?thesis
    by blast
qed

text \<open>The sample cloud's instances, always running, and a reader of provider identifiers.\<close>

definition read_provider_id :: "string \<Rightarrow> string option" where
  "read_provider_id p =
     (let scheme = takeWhile (\<lambda>x. x \<noteq> CHR '':'') p; rest = drop (length scheme) p; name = last (Split p (CHR ''/'')) in
      if scheme \<noteq> '''' \<and> take 3 rest = ''://'' \<and> one_line (drop 3 rest) \<and> name \<noteq> '''' then Some name else None)"

lemma last_piece: "c \<notin> set v \<Longrightarrow> last (Split (u @ c # v) c) = v"
proof (induction u)
  case Nil
  then show ?case
    by (simp add: Split_append [of c "[]" v, simplified] Split_no_sep)
next
  case (Cons x u)
  obtain w ws where w: "Split (u @ c # v) c = w # ws"
    by (cases "Split (u @ c # v) c") simp_all
  have "ws \<noteq> []"
    using length_Split [of "u @ c # v" c] by (auto simp: w)
  with Cons w show ?case
    by simp
qed

lemma read_provider_id_made:
  assumes "one_line (ProjectId c)" and "one_line (uh_Zone i)" and "plain_name (uh_UHostId i)"
  shows "read_provider_id (provider_id c i) = Some (uh_UHostId i)"
proof -
  have "provider_id c i = (''ucloud://'' @ ProjectId c @ ''/'' @ uh_Zone i) @ CHR ''/'' # uh_UHostId i"
    by (simp add: provider_id_def)
  then have "last (Split (provider_id c i) (CHR ''/'')) = uh_UHostId i"
    using assms(3) last_piece by (metis plain_name_def)
  then show ?thesis
    using assms by (simp add: read_provider_id_def provider_id_def one_line_def plain_name_def)
qed

definition running_sample :: "nat Service" where
  "running_sample = sample\<lparr>uhostClient := sample_uhost\<lparr>sdk_DescribeUHostInstance := const_api [sample_host 0]\<rparr>,
     lib := (lib sample)\<lparr>lib_ParseProviderID := read_provider_id\<rparr>\<rparr>"

lemma running_sample_parts [simp]:
  "lib running_sample = (lib sample)\<lparr>lib_ParseProviderID := read_provider_id\<rparr>"
  "kube running_sample = kube sample" "http running_sample = http sample"
  "ulbClient running_sample = ulbClient sample" "sv_Machine running_sample = sv_Machine sample"
  "sv_Cluster running_sample = sv_Cluster sample" "sv_Credential running_sample = sv_Credential sample"
  "sdk_CreateUHostInstance (uhostClient running_sample) q w = (reply_ok [''uhost-1''], 0)"
  "sdk_DescribeUHostInstance (uhostClient running_sample) d w = (reply_ok [sample_host 0], w)"
  by (simp_all add: running_sample_def sample_uhost_def const_api_def)

lemma running_sample_request:
  "\<exists>h. buildHTTPRequest running_sample \<lparr>cd_ToQueryMap = to_query, cd_Unmarshal = f\<rparr> q = Inr h"
  by (simp add: buildHTTPRequest_def to_query_def)

lemma running_sample_startable: "startable running_sample (ucluster start) (umachine start)"
proof -
  have pass: "DecodeString ''cGFzc3dvcmQ='' = Some ''password''" by code_simp
  have image: "region_image ''cn-bj2'' ''cn-bj2-02'' = ''uimage-kdwczn''"
    by (simp add: region_image_def region_image_bj2 map_index_def)
  have zone: "Zone running_sample m = ''cn-bj2-02''" for m
    by (simp add: Zone_def)
  show ?thesis
    by (simp add: startable_def zone getImageId_def Region_def image pass start_def sample_cluster_def
        sample_machine_def zero_defs ProjectId_def one_line_def)
qed

theorem one_pass_starts_machine_witness:
  "\<exists>t. machine_reconcile running_sample start = (Ok no_requeue, t) \<and> mst_Ready (um_Status (umachine t))"
proof -
  have "reads_provider_ids running_sample"
    by (simp add: reads_provider_ids_def read_provider_id_made)
  moreover have "running_host running_sample (sample_host 0)"
    by (simp add: running_host_def sample_host_def plain_name_def one_line_def)
  ultimately have "cooperative_hosts running_sample"
    by (simp add: cooperative_hosts_def served_def answers_def http_outcome_def running_sample_request
        zero_ResponseBase_def)
  then show ?thesis
    using one_pass_starts_machine running_sample_startable by blast
qed

end
