(* ===== verification/Workers.thy ===== *)
theory Workers
  imports Machine_Facts Deletion_Properties "HOL-Library.Countable"
begin

text \<open>
  Concurrent workers. \<open>main.go\<close> lets several machines be reconciled at the same time
  (\<open>ucloudmachine-concurrency\<close>), beside the worker of the cluster controller, and all of them write to
  the one cluster object: each adds finalizers to the copy it has fetched or removes some, and its
  scope patches the cluster, on registration and on \<open>Close\<close>. Here the workers share a world and
  interleave at these calls; each keeps the state of its own scope in between.

  The patch helper is library code and a parameter: \<open>Sv b\<close> is the service of a scope whose helper was
  made when the finalizers were \<open>b\<close>, and \<open>stored w\<close> are the finalizers the API server has in the world
  \<open>w\<close>. \<open>merge_patches\<close> is what a JSON merge patch (RFC 7386), which the helper sends, is documented to do
  with a list: it is replaced as a whole if it differs from what the helper was made with, and not
  touched otherwise.
\<close>

section \<open>Merge patches\<close>

definition fins :: "UCloudCluster \<Rightarrow> string list" where
  "fins c = om_Finalizers (uc_Meta c)"

definition merged :: "string list \<Rightarrow> string list \<Rightarrow> string list \<Rightarrow> string list" where
  "merged before after current = (if after = before then current else after)"

definition merge_patches :: "(string list \<Rightarrow> 'w Service) \<Rightarrow> ('w \<Rightarrow> string list) \<Rightarrow> bool" where
  "merge_patches Sv stored \<longleftrightarrow>
     (\<forall>b c w. case kube_PatchCluster (kube (Sv b)) c w of (r, w') \<Rightarrow>
        stored w' = merged b (fins c) (stored w) \<or> rp_err r \<noteq> None \<and> stored w' = stored w)
     \<and> (\<forall>b m w. stored (snd (kube_PatchMachine (kube (Sv b)) m w)) = stored w)
     \<and> (\<forall>b q w. stored (snd (kube_GetUCloudMachine (kube (Sv b)) q w)) = stored w)
     \<and> (\<forall>b f fs. set (lib_AddFinalizer (lib (Sv b)) f fs) = insert f (set fs))"

lemma merge_patchesD:
  assumes "merge_patches Sv stored"
  shows "stored (snd (kube_PatchCluster (kube (Sv b)) c w)) \<in> {merged b (fins c) (stored w), stored w}"
    and "rp_err (fst (kube_PatchCluster (kube (Sv b)) c w)) = None
       \<Longrightarrow> stored (snd (kube_PatchCluster (kube (Sv b)) c w)) = merged b (fins c) (stored w)"
    and "stored (snd (kube_PatchMachine (kube (Sv b)) m w)) = stored w"
    and "stored (snd (kube_GetUCloudMachine (kube (Sv b)) q w)) = stored w"
    and "set (lib_AddFinalizer (lib (Sv b)) f fs) = insert f (set fs)"
proof -
  have "case kube_PatchCluster (kube (Sv b)) c w of (r, w') \<Rightarrow>
      stored w' = merged b (fins c) (stored w) \<or> rp_err r \<noteq> None \<and> stored w' = stored w"
    using assms by (simp add: merge_patches_def)
  then show "stored (snd (kube_PatchCluster (kube (Sv b)) c w)) \<in> {merged b (fins c) (stored w), stored w}"
    and "rp_err (fst (kube_PatchCluster (kube (Sv b)) c w)) = None
       \<Longrightarrow> stored (snd (kube_PatchCluster (kube (Sv b)) c w)) = merged b (fins c) (stored w)"
    by (auto simp: case_prod_beta)
qed (use assms in \<open>unfold merge_patches_def, blast+\<close>)

lemma fins_marked: "fins (marked_cluster S m c) = lib_AddFinalizer (lib S) (machine_finalizer m) (fins c)"
  by (simp add: fins_def marked_cluster_def add_finalizer_def)

section \<open>Interleaved workers\<close>

text \<open>
  At most one worker is at work on an object. While it is, it has the finalizers its helper holds and
  the state of its scope.
\<close>

datatype worker = MachineWorker string | ClusterWorker

record 'w workers =
  wk_world :: 'w
  wk_open :: "worker \<rightharpoonup> string list \<times> 'w st"

definition named :: "worker \<Rightarrow> UCloudMachine \<Rightarrow> bool" where
  "named k m \<longleftrightarrow> (case k of MachineWorker n \<Rightarrow> machine_Name m = n | ClusterWorker \<Rightarrow> True)"

text \<open>
  \<open>fetch\<close> reads the cluster and makes the scope, and \<open>close\<close> is the deferred \<open>Close\<close>. The worker of a
  machine registers (the start of \<open>reconcile\<close>); the worker of the cluster registers, or looks the
  machines up and takes its finalizer away after the deletions. The steps may come in any order
  and any number, so that every run of a reconcile function is among them, wherever it stops. What
  a worker does besides does not write the finalizers and is, with everything else, \<open>outside\<close>.
\<close>

inductive work :: "(string list \<Rightarrow> 'w Service) \<Rightarrow> ('w \<Rightarrow> string list) \<Rightarrow> 'w workers \<Rightarrow> 'w workers \<Rightarrow> bool"
  for Sv stored where
  fetch: "wk_open x k = None \<Longrightarrow> named k (umachine s) \<Longrightarrow> fins (ucluster s) = stored (wk_world x)
    \<Longrightarrow> work Sv stored x (x\<lparr>wk_open := (wk_open x)(k \<mapsto> (fins (ucluster s), s))\<rparr>)"
| register: "wk_open x (MachineWorker n) = Some (b, s)
    \<Longrightarrow> register_finalizers (Sv b) (s\<lparr>world := wk_world x\<rparr>) = (r, t)
    \<Longrightarrow> work Sv stored x (x\<lparr>wk_world := world t, wk_open := (wk_open x)(MachineWorker n \<mapsto> (b, t))\<rparr>)"
| register_cluster: "wk_open x ClusterWorker = Some (b, s)
    \<Longrightarrow> PatchObject (Sv b) (upd_cluster_meta (add_finalizer (Sv b) ClusterFinalizer) (s\<lparr>world := wk_world x\<rparr>)) = (r, t)
    \<Longrightarrow> work Sv stored x (x\<lparr>wk_world := world t, wk_open := (wk_open x)(ClusterWorker \<mapsto> (b, t))\<rparr>)"
| look_up: "wk_open x ClusterWorker = Some (b, s)
    \<Longrightarrow> machines_remain (Sv b) (length (fins (ucluster s))) (fins (ucluster s)) True (s\<lparr>world := wk_world x\<rparr>) = (q, t)
    \<Longrightarrow> work Sv stored x (x\<lparr>wk_world := world t, wk_open := (wk_open x)(ClusterWorker \<mapsto> (b, t))\<rparr>)"
| release: "wk_open x ClusterWorker = Some (b, s)
    \<Longrightarrow> work Sv stored x (x\<lparr>wk_open :=
          (wk_open x)(ClusterWorker \<mapsto> (b, upd_cluster_meta (remove_finalizer (Sv b) ClusterFinalizer) s))\<rparr>)"
| close: "wk_open x k = Some (b, s) \<Longrightarrow> Close (Sv b) (s\<lparr>world := wk_world x\<rparr>) = (r, t)
    \<Longrightarrow> work Sv stored x (x\<lparr>wk_world := world t, wk_open := (wk_open x)(k := None)\<rparr>)"
| outside: "stored w = stored (wk_world x) \<Longrightarrow> work Sv stored x (x\<lparr>wk_world := w\<rparr>)"

text \<open>The finalizer is stored, and every worker at work has it in its copy.\<close>

definition everywhere :: "('w \<Rightarrow> string list) \<Rightarrow> string \<Rightarrow> 'w workers \<Rightarrow> bool" where
  "everywhere stored f x \<longleftrightarrow> f \<in> set (stored (wk_world x)) \<and> (\<forall>k b s. wk_open x k = Some (b, s) \<longrightarrow> f \<in> set (fins (ucluster s)))"

text \<open>The finalizer of a machine that exists: no scope ever finds the machine gone.\<close>

definition machine_exists :: "(string list \<Rightarrow> 'w Service) \<Rightarrow> string \<Rightarrow> bool" where
  "machine_exists Sv f \<longleftrightarrow> HasSuffix f machine_suffix \<and> (\<forall>b. \<not> machine_absent (Sv b) f)"

lemma patch_keeps_finalizer:
  assumes "merge_patches Sv stored" and "f \<in> set (fins c)" and "f \<in> set (stored w)"
  shows "f \<in> set (stored (snd (kube_PatchCluster (kube (Sv b)) c w)))"
  using merge_patchesD(1) [OF assms(1), of b c w] assms(2,3) by (auto simp: merged_def split: if_splits)

lemma register_keeps_finalizer:
  assumes mp: "merge_patches Sv stored" and run: "register_finalizers (Sv b) s = (r, t)"
    and f: "f \<in> set (fins (ucluster s))" "f \<in> set (stored (world s))"
  shows "f \<in> set (stored (world t)) \<and> f \<in> set (fins (ucluster t))"
proof -
  have "ucluster t = ucluster s \<or> ucluster t = marked_cluster (Sv b) (umachine s) (ucluster s)"
    using run by (auto simp: register_finalizers_run Let_def marked_cluster_def split: option.splits)
  then have "f \<in> set (fins (ucluster t))"
    using f(1) by (auto simp: fins_marked merge_patchesD(5) [OF mp])
  moreover have "f \<in> set (stored (world t))"
    using run f patch_keeps_finalizer [OF mp, of f "marked_cluster (Sv b) (umachine s) (ucluster s)"]
    by (auto simp: register_finalizers_run Let_def fins_marked merge_patchesD(3,5) [OF mp] split: option.splits)
  ultimately show ?thesis
    by blast
qed

lemma machines_remain_stored:
  assumes "merge_patches Sv stored" and "machines_remain (Sv b) k view aliased s = (r, t)"
  shows "stored (world t) = stored (world s)"
  using assms(2)
proof (induction k arbitrary: view aliased s r t)
  case (Suc k)
  then show ?case
    by (auto simp: Let_def prog_simps merge_patchesD(4) [OF assms(1)] split: if_splits option.splits prod.splits
        dest!: Suc.IH)
qed (simp add: prog_simps)

lemma everywhere_step:
  assumes "everywhere stored f x" and "f \<in> set (stored w)"
    and "case e of Some (b, s) \<Rightarrow> f \<in> set (fins (ucluster s)) | None \<Rightarrow> True"
  shows "everywhere stored f (x\<lparr>wk_world := w, wk_open := (wk_open x)(k := e)\<rparr>)"
  using assms by (auto simp: everywhere_def)

lemma everywhere_work:
  assumes mp: "merge_patches Sv stored" and rm: "\<And>b. removes_only (Sv b)" and f: "machine_exists Sv f"
    and "work Sv stored x y" and x: "everywhere stored f x"
  shows "everywhere stored f y"
  using assms(4)
proof (cases rule: work.cases)
  case (register n b s r t)
  have "f \<in> set (stored (world t)) \<and> f \<in> set (fins (ucluster t))"
    using mp register(3) by (rule register_keeps_finalizer) (use x register(2) in \<open>auto simp: everywhere_def\<close>)
  then show ?thesis
    unfolding register(1) by (intro everywhere_step [OF x]) auto
next
  case (register_cluster b s r t)
  let ?s = "upd_cluster_meta (add_finalizer (Sv b) ClusterFinalizer) (s\<lparr>world := wk_world x\<rparr>)"
  have s: "f \<in> set (fins (ucluster ?s))" "f \<in> set (stored (wk_world x))"
    using x register_cluster(2) by (auto simp: everywhere_def fins_def add_finalizer_def merge_patchesD(5) [OF mp])
  then have "f \<in> set (stored (world t)) \<and> f \<in> set (fins (ucluster t))"
    using register_cluster(3) patch_keeps_finalizer [OF mp s, of b] by (auto simp: PatchObject_run Let_def)
  then show ?thesis
    unfolding register_cluster(1) by (intro everywhere_step [OF x]) auto
next
  case (look_up b s q t)
  have s: "f \<in> set (fins (ucluster s))" "f \<in> set (stored (wk_world x))"
    using x look_up(2) by (auto simp: everywhere_def)
  have "f \<in> set (fins (ucluster t))"
    using machines_remain_keeps [OF look_up(3) rm, of f] f s(1) by (auto simp: machine_exists_def fins_def)
  then show ?thesis
    unfolding look_up(1) using s(2) by (intro everywhere_step [OF x]) (auto simp: machines_remain_stored [OF mp look_up(3)])
next
  case (release b s)
  have "f \<noteq> ClusterFinalizer"
    using f ClusterFinalizer_no_suffix by (auto simp: machine_exists_def)
  then show ?thesis
    using x rm [of b] release by (auto simp: everywhere_def fins_def remove_finalizer_def removes_only_def)
next
  case (close k b s r t)
  have s: "f \<in> set (fins (ucluster s))" "f \<in> set (stored (wk_world x))"
    using x close(2) by (auto simp: everywhere_def)
  then have "f \<in> set (stored (world t))"
    using close(3) patch_keeps_finalizer [OF mp s, of b] by (auto simp: Close_def PatchObject_run Let_def)
  then show ?thesis
    unfolding close(1) by (intro everywhere_step [OF x]) auto
qed (use x in \<open>auto simp: everywhere_def\<close>)

section \<open>What a deletion looks up\<close>

text \<open>The slice under the loop moves, but it shows no finalizer that was not in it before.\<close>

lemma in_place_shows:
  assumes "remove_in_place f fs = (fs', shown)"
  obtains a where "shown = Some a" and "set a \<subseteq> set fs" and "set fs' \<subseteq> set fs"
  using assms that [of "fs' @ drop (length fs') fs"]
  by (auto simp: remove_in_place_def Let_def set_drop_subset set_remove1_subset)

lemma overlay_shows:
  "length (overlay a view) = length view" "set (overlay a view) \<subseteq> set a \<union> set view"
  by (auto simp: overlay_def dest: in_set_takeD in_set_dropD)

lemma machines_remain_looks_up:
  assumes lib: "lib_RemoveFinalizer (lib S) = remove_in_place"
    and "machines_remain S k view aliased s = (r, t)" and "k \<le> length view"
    and "set view \<subseteq> A" and "set (fins (ucluster s)) \<subseteq> A"
  shows "\<exists>cs. calls t = calls s @ cs
    \<and> (\<forall>ns n. CallGetMachine ns n \<in> set cs \<longrightarrow> n \<in> (\<lambda>f. Split f (CHR ''.'') ! 0) ` A)"
  using assms(2-)
proof (induction k arbitrary: view aliased s)
  case 0
  then show ?case
    by (auto simp: prog_simps)
next
  case (Suc k)
  define f where "f = view ! (length view - Suc k)"
  have f: "f \<in> A"
    using Suc.prems(2,3) by (auto simp: f_def)
  show ?case
  proof (cases "HasSuffix f machine_suffix")
    case False
    then show ?thesis
      using Suc by (simp add: f_def)
  next
    case True
    define q where "q = (scope_Namespace S, Split f (CHR ''.'') ! 0)"
    define a where "a = kube_GetUCloudMachine (kube S) q (world s)"
    define u where "u = sent (CallGetMachine (fst q) (snd q)) (rp_took (fst a)) (snd a) s"
    obtain fs' shown where rm: "remove_in_place f (fins (ucluster s)) = (fs', shown)"
      by fastforce
    from rm obtain b where b: "shown = Some b" "set b \<subseteq> set (fins (ucluster s))" "set fs' \<subseteq> set (fins (ucluster s))"
      by (rule in_place_shows)
    define v where "v = upd_cluster_meta (om_Finalizers_update (\<lambda>_. fs')) u"
    define view' where "view' = (if aliased then overlay b view else view)"
    have run: "(r, t) = (if \<not> IsNotFound (rp_err (fst a)) then (Ok True, u) else machines_remain S k view' aliased v)"
      using Suc.prems(1) True rm b(1)
      by (auto simp: Let_def prog_simps lib f_def u_def q_def a_def v_def view'_def fins_def split: if_splits)
    have calls: "calls u = calls s @ [CallGetMachine (fst q) (snd q)]" "calls v = calls u"
      by (simp_all add: u_def v_def)
    have q: "snd q \<in> (\<lambda>f. Split f (CHR ''.'') ! 0) ` A"
      using f by (simp add: q_def)
    have "k \<le> length view'" "set view' \<subseteq> A" "set (fins (ucluster v)) \<subseteq> A"
      using Suc.prems(2-4) b(2,3) overlay_shows(1) [of b view] subset_trans [OF overlay_shows(2) [of b view], of A]
      by (simp_all add: view'_def v_def u_def fins_def)
    with Suc.IH [of view' aliased v] run calls q show ?thesis
      by (fastforce split: if_splits)
  qed
qed

lemma deletion_looks_up:
  assumes "cluster_reconcileDelete S s = (r, t)" and lib: "lib_RemoveFinalizer (lib S) = remove_in_place"
  shows "\<exists>cs. calls t = calls s @ cs
    \<and> (\<forall>ns n. CallGetMachine ns n \<in> set cs \<longrightarrow> n \<in> (\<lambda>f. Split f (CHR ''.'') ! 0) ` set (fins (ucluster s)))"
proof -
  obtain p u where u: "machines_remain S (length (fins (ucluster s))) (fins (ucluster s)) True s = (p, u)"
    by fastforce
  obtain cs where cs: "calls u = calls s @ cs"
      "\<forall>ns n. CallGetMachine ns n \<in> set cs \<longrightarrow> n \<in> (\<lambda>f. Split f (CHR ''.'') ! 0) ` set (fins (ucluster s))"
    using machines_remain_looks_up [OF lib u order.refl order.refl order.refl] by blast
  obtain q v where v: "delete_resources S u = (q, v)"
    by fastforce
  obtain ds where ds: "calls v = calls u @ ds" "list_all (deletes_owned (ucluster u)) ds"
    using delete_resources_sends [OF v] by blast
  have "CallGetMachine ns n \<notin> set ds" for ns n
    using ds(2) by (auto simp: list_all_iff)
  moreover have "calls t = calls u \<or> calls t = calls v"
    using assms(1) u v by (auto simp: cluster_reconcileDelete_run fins_def split: result.splits if_splits)
  ultimately show ?thesis
    using cs ds(1) by (auto intro: exI [of _ cs] exI [of _ "cs @ ds"])
qed

lemma deletion_waits:
  assumes f: "f \<in> set (looked_up (fins (ucluster s)))" "machine_exists Sv f"
    and lib: "lib_RemoveFinalizer (lib (Sv b)) = remove_in_place" and dist: "distinct (fins (ucluster s))"
    and run: "cluster_reconcileDelete (Sv b) s = (r, t)"
  shows "r = Ok (requeue_seconds 15) \<and> (\<exists>cs. calls t = calls s @ cs \<and> list_all get_machine_call cs)"
proof -
  let ?fs = "om_Finalizers (uc_Meta (ucluster s))"
  obtain q u where u: "machines_remain (Sv b) (length ?fs) ?fs True s = (q, u)"
    by fastforce
  have "machine_absent (Sv b) f" if "q = Ok False"
    using machines_remain_looked_up [OF lib refl dist [unfolded fins_def] u [unfolded that]] f(1)
    by (auto simp: fins_def dest: all_absentD)
  then have "q \<noteq> Ok False"
    using f(2) by (auto simp: machine_exists_def)
  with machines_remain_frame [OF u] have "q = Ok True" and "\<exists>cs. calls u = calls s @ cs \<and> list_all get_machine_call cs"
    by auto
  then show ?thesis
    using run u by (simp add: cluster_reconcileDelete_run)
qed

section \<open>The properties\<close>

text \<open>C12: however workers interleave, the finalizer of a machine that exists stays stored once it is
  stored at a time when every worker at work has it in its copy: no registration, no closing patch
  and no deletion pass of any worker drops it. A deletion pass that starts from a copy fetched since
  does nothing but look machines up and wait, whenever the loop over the finalizers visits this one;
  finalizers are removed in place, as the library does it, so it visits every machine finalizer if
  there are at most two, behind the others, and may skip one of three (C28). Patches replace the list
  of finalizers as a whole, as a JSON merge patch does.\<close>

theorem stored_finalizer_stays:
  assumes mp: "merge_patches Sv stored" and lib: "\<And>b. lib_RemoveFinalizer (lib (Sv b)) = remove_in_place"
    and f: "machine_exists Sv f" and run: "(work Sv stored)\<^sup>*\<^sup>* x y" and x: "f \<in> set (stored (wk_world x))"
    and seen: "\<forall>k b s. wk_open x k = Some (b, s) \<longrightarrow> f \<in> set (fins (ucluster s))"
  shows "f \<in> set (stored (wk_world y))
    \<and> (\<forall>k b s. wk_open y k = Some (b, s) \<longrightarrow> f \<in> set (fins (ucluster s)))
    \<and> (\<forall>k b s r t. wk_open y k = Some (b, s) \<and> distinct (fins (ucluster s))
        \<and> cluster_reconcileDelete (Sv b) (s\<lparr>world := wk_world y\<rparr>) = (r, t)
        \<and> (f \<in> set (looked_up (fins (ucluster s)))
           \<or> (\<exists>others ms. fins (ucluster s) = others @ ms \<and> length ms \<le> 2
                \<and> (\<forall>g\<in>set others. \<not> HasSuffix g machine_suffix) \<and> (\<forall>g\<in>set ms. HasSuffix g machine_suffix)))
        \<longrightarrow> r = Ok (requeue_seconds 15) \<and> (\<exists>cs. calls t = calls s @ cs \<and> list_all get_machine_call cs))"
proof -
  have y: "everywhere stored f y"
    using run by (induction rule: rtranclp_induct)
      (use x seen everywhere_work [OF mp removes_only_in_place [OF lib] f] in \<open>auto simp: everywhere_def\<close>)
  show ?thesis
  proof (intro conjI allI impI; (elim conjE)?)
    fix k b s r t
    assume s: "wk_open y k = Some (b, s)" and dist: "distinct (fins (ucluster s))"
      and del: "cluster_reconcileDelete (Sv b) (s\<lparr>world := wk_world y\<rparr>) = (r, t)"
      and visited: "f \<in> set (looked_up (fins (ucluster s)))
           \<or> (\<exists>others ms. fins (ucluster s) = others @ ms \<and> length ms \<le> 2
                \<and> (\<forall>g\<in>set others. \<not> HasSuffix g machine_suffix) \<and> (\<forall>g\<in>set ms. HasSuffix g machine_suffix))"
    have "f \<in> set (fins (ucluster s))" and "HasSuffix f machine_suffix"
      using y s f by (auto simp: everywhere_def machine_exists_def)
    then have "f \<in> set (looked_up (fins (ucluster s)))"
      using visited looked_up_two by auto
    then have "f \<in> set (looked_up (fins (ucluster (s\<lparr>world := wk_world y\<rparr>))))"
      and "distinct (fins (ucluster (s\<lparr>world := wk_world y\<rparr>)))"
      using dist by simp_all
    from deletion_waits [OF this(1) f lib this(2) del]
    show "r = Ok (requeue_seconds 15)" and "\<exists>cs. calls t = calls s @ cs \<and> list_all get_machine_call cs"
      by simp_all
  qed (use y in \<open>auto simp: everywhere_def\<close>)
qed

text \<open>C11: a registration replaces what other workers have registered since its copy of the cluster was
  fetched: a patch sends the list of finalizers as a whole (a JSON merge patch), so afterwards the stored
  finalizers are those of the copy and the machine's own. A deletion that starts from them, with a
  library that removes finalizers in place, looks up no machine but those they name. Machines that are
  reconciled at the same time can therefore be forgotten by the deletion of their cluster.\<close>

theorem registration_replaces:
  assumes mp: "merge_patches Sv stored" and copy: "fins (ucluster s) = b" and new: "machine_finalizer (umachine s) \<notin> set b"
    and run: "register_finalizers (Sv b) s = (Ok (), t)"
  shows "set (stored (world t)) = insert (machine_finalizer (umachine s)) (set b)
    \<and> (lib_RemoveFinalizer (lib S) = remove_in_place \<and> fins (ucluster u) = stored (world t)
        \<and> cluster_reconcileDelete S u = (r, v) \<longrightarrow>
        (\<exists>cs. calls v = calls u @ cs \<and> (\<forall>ns n. CallGetMachine ns n \<in> set cs \<longrightarrow>
           n \<in> (\<lambda>f. Split f (CHR ''.'') ! 0) ` insert (machine_finalizer (umachine s)) (set b))))"
proof -
  let ?c = "marked_cluster (Sv b) (umachine s) (ucluster s)"
  have fs: "set (fins ?c) = insert (machine_finalizer (umachine s)) (set b)"
    by (simp add: fins_marked merge_patchesD(5) [OF mp] copy)
  obtain w where w: "world t = snd (kube_PatchCluster (kube (Sv b)) ?c w)"
      "rp_err (fst (kube_PatchCluster (kube (Sv b)) ?c w)) = None"
    using run by (auto simp: register_finalizers_run Let_def split: option.splits)
  have "fins ?c \<noteq> b"
    using fs new by auto
  then have "stored (world t) = fins ?c"
    using merge_patchesD(2) [OF mp w(2)] by (simp add: w(1) merged_def)
  then show ?thesis
    using fs deletion_looks_up [of S u r v] by auto
qed

section \<open>Witnesses\<close>

text \<open>An API server whose state is the code of the stored list, and the copy a worker fetches from it.\<close>

definition patching :: "string list \<Rightarrow> nat Service" where
  "patching b = sample\<lparr>kube := (kube sample)\<lparr>kube_PatchCluster :=
     (\<lambda>c w. (reply_ok (), if fins c = b then w else to_nat (fins c)))\<rparr>\<rparr>"

lemma patching_merges: "merge_patches patching from_nat"
  by (auto simp: merge_patches_def patching_def merged_def add_once_def)

definition fetched :: "string \<Rightarrow> nat st" where
  "fetched n = upd_cluster_meta (om_Finalizers_update (\<lambda>_. [ClusterFinalizer]))
     (upd_machine_meta (om_Name_update (\<lambda>_. n)) start)"

lemma fetched_simps [simp]:
  "fins (ucluster (fetched n)) = [ClusterFinalizer]" "machine_Name (umachine (fetched n)) = n"
  "machine_finalizer (umachine (fetched n)) = n @ ''.ucloudmachine''"
  by (simp_all add: fetched_def fins_def machine_finalizer_def machine_Name_def)

lemma not_cluster_finalizer: "n @ ''.ucloudmachine'' \<noteq> ClusterFinalizer"
proof
  assume "n @ ''.ucloudmachine'' = ClusterFinalizer"
  then have "HasSuffix ClusterFinalizer machine_suffix"
    using HasSuffix_append [of n machine_suffix] by (simp add: machine_suffix_def)
  then show False
    by (simp add: ClusterFinalizer_no_suffix)
qed

lemma patching_registers:
  "\<exists>t. register_finalizers (patching [ClusterFinalizer]) (fetched n\<lparr>world := w\<rparr>) = (Ok (), t)"
  by (simp add: register_finalizers_run Let_def patching_def)

text \<open>The machine \<open>m1\<close> exists, and its finalizer is stored; the worker of \<open>m2\<close> has fetched the cluster since.\<close>

definition m1_there :: "string list \<Rightarrow> nat Service" where
  "m1_there b = patching b\<lparr>kube := (kube (patching b))\<lparr>kube_GetUCloudMachine :=
     (\<lambda>q w. (if snd q = ''m1'' then reply_ok sample_machine else reply_err sample_machine (NotFoundError ''gone''), w))\<rparr>\<rparr>"

lemma m1_there_merges: "merge_patches m1_there from_nat"
  by (auto simp: merge_patches_def m1_there_def patching_def merged_def add_once_def)

lemma m1_there_lib: "lib_RemoveFinalizer (lib (m1_there b)) = remove_in_place"
  by (simp add: m1_there_def patching_def)

lemma m1_exists: "machine_exists m1_there ''m1.ucloudmachine''"
proof -
  have "HasSuffix ''m1.ucloudmachine'' machine_suffix"
    using HasSuffix_append [of "''m1''" machine_suffix] by (simp add: machine_suffix_def)
  then show ?thesis
    by (simp add: machine_exists_def machine_absent_def m1_there_def)
qed

definition at_work :: "nat workers" where
  "at_work = \<lparr>wk_world = to_nat [ClusterFinalizer, ''m1.ucloudmachine''],
     wk_open = Map.empty(ClusterWorker \<mapsto> ([ClusterFinalizer, ''m1.ucloudmachine''], deleting))\<rparr>"

theorem stored_finalizer_stays_witness:
  "(\<exists>y. work m1_there from_nat at_work y \<and> wk_open y ClusterWorker = None
     \<and> ''m1.ucloudmachine'' \<in> set (from_nat (wk_world y) :: string list))
   \<and> fst (cluster_reconcileDelete (m1_there [ClusterFinalizer, ''m1.ucloudmachine''])
       (deleting\<lparr>world := wk_world at_work\<rparr>)) = Ok (requeue_seconds 15)"
proof -
  let ?b = "[ClusterFinalizer, ''m1.ucloudmachine'']"
  have fins: "fins (ucluster deleting) = ?b"
    by (simp add: fins_def deleting_fields)
  obtain r t where t: "Close (m1_there ?b) (deleting\<lparr>world := wk_world at_work\<rparr>) = (r, t)"
    by fastforce
  have open_deleting: "wk_open at_work ClusterWorker = Some (?b, deleting)"
    by (simp add: at_work_def)
  from work.close [where Sv = m1_there, OF this t] obtain y where y: "work m1_there from_nat at_work y"
      "wk_open y ClusterWorker = None"
    by fastforce
  from y(1) have "(work m1_there from_nat)\<^sup>*\<^sup>* at_work y"
    by (rule r_into_rtranclp)
  with m1_there_merges m1_there_lib m1_exists
  have stays: "''m1.ucloudmachine'' \<in> set (from_nat (wk_world y) :: string list)"
    by (rule stored_finalizer_stays [THEN conjunct1]) (auto simp: at_work_def fins split: if_splits)
  obtain q u where u: "cluster_reconcileDelete (m1_there ?b) (deleting\<lparr>world := wk_world at_work\<rparr>) = (q, u)"
    by fastforce
  have "HasSuffix ''m1.ucloudmachine'' machine_suffix"
    using m1_exists by (simp add: machine_exists_def)
  then have ends: "[ClusterFinalizer, ''m1.ucloudmachine''] = [ClusterFinalizer] @ [''m1.ucloudmachine'']"
      "\<forall>g\<in>set [ClusterFinalizer]. \<not> HasSuffix g machine_suffix" "\<forall>g\<in>set [''m1.ucloudmachine'']. HasSuffix g machine_suffix"
    by (simp_all add: ClusterFinalizer_no_suffix)
  have waits: "\<forall>k b s r t. wk_open at_work k = Some (b, s) \<and> distinct (fins (ucluster s))
        \<and> cluster_reconcileDelete (m1_there b) (s\<lparr>world := wk_world at_work\<rparr>) = (r, t)
        \<and> (''m1.ucloudmachine'' \<in> set (looked_up (fins (ucluster s)))
           \<or> (\<exists>others ms. fins (ucluster s) = others @ ms \<and> length ms \<le> 2
                \<and> (\<forall>g\<in>set others. \<not> HasSuffix g machine_suffix) \<and> (\<forall>g\<in>set ms. HasSuffix g machine_suffix)))
        \<longrightarrow> r = Ok (requeue_seconds 15) \<and> (\<exists>cs. calls t = calls s @ cs \<and> list_all get_machine_call cs)"
    using m1_there_merges m1_there_lib m1_exists rtranclp.rtrancl_refl
    by (rule stored_finalizer_stays [THEN conjunct2, THEN conjunct2]) (auto simp: at_work_def fins split: if_splits)
  have "\<exists>others ms. fins (ucluster deleting) = others @ ms \<and> length ms \<le> 2
      \<and> (\<forall>g\<in>set others. \<not> HasSuffix g machine_suffix) \<and> (\<forall>g\<in>set ms. HasSuffix g machine_suffix)"
    unfolding fins by (rule exI, rule exI, intro conjI, rule ends(1)) (use ends(2,3) in simp_all)
  moreover have "distinct (fins (ucluster deleting))"
    using not_cluster_finalizer [of "''m1''"] by (auto simp: fins)
  ultimately have "q = Ok (requeue_seconds 15)"
    using waits u open_deleting by blast
  then have "fst (cluster_reconcileDelete (m1_there ?b) (deleting\<lparr>world := wk_world at_work\<rparr>)) = Ok (requeue_seconds 15)"
    by (simp add: u)
  with stays y show ?thesis
    by blast
qed

text \<open>
  The finalizer of \<open>m1\<close>, stored meanwhile, is gone when \<open>m2\<close> has registered, and a deletion that starts
  from what is stored then does not look \<open>m1\<close> up.
\<close>

theorem registration_replaces_witness:
  "''m1.ucloudmachine'' \<notin> set (from_nat (world (snd (register_finalizers (patching [ClusterFinalizer])
     (fetched ''m2''\<lparr>world := to_nat [ClusterFinalizer, ''m1.ucloudmachine'']\<rparr>)))) :: string list)
   \<and> (\<forall>ns. CallGetMachine ns ''m1'' \<notin> set (calls (snd (cluster_reconcileDelete sample (upd_cluster_meta (om_Finalizers_update
       (\<lambda>_. from_nat (world (snd (register_finalizers (patching [ClusterFinalizer])
         (fetched ''m2''\<lparr>world := to_nat [ClusterFinalizer, ''m1.ucloudmachine'']\<rparr>)))))) start)))))"
proof -
  let ?s = "fetched ''m2''\<lparr>world := to_nat [ClusterFinalizer, ''m1.ucloudmachine'']\<rparr>"
  obtain t where t: "register_finalizers (patching [ClusterFinalizer]) ?s = (Ok (), t)"
    using patching_registers by blast
  define u where "u = upd_cluster_meta (om_Finalizers_update (\<lambda>_. from_nat (world t))) start"
  obtain r v where v: "cluster_reconcileDelete sample u = (r, v)"
    by fastforce
  have both: "set (from_nat (world t)) = insert (machine_finalizer (umachine ?s)) (set [ClusterFinalizer])
    \<and> (lib_RemoveFinalizer (lib sample) = remove_in_place \<and> fins (ucluster u) = from_nat (world t)
        \<and> cluster_reconcileDelete sample u = (r, v) \<longrightarrow>
        (\<exists>cs. calls v = calls u @ cs \<and> (\<forall>ns n. CallGetMachine ns n \<in> set cs \<longrightarrow>
           n \<in> (\<lambda>f. Split f (CHR ''.'') ! 0) ` insert (machine_finalizer (umachine ?s)) (set [ClusterFinalizer]))))"
    by (rule registration_replaces [OF patching_merges _ _ t])
      (use not_cluster_finalizer [of "''m2''"] in simp_all)
  have "fins (ucluster u) = from_nat (world t)" and "calls u = []"
    by (simp_all add: u_def fins_def start_def)
  with both v obtain cs where cs: "calls v = cs" "\<forall>ns n. CallGetMachine ns n \<in> set cs \<longrightarrow>
      n \<in> (\<lambda>f. Split f (CHR ''.'') ! 0) ` insert ''m2.ucloudmachine'' {ClusterFinalizer}"
    by auto
  have "''m1'' \<notin> (\<lambda>f. Split f (CHR ''.'') ! 0) ` insert ''m2.ucloudmachine'' {ClusterFinalizer}"
    by (simp add: ClusterFinalizer_def)
  with cs have "\<forall>ns. CallGetMachine ns ''m1'' \<notin> set (calls v)"
    by blast
  then show ?thesis
    using both not_cluster_finalizer [of "''m1''"] v by (simp add: t flip: u_def)
qed

end
