(* ===== verification/Registration.thy ===== *)
theory Registration
  imports Deep_Copy_Properties
begin

text \<open>
  How the API types reach the scheme of the manager: the package variables of
  \<open>api/v1alpha3/groupversion_info.go\<close>, the \<open>init\<close> functions of the type files, and \<open>init\<close> of \<open>main.go\<close>.
  Go runs the \<open>init\<close> functions of a package after its variables are set, file by file in the order of
  the file names, and those of \<open>main\<close> last. \<open>scheme.Builder\<close> and \<open>runtime.Scheme\<close> are library code and
  parameters, as are \<open>AddToScheme\<close> of the two other packages. A registered object is given by its
  dynamic type; \<open>*T\<close> is registered under the kind \<open>T\<close>.
\<close>

record GroupVersion =
  gv_Group :: string
  gv_Version :: string

record ('b, 's) Scheme_Lib =
  sl_NewBuilder :: "GroupVersion \<Rightarrow> 'b"
  sl_Register :: "string list \<Rightarrow> 'b \<Rightarrow> 'b"
  sl_AddToScheme :: "'b \<Rightarrow> 's \<Rightarrow> 's \<times> error option"
  sl_NewScheme :: 's
  sl_clientgo_AddToScheme :: "'s \<Rightarrow> 's \<times> error option"
  sl_clusterv1_AddToScheme :: "'s \<Rightarrow> 's \<times> error option"

section \<open>Initialising the packages\<close>

definition GroupVersion :: GroupVersion where
  "GroupVersion = \<lparr>gv_Group = ''infrastructure.cluster.x-k8s.io'', gv_Version = ''v1alpha3''\<rparr>"

definition SchemeBuilder :: "('b, 's) Scheme_Lib \<Rightarrow> 'b" where
  "SchemeBuilder L = sl_NewBuilder L GroupVersion"

definition init_cluster_types :: "('b, 's) Scheme_Lib \<Rightarrow> 'b \<Rightarrow> 'b" where
  "init_cluster_types L = sl_Register L [''*UCloudCluster'', ''*UCloudClusterList'']"

definition init_machine_types :: "('b, 's) Scheme_Lib \<Rightarrow> 'b \<Rightarrow> 'b" where
  "init_machine_types L = sl_Register L [''*UCloudMachine'', ''*UCloudMachineList'']"

definition init_template_types :: "('b, 's) Scheme_Lib \<Rightarrow> 'b \<Rightarrow> 'b" where
  "init_template_types L = sl_Register L [''*UCloudMachineTemplate'', ''*UCloudMachineTemplateList'']"

text \<open>The builder when all files are initialised.\<close>

definition initialised :: "('b, 's) Scheme_Lib \<Rightarrow> 'b" where
  "initialised L = init_template_types L (init_machine_types L (init_cluster_types L (SchemeBuilder L)))"

text \<open>
  \<open>AddToScheme = SchemeBuilder.AddToScheme\<close> is evaluated before the \<open>init\<close> functions run; it is bound to the
  pointer \<open>SchemeBuilder\<close>, so a later call sees what they have registered.
\<close>

definition AddToScheme :: "('b, 's) Scheme_Lib \<Rightarrow> 's \<Rightarrow> 's \<times> error option" where
  "AddToScheme L = sl_AddToScheme L (initialised L)"

text \<open>\<open>init\<close> of \<open>main.go\<close> ignores the three errors.\<close>

definition main_init :: "('b, 's) Scheme_Lib \<Rightarrow> 's" where
  "main_init L =
     (let (scheme, _) = sl_clientgo_AddToScheme L (sl_NewScheme L);
          (scheme, _) = AddToScheme L scheme;
          (scheme, _) = sl_clusterv1_AddToScheme L scheme
      in scheme)"

section \<open>What the scheme knows\<close>

definition kind_of :: "string \<Rightarrow> string" where
  "kind_of t = tl t"

text \<open>
  The documented behaviour of the library: a builder collects types for its group version
  (\<open>collected\<close>), adding it to a scheme makes them \<open>known\<close>, and adding other groups keeps them.
\<close>

definition registers :: "('b, 's) Scheme_Lib \<Rightarrow> ('b \<Rightarrow> GroupVersion \<times> string list)
    \<Rightarrow> ('s \<Rightarrow> GroupVersion \<Rightarrow> string \<Rightarrow> string option) \<Rightarrow> bool" where
  "registers L collected known \<longleftrightarrow>
     (\<forall>gv. collected (sl_NewBuilder L gv) = (gv, []))
     \<and> (\<forall>ts b. collected (sl_Register L ts b) = (fst (collected b), snd (collected b) @ ts))
     \<and> (\<forall>b s. distinct (map kind_of (snd (collected b))) \<longrightarrow> (\<forall>t\<in>set (snd (collected b)).
          known (fst (sl_AddToScheme L b s)) (fst (collected b)) (kind_of t) = Some t))
     \<and> (\<forall>s gv k t. known s gv k = Some t \<longrightarrow> known (fst (sl_clusterv1_AddToScheme L s)) gv k = Some t)"

lemma collected_types:
  assumes "registers L collected known"
  shows "collected (initialised L) = (GroupVersion, [''*UCloudCluster'', ''*UCloudClusterList'', ''*UCloudMachine'',
    ''*UCloudMachineList'', ''*UCloudMachineTemplate'', ''*UCloudMachineTemplateList''])"
  using assms by (simp add: registers_def initialised_def init_cluster_types_def init_machine_types_def
      init_template_types_def SchemeBuilder_def)

text \<open>Exactly the types with a \<open>DeepCopyObject\<close> are registered: every object can be decoded and copied.\<close>

lemma registered_iff_copyable:
  assumes "registers L collected known"
  shows "set (snd (collected (initialised L))) = dynamic_type ` (UNIV - {NilObject})"
proof (intro equalityI subsetI)
  fix t assume "t \<in> set (snd (collected (initialised L)))"
  then have "t \<in> {dynamic_type (UCloudClusterObject None), dynamic_type (UCloudClusterListObject None),
      dynamic_type (UCloudMachineObject None), dynamic_type (UCloudMachineListObject None),
      dynamic_type (UCloudMachineTemplateObject None), dynamic_type (UCloudMachineTemplateListObject None)}"
    by (simp add: collected_types [OF assms] dynamic_type_def)
  then show "t \<in> dynamic_type ` (UNIV - {NilObject})"
    by auto
next
  fix t assume "t \<in> dynamic_type ` (UNIV - {NilObject})"
  then show "t \<in> set (snd (collected (initialised L)))"
    by (auto simp: collected_types [OF assms] dynamic_type_def split: object.splits)
qed

lemma scheme_knows_objects:
  assumes lib: "registers L collected known" and ob: "ob \<noteq> NilObject"
  shows "known (main_init L) GroupVersion (kind_of (dynamic_type ob)) = Some (dynamic_type ob)"
proof -
  have "dynamic_type ob \<in> set (snd (collected (initialised L)))"
    using ob by (simp add: registered_iff_copyable [OF lib])
  moreover have "distinct (map kind_of (snd (collected (initialised L))))"
    by (simp add: collected_types [OF lib] kind_of_def)
  moreover have "fst (collected (initialised L)) = GroupVersion"
    by (simp add: collected_types [OF lib])
  ultimately have "known (fst (AddToScheme L s)) GroupVersion (kind_of (dynamic_type ob)) = Some (dynamic_type ob)" for s
    using lib unfolding registers_def AddToScheme_def by metis
  then show ?thesis
    using lib unfolding registers_def main_init_def by (simp add: case_prod_beta)
qed

end
