(* ===== verification/Spec2Isabelle.thy ===== *)
theory Spec2Isabelle
  imports Service_Properties Instance_Properties Cluster_Properties Deletion_Properties Machine_Properties
    Entry_Properties Convergence Manager Watches Deep_Copy_Properties Persistence Teardown Startup
    Workers Registration
begin

text \<open>
  The UCloud infrastructure provider of the Kubernetes Cluster API, as definitions that compute, and
  what holds of them. File names below are under \<open>src/\<close>.

  \<^bold>\<open>The program.\<close> \<open>main.go\<close> starts a manager with two controllers. The cluster controller reconciles
  \<open>UCloudCluster\<close> objects: it creates a business group, a VPC, a subnet, a NAT gateway, a load balancer,
  an optional bastion instance and a UK8S cluster, and tears all of them down again. The machine
  controller reconciles \<open>UCloudMachine\<close> objects: it creates one instance for each, follows its state,
  registers it with the load balancer and with UK8S, and terminates it in the end. Both work through
  scopes (\<open>cloud/scope\<close>), which hold the Kubernetes objects and persist them when they are closed, and
  through the service (\<open>cloud/services\<close>), which sends requests to the UCloud API by the SDK's typed
  clients or by its own \<open>doRequest\<close>.

  \<^bold>\<open>How it is modelled.\<close> A Go function with effects is a program over one state (\<open>Prelude\<close>): it ends
  with a value, a returned error or a panic, which are different outcomes throughout, and leaves a new
  state. The state \<open>st\<close> (\<open>Cloud\<close>) holds the cluster and the machine object, the clock, the list of
  requests sent so far, and \<open>world\<close>, which stands for everything outside. The cloud and Kubernetes are
  parameters: the record \<open>Service\<close> holds a function of request and world for each API call, returning
  an arbitrary answer (\<open>reply\<close>: body, error, return code, duration) and the next world. No theorem
  assumes that the cloud answers sensibly unless it says so. Time is in milliseconds; every answer
  takes its \<open>rp_took\<close>, and polling sleeps.

  \<^bold>\<open>Theories.\<close>
  \<^item> \<open>Prelude\<close>: errors, results, programs, \<open>keeps\<close> and the locale \<open>frame\<close>, which every relation between
    states that is closed under composition interprets; \<open>Go_Stdlib\<close>: \<open>strings\<close>, \<open>base64\<close> (a
    \<open>codec\<close>), \<open>strconv\<close>.
  \<^item> \<open>Api_Types\<close> (\<open>api/v1alpha3\<close>), \<open>Defaults\<close> (\<open>cloud/common/defaults.go\<close>), \<open>Cloud\<close> (requests and
    answers of the SDK as the code uses them, \<open>service.go\<close>), \<open>Scopes\<close> (\<open>cloud/scope\<close>), \<open>Http_Service\<close>
    (\<open>general.go\<close>).
  \<^item> \<open>Contracts\<close>: the interfaces between the controllers and the services, as locales. A
    \<open>provision_step\<close> is skipped when its identifier is recorded, sends only requests of its kind, and
    records nothing when it returns an error; a \<open>delete_step\<close> sends at most the one request for what
    is owned. They are interpreted in \<open>Vpc_Service\<close>, \<open>Subnet_Service\<close>, \<open>Nat_Service\<close> (with
    \<open>Eip_Service\<close>), \<open>Ulb_Service\<close>, \<open>Ugroup_Service\<close> and \<open>Uk8s_Service\<close>, which model the files of
    these names.
  \<^item> \<open>Replay\<close>: the recorded calls of a run, replayed from the world it started in. \<open>after_calls\<close> is the
    world they lead to, so that a theorem can speak of the answer to one of them; \<open>termination_trace\<close>,
    \<open>cleaning_trace\<close>, \<open>deletion_trace\<close> and \<open>machine_deletion_trace\<close>, in the theories of these operations,
    say exactly which calls a successful run consists of.
  \<^item> \<open>Polling\<close>, \<open>Uhost_Service\<close>, \<open>Uhost_Facts\<close> (\<open>uhost.go\<close>): the polling loop with Go's timer, whose
    \<open>Stop\<close> and \<open>Reset\<close> do not drain the channel, and the operations on instances.
  \<^item> \<open>Helpers\<close>, \<open>Cluster_Controller\<close>, \<open>Machine_Controller\<close>, \<open>Watches\<close> (\<open>controllers\<close>), \<open>Webhooks\<close>
    (the webhooks of \<open>api/v1alpha3\<close>), \<open>Manager\<close> (\<open>main.go\<close>), \<open>Registration\<close> (\<open>groupversion_info.go\<close>
    and the \<open>init\<close> functions).
  \<^item> \<open>Cluster_Facts\<close>, \<open>Deletion_Facts\<close>, \<open>Machine_Facts\<close>: what the proofs about the controllers share:
    which requests a pass sends, what it writes, its unfolding into cases.
  \<^item> \<open>Passes\<close>: the step relations \<open>pass\<close> (of both controllers over one cluster, live and deleted objects,
    with owners that may change between passes) and \<open>machine_pass\<close>, and their invariants in all reachable states; \<open>Workers\<close>: the workers of several machines and of
    the cluster controller that interleave at their writes to one cluster object and at the lookups of
    a deletion, with the merge patches of the API server.
  \<^item> \<open>Go_Heap\<close>, \<open>Memory_Types\<close>, \<open>Deep_Copy\<close>: the generated copies (\<open>zz_generated.deepcopy.go\<close>), the
    one part of the code that is about aliasing, over an explicit heap. \<open>Go_Heap\<close> has cells at addresses,
    slices as windows on arrays, the Go statements the generator emits for pointers, slices and maps, and
    three locales: \<open>kind\<close> (a type that heap cells can hold), \<open>viewer\<close> (the value a variable denotes in a
    heap depends on what it reaches only) and \<open>copier\<close> (a copy denotes the same value, leaves every old
    cell as it was, and reaches none of them). \<open>Memory_Types\<close> has the in-memory form \<open>T_h\<close> of every
    type \<open>T\<close> that holds a pointer, a slice or a map (the type \<open>T\<close> of \<open>Api_Types\<close> is its view), and
    interprets \<open>kind\<close> for each; \<open>Deep_Copy\<close> has \<open>T_DeepCopyInto\<close> and \<open>T_DeepCopy\<close> for all 33 types,
    \<open>T_DeepCopyObject\<close> for the six Kubernetes objects, and interprets \<open>copier\<close> for each.
  \<^item> \<open>Persistence\<close>: what of the status goes through \<open>encoding/json\<close> into the cluster object and comes
    back, by the field tags of \<open>Instance\<close>, \<open>Group\<close> and \<open>Firewall\<close>.
  \<^item> \<open>Sample\<close>: a small concrete cloud on which the witnesses evaluate.

  \<^bold>\<open>What is shown.\<close>
  \<^item> \<open>Service_Properties\<close> and \<open>Instance_Properties\<close>: each service operation finds or creates what it
    should, with which requests, on every branch; termination is bounded; the webhook and the request
    path are characterised exactly.
  \<^item> \<open>Cluster_Properties\<close> and \<open>Deletion_Properties\<close>: a pass persists the finalizer first, readiness means
    an endpoint, identifiers never change over any sequence of passes; a deletion that succeeds has found
    no machine for any finalizer its loop visits (the loop skips some of three or more), and then
    consists of exactly the deletions of what the cluster owns, in the order of dependence; what the user
    has given is spared.
  \<^item> \<open>Convergence\<close>: against a cloud that serves every request, one pass provisions a well specified
    cluster completely, whichever identifiers its status has, and the next has nothing to do; only a
    load balancer recorded without its address is never completed. \<open>Startup\<close> shows the same of a
    machine, and \<open>Teardown\<close> of a deletion: one pass sends every deletion of C2 and drops the finalizer
    when what is missing is reported in the way the code tolerates; a business group that is already
    gone is not, and then no later pass can finish.
  \<^item> \<open>Deep_Copy_Properties\<close>: a deep copy is an object of the same dynamic type with the same value; whatever
    is written through either of the two afterwards, the other keeps its value.
  \<^item> \<open>Workers\<close>: no interleaving drops the finalizer of an existing machine that all workers have seen,
    and every deletion pass whose loop visits it waits for it; a registration drops exactly those it
    has not seen.
  \<^item> \<open>Machine_Properties\<close>: at most one instance is created per pass and only when allowed; the machine
    follows its instance; a deletion that succeeds consists of exactly the steps of
    \<open>machine_deletion_trace\<close>; and the controller refines an abstract life cycle.
  \<^item> \<open>Entry_Properties\<close> and \<open>Manager\<close>: objects are persisted however a handler ends, paused objects are
    left alone, and the manager starts only after everything is in place. \<open>Registration\<close>: the types in
    the scheme are exactly those with a \<open>DeepCopyObject\<close>, under their own kinds.

  \<^bold>\<open>Bounds.\<close> The timer of the instance service is five minutes, 300000 ms: with a sleep of 30 s a
  wait describes the instance at most 11 times, with one of 10 s at most 31 times, so that a
  termination sends at most 65 requests. The polling loop is a \<open>function\<close> with its termination proof:
  every round that goes on advances the clock towards the timer. No definition needs fuel.

  \<^bold>\<open>Parameters and hypotheses.\<close> Besides the API, parameters are the libraries that the repository calls
  and does not contain: the SDK's codecs, configuration and credential, the Kubernetes helpers
  (finalizers, pausing, provider identifiers, patch helpers), UUIDs, random numbers, the handlers
  of the controller runtime, and the scheme with its builder. Hypotheses about them are the documented ones: adding a finalizer makes
  it an element, removing one keeps the others, an empty provider identifier does not parse, and one
  in one line whose last part is not empty does. Where it matters how a finalizer is removed,
  \<open>remove_in_place\<close> is what \<open>controllerutil.RemoveFinalizer\<close> does with one that occurs once: it shifts
  the rest of the array. What the cloud does is assumed in \<open>Convergence\<close>, \<open>Startup\<close> and \<open>Teardown\<close>
  only, by \<open>cooperative\<close>, \<open>cooperative_hosts\<close>, \<open>cooperative_teardown\<close> (with \<open>obedient\<close> instances, which
  go down within 20 descriptions of a power off) and \<open>group_missing\<close> (a group that the requests to
  delete it no longer find). The copies of
  the embedded Kubernetes types (\<open>ObjectMeta\<close>, \<open>ListMeta\<close>, \<open>FailureDomainSpec\<close>) are the record
  \<open>copy_lib\<close>, assumed to be deep copies. A patch is a JSON merge patch: a list that was changed replaces
  the stored one.

  \<^bold>\<open>Not modelled.\<close> The Go interfaces of \<open>cloud/common/interfaces.go\<close>, which nothing implements or
  calls, and \<open>errors.go\<close>, which is empty. Logging, except where
  evaluating its arguments may panic. Parsing of the command line, of which \<open>Manager\<close> takes the
  result. Tests and build tools. Concurrency beyond \<open>Workers\<close>: elsewhere a pass is atomic for
  the objects it holds, and what others do between two requests is in the next world. The controllers work on values: that the objects they get are not
  shared with the cache is what \<open>Deep_Copy_Properties\<close> shows of the copies they are made by.
\<close>

end
